(* ===== verification/Prelude.thy ===== *)
theory Prelude
  imports Main "HOL-Library.Word"
begin

text \<open>
  Shared vocabulary of the development: the machine integers of the C and Go
  sources, byte buffers and the three operations the tracer performs on them
  (overwriting a range, reading a range, counted loops over an array), and the
  little-endian reading of a range of bytes.

  A buffer is a list. \<open>blit\<close> overwrites the range that starts at an offset. It
  is total, but a write that leaves the buffer makes the list longer, so an
  invariant that fixes the length of a buffer rules out an overflow.
\<close>

unbundle bit_operations_syntax

type_synonym u8 = "8 word"
type_synonym u16 = "16 word"
type_synonym u32 = "32 word"
type_synonym u64 = "64 word"

text \<open>A C \<open>long\<close> on x86_64: 64 bits, read with \<^const>\<open>sint\<close> where its sign matters.\<close>

type_synonym s64 = "64 word"

named_theorems buf_simps \<open>lengths and ranges of byte buffers\<close>
named_theorems shape_intros \<open>operations keep the shape of a record\<close>

section \<open>Ranges of a buffer\<close>

definition blit :: "nat \<Rightarrow> 'a list \<Rightarrow> 'a list \<Rightarrow> 'a list" where
  "blit off bs xs = take off xs @ bs @ drop (off + length bs) xs"

definition bslice :: "nat \<Rightarrow> nat \<Rightarrow> 'a list \<Rightarrow> 'a list" where
  "bslice off n xs = take n (drop off xs)"

lemma length_blit [buf_simps]:
  "off + length bs \<le> length xs \<Longrightarrow> length (blit off bs xs) = length xs"
  by (simp add: blit_def)

lemma length_blit_overflow:
  "off \<le> length xs \<Longrightarrow> length xs < off + length bs \<Longrightarrow> length (blit off bs xs) = off + length bs"
  by (simp add: blit_def)

lemma blit_Nil [simp]: "blit off [] xs = xs"
  by (simp add: blit_def)

lemma length_slice [buf_simps]:
  "off + n \<le> length xs \<Longrightarrow> length (bslice off n xs) = n"
  by (simp add: bslice_def)

lemma slice_zero [simp]: "bslice off 0 xs = []"
  by (simp add: bslice_def)

lemma slice_blit_inside [buf_simps]:
  "off \<le> length xs \<Longrightarrow> n \<le> length bs \<Longrightarrow> bslice off n (blit off bs xs) = take n bs"
  by (simp add: bslice_def blit_def)

lemma slice_blit_below [buf_simps]:
  "o1 + n \<le> off \<Longrightarrow> off \<le> length xs \<Longrightarrow> bslice o1 n (blit off bs xs) = bslice o1 n xs"
  by (simp add: bslice_def blit_def drop_take)

lemma slice_blit_above [buf_simps]:
  "off + length bs \<le> o1 \<Longrightarrow> off + length bs \<le> length xs \<Longrightarrow>
     bslice o1 n (blit off bs xs) = bslice o1 n xs"
  by (simp add: bslice_def blit_def)

lemma slice_append:
  "bslice off (n + m) xs = bslice off n xs @ bslice (off + n) m xs"
  by (simp add: bslice_def take_add add.commute [of off])

lemma slice_all: "bslice 0 (length xs) xs = xs"
  by (simp add: bslice_def)

lemma take_blit [buf_simps]:
  "off \<le> length xs \<Longrightarrow> n \<le> off \<Longrightarrow> take n (blit off bs xs) = take n xs"
  by (simp add: blit_def)

lemma take_shorter: "take n xs = take n ys \<Longrightarrow> m \<le> n \<Longrightarrow> take m xs = take m ys"
  by (metis min.absorb1 take_take)

lemma bslice_take_cong:
  assumes "take n xs = take n ys" and "off + m \<le> n"
  shows "bslice off m xs = bslice off m ys"
proof -
  have "bslice off m zs = drop off (take (off + m) zs)" for zs :: "'a list"
    by (simp add: bslice_def drop_take)
  then show ?thesis using take_shorter [OF assms] by simp
qed

section \<open>Counted loops over arrays\<close>

text \<open>
  \<open>for (i = 0; i < n; i++) dst[i] = v;\<close> and
  \<open>for (i = 0; i < n; i++) dst[i] = src[i];\<close>
\<close>

definition fill_loop :: "nat \<Rightarrow> 'a \<Rightarrow> 'a list \<Rightarrow> 'a list" where
  "fill_loop n v dst = foldl (\<lambda>d i. d[i := v]) dst [0..<n]"

definition copy_loop :: "nat \<Rightarrow> 'a list \<Rightarrow> 'a list \<Rightarrow> 'a list" where
  "copy_loop n src dst = foldl (\<lambda>d i. d[i := src ! i]) dst [0..<n]"

lemma fill_loop_eq [buf_simps]:
  "n \<le> length dst \<Longrightarrow> fill_loop n v dst = replicate n v @ drop n dst"
proof (induction n)
  case (Suc n)
  then have "fill_loop (Suc n) v dst = (replicate n v @ drop n dst)[n := v]"
    by (simp add: fill_loop_def)
  with Suc.prems show ?case
    by (simp add: list_update_append Cons_nth_drop_Suc [symmetric] replicate_append_same)
qed (simp add: fill_loop_def)

lemma copy_loop_eq [buf_simps]:
  "n \<le> length dst \<Longrightarrow> n \<le> length src \<Longrightarrow> copy_loop n src dst = take n src @ drop n dst"
proof (induction n)
  case (Suc n)
  then have "copy_loop (Suc n) src dst = (take n src @ drop n dst)[n := src ! n]"
    by (simp add: copy_loop_def)
  with Suc.prems show ?case
    by (simp add: list_update_append Cons_nth_drop_Suc [symmetric] take_Suc_conv_app_nth)
qed (simp add: copy_loop_def)

lemma replicate_six: "replicate 6 x = [x, x, x, x, x, x]"
  by (simp add: numeral_eq_Suc)

section \<open>Widening and narrowing of words\<close>

lemma unat_ucast_small:
  fixes w :: "'a::len word"
  assumes "unat w < 2 ^ LENGTH('b::len)"
  shows "unat (ucast w :: 'b word) = unat w"
  using assms by (simp add: unsigned_ucast_eq take_bit_nat_eq_self)

lemma unat_ucast_16_32 [simp]: "unat (ucast (w :: u16) :: u32) = unat w"
  using unsigned_less [of w, where ?'a = nat] by (intro unat_ucast_small) simp

lemma unat_ucast_32_64 [simp]: "unat (ucast (w :: u32) :: u64) = unat w"
  using unsigned_less [of w, where ?'a = nat] by (intro unat_ucast_small) simp

lemma unat_of_int_small:
  assumes "0 \<le> i" and "i < 2 ^ LENGTH('a::len)"
  shows "unat (of_int i :: 'a word) = nat i"
proof -
  obtain n where "i = int n" using assms(1) nonneg_int_cases by blast
  with assms(2) have "n < 2 ^ LENGTH('a)" by (metis of_nat_less_numeral_power_cancel_iff)
  with \<open>i = int n\<close> show ?thesis by (simp add: unat_of_nat take_bit_nat_eq_self)
qed

lemma bit_nonzero: "bit w n \<Longrightarrow> w \<noteq> (0 :: 'a::len word)"
  by auto

section \<open>Little-endian integers\<close>

fun le_bytes :: "nat \<Rightarrow> nat \<Rightarrow> u8 list" where
  "le_bytes 0 x = []"
| "le_bytes (Suc n) x = word_of_nat (x mod 256) # le_bytes n (x div 256)"

fun le_nat :: "u8 list \<Rightarrow> nat" where
  "le_nat [] = 0"
| "le_nat (b # bs) = unat b + 256 * le_nat bs"

definition le_word :: "u8 list \<Rightarrow> 'a::len word" where
  "le_word bs = word_of_nat (le_nat bs)"

lemma length_le_bytes [buf_simps]: "length (le_bytes n x) = n"
  by (induction n arbitrary: x) auto

lemma le_nat_le_bytes: "le_nat (le_bytes n x) = x mod 256 ^ n"
proof (induction n arbitrary: x)
  case (Suc n)
  have "unat (word_of_nat (x mod 256) :: u8) = x mod 256"
    by (simp add: unat_of_nat)
  with Suc show ?case
    by (simp add: mod_mult2_eq)
qed simp

lemma le_word_le_bytes:
  fixes w :: "'a::len word"
  assumes "256 ^ n = (2::nat) ^ LENGTH('a)"
  shows "le_word (le_bytes n (unat w)) = w"
proof -
  have "unat w < 256 ^ n" by (simp only: assms unsigned_less)
  then show ?thesis by (simp add: le_word_def le_nat_le_bytes)
qed

lemma le_nat_less: "le_nat bs < 256 ^ length bs"
proof (induction bs)
  case (Cons b bs)
  have "unat b < 256" using unsigned_less [of b] by simp
  with Cons show ?case by simp
qed simp

lemma le_bytes_le_nat: "le_bytes (length bs) (le_nat bs) = bs"
proof (induction bs)
  case (Cons b bs)
  have "unat b < 256" using unsigned_less [of b] by simp
  with Cons show ?case by simp
qed simp

lemma le_bytes_le_word:
  assumes "256 ^ length bs = (2::nat) ^ LENGTH('a)"
  shows "le_bytes (length bs) (unat (le_word bs :: 'a::len word)) = bs"
proof -
  have "unat (le_word bs :: 'a word) = le_nat bs"
    using le_nat_less [of bs] assms by (simp add: le_word_def unat_of_nat take_bit_nat_eq_self)
  then show ?thesis by (simp add: le_bytes_le_nat)
qed

lemma le_word_u8: "le_word (le_bytes 1 (unat w)) = (w :: u8)"
  by (rule le_word_le_bytes) simp

lemma le_word_u16: "le_word (le_bytes 2 (unat w)) = (w :: u16)"
  by (rule le_word_le_bytes) simp

lemma le_word_u32: "le_word (le_bytes 4 (unat w)) = (w :: u32)"
  by (rule le_word_le_bytes) simp

lemma le_word_u64: "le_word (le_bytes 8 (unat w)) = (w :: u64)"
  by (rule le_word_le_bytes) simp

lemma le_word_u64_0 [simp]: "le_word (le_bytes 8 0) = (0 :: u64)"
  using le_word_u64 [of 0] by simp

lemmas le_word_back = le_word_u8 le_word_u16 le_word_u32 le_word_u64

end
