(* ===== verification/Types.thy ===== *)
theory Types
  imports Prelude
begin

text \<open>
  \<^verbatim>\<open>internal/bpf/types.h\<close>: the enumerations and the structures shared by the
  tracer programs. A C structure is a record whose fields keep the C order,
  prefixed by the structure's initials; an array member is a list, and
  \<open>\<dots>_shape\<close> says that the lists have the declared array lengths. Enumerators are
  the bytes the code stores, because \<open>arg_types[]\<close> mixes \<open>enum arg_type\<close> with
  \<open>enum var_arg_kind\<close>.
\<close>

section \<open>Enumerations\<close>

abbreviation (input) ARG_NONE :: u8 where "ARG_NONE \<equiv> 0"
abbreviation (input) ARG_INT :: u8 where "ARG_INT \<equiv> 1"
abbreviation (input) ARG_UINT :: u8 where "ARG_UINT \<equiv> 2"
abbreviation (input) ARG_FD :: u8 where "ARG_FD \<equiv> 3"
abbreviation (input) ARG_MODE :: u8 where "ARG_MODE \<equiv> 4"
abbreviation (input) ARG_FLAGS :: u8 where "ARG_FLAGS \<equiv> 5"
abbreviation (input) ARG_OFF :: u8 where "ARG_OFF \<equiv> 6"
abbreviation (input) ARG_PTR :: u8 where "ARG_PTR \<equiv> 7"
abbreviation (input) ARG_RAW :: u8 where "ARG_RAW \<equiv> 255"

abbreviation (input) VAR_ARG_NONE :: u8 where "VAR_ARG_NONE \<equiv> 0"
abbreviation (input) VAR_ARG_STRING :: u8 where "VAR_ARG_STRING \<equiv> 1"
abbreviation (input) VAR_ARG_BYTES :: u8 where "VAR_ARG_BYTES \<equiv> 2"
abbreviation (input) VAR_ARG_ARGV :: u8 where "VAR_ARG_ARGV \<equiv> 3"

abbreviation (input) VAR_FLAG_NONE :: u8 where "VAR_FLAG_NONE \<equiv> 0"
abbreviation (input) VAR_FLAG_TRUNCATED :: u8 where "VAR_FLAG_TRUNCATED \<equiv> 1"
abbreviation (input) VAR_FLAG_READ_ERROR :: u8 where "VAR_FLAG_READ_ERROR \<equiv> 2"
abbreviation (input) VAR_FLAG_NULL_POINTER :: u8 where "VAR_FLAG_NULL_POINTER \<equiv> 4"

text \<open>The capacities, as the numbers the expressions of the header evaluate to.\<close>

abbreviation (input) MAX_VAR_ARGS :: nat where "MAX_VAR_ARGS \<equiv> 6"
abbreviation (input) MAX_VAR_PAYLOAD :: nat where "MAX_VAR_PAYLOAD \<equiv> 512"
abbreviation (input) GENERIC_VAR_SLOT_SIZE :: nat where "GENERIC_VAR_SLOT_SIZE \<equiv> 256"
abbreviation (input) MAX_EXECVE_ARGV :: nat where "MAX_EXECVE_ARGV \<equiv> 8"
abbreviation (input) MAX_EXECVE_ARG_STR :: nat where "MAX_EXECVE_ARG_STR \<equiv> 128"
abbreviation (input) MAX_EXECVE_STATE_VARS :: nat where "MAX_EXECVE_STATE_VARS \<equiv> 2"
abbreviation (input) MAX_EXECVE_STATE_PAYLOAD :: nat where "MAX_EXECVE_STATE_PAYLOAD \<equiv> 256"

section \<open>Structures\<close>

record var_arg_desc =
  vd_arg_index :: u8
  vd_flags :: u8
  vd_offset :: u16
  vd_length :: u16
  vd_reserved :: u16

record event =
  ev_ts :: u64
  ev_dur :: u64
  ev_syscall_id :: s64
  ev_ret :: s64
  ev_args :: "u64 list"
  ev_var_desc :: "var_arg_desc list"
  ev_payload :: "u8 list"
  ev_pid :: u32
  ev_tid :: u32
  ev_seq :: u32
  ev_payload_len :: u16
  ev_arg_count :: u8
  ev_var_count :: u8
  ev_arg_types :: "u8 list"
  ev_event_flags :: u8

record execve_snapshot =
  sn_var_desc :: "var_arg_desc list"
  sn_payload :: "u8 list"
  sn_payload_len :: u16
  sn_var_count :: u8
  sn_reserved :: u8

record syscall_data =
  sd_ts :: u64
  sd_syscall_id :: s64
  sd_args :: "u64 list"
  sd_seq :: u32
  sd_selected :: u8
  sd_reserved :: "u8 list"

record syscall_arg_schema =
  sc_syscall_id :: s64
  sc_arg_count :: u8
  sc_arg_types :: "u8 list"

record sys_enter_args =
  en_pad :: u64
  en_id :: s64
  en_args :: "u64 list"

record clone3_args =
  c3_flags :: u64

record sys_exit_args =
  ex_pad :: u64
  ex_id :: s64
  ex_ret :: s64

section \<open>All-zero structures and array lengths\<close>

definition zero_desc :: var_arg_desc where
  "zero_desc = \<lparr>vd_arg_index = 0, vd_flags = 0, vd_offset = 0, vd_length = 0, vd_reserved = 0\<rparr>"

definition zero_snapshot :: execve_snapshot where
  "zero_snapshot =
     \<lparr>sn_var_desc = replicate MAX_EXECVE_STATE_VARS zero_desc,
      sn_payload = replicate MAX_EXECVE_STATE_PAYLOAD 0,
      sn_payload_len = 0, sn_var_count = 0, sn_reserved = 0\<rparr>"

definition zero_syscall_data :: syscall_data where
  "zero_syscall_data =
     \<lparr>sd_ts = 0, sd_syscall_id = 0, sd_args = replicate 6 0, sd_seq = 0, sd_selected = 0,
      sd_reserved = replicate 3 0\<rparr>"

definition event_shape :: "event \<Rightarrow> bool" where
  "event_shape e \<longleftrightarrow>
     length (ev_args e) = 6 \<and> length (ev_var_desc e) = MAX_VAR_ARGS \<and>
     length (ev_payload e) = MAX_VAR_PAYLOAD \<and> length (ev_arg_types e) = 6"

definition snapshot_shape :: "execve_snapshot \<Rightarrow> bool" where
  "snapshot_shape s \<longleftrightarrow>
     length (sn_var_desc s) = MAX_EXECVE_STATE_VARS \<and>
     length (sn_payload s) = MAX_EXECVE_STATE_PAYLOAD"

lemma snapshot_shape_zero [shape_intros]: "snapshot_shape zero_snapshot"
  by (simp add: snapshot_shape_def zero_snapshot_def)

section \<open>The ranges a descriptor may name\<close>

text \<open>
  A descriptor fits a payload of \<open>len\<close> used bytes when its range ends inside it.
  The consumer refuses a descriptor that does not fit, unless its flags say that
  there is nothing to read: such a descriptor is empty.
\<close>

definition desc_fits :: "nat \<Rightarrow> var_arg_desc \<Rightarrow> bool" where
  "desc_fits len d \<longleftrightarrow> unat (vd_offset d) + unat (vd_length d) \<le> len"

definition desc_error :: "var_arg_desc \<Rightarrow> bool" where
  "desc_error d \<longleftrightarrow> vd_flags d AND (VAR_FLAG_READ_ERROR OR VAR_FLAG_NULL_POINTER) \<noteq> 0"

definition desc_ok :: "nat \<Rightarrow> var_arg_desc \<Rightarrow> bool" where
  "desc_ok len d \<longleftrightarrow> desc_fits len d \<or> (desc_error d \<and> vd_length d = 0)"

lemma desc_ok_zero [simp]: "desc_ok len zero_desc"
  by (simp add: desc_ok_def desc_fits_def zero_desc_def)

lemma desc_ok_mono: "desc_ok n d \<Longrightarrow> n \<le> m \<Longrightarrow> desc_ok m d"
  by (auto simp: desc_ok_def desc_fits_def)

definition descs_ok :: "nat \<Rightarrow> nat \<Rightarrow> var_arg_desc list \<Rightarrow> bool" where
  "descs_ok len n ds \<longleftrightarrow> list_all (desc_ok len) (take n ds)"

lemma descs_ok_0 [simp]: "descs_ok len 0 ds"
  by (simp add: descs_ok_def)

lemma descs_ok_mono: "descs_ok n k ds \<Longrightarrow> n \<le> m \<Longrightarrow> descs_ok m k ds"
  by (auto simp: descs_ok_def list_all_iff intro: desc_ok_mono)

lemma descs_ok_store:
  assumes "descs_ok len n ds" and "n < length ds" and "desc_ok len' d" and "len \<le> len'"
  shows "descs_ok len' (Suc n) (ds[n := d])"
proof -
  have "take (Suc n) (ds[n := d]) = take n ds @ [d]"
    using assms(2) by (simp add: take_Suc_conv_app_nth)
  with assms show ?thesis
    by (auto simp: descs_ok_def list_all_iff intro: desc_ok_mono)
qed

lemma descs_okD: "descs_ok len n ds \<Longrightarrow> i < n \<Longrightarrow> i < length ds \<Longrightarrow> desc_ok len (ds ! i)"
  unfolding descs_ok_def list_all_length
  by (metis length_take min_less_iff_conj nth_take)

end
