(* ===== verification/Kernel.thy ===== *)
theory Kernel
  imports Types
begin

text \<open>
  The kernel as the tracer programs see it. The BPF helpers are not part of the
  repository, so a run of a program takes them as a parameter, the record
  \<open>kenv\<close>: the identity of the current thread, the clock, the two reads of user
  memory, how each map treats an update, and the ring buffer's reservation. One
  record serves one run: a run sees one state of user memory and updates a map at
  most once.

  What the programs rely on are the laws of the helpers' documentation: a copy
  writes at most as many bytes as it was given room for, a successful copy fills
  the room, a successful string copy returns the length of a NUL-terminated string
  it has written, a reservation has the size of the record it is for. The locale
  \<open>probe_helpers\<close> states them for the reads; a process memory, as a partial
  function from addresses to bytes, satisfies them.
\<close>

section \<open>The parameter\<close>

datatype map_id = Target_pids | Inflight_syscalls | Execve_snapshots | Tid_sequences

record kenv =
  k_pid_tgid :: u64
  k_ktime :: u64
  k_read :: "u64 \<Rightarrow> nat \<Rightarrow> int \<times> u8 list"
  k_read_str :: "u64 \<Rightarrow> nat \<Rightarrow> int \<times> u8 list"
  k_accepts :: "map_id \<Rightarrow> bool"
  k_evicts :: "map_id \<Rightarrow> u32 \<Rightarrow> bool"
  k_reserve :: "event option"

text \<open>
  \<open>k_read k ptr n\<close> and \<open>k_read_str k ptr n\<close> are \<open>bpf_probe_read_user\<close> and
  \<open>bpf_probe_read_user_str\<close> with a destination of \<open>n\<close> bytes: the return code and
  the bytes written at the start of the destination. \<open>k_reserve k\<close> is the memory
  \<open>bpf_ringbuf_reserve\<close> returns, with whatever bytes it holds.
\<close>

section \<open>Maps\<close>

text \<open>
  \<open>bpf_map_update_elem\<close> with \<open>BPF_ANY\<close>: the update may be refused (a full hash
  map), and an LRU map may drop entries of other keys to make room.
\<close>

definition map_update :: "kenv \<Rightarrow> map_id \<Rightarrow> (u32 \<rightharpoonup> 'v) \<Rightarrow> u32 \<Rightarrow> 'v \<Rightarrow> (u32 \<rightharpoonup> 'v)" where
  "map_update k i m key v = (if k_accepts k i then m(key \<mapsto> v) else m)"

definition lru_update :: "kenv \<Rightarrow> map_id \<Rightarrow> (u32 \<rightharpoonup> 'v) \<Rightarrow> u32 \<Rightarrow> 'v \<Rightarrow> (u32 \<rightharpoonup> 'v)" where
  "lru_update k i m key v =
     map_update k i (\<lambda>x. if k_evicts k i x \<and> x \<noteq> key then None else m x) key v"

definition map_delete :: "(u32 \<rightharpoonup> 'v) \<Rightarrow> u32 \<Rightarrow> (u32 \<rightharpoonup> 'v)" where
  "map_delete m key = m(key := None)"

text \<open>
  What a client of a map may rely on: an update touches its own key as the update
  says or not at all, another key keeps its entry or loses it, a delete removes
  exactly its key. A map without eviction keeps the other keys' entries.
\<close>

locale bpf_map =
  fixes upd :: "(u32 \<rightharpoonup> 'v) \<Rightarrow> u32 \<Rightarrow> 'v \<Rightarrow> (u32 \<rightharpoonup> 'v)"
    and del :: "(u32 \<rightharpoonup> 'v) \<Rightarrow> u32 \<Rightarrow> (u32 \<rightharpoonup> 'v)"
  assumes upd_self: "upd m key v key = Some v \<or> upd m key v key = m key"
    and upd_other: "x \<noteq> key \<Longrightarrow> upd m key v x = m x \<or> upd m key v x = None"
    and del_self: "del m key key = None"
    and del_other: "x \<noteq> key \<Longrightarrow> del m key x = m x"
begin

lemma upd_cases:
  assumes "upd m key v x = Some w"
  shows "(x = key \<and> w = v) \<or> m x = Some w"
  using assms upd_self [of m key v] upd_other [of x key m v] by (cases "x = key") auto

lemma upd_all:
  assumes "\<And>x w. m x = Some w \<Longrightarrow> P x w" and "P key v" and "upd m key v x = Some w"
  shows "P x w"
  using upd_cases [OF assms(3)] assms(1,2) by auto

lemma upd_dom: "dom (upd m key v) \<subseteq> insert key (dom m)"
  using upd_cases [of m key v] by fastforce

lemma del_all:
  assumes "\<And>x w. m x = Some w \<Longrightarrow> P x w" and "del m key x = Some w"
  shows "P x w"
  using assms del_self [of m key] del_other [of x key m] by (cases "x = key") auto

lemma del_dom: "dom (del m key) = dom m - {key}"
proof -
  have "x \<in> dom (del m key) \<longleftrightarrow> x \<in> dom m - {key}" for x
    using del_self [of m key] del_other [of x key m] by (cases "x = key") (auto simp: dom_def)
  then show ?thesis by blast
qed

end

locale hash_map = bpf_map +
  assumes upd_keeps: "x \<noteq> key \<Longrightarrow> upd m key v x = m x"
begin

lemma upd_dom_ge: "dom m \<subseteq> dom (upd m key v)"
proof
  fix x
  assume "x \<in> dom m"
  then show "x \<in> dom (upd m key v)"
    using upd_keeps [of x key m v] upd_self [of m key v] by (cases "x = key") auto
qed

end

interpretation target_map: hash_map "map_update k i" map_delete for k i
  by unfold_locales (auto simp: map_update_def map_delete_def)

interpretation lru_map: bpf_map "lru_update k i" map_delete for k i
  by unfold_locales (auto simp: lru_update_def map_update_def map_delete_def)

lemma lru_update_accept: "k_accepts k i \<Longrightarrow> lru_update k i m key v key = Some v"
  by (simp add: lru_update_def map_update_def)

lemma lru_update_quiet:
  "k_accepts k i \<Longrightarrow> (\<And>x. \<not> k_evicts k i x) \<Longrightarrow> lru_update k i m key v = m(key \<mapsto> v)"
  by (simp add: lru_update_def map_update_def)

section \<open>Reads of user memory\<close>

text \<open>
  \<open>is_cstring bs\<close>: the bytes are a string, not empty because of its final NUL,
  with no other NUL.
\<close>

definition is_cstring :: "u8 list \<Rightarrow> bool" where
  "is_cstring bs \<longleftrightarrow> bs \<noteq> [] \<and> last bs = 0 \<and> 0 \<notin> set (butlast bs)"

locale probe_helpers =
  fixes read_user read_user_str :: "u64 \<Rightarrow> nat \<Rightarrow> int \<times> u8 list"
  assumes read_room: "read_user p n = (r, bs) \<Longrightarrow> length bs \<le> n"
    and read_fills: "read_user p n = (r, bs) \<Longrightarrow> 0 \<le> r \<Longrightarrow> length bs = n"
    and str_room: "read_user_str p n = (r, bs) \<Longrightarrow> length bs \<le> n"
    and str_ret: "read_user_str p n = (r, bs) \<Longrightarrow> 0 \<le> r \<Longrightarrow> r = int (length bs)"
    and str_nul: "read_user_str p n = (r, bs) \<Longrightarrow> 0 \<le> r \<Longrightarrow> 0 < n \<Longrightarrow> is_cstring bs"
begin

lemma str_bounds:
  assumes "read_user_str p n = (r, bs)" and "0 \<le> r" and "0 < n"
  shows "0 < r \<and> r \<le> int n \<and> nat r = length bs"
proof -
  have "bs \<noteq> []" using str_nul [OF assms] by (simp add: is_cstring_def)
  with str_ret [OF assms(1,2)] str_room [OF assms(1)] show ?thesis by simp
qed

end

text \<open>The laws of a whole environment: the reads', and the size of a reservation.\<close>

definition helpers_ok :: "kenv \<Rightarrow> bool" where
  "helpers_ok k \<longleftrightarrow>
     probe_helpers (k_read k) (k_read_str k) \<and>
     (case k_reserve k of None \<Rightarrow> True | Some g \<Rightarrow> event_shape g)"

text \<open>An environment whose reads obey the laws: where the programs' lemmas are proved.\<close>

locale kernel_env =
  fixes k :: kenv
  assumes reads: "probe_helpers (k_read k) (k_read_str k)"

sublocale kernel_env \<subseteq> probe_helpers "k_read k" "k_read_str k"
  by (rule reads)

lemma helpers_ok_env: "helpers_ok k \<Longrightarrow> kernel_env k"
  by (simp add: helpers_ok_def kernel_env_def)

lemma helpers_ok_reserve: "helpers_ok k \<Longrightarrow> k_reserve k = Some g \<Longrightarrow> event_shape g"
  by (simp add: helpers_ok_def)

section \<open>Process memory\<close>

text \<open>
  A memory maps the addresses that can be read to their bytes. A read copies all
  its bytes or fails (and clears its destination); a string read stops at the
  first NUL or when its room is used up, and then ends the copy with a NUL.
\<close>

type_synonym memory = "u64 \<rightharpoonup> u8"

fun mem_bytes :: "memory \<Rightarrow> u64 \<Rightarrow> nat \<Rightarrow> u8 list option" where
  "mem_bytes m p 0 = Some []"
| "mem_bytes m p (Suc n) =
     (case m p of None \<Rightarrow> None | Some b \<Rightarrow> map_option (Cons b) (mem_bytes m (p + 1) n))"

fun mem_scan :: "memory \<Rightarrow> u64 \<Rightarrow> nat \<Rightarrow> u8 list option" where
  "mem_scan m p 0 = Some []"
| "mem_scan m p (Suc n) =
     (case m p of None \<Rightarrow> None
      | Some b \<Rightarrow> if b = 0 then Some [] else map_option (Cons b) (mem_scan m (p + 1) n))"

definition mem_read :: "memory \<Rightarrow> u64 \<Rightarrow> nat \<Rightarrow> int \<times> u8 list" where
  "mem_read m p n =
     (case mem_bytes m p n of None \<Rightarrow> (-14, replicate n 0) | Some bs \<Rightarrow> (0, bs))"

definition mem_read_str :: "memory \<Rightarrow> u64 \<Rightarrow> nat \<Rightarrow> int \<times> u8 list" where
  "mem_read_str m p n =
     (case mem_scan m p n of
        None \<Rightarrow> (-14, replicate n 0)
      | Some s \<Rightarrow> if n = 0 then (0, [])
                  else (int (min (length s) (n - 1)) + 1, take (n - 1) s @ [0]))"

definition with_memory :: "memory \<Rightarrow> kenv \<Rightarrow> kenv" where
  "with_memory m k = k\<lparr>k_read := mem_read m, k_read_str := mem_read_str m\<rparr>"

lemma with_memory_simps [simp]:
  "k_read (with_memory m k) = mem_read m"
  "k_read_str (with_memory m k) = mem_read_str m"
  "k_reserve (with_memory m k) = k_reserve k"
  "k_pid_tgid (with_memory m k) = k_pid_tgid k"
  "k_ktime (with_memory m k) = k_ktime k"
  "k_accepts (with_memory m k) = k_accepts k"
  "k_evicts (with_memory m k) = k_evicts k"
  by (simp_all add: with_memory_def)

lemma length_mem_bytes: "mem_bytes m p n = Some bs \<Longrightarrow> length bs = n"
  by (induction m p n arbitrary: bs rule: mem_bytes.induct) (auto split: option.splits)

lemma length_mem_scan: "mem_scan m p n = Some s \<Longrightarrow> length s \<le> n"
  by (induction m p n arbitrary: s rule: mem_scan.induct) (auto split: option.splits if_splits)

lemma mem_scan_no_nul: "mem_scan m p n = Some s \<Longrightarrow> 0 \<notin> set s"
  by (induction m p n arbitrary: s rule: mem_scan.induct) (auto split: option.splits if_splits)

interpretation user_memory: probe_helpers "mem_read m" "mem_read_str m" for m
proof
  fix p n r bs
  show "mem_read m p n = (r, bs) \<Longrightarrow> length bs \<le> n"
    by (auto simp: mem_read_def dest: length_mem_bytes split: option.splits)
  show "mem_read m p n = (r, bs) \<Longrightarrow> 0 \<le> r \<Longrightarrow> length bs = n"
    by (auto simp: mem_read_def dest: length_mem_bytes split: option.splits)
  show "mem_read_str m p n = (r, bs) \<Longrightarrow> length bs \<le> n"
    by (auto simp: mem_read_str_def split: option.splits if_splits)
  show "mem_read_str m p n = (r, bs) \<Longrightarrow> 0 \<le> r \<Longrightarrow> r = int (length bs)"
    by (auto simp: mem_read_str_def split: option.splits if_splits)
  show "mem_read_str m p n = (r, bs) \<Longrightarrow> 0 \<le> r \<Longrightarrow> 0 < n \<Longrightarrow> is_cstring bs"
    by (auto simp: mem_read_str_def is_cstring_def dest!: mem_scan_no_nul dest: in_set_takeD
        split: option.splits if_splits)
qed

lemma helpers_ok_memory [simp]:
  "helpers_ok (with_memory m k) \<longleftrightarrow> (case k_reserve k of None \<Rightarrow> True | Some g \<Rightarrow> event_shape g)"
  by (simp add: helpers_ok_def user_memory.probe_helpers_axioms)

interpretation memory_env: kernel_env "with_memory m k" for m k
  by (rule kernel_env.intro) (simp add: user_memory.probe_helpers_axioms)

section \<open>Strings and pointers in memory\<close>

text \<open>\<open>cstring_at m p s\<close>: the string \<open>s\<close>, with its final NUL, is stored at \<open>p\<close>.\<close>

fun cstring_at :: "memory \<Rightarrow> u64 \<Rightarrow> u8 list \<Rightarrow> bool" where
  "cstring_at m p [] = (m p = Some 0)"
| "cstring_at m p (b # s) = (m p = Some b \<and> b \<noteq> 0 \<and> cstring_at m (p + 1) s)"

lemma mem_scan_cstring: "cstring_at m p s \<Longrightarrow> mem_scan m p n = Some (take n s)"
proof (induction n arbitrary: p s)
  case (Suc n)
  then show ?case by (cases s) auto
qed simp

lemma mem_read_str_cstring:
  assumes "cstring_at m p s" and "0 < n"
  shows "mem_read_str m p n = (int (min (length s) (n - 1)) + 1, take (n - 1) s @ [0])"
proof -
  have "min n (n - 1) = n - 1" by simp
  then show ?thesis
    using mem_scan_cstring [OF assms(1), of n] assms(2)
    by (auto simp: mem_read_str_def take_take min_def)
qed

lemma cstring_no_nul: "cstring_at m p s \<Longrightarrow> 0 \<notin> set s"
  by (induction m p s rule: cstring_at.induct) auto

text \<open>\<open>word_at m p w\<close>: the eight bytes at \<open>p\<close> hold \<open>w\<close>, little-endian.\<close>

definition word_at :: "memory \<Rightarrow> u64 \<Rightarrow> u64 \<Rightarrow> bool" where
  "word_at m p w \<longleftrightarrow> mem_bytes m p 8 = Some (le_bytes 8 (unat w))"

lemma mem_read_word: "word_at m p w \<Longrightarrow> mem_read m p 8 = (0, le_bytes 8 (unat w))"
  by (simp add: word_at_def mem_read_def)

end
