(* ===== verification/Capture.thy ===== *)
theory Capture
  imports Kernel
begin

text \<open>
  The functions of \<^verbatim>\<open>internal/bpf/tracer.c\<close> that copy an argument from user memory
  into an event: \<open>append_var_string\<close>, \<open>append_var_bytes\<close> and \<open>append_var_argv\<close>.
  The string and byte captures use two fixed slots of 256 bytes; the argv capture
  appends at the end of the used payload.

  The lemmas show that every capture stays inside the payload, keeps the
  descriptors it finds and their bytes, and describes what it has copied.
\<close>

section \<open>The functions\<close>

text \<open>
  The assignments to \<open>e->var_desc[slot]\<close> and \<open>e->var_count++\<close> with which every
  path ends. The descriptor is built as a value first; in C it is built in place.
\<close>

definition store_desc :: "nat \<Rightarrow> var_arg_desc \<Rightarrow> event \<Rightarrow> event" where
  "store_desc slot desc e =
     e\<lparr>ev_var_desc := (ev_var_desc e)[slot := desc], ev_var_count := ev_var_count e + 1\<rparr>"

definition new_desc :: "u8 \<Rightarrow> u16 \<Rightarrow> var_arg_desc" where
  "new_desc arg_index off =
     \<lparr>vd_arg_index = arg_index, vd_flags = VAR_FLAG_NONE, vd_offset = off,
      vd_length = 0, vd_reserved = 0\<rparr>"

definition or_flag :: "u8 \<Rightarrow> var_arg_desc \<Rightarrow> var_arg_desc" where
  "or_flag flag desc = desc\<lparr>vd_flags := vd_flags desc OR flag\<rparr>"

text \<open>\<open>if (e->payload_len < end) e->payload_len = end;\<close> with \<open>end\<close> of type \<open>__u32\<close>.\<close>

definition grow_payload :: "u32 \<Rightarrow> event \<Rightarrow> event" where
  "grow_payload end e =
     (if ucast (ev_payload_len e) < end then e\<lparr>ev_payload_len := ucast end\<rparr> else e)"

definition slot_offset :: "nat \<Rightarrow> nat" where
  "slot_offset slot = (if slot = 0 then 0 else GENERIC_VAR_SLOT_SIZE)"

definition append_var_string :: "kenv \<Rightarrow> event \<Rightarrow> u8 \<Rightarrow> u64 \<Rightarrow> event" where
  "append_var_string k e arg_index ptr =
     (if 2 \<le> ev_var_count e then e
      else
        let slot = unat (ev_var_count e);
            desc = new_desc arg_index (of_nat (slot_offset slot))
        in if ptr = 0 then store_desc slot (or_flag VAR_FLAG_NULL_POINTER desc) e
           else
             let (copied, bs) = k_read_str k ptr GENERIC_VAR_SLOT_SIZE;
                 e = e\<lparr>ev_payload := blit (slot_offset slot) bs (ev_payload e)\<rparr>
             in if copied < 0 then store_desc slot (or_flag VAR_FLAG_READ_ERROR desc) e
                else
                  let desc = (if (of_int copied :: u32) = of_nat GENERIC_VAR_SLOT_SIZE
                              then or_flag VAR_FLAG_TRUNCATED desc else desc);
                      desc = (if 0 < copied then desc\<lparr>vd_length := of_int (copied - 1)\<rparr> else desc);
                      e = grow_payload (ucast (vd_offset desc) + ucast (vd_length desc)) e
                  in store_desc slot desc e)"

definition append_var_bytes :: "kenv \<Rightarrow> event \<Rightarrow> u8 \<Rightarrow> u64 \<Rightarrow> u64 \<Rightarrow> event" where
  "append_var_bytes k e arg_index ptr sz =
     (if 2 \<le> ev_var_count e then e
      else
        let slot = unat (ev_var_count e);
            desc = new_desc arg_index (of_nat (slot_offset slot))
        in if ptr = 0 then store_desc slot (or_flag VAR_FLAG_NULL_POINTER desc) e
           else
             let available = of_nat GENERIC_VAR_SLOT_SIZE :: u32;
                 (to_copy, desc) =
                   (if sz < ucast available then (ucast sz, desc)
                    else if ucast available < sz then (available, or_flag VAR_FLAG_TRUNCATED desc)
                    else (available, desc))
             in if to_copy = 0 then store_desc slot desc e
                else
                  let (r, bs) = k_read k ptr (unat to_copy);
                      e = e\<lparr>ev_payload := blit (slot_offset slot) bs (ev_payload e)\<rparr>
                  in if r < 0 then store_desc slot (or_flag VAR_FLAG_READ_ERROR desc) e
                     else
                       let desc = desc\<lparr>vd_length := ucast to_copy\<rparr>;
                           e = grow_payload (ucast (vd_offset desc) + to_copy) e
                       in store_desc slot desc e)"

text \<open>
  The loop over the first \<open>MAX_EXECVE_ARGV\<close> pointers of an argv array, shared by
  the two argv captures, which differ in the capacity \<open>cap\<close> of their payload. Its
  result is the cursor, the flags, the payload and \<open>exhausted_argv_slots\<close>.
\<close>

fun argv_loop ::
  "kenv \<Rightarrow> u64 \<Rightarrow> nat \<Rightarrow> nat list \<Rightarrow> u32 \<Rightarrow> u8 \<Rightarrow> u8 list \<Rightarrow> u32 \<times> u8 \<times> u8 list \<times> bool" where
  "argv_loop k argv cap [] cursor flags payload = (cursor, flags, payload, True)"
| "argv_loop k argv cap (i # idxs) cursor flags payload =
     (let (r, ptr_bytes) = k_read k (argv + 8 * of_nat i) 8 in
      if r < 0 then (cursor, flags OR VAR_FLAG_READ_ERROR, payload, False)
      else
        let arg_ptr = le_word ptr_bytes :: u64 in
        if arg_ptr = 0 then (cursor, flags, payload, False)
        else if of_nat (cap - MAX_EXECVE_ARG_STR) < cursor
        then (cursor, flags OR VAR_FLAG_TRUNCATED, payload, False)
        else
          let (copied, bs) = k_read_str k arg_ptr MAX_EXECVE_ARG_STR;
              payload = blit (unat cursor) bs payload
          in if copied < 0 then (cursor, flags OR VAR_FLAG_READ_ERROR, payload, False)
             else
               let copied = (if int MAX_EXECVE_ARG_STR < copied then int MAX_EXECVE_ARG_STR else copied);
                   cursor = cursor + of_int copied
               in if copied = int MAX_EXECVE_ARG_STR
                  then (cursor, flags OR VAR_FLAG_TRUNCATED, payload, False)
                  else argv_loop k argv cap idxs cursor flags payload)"

declare argv_loop.simps(2) [simp del]

text \<open>The check of the pointer after the last slot, when every slot was used.\<close>

definition argv_rest :: "kenv \<Rightarrow> u64 \<Rightarrow> u8 \<Rightarrow> u8" where
  "argv_rest k argv flags =
     (let (r, ptr_bytes) = k_read k (argv + 8 * of_nat MAX_EXECVE_ARGV) 8 in
      if r < 0 then flags OR VAR_FLAG_READ_ERROR
      else if (le_word ptr_bytes :: u64) \<noteq> 0 then flags OR VAR_FLAG_TRUNCATED
      else flags)"

text \<open>
  The body of the two argv captures after their test for a free descriptor: from the
  used length and the payload of the destination, the descriptor to store, the new
  used length and the new payload.
\<close>

definition capture_argv ::
  "kenv \<Rightarrow> u8 \<Rightarrow> u64 \<Rightarrow> nat \<Rightarrow> u16 \<Rightarrow> u8 list \<Rightarrow> var_arg_desc \<times> u16 \<times> u8 list" where
  "capture_argv k arg_index argv cap payload_len payload =
     (let desc = new_desc arg_index payload_len in
      if argv = 0 then (or_flag VAR_FLAG_NULL_POINTER desc, payload_len, payload)
      else
        let start = ucast payload_len :: u32 in
        if of_nat cap \<le> start then (or_flag VAR_FLAG_TRUNCATED desc, payload_len, payload)
        else
          let (cursor, flags, payload, exhausted) =
                argv_loop k argv cap [0..<MAX_EXECVE_ARGV] start (vd_flags desc) payload;
              flags = (if exhausted then argv_rest k argv flags else flags);
              desc = desc\<lparr>vd_flags := flags\<rparr>
          in if start < cursor
             then (desc\<lparr>vd_length := ucast (cursor - start)\<rparr>, ucast cursor, payload)
             else (desc, payload_len, payload))"

definition append_var_argv :: "kenv \<Rightarrow> event \<Rightarrow> u8 \<Rightarrow> u64 \<Rightarrow> event" where
  "append_var_argv k e arg_index argv =
     (if of_nat MAX_VAR_ARGS \<le> ev_var_count e then e
      else
        let (desc, payload_len, payload) =
              capture_argv k arg_index argv MAX_VAR_PAYLOAD (ev_payload_len e) (ev_payload e)
        in store_desc (unat (ev_var_count e)) desc
             (e\<lparr>ev_payload := payload, ev_payload_len := payload_len\<rparr>))"

section \<open>What a capture keeps\<close>

text \<open>
  \<open>event_ok\<close>: the used payload is inside the payload and every descriptor in use can
  be read. \<open>slots_ok\<close>: moreover the descriptors in use are those of the two fixed
  slots. The header is every field a capture leaves alone; \<open>captured e i\<close> is what
  descriptor \<open>i\<close> stands for.
\<close>

definition event_ok :: "event \<Rightarrow> bool" where
  "event_ok e \<longleftrightarrow>
     event_shape e \<and> unat (ev_payload_len e) \<le> MAX_VAR_PAYLOAD \<and>
     unat (ev_var_count e) \<le> MAX_VAR_ARGS \<and>
     descs_ok (unat (ev_payload_len e)) (unat (ev_var_count e)) (ev_var_desc e)"

definition in_slot :: "nat \<Rightarrow> var_arg_desc \<Rightarrow> bool" where
  "in_slot i d \<longleftrightarrow>
     unat (vd_offset d) = slot_offset i \<and> unat (vd_length d) \<le> GENERIC_VAR_SLOT_SIZE"

definition slots_ok :: "event \<Rightarrow> bool" where
  "slots_ok e \<longleftrightarrow>
     event_ok e \<and> unat (ev_var_count e) \<le> 2 \<and>
     list_all (\<lambda>i. in_slot i (ev_var_desc e ! i)) [0..<unat (ev_var_count e)]"

definition event_header ::
  "event \<Rightarrow> (u64 \<times> u64 \<times> s64 \<times> s64 \<times> u64 list) \<times> (u32 \<times> u32 \<times> u32) \<times> u8 \<times> u8 list \<times> u8" where
  "event_header e =
     ((ev_ts e, ev_dur e, ev_syscall_id e, ev_ret e, ev_args e),
      (ev_pid e, ev_tid e, ev_seq e), ev_arg_count e, ev_arg_types e, ev_event_flags e)"

definition captured :: "event \<Rightarrow> nat \<Rightarrow> var_arg_desc \<times> u8 list" where
  "captured e i =
     (let d = ev_var_desc e ! i
      in (d, bslice (unat (vd_offset d)) (unat (vd_length d)) (ev_payload e)))"

locale capture_op =
  fixes inv :: "event \<Rightarrow> bool"
    and pre :: "event \<Rightarrow> bool"
    and op :: "event \<Rightarrow> event"
    and arg_index :: u8
  assumes op_inv: "inv e \<Longrightarrow> pre e \<Longrightarrow> inv (op e)"
    and op_header: "event_header (op e) = event_header e"
    and op_count: "inv e \<Longrightarrow>
      op e = e \<or> unat (ev_var_count (op e)) = Suc (unat (ev_var_count e)) \<and>
        vd_arg_index (ev_var_desc (op e) ! unat (ev_var_count e)) = arg_index"
    and op_captured: "inv e \<Longrightarrow> i < unat (ev_var_count e) \<Longrightarrow> captured (op e) i = captured e i"
begin

text \<open>A capture under a condition, as the handler calls them, is a capture again.\<close>

lemma guarded_inv: "inv e \<Longrightarrow> pre e \<Longrightarrow> inv (if c then op e else e)"
  by (simp add: op_inv)

lemma guarded_header: "event_header (if c then op e else e) = event_header e"
  by (simp add: op_header)

lemma op_count_le: "inv e \<Longrightarrow> unat (ev_var_count e) \<le> unat (ev_var_count (op e))"
  using op_count [of e] by auto

end

text \<open>
  \<open>slot_capture e bs d e'\<close>: from \<open>e\<close>, a capture has written \<open>bs\<close> at the start of the
  next slot and stored \<open>d\<close>.
\<close>

definition slot_capture :: "event \<Rightarrow> u8 list \<Rightarrow> var_arg_desc \<Rightarrow> event \<Rightarrow> bool" where
  "slot_capture e bs d e' \<longleftrightarrow>
     (\<exists>pl. e' = store_desc (unat (ev_var_count e)) d
              (e\<lparr>ev_payload := blit (slot_offset (unat (ev_var_count e))) bs (ev_payload e),
                 ev_payload_len := pl\<rparr>) \<and>
           length bs \<le> GENERIC_VAR_SLOT_SIZE \<and>
           unat (vd_offset d) = slot_offset (unat (ev_var_count e)) \<and>
           unat (vd_length d) \<le> GENERIC_VAR_SLOT_SIZE \<and>
           unat (ev_payload_len e) \<le> unat pl \<and>
           unat pl \<le> max (unat (ev_payload_len e)) MAX_VAR_PAYLOAD \<and>
           desc_ok (unat pl) d)"

lemma slot_offset_le: "slot_offset i \<le> GENERIC_VAR_SLOT_SIZE"
  by (simp add: slot_offset_def)

lemma unat_inc: "unat c < 6 \<Longrightarrow> unat (c + 1 :: u8) = Suc (unat c)"
  by (simp add: unat_word_ariths)

lemma u8_le_unat: "(of_nat n :: u8) \<le> c \<longleftrightarrow> n \<le> unat c" if "n < 256"
  using that by (simp add: word_le_nat_alt unat_of_nat)

lemma slot_capture_ok:
  assumes "slots_ok e" and "unat (ev_var_count e) < 2" and "slot_capture e bs d e'"
  shows "slots_ok e'"
proof -
  let ?n = "unat (ev_var_count e)"
  obtain pl where e': "e' = store_desc ?n d
        (e\<lparr>ev_payload := blit (slot_offset ?n) bs (ev_payload e), ev_payload_len := pl\<rparr>)"
    and bs: "length bs \<le> 256" and d: "in_slot ?n d" "desc_ok (unat pl) d"
    and pl: "unat (ev_payload_len e) \<le> unat pl" "unat pl \<le> 512"
    using assms by (auto simp: slot_capture_def slots_ok_def event_ok_def in_slot_def)
  have shape: "event_shape e" and descs: "descs_ok (unat (ev_payload_len e)) ?n (ev_var_desc e)"
    and slots: "list_all (\<lambda>i. in_slot i (ev_var_desc e ! i)) [0..<?n]"
    using assms(1) by (simp_all add: slots_ok_def event_ok_def)
  have count: "unat (ev_var_count e') = Suc ?n"
    using assms(2) by (simp add: e' store_desc_def unat_inc)
  have "event_shape e'"
    using shape bs slot_offset_le [of ?n] by (simp add: e' store_desc_def event_shape_def length_blit)
  moreover have "descs_ok (unat pl) (Suc ?n) ((ev_var_desc e)[?n := d])"
    using descs shape assms(2) d(2) pl(1) by (intro descs_ok_store) (auto simp: event_shape_def)
  ultimately have "event_ok e'"
    using pl count assms(2) by (simp add: event_ok_def) (simp add: e' store_desc_def)
  moreover have "list_all (\<lambda>i. in_slot i (ev_var_desc e' ! i)) [0..<Suc ?n]"
    using slots d(1) shape assms(2) by (auto simp: list_all_iff e' store_desc_def event_shape_def)
  ultimately show ?thesis
    using count assms(2) by (simp add: slots_ok_def)
qed

lemma slot_capture_captured:
  assumes "slots_ok e" and "unat (ev_var_count e) < 2" and "slot_capture e bs d e'"
    and "i < unat (ev_var_count e)"
  shows "captured e' i = captured e i"
proof -
  let ?n = "unat (ev_var_count e)"
  have n: "?n = 1" "i = 0" using assms(2,4) by auto
  have d0: "unat (vd_offset (ev_var_desc e ! 0)) = 0" "unat (vd_length (ev_var_desc e ! 0)) \<le> 256"
    and len: "length (ev_payload e) = 512"
    using assms(1) n by (auto simp: slots_ok_def in_slot_def slot_offset_def event_ok_def event_shape_def)
  show ?thesis
    using assms(3) n d0 len
    by (auto simp: slot_capture_def captured_def store_desc_def slot_offset_def bslice_def blit_def Let_def)
qed

lemma slot_capture_header: "slot_capture e bs d e' \<Longrightarrow> event_header e' = event_header e"
  by (auto simp: slot_capture_def event_header_def store_desc_def)

lemma slot_capture_count:
  assumes "unat (ev_var_count e) < 2" and "event_shape e" and "slot_capture e bs d e'"
  shows "unat (ev_var_count e') = Suc (unat (ev_var_count e)) \<and>
    ev_var_desc e' ! unat (ev_var_count e) = d"
  using assms by (auto simp: slot_capture_def store_desc_def event_shape_def unat_inc)

section \<open>The slot captures\<close>

lemma grow_payload_cases:
  assumes "unat end \<le> MAX_VAR_PAYLOAD"
  obtains pl where "grow_payload end e = e\<lparr>ev_payload_len := pl\<rparr>"
    and "unat pl = max (unat (ev_payload_len e)) (unat end)"
proof (cases "ucast (ev_payload_len e) < end")
  case True
  moreover have "unat (ucast end :: u16) = unat end"
    using assms by (simp add: unat_ucast_small)
  moreover have "unat (ev_payload_len e) < unat end"
    using True by (simp add: word_less_nat_alt)
  ultimately show ?thesis
    using that [of "ucast end"] by (simp add: grow_payload_def max_def)
next
  case False
  moreover have "unat end \<le> unat (ev_payload_len e)"
    using False by (simp add: not_less word_le_nat_alt)
  ultimately show ?thesis
    using that [of "ev_payload_len e"] by (simp add: grow_payload_def max_def)
qed

lemma slot_capture_error:
  assumes "length bs \<le> GENERIC_VAR_SLOT_SIZE" and "unat (vd_offset d) = slot_offset (unat (ev_var_count e))"
    and "desc_error d" and "vd_length d = 0"
  shows "slot_capture e bs d (store_desc (unat (ev_var_count e)) d
    (e\<lparr>ev_payload := blit (slot_offset (unat (ev_var_count e))) bs (ev_payload e)\<rparr>))"
  using assms unfolding slot_capture_def
  by (intro exI [of _ "ev_payload_len e"]) (simp add: desc_ok_def)

lemma slot_capture_fits:
  assumes "length bs \<le> GENERIC_VAR_SLOT_SIZE" and "unat (vd_offset d) = slot_offset (unat (ev_var_count e))"
    and "unat (vd_length d) \<le> GENERIC_VAR_SLOT_SIZE"
    and "unat end = unat (vd_offset d) + unat (vd_length d)"
  shows "slot_capture e bs d (store_desc (unat (ev_var_count e)) d (grow_payload end
    (e\<lparr>ev_payload := blit (slot_offset (unat (ev_var_count e))) bs (ev_payload e)\<rparr>)))"
proof -
  have "unat end \<le> 512"
    using assms slot_offset_le [of "unat (ev_var_count e)"] by simp
  then obtain pl where
    "grow_payload end (e\<lparr>ev_payload := blit (slot_offset (unat (ev_var_count e))) bs (ev_payload e)\<rparr>) =
      e\<lparr>ev_payload := blit (slot_offset (unat (ev_var_count e))) bs (ev_payload e), ev_payload_len := pl\<rparr>"
    and "unat pl = max (unat (ev_payload_len e)) (unat end)"
    by (rule grow_payload_cases [of "end"
          "e\<lparr>ev_payload := blit (slot_offset (unat (ev_var_count e))) bs (ev_payload e)\<rparr>"]) simp
  then show ?thesis
    using assms \<open>unat end \<le> 512\<close> unfolding slot_capture_def
    by (intro exI [of _ pl]) (auto simp: desc_ok_def desc_fits_def)
qed

lemma desc_error_or [simp]:
  "desc_error (or_flag VAR_FLAG_NULL_POINTER d)" "desc_error (or_flag VAR_FLAG_READ_ERROR d)"
proof -
  have "bit ((vd_flags d OR 4) AND 6) 2" "bit ((vd_flags d OR 2) AND 6) 1"
    by (simp_all add: bit_and_iff bit_or_iff)
  then have "(vd_flags d OR 4) AND 6 \<noteq> 0" "(vd_flags d OR 2) AND 6 \<noteq> 0"
    by (auto dest: bit_nonzero)
  then show "desc_error (or_flag VAR_FLAG_NULL_POINTER d)" "desc_error (or_flag VAR_FLAG_READ_ERROR d)"
    by (simp_all add: desc_error_def or_flag_def)
qed

lemma new_desc_simps [simp]:
  "vd_arg_index (new_desc i off) = i" "vd_flags (new_desc i off) = VAR_FLAG_NONE"
  "vd_offset (new_desc i off) = off" "vd_length (new_desc i off) = 0"
  by (simp_all add: new_desc_def)

lemma or_flag_simps [simp]:
  "vd_arg_index (or_flag f d) = vd_arg_index d" "vd_flags (or_flag f d) = vd_flags d OR f"
  "vd_offset (or_flag f d) = vd_offset d" "vd_length (or_flag f d) = vd_length d"
  by (simp_all add: or_flag_def)

lemma unat_slot_offset [simp]: "unat (of_nat (slot_offset n) :: u16) = slot_offset n"
  by (simp add: slot_offset_def)

lemma not_full: "unat c < 2 \<Longrightarrow> \<not> 2 \<le> (c :: u8)"
  by (simp add: word_le_nat_alt)

lemma full: "\<not> unat c < 2 \<Longrightarrow> 2 \<le> (c :: u8)"
  by (simp add: word_le_nat_alt)

lemma slot_capture_null:
  "unat (vd_offset d) = slot_offset (unat (ev_var_count e)) \<Longrightarrow> desc_error d \<Longrightarrow> vd_length d = 0 \<Longrightarrow>
   slot_capture e [] d (store_desc (unat (ev_var_count e)) d e)"
  using slot_capture_error [of "[]" d e] by simp

text \<open>The paths of a byte capture, with the size and the flags of its first test given.\<close>

lemma append_var_bytes_eq:
  assumes "unat (ev_var_count e) < 2"
    and "(if sz < 256 then (ucast sz, desc)
      else if 256 < sz then (256, or_flag VAR_FLAG_TRUNCATED desc) else (256, desc)) = (to_copy :: u32, d0)"
    and "k_read k ptr (unat to_copy) = (r, bs)"
    and "desc = new_desc arg_index (of_nat (slot_offset (unat (ev_var_count e))))"
  shows "append_var_bytes k e arg_index ptr sz =
    (if ptr = 0 then store_desc (unat (ev_var_count e)) (or_flag VAR_FLAG_NULL_POINTER desc) e
     else if to_copy = 0 then store_desc (unat (ev_var_count e)) d0 e
     else if r < 0 then store_desc (unat (ev_var_count e)) (or_flag VAR_FLAG_READ_ERROR d0)
        (e\<lparr>ev_payload := blit (slot_offset (unat (ev_var_count e))) bs (ev_payload e)\<rparr>)
     else store_desc (unat (ev_var_count e)) (d0\<lparr>vd_length := ucast to_copy\<rparr>)
        (grow_payload (ucast (vd_offset d0) + to_copy)
          (e\<lparr>ev_payload := blit (slot_offset (unat (ev_var_count e))) bs (ev_payload e)\<rparr>)))"
  using assms by (simp add: append_var_bytes_def not_full Let_def split: if_splits)

context kernel_env
begin

lemma string_capture:
  assumes "unat (ev_var_count e) < 2"
  shows "\<exists>bs d. slot_capture e bs d (append_var_string k e arg_index ptr) \<and> vd_arg_index d = arg_index"
proof -
  let ?n = "unat (ev_var_count e)"
  let ?d = "new_desc arg_index (of_nat (slot_offset ?n))"
  obtain r bs where rd: "k_read_str k ptr 256 = (r, bs)" by force
  consider (null) "ptr = 0" | (fault) "ptr \<noteq> 0" "r < 0" | (ok) "ptr \<noteq> 0" "0 \<le> r" by linarith
  then show ?thesis
  proof cases
    case null
    then have "append_var_string k e arg_index ptr = store_desc ?n (or_flag VAR_FLAG_NULL_POINTER ?d) e"
      using assms by (simp add: append_var_string_def not_full Let_def)
    then show ?thesis
      using slot_capture_null [of "or_flag VAR_FLAG_NULL_POINTER ?d" e] by force
  next
    case fault
    then have "append_var_string k e arg_index ptr = store_desc ?n (or_flag VAR_FLAG_READ_ERROR ?d)
        (e\<lparr>ev_payload := blit (slot_offset ?n) bs (ev_payload e)\<rparr>)"
      using assms rd by (simp add: append_var_string_def not_full Let_def)
    then show ?thesis
      using slot_capture_error [of bs "or_flag VAR_FLAG_READ_ERROR ?d" e] str_room [OF rd] by force
  next
    case ok
    have r: "0 < r" "r \<le> 256" "r = int (length bs)"
      using str_bounds [OF rd ok(2)] by auto
    define d where "d = (if (of_int r :: u32) = 256 then or_flag VAR_FLAG_TRUNCATED ?d else ?d)
      \<lparr>vd_length := of_int (r - 1)\<rparr>"
    define stop where "stop = (ucast (vd_offset d) + ucast (vd_length d) :: u32)"
    have "unat (of_int (r - 1) :: u16) = nat (r - 1)"
      by (rule unat_of_int_small) (use r in simp_all)
    then have len: "unat (vd_length d) = length bs - 1"
      using r by (simp add: d_def nat_diff_distrib del: of_int_diff)
    have off: "unat (vd_offset d) = slot_offset ?n" by (simp add: d_def)
    have "unat stop = unat (vd_offset d) + unat (vd_length d)"
      using len off r slot_offset_le [of ?n] by (simp add: stop_def unat_word_ariths)
    then have "slot_capture e bs d (store_desc ?n d (grow_payload stop
        (e\<lparr>ev_payload := blit (slot_offset ?n) bs (ev_payload e)\<rparr>)))"
      by (rule slot_capture_fits [rotated 3]) (use len off r in auto)
    moreover have "append_var_string k e arg_index ptr = store_desc ?n d (grow_payload stop
        (e\<lparr>ev_payload := blit (slot_offset ?n) bs (ev_payload e)\<rparr>))"
      using assms rd ok r by (simp add: append_var_string_def not_full Let_def d_def stop_def)
    moreover have "vd_arg_index d = arg_index" by (simp add: d_def)
    ultimately show ?thesis by metis
  qed
qed

lemma bytes_capture:
  assumes "unat (ev_var_count e) < 2" and "sz \<noteq> 0 \<or> ev_var_count e = 0"
  shows "\<exists>bs d. slot_capture e bs d (append_var_bytes k e arg_index ptr sz) \<and> vd_arg_index d = arg_index"
proof -
  let ?n = "unat (ev_var_count e)"
  let ?d = "new_desc arg_index (of_nat (slot_offset ?n))"
  define td :: "u32 \<times> var_arg_desc" where
    "td = (if sz < 256 then (ucast sz, ?d) else if 256 < sz then (256, or_flag VAR_FLAG_TRUNCATED ?d) else (256, ?d))"
  obtain to_copy d0 where td: "td = (to_copy, d0)" by force
  have "unat (ucast sz :: u32) = unat sz" if "sz < 256"
    using that by (intro unat_ucast_small) (simp add: word_less_nat_alt)
  then have tc: "unat to_copy = min (unat sz) 256"
    using td by (auto simp: td_def word_less_nat_alt min_def split: if_splits)
  have d0: "vd_arg_index d0 = arg_index" "unat (vd_offset d0) = slot_offset ?n" "vd_length d0 = 0"
    using td by (auto simp: td_def split: if_splits)
  obtain r bs where rd: "k_read k ptr (unat to_copy) = (r, bs)" by force
  have bs: "length bs \<le> 256" using read_room [OF rd] tc by simp
  note unfold = append_var_bytes_eq [OF assms(1) td [unfolded td_def] rd refl]
  consider (null) "ptr = 0" | (none) "ptr \<noteq> 0" "to_copy = 0" | (fault) "ptr \<noteq> 0" "to_copy \<noteq> 0" "r < 0"
    | (ok) "ptr \<noteq> 0" "to_copy \<noteq> 0" "0 \<le> r" by linarith
  then show ?thesis
  proof cases
    case null
    then show ?thesis
      using slot_capture_null [of "or_flag VAR_FLAG_NULL_POINTER ?d" e] unfold by force
  next
    case none
    then have "?n = 0" using tc assms(2) by (auto simp: unat_eq_0 min_def split: if_splits)
    then have "slot_capture e [] d0 (store_desc ?n d0 e)"
      using d0 by (auto simp: slot_capture_def desc_ok_def desc_fits_def slot_offset_def
          intro!: exI [of _ "ev_payload_len e"])
    then show ?thesis using none unfold d0 by force
  next
    case fault
    then show ?thesis
      using slot_capture_error [of bs "or_flag VAR_FLAG_READ_ERROR d0" e] unfold d0 bs by force
  next
    case ok
    let ?d1 = "d0\<lparr>vd_length := ucast to_copy\<rparr>"
    have len: "unat (vd_length ?d1) = unat to_copy"
      using tc by (simp add: unat_ucast_small)
    have "unat (ucast (vd_offset d0) + to_copy) = unat (vd_offset ?d1) + unat (vd_length ?d1)"
      using len d0 tc slot_offset_le [of ?n] by (simp add: unat_word_ariths)
    then have "slot_capture e bs ?d1 (store_desc ?n ?d1 (grow_payload (ucast (vd_offset d0) + to_copy)
        (e\<lparr>ev_payload := blit (slot_offset ?n) bs (ev_payload e)\<rparr>)))"
      by (rule slot_capture_fits [rotated 3]) (use len d0 tc bs in auto)
    then show ?thesis using ok unfold d0 by force
  qed
qed

end

text \<open>The slot captures have the contract of a capture.\<close>

lemma append_var_string_full: "\<not> unat (ev_var_count e) < 2 \<Longrightarrow> append_var_string k e i p = e"
  by (simp add: append_var_string_def full)

lemma append_var_bytes_full: "\<not> unat (ev_var_count e) < 2 \<Longrightarrow> append_var_bytes k e i p sz = e"
  by (simp add: append_var_bytes_def full)

lemma append_var_string_header: "event_header (append_var_string k e i p) = event_header e"
  by (simp add: append_var_string_def store_desc_def event_header_def grow_payload_def Let_def
      split: prod.split)

lemma append_var_bytes_header: "event_header (append_var_bytes k e i p sz) = event_header e"
  by (simp add: append_var_bytes_def store_desc_def event_header_def grow_payload_def Let_def
      split: prod.split)

text \<open>A capture that is a slot capture until the slots are full.\<close>

lemma slot_capture_op:
  assumes full: "\<And>e. \<not> unat (ev_var_count e) < 2 \<Longrightarrow> op e = e"
    and slot: "\<And>e. unat (ev_var_count e) < 2 \<Longrightarrow> pre e \<Longrightarrow>
      \<exists>bs d. slot_capture e bs d (op e) \<and> vd_arg_index d = arg_index"
    and always: "\<And>e. pre e"
  shows "capture_op slots_ok pre op arg_index"
proof
  fix e
  have cases: P if "op e = e \<Longrightarrow> P"
    and "\<And>bs d. unat (ev_var_count e) < 2 \<Longrightarrow> slot_capture e bs d (op e) \<Longrightarrow> vd_arg_index d = arg_index \<Longrightarrow> P"
    for P
    using that full [of e] slot [of e] always [of e] by (cases "unat (ev_var_count e) < 2") auto
  show "slots_ok e \<Longrightarrow> pre e \<Longrightarrow> slots_ok (op e)"
    by (rule cases) (auto intro: slot_capture_ok)
  show "event_header (op e) = event_header e"
    by (rule cases) (auto intro: slot_capture_header)
  show "slots_ok e \<Longrightarrow> op e = e \<or> unat (ev_var_count (op e)) = Suc (unat (ev_var_count e)) \<and>
      vd_arg_index (ev_var_desc (op e) ! unat (ev_var_count e)) = arg_index"
    by (rule cases) (auto simp: slots_ok_def event_ok_def dest!: slot_capture_count)
  show "slots_ok e \<Longrightarrow> i < unat (ev_var_count e) \<Longrightarrow> captured (op e) i = captured e i" for i
    by (rule cases) (auto intro: slot_capture_captured)
qed

text \<open>
  A byte capture of no bytes describes an empty range, which lies outside the used
  payload when it is in the second slot. The contract is for captures that have a
  size; the handler's captures of a size that may be zero are in the first slot.
\<close>

context kernel_env
begin

lemma bytes_op:
  "sz \<noteq> 0 \<Longrightarrow> capture_op slots_ok (\<lambda>_. True) (\<lambda>e. append_var_bytes k e i p sz) i"
  by (rule slot_capture_op) (simp_all add: append_var_bytes_full bytes_capture)

end

locale sized_env = kernel_env +
  fixes sz :: u64
  assumes sized: "sz \<noteq> 0"

sublocale kernel_env \<subseteq> str: capture_op slots_ok "\<lambda>_. True" "\<lambda>e. append_var_string k e i p" i for i p
  by (rule slot_capture_op) (simp_all add: append_var_string_full string_capture)

sublocale sized_env \<subseteq> bytes: capture_op slots_ok "\<lambda>_. True" "\<lambda>e. append_var_bytes k e i p sz" i for i p
  by (rule bytes_op) (rule sized)

interpretation stat_env: sized_env "with_memory m k" 144 for m k
  by unfold_locales simp

section \<open>The argv capture\<close>

context kernel_env
begin

text \<open>
  One turn of the loop: either it stops with the cursor in bounds, or it goes on
  after copying the bytes of one argument at the cursor.
\<close>

lemma argv_loop_turn:
  assumes "unat cursor \<le> cap" and "cap = length payload" and "MAX_EXECVE_ARG_STR \<le> cap"
    and "cap \<le> MAX_VAR_PAYLOAD"
  obtains (stop) c f pl where "argv_loop k argv cap (i # idxs) cursor flags payload = (c, f, pl, False)"
      and "unat cursor \<le> unat c" and "unat c \<le> cap" and "length pl = cap"
      and "take (unat cursor) pl = take (unat cursor) payload"
  | (next_arg) bs where "argv_loop k argv cap (i # idxs) cursor flags payload =
        argv_loop k argv cap idxs (cursor + of_nat (length bs)) flags (blit (unat cursor) bs payload)"
      and "length bs < MAX_EXECVE_ARG_STR" and "unat cursor + MAX_EXECVE_ARG_STR \<le> cap"
proof -
  obtain r pb where rd: "k_read k (argv + 8 * of_nat i) 8 = (r, pb)" by force
  obtain c bs where str: "k_read_str k (le_word pb) 128 = (c, bs)" by force
  note bs = str_room [OF str]
  have cap: "unat (of_nat (cap - 128) :: u32) = cap - 128"
    using assms(4) by (simp add: unat_of_nat take_bit_nat_eq_self)
  consider (fault) "r < 0" | (last) "0 \<le> r" "le_word pb = (0::u64)"
    | (no_room) "0 \<le> r" "le_word pb \<noteq> (0::u64)" "of_nat (cap - 128) < cursor"
    | (copy) "0 \<le> r" "le_word pb \<noteq> (0::u64)" "\<not> of_nat (cap - 128) < cursor" by linarith
  then show ?thesis
  proof cases
    case fault
    then have "argv_loop k argv cap (i # idxs) cursor flags payload =
        (cursor, flags OR VAR_FLAG_READ_ERROR, payload, False)"
      by (simp add: argv_loop.simps(2) rd)
    then show ?thesis using stop assms by blast
  next
    case last
    then have "argv_loop k argv cap (i # idxs) cursor flags payload = (cursor, flags, payload, False)"
      by (simp add: argv_loop.simps(2) rd)
    then show ?thesis using stop assms by blast
  next
    case no_room
    then have "argv_loop k argv cap (i # idxs) cursor flags payload =
        (cursor, flags OR VAR_FLAG_TRUNCATED, payload, False)"
      by (simp add: argv_loop.simps(2) rd)
    then show ?thesis using stop assms by blast
  next
    case copy
    then have room: "unat cursor + 128 \<le> cap"
      using cap assms(3) by (simp add: not_less word_le_nat_alt)
    have pl: "length (blit (unat cursor) bs payload) = cap"
        "take (unat cursor) (blit (unat cursor) bs payload) = take (unat cursor) payload"
      using room bs assms(2) by (simp_all add: length_blit take_blit)
    have step: "argv_loop k argv cap (i # idxs) cursor flags payload =
        (let payload = blit (unat cursor) bs payload
         in if c < 0 then (cursor, flags OR VAR_FLAG_READ_ERROR, payload, False)
            else let n = if 128 < c then 128 else c; cursor = cursor + of_int n
                 in if n = int 128 then (cursor, flags OR VAR_FLAG_TRUNCATED, payload, False)
                    else argv_loop k argv cap idxs cursor flags payload)"
      using copy by (simp add: argv_loop.simps(2) rd str Let_def)
    show ?thesis
    proof (cases "c < 0")
      case True
      then have "argv_loop k argv cap (i # idxs) cursor flags payload =
          (cursor, flags OR VAR_FLAG_READ_ERROR, blit (unat cursor) bs payload, False)"
        by (simp add: step)
      then show ?thesis using stop room pl assms by blast
    next
      case False
      then have c: "c = int (length bs)" using str_ret [OF str] by simp
      have adv: "unat (cursor + of_nat (length bs)) = unat cursor + length bs"
        using room bs assms(4) by (simp add: unat_word_ariths unat_of_nat)
      show ?thesis
      proof (cases "length bs = 128")
        case True
        then have "argv_loop k argv cap (i # idxs) cursor flags payload =
            (cursor + of_nat (length bs), flags OR VAR_FLAG_TRUNCATED, blit (unat cursor) bs payload, False)"
          using c by (simp add: step)
        then show ?thesis using stop room pl adv bs by (metis True le_add1)
      next
        case False
        then have "argv_loop k argv cap (i # idxs) cursor flags payload =
            argv_loop k argv cap idxs (cursor + of_nat (length bs)) flags (blit (unat cursor) bs payload)"
          using c bs by (simp add: step)
        then show ?thesis using next_arg room False bs by (metis le_neq_implies_less)
      qed
    qed
  qed
qed

lemma argv_loop_bounds:
  assumes "argv_loop k argv cap idxs cursor flags payload = (c, f, pl, ex)"
    and "unat cursor \<le> cap" and "cap = length payload" and "MAX_EXECVE_ARG_STR \<le> cap"
    and "cap \<le> MAX_VAR_PAYLOAD"
  shows "unat cursor \<le> unat c \<and> unat c \<le> cap \<and> length pl = cap \<and>
    take (unat cursor) pl = take (unat cursor) payload"
  using assms
proof (induction idxs arbitrary: cursor flags payload)
  case (Cons i idxs)
  from Cons.prems(2-5) show ?case
  proof (cases rule: argv_loop_turn [where i = i and idxs = idxs and argv = argv and flags = flags])
    case (stop c' f' pl')
    then show ?thesis using Cons.prems(1) by simp
  next
    case (next_arg bs)
    have adv: "unat (cursor + of_nat (length bs)) = unat cursor + length bs"
      using next_arg(2,3) Cons.prems(5) by (simp add: unat_word_ariths unat_of_nat)
    have len: "length (blit (unat cursor) bs payload) = cap"
      using next_arg(2,3) Cons.prems(3) by (simp add: length_blit)
    have "argv_loop k argv cap idxs (cursor + of_nat (length bs)) flags (blit (unat cursor) bs payload)
        = (c, f, pl, ex)"
      using next_arg(1) Cons.prems(1) by (rule subst)
    moreover have "unat (cursor + of_nat (length bs)) \<le> cap" using adv next_arg(2,3) by linarith
    ultimately have IH: "take (unat cursor + length bs) pl =
          take (unat cursor + length bs) (blit (unat cursor) bs payload)"
        "unat cursor + length bs \<le> unat c" "unat c \<le> cap" "length pl = cap"
      using Cons.IH len adv Cons.prems(4,5) by metis+
    from IH(1) have "take (unat cursor) pl = take (unat cursor) (blit (unat cursor) bs payload)"
      by (rule take_shorter) simp
    also have "\<dots> = take (unat cursor) payload"
      using next_arg(3) Cons.prems(3) by (intro take_blit) linarith+
    finally show ?thesis using IH by linarith
  qed
qed auto

text \<open>
  The argv capture appends: it keeps the bytes in use, its descriptor starts where
  they end, and the used length grows to the descriptor's end and not past the
  capacity.
\<close>

lemma capture_argv_bounds:
  assumes "capture_argv k arg_index argv cap len payload = (d, n, pl)"
    and "unat len \<le> cap" and "cap = length payload" and "MAX_EXECVE_ARG_STR \<le> cap"
    and "cap \<le> MAX_VAR_PAYLOAD"
  shows "vd_arg_index d = arg_index \<and> vd_offset d = len \<and> unat len \<le> unat n \<and> unat n \<le> cap \<and>
    desc_fits (unat n) d \<and> length pl = cap \<and> take (unat len) pl = take (unat len) payload"
proof (cases "argv = 0 \<or> of_nat cap \<le> (ucast len :: u32)")
  case True
  then show ?thesis
    using assms by (auto simp: capture_argv_def desc_fits_def Let_def split: if_splits)
next
  case False
  let ?start = "ucast len :: u32"
  obtain c f pl' ex where loop:
    "argv_loop k argv cap [0..<MAX_EXECVE_ARGV] ?start 0 payload = (c, f, pl', ex)"
    by (metis prod_cases4)
  have b: "unat len \<le> unat c" "unat c \<le> cap" "length pl' = cap"
      "take (unat len) pl' = take (unat len) payload"
    using argv_loop_bounds [OF loop] assms(2-5) by simp_all
  have c: "unat (ucast c :: u16) = unat c"
    using b(2) assms(5) by (intro unat_ucast_small) simp
  have diff: "unat (ucast (c - ?start) :: u16) = unat c - unat len"
  proof -
    have "unat (c - ?start) = unat c - unat len"
      using b(1) by (simp add: unat_sub word_le_nat_alt)
    then show ?thesis
      using b(2) assms(5) by (simp add: unat_ucast_small)
  qed
  show ?thesis
    using False assms(1) loop b c diff
    by (auto simp: capture_argv_def desc_fits_def Let_def split: if_splits)
qed

lemma argv_capture_op: "capture_op event_ok (\<lambda>_. True) (\<lambda>e. append_var_argv k e i p) i"
proof
  fix e :: event
  obtain d n pl where cap: "capture_argv k i p 512 (ev_payload_len e) (ev_payload e) = (d, n, pl)"
    by (metis prod_cases3)
  let ?vc = "unat (ev_var_count e)"
  let ?e = "store_desc ?vc d (e\<lparr>ev_payload := pl, ev_payload_len := n\<rparr>)"
  have full: "append_var_argv k e i p = e" if "6 \<le> ?vc"
    using that by (simp add: append_var_argv_def word_le_nat_alt)
  have room: "append_var_argv k e i p = ?e" if "?vc < 6"
    using that cap by (simp add: append_var_argv_def word_le_nat_alt)
  show "event_header (append_var_argv k e i p) = event_header e"
    by (cases "?vc < 6") (simp_all add: full room event_header_def store_desc_def)
  assume e: "event_ok e"
  then have b: "vd_arg_index d = i" "unat (ev_payload_len e) \<le> unat n" "unat n \<le> 512"
      "desc_fits (unat n) d" "length pl = 512"
      "take (unat (ev_payload_len e)) pl = take (unat (ev_payload_len e)) (ev_payload e)"
  proof -
    have "unat (ev_payload_len e) \<le> 512" "512 = length (ev_payload e)"
      using e by (simp_all add: event_ok_def event_shape_def)
    from capture_argv_bounds [OF cap this]
    show "vd_arg_index d = i" "unat (ev_payload_len e) \<le> unat n" "unat n \<le> 512"
      "desc_fits (unat n) d" "length pl = 512"
      "take (unat (ev_payload_len e)) pl = take (unat (ev_payload_len e)) (ev_payload e)"
      by simp_all
  qed
  show "append_var_argv k e i p = e \<or>
      unat (ev_var_count (append_var_argv k e i p)) = Suc ?vc \<and>
      vd_arg_index (ev_var_desc (append_var_argv k e i p) ! ?vc) = i"
    using e b(1) by (cases "?vc < 6")
      (auto simp: full room store_desc_def unat_inc event_ok_def event_shape_def)
  show "event_ok (append_var_argv k e i p)"
  proof (cases "?vc < 6")
    case True
    then have "descs_ok (unat n) (Suc ?vc) ((ev_var_desc e)[?vc := d])"
      using e b by (intro descs_ok_store) (auto simp: event_ok_def event_shape_def desc_ok_def)
    with e b True show ?thesis
      by (simp add: room event_ok_def event_shape_def store_desc_def unat_inc)
  qed (use e in \<open>simp add: full\<close>)
  show "captured (append_var_argv k e i p) j = captured e j" if "j < ?vc" for j
  proof (cases "?vc < 6")
    case True
    with e that have "desc_ok (unat (ev_payload_len e)) (ev_var_desc e ! j)"
      by (intro descs_okD [of _ ?vc]) (auto simp: event_ok_def event_shape_def)
    with b(6) have "bslice (unat (vd_offset (ev_var_desc e ! j))) (unat (vd_length (ev_var_desc e ! j))) pl =
        bslice (unat (vd_offset (ev_var_desc e ! j))) (unat (vd_length (ev_var_desc e ! j))) (ev_payload e)"
      by (auto simp: desc_ok_def desc_fits_def intro: bslice_take_cong)
    with True that show ?thesis
      by (simp add: room captured_def store_desc_def Let_def)
  qed (simp add: full)
qed

end

end
