(* ===== verification/Capture_Spec.thy ===== *)
theory Capture_Spec
  imports Capture
begin

text \<open>
  What the captures of theory Capture copy, stated over a process memory: the bytes
  of the string, of the buffer or of the argument list that is stored there, and
  the flags that tell a whole copy from a cut one.
\<close>

section \<open>Strings and buffers\<close>

lemma captured_store:
  assumes "unat (ev_var_count e) < length (ev_var_desc e)" and "ev_var_desc e' = ev_var_desc e"
  shows "captured (store_desc (unat (ev_var_count e)) d e') (unat (ev_var_count e)) =
    (d, bslice (unat (vd_offset d)) (unat (vd_length d)) (ev_payload e'))"
  using assms by (simp add: captured_def store_desc_def Let_def)

lemma grow_payload_simps [simp]:
  "ev_payload (grow_payload n e) = ev_payload e" "ev_var_desc (grow_payload n e) = ev_var_desc e"
  by (simp_all add: grow_payload_def)

lemma slots_room:
  assumes "slots_ok e" and "unat (ev_var_count e) < 2"
  shows "unat (ev_var_count e) < length (ev_var_desc e)"
    and "slot_offset (unat (ev_var_count e)) + 256 \<le> length (ev_payload e)"
  using assms slot_offset_le [of "unat (ev_var_count e)"]
  by (simp_all add: slots_ok_def event_ok_def event_shape_def)

lemma string_copied:
  assumes "cstring_at m p s" and "p \<noteq> 0" and "slots_ok e" and "unat (ev_var_count e) < 2"
  shows "\<exists>d. captured (append_var_string (with_memory m k) e i p) (unat (ev_var_count e)) = (d, take 255 s) \<and>
    vd_arg_index d = i \<and>
    vd_flags d = (if 255 \<le> length s then VAR_FLAG_TRUNCATED else VAR_FLAG_NONE)"
proof -
  let ?n = "unat (ev_var_count e)"
  define r where "r = int (min (length s) 255) + 1"
  define d where "d = (if (of_int r :: u32) = 256 then or_flag VAR_FLAG_TRUNCATED (new_desc i (of_nat (slot_offset ?n)))
    else new_desc i (of_nat (slot_offset ?n)))\<lparr>vd_length := of_int (r - 1)\<rparr>"
  let ?e = "e\<lparr>ev_payload := blit (slot_offset ?n) (take 255 s @ [0]) (ev_payload e)\<rparr>"
  have str: "mem_read_str m p 256 = (r, take 255 s @ [0])"
    using mem_read_str_cstring [OF assms(1), of 256] by (simp add: r_def)
  have "append_var_string (with_memory m k) e i p =
      store_desc ?n d (grow_payload (ucast (vd_offset d) + ucast (vd_length d)) ?e)"
    using assms(2,4) str by (simp add: append_var_string_def not_full Let_def d_def r_def)
  then have cap: "captured (append_var_string (with_memory m k) e i p) ?n =
      (d, bslice (unat (vd_offset d)) (unat (vd_length d)) (ev_payload ?e))"
    using captured_store [OF slots_room(1) [OF assms(3,4)]] by simp
  have "unat (of_int (r - 1) :: u16) = nat (r - 1)"
    by (rule unat_of_int_small) (simp_all add: r_def)
  then have len: "unat (vd_length d) = min (length s) 255"
    by (simp add: d_def r_def del: of_int_diff)
  have "unat (of_int r :: u32) = nat r"
    by (rule unat_of_int_small) (simp_all add: r_def)
  then have "(of_int r :: u32) = 256 \<longleftrightarrow> 255 \<le> length s"
    by (auto simp: word_unat_eq_iff r_def min_def)
  then have "vd_flags d = (if 255 \<le> length s then VAR_FLAG_TRUNCATED else VAR_FLAG_NONE)"
    by (simp add: d_def)
  moreover have "vd_arg_index d = i" "unat (vd_offset d) = slot_offset ?n"
    by (simp_all add: d_def)
  moreover have "bslice (slot_offset ?n) (min (length s) 255) (ev_payload ?e) = take 255 s"
    using slots_room(2) [OF assms(3,4)] by (simp add: slice_blit_inside min_def)
  ultimately show ?thesis using cap len by metis
qed

lemma bytes_copied:
  assumes "mem_bytes m p (min (unat sz) 256) = Some bs" and "p \<noteq> 0" and "sz \<noteq> 0"
    and "slots_ok e" and "unat (ev_var_count e) < 2"
  shows "\<exists>d. captured (append_var_bytes (with_memory m k) e i p sz) (unat (ev_var_count e)) = (d, bs) \<and>
    vd_arg_index d = i \<and>
    vd_flags d = (if 256 < unat sz then VAR_FLAG_TRUNCATED else VAR_FLAG_NONE)"
proof -
  let ?n = "unat (ev_var_count e)"
  let ?d = "new_desc i (of_nat (slot_offset ?n))"
  define d where "d = (if 256 < unat sz then or_flag VAR_FLAG_TRUNCATED ?d else ?d)\<lparr>vd_length := of_nat (length bs)\<rparr>"
  let ?e = "e\<lparr>ev_payload := blit (slot_offset ?n) bs (ev_payload e)\<rparr>"
  have bs: "length bs = min (unat sz) 256" "0 < unat sz"
    using length_mem_bytes [OF assms(1)] assms(3) by (auto simp: unat_gt_0)
  define tc :: u32 where "tc = of_nat (length bs)"
  have tc: "unat tc = length bs" "(ucast tc :: u16) = of_nat (length bs)" "tc \<noteq> 0"
  proof -
    show *: "unat tc = length bs" using bs by (simp add: tc_def unat_of_nat)
    then show "tc \<noteq> 0" using bs by auto
    show "(ucast tc :: u16) = of_nat (length bs)"
      using * bs by (simp add: word_unat_eq_iff unat_ucast_small unat_of_nat)
  qed
  have sel: "(if sz < 256 then (ucast sz, ?d) else if 256 < sz then (256, or_flag VAR_FLAG_TRUNCATED ?d) else (256, ?d))
      = (tc, d\<lparr>vd_length := 0\<rparr>)"
  proof -
    have "ucast sz = tc" if "sz < 256"
      using that tc(1) bs by (simp add: word_unat_eq_iff word_less_nat_alt unat_ucast_small)
    moreover have "256 = tc" if "\<not> sz < 256"
      using that tc(1) bs by (simp add: word_unat_eq_iff word_less_nat_alt)
    ultimately show ?thesis
      by (auto simp: d_def word_less_nat_alt new_desc_def or_flag_def)
  qed
  have rd: "k_read (with_memory m k) p (unat tc) = (0, bs)"
    using assms(1) bs tc by (simp add: mem_read_def)
  have "append_var_bytes (with_memory m k) e i p sz =
      store_desc ?n d (grow_payload (ucast (vd_offset d) + tc) ?e)"
    using append_var_bytes_eq [OF assms(5) sel rd refl] assms(2) tc by (simp add: d_def)
  then have cap: "captured (append_var_bytes (with_memory m k) e i p sz) ?n =
      (d, bslice (unat (vd_offset d)) (unat (vd_length d)) (ev_payload ?e))"
    using captured_store [OF slots_room(1) [OF assms(4,5)]] by simp
  have "unat (vd_length d) = length bs" "unat (vd_offset d) = slot_offset ?n" "vd_arg_index d = i"
  proof -
    show "unat (vd_length d) = length bs" using bs by (simp add: d_def unat_of_nat)
  qed (simp_all add: d_def)
  moreover have "bslice (slot_offset ?n) (length bs) (ev_payload ?e) = bs"
    using slots_room(2) [OF assms(4,5)] by (simp add: slice_blit_inside)
  moreover have "vd_flags d = (if 256 < unat sz then VAR_FLAG_TRUNCATED else VAR_FLAG_NONE)"
    by (simp add: d_def)
  ultimately show ?thesis using cap by metis
qed

section \<open>Argument lists\<close>

text \<open>
  \<open>argv_at m a args\<close>: at \<open>a\<close> there is an array of pointers, ended by NULL, to the
  strings of \<open>args\<close>, which are listed with their addresses.
\<close>

fun argv_at :: "memory \<Rightarrow> u64 \<Rightarrow> (u64 \<times> u8 list) list \<Rightarrow> bool" where
  "argv_at m a [] = word_at m a 0"
| "argv_at m a ((p, s) # args) =
     (word_at m a p \<and> p \<noteq> 0 \<and> cstring_at m p s \<and> argv_at m (a + 8) args)"

text \<open>
  What is copied of an argument list into \<open>room\<close> bytes with \<open>n\<close> slots left, and
  whether that is cut: every argument with its NUL, up to the first that finds no
  slot, less than 128 bytes of room, or is 127 bytes long or longer.
\<close>

fun argv_spec :: "nat \<Rightarrow> nat \<Rightarrow> u8 list list \<Rightarrow> u8 list \<times> bool" where
  "argv_spec n room [] = ([], False)"
| "argv_spec 0 room (s # ss) = ([], True)"
| "argv_spec (Suc n) room (s # ss) =
     (if room < MAX_EXECVE_ARG_STR then ([], True)
      else if MAX_EXECVE_ARG_STR - 1 \<le> length s then (take (MAX_EXECVE_ARG_STR - 1) s @ [0], True)
      else let (bs, trunc) = argv_spec n (room - Suc (length s)) ss in (s @ 0 # bs, trunc))"

lemma argv_at_read:
  assumes "argv_at m a args"
  shows "k_read (with_memory m k) a 8 = (0, le_bytes 8 (unat (case args of [] \<Rightarrow> 0 | (p, s) # _ \<Rightarrow> p)))"
  using assms by (cases args) (auto simp: mem_read_word split: prod.splits)

text \<open>
  One turn of the loop over an argument list that is in memory, by what it finds:
  the end of the list, no room, an argument that is cut, or one that is not.
\<close>

lemma argv_loop_memory:
  assumes "argv_at m (argv + 8 * of_nat i) args"
  shows "argv_loop (with_memory m k) argv cap (i # idxs) cursor flags payload =
    (case args of
       [] \<Rightarrow> (cursor, flags, payload, False)
     | (p, s) # _ \<Rightarrow>
         if of_nat (cap - MAX_EXECVE_ARG_STR) < cursor
         then (cursor, flags OR VAR_FLAG_TRUNCATED, payload, False)
         else if 127 \<le> length s
         then (cursor + 128, flags OR VAR_FLAG_TRUNCATED, blit (unat cursor) (take 127 s @ [0]) payload, False)
         else argv_loop (with_memory m k) argv cap idxs (cursor + of_nat (Suc (length s))) flags
                (blit (unat cursor) (s @ [0]) payload))"
proof (cases args)
  case Nil
  then show ?thesis
    using argv_at_read [OF assms, of k] by (simp add: argv_loop.simps(2) le_word_u64 del: le_bytes.simps)
next
  case (Cons ps rest)
  obtain p s where [simp]: "ps = (p, s)" by force
  have p: "p \<noteq> 0" "cstring_at m p s" using assms Cons by auto
  have str: "k_read_str (with_memory m k) p 128 = (int (min (length s) 127) + 1, take 127 s @ [0])"
    using mem_read_str_cstring [OF p(2), of 128] by simp
  have rd: "k_read (with_memory m k) (argv + 8 * of_nat i) 8 = (0, le_bytes 8 (unat p))"
    using argv_at_read [OF assms, of k] Cons by simp
  show ?thesis
  proof (cases "127 \<le> length s")
    case True
    then have "min (length s) 127 = 127" by simp
    with True p Cons show ?thesis
      by (simp add: argv_loop.simps(2) rd str le_word_u64 Let_def del: le_bytes.simps with_memory_simps)
  next
    case False
    then have "min (length s) 127 = length s" "take 127 s = s" by simp_all
    with False p Cons show ?thesis
      by (simp add: argv_loop.simps(2) rd str le_word_u64 Let_def add.commute
          del: le_bytes.simps with_memory_simps)
  qed
qed

lemma argv_rest_memory:
  assumes "argv_at m (argv + 8 * of_nat 8) args"
  shows "argv_rest (with_memory m k) argv f =
    (if args = [] then f else f OR VAR_FLAG_TRUNCATED)"
  using argv_at_read [OF assms, of k] assms
  by (cases args) (auto simp: argv_rest_def le_word_u64 simp del: le_bytes.simps)

lemma argv_loop_copies:
  assumes "argv_at m (argv + 8 * of_nat i) args" and "i \<le> 8" and "unat cursor \<le> cap"
    and "cap = length payload" and "128 \<le> cap" and "cap \<le> 512"
    and "argv_loop (with_memory m k) argv cap [i..<8] cursor 0 payload = (c, f, pl, ex)"
    and "argv_spec (8 - i) (cap - unat cursor) (map snd args) = (bs, trunc)"
  shows "unat c = unat cursor + length bs \<and> bslice (unat cursor) (length bs) pl = bs \<and>
    (if ex then argv_rest (with_memory m k) argv f else f) =
      (if trunc then VAR_FLAG_TRUNCATED else VAR_FLAG_NONE)"
  using assms
proof (induction args arbitrary: i cursor payload bs trunc)
  case Nil
  show ?case
  proof (cases "i = 8")
    case True
    with Nil argv_rest_memory [of m argv "[]" k] show ?thesis by auto
  next
    case False
    then have "[i..<8] = i # [Suc i..<8]" using Nil(2) by (simp add: upt_conv_Cons)
    with Nil show ?thesis by (simp add: argv_loop_memory [OF Nil(1)])
  qed
next
  case (Cons ps args)
  obtain p s where ps [simp]: "ps = (p, s)" by force
  show ?case
  proof (cases "i = 8")
    case True
    with Cons.prems argv_rest_memory [of m argv "ps # args" k] show ?thesis
      by (auto simp del: argv_at.simps)
  next
    case False
    then have upt: "[i..<8] = i # [Suc i..<8]" and n: "8 - i = Suc (8 - Suc i)"
      using Cons.prems(2) by (simp_all add: upt_conv_Cons)
    have "unat (of_nat (cap - 128) :: u32) = cap - 128"
      using Cons.prems(6) by (simp add: unat_of_nat take_bit_nat_eq_self del: of_nat_diff)
    then have room: "of_nat (cap - 128) < cursor \<longleftrightarrow> cap - unat cursor < 128"
      using Cons.prems(3,5) by (auto simp: word_less_nat_alt simp del: of_nat_diff)
    note turn = argv_loop_memory [OF Cons.prems(1), of k cap "[Suc i..<8]" cursor 0 payload, unfolded room]
    consider (no_room) "cap - unat cursor < 128" | (long) "128 \<le> cap - unat cursor" "127 \<le> length s"
      | (whole) "128 \<le> cap - unat cursor" "length s < 127" by linarith
    then show ?thesis
    proof cases
      case no_room
      with Cons.prems(7,8) show ?thesis by (simp add: upt n turn)
    next
      case long
      then have "unat (cursor + 128) = unat cursor + 128"
        using Cons.prems(6) by (simp add: unat_word_ariths)
      moreover have "bslice (unat cursor) 128 (blit (unat cursor) (take 127 s @ [0]) payload) = take 127 s @ [0]"
          "length (take 127 s @ [0]) = 128"
        using long Cons.prems(4) by (simp_all add: slice_blit_inside)
      moreover have "c = cursor + 128" "f = VAR_FLAG_TRUNCATED" "\<not> ex" "trunc" "bs = take 127 s @ [0]"
          "pl = blit (unat cursor) (take 127 s @ [0]) payload"
        using long Cons.prems(7,8) by (simp_all add: upt n turn)
      ultimately show ?thesis by (simp only: if_False if_True simp_thms)
    next
      case whole
      let ?c = "cursor + of_nat (Suc (length s))" and ?pl = "blit (unat cursor) (s @ [0]) payload"
      obtain bs' where rest: "argv_spec (8 - Suc i) (cap - unat cursor - Suc (length s)) (map snd args) = (bs', trunc)"
        and bs: "bs = s @ 0 # bs'"
        using Cons.prems(8) whole by (auto simp: n split: prod.splits)
      have adv: "unat ?c = unat cursor + Suc (length s)"
        using whole Cons.prems(6) by (simp add: unat_word_ariths unat_of_nat)
      have len: "length ?pl = cap" using whole Cons.prems(4) by (simp add: length_blit)
      have loop: "argv_loop (with_memory m k) argv cap [Suc i..<8] ?c 0 ?pl = (c, f, pl, ex)"
        using Cons.prems(7) whole by (simp add: upt turn)
      have at: "argv_at m (argv + 8 * of_nat (Suc i)) args"
        using Cons.prems(1) by (simp add: algebra_simps)
      have IH: "unat c = unat ?c + length bs' \<and> bslice (unat ?c) (length bs') pl = bs' \<and>
          (if ex then argv_rest (with_memory m k) argv f else f) =
            (if trunc then VAR_FLAG_TRUNCATED else VAR_FLAG_NONE)"
      proof (rule Cons.IH [OF at _ _ len [symmetric] Cons.prems(5,6) loop])
        show "Suc i \<le> 8" using False Cons.prems(2) by simp
        show "unat ?c \<le> cap" using adv whole by linarith
        show "argv_spec (8 - Suc i) (cap - unat ?c) (map snd args) = (bs', trunc)"
          using rest unfolding adv by (simp only: diff_diff_left)
      qed
      have "take (unat ?c) pl = take (unat ?c) ?pl"
        using memory_env.argv_loop_bounds [OF loop _ len [symmetric] Cons.prems(5,6)] adv whole by linarith
      then have "bslice (unat cursor) (Suc (length s)) pl = bslice (unat cursor) (Suc (length s)) ?pl"
        by (rule bslice_take_cong) (simp only: adv)
      also have "\<dots> = s @ [0]"
        using whole Cons.prems(4) by (simp add: slice_blit_inside)
      finally have "bslice (unat cursor) (Suc (length s) + length bs') pl = (s @ [0]) @ bs'"
        using IH by (subst slice_append) (simp only: adv)
      with IH [unfolded adv] show ?thesis by (simp add: bs)
    qed
  qed
qed

lemma argv_copied:
  assumes "argv_at m argv args" and "argv \<noteq> 0" and "unat len < cap" and "cap = length payload"
    and "128 \<le> cap" and "cap \<le> 512"
    and "capture_argv (with_memory m k) i argv cap len payload = (d, n, pl)"
    and "argv_spec 8 (cap - unat len) (map snd args) = (bs, trunc)"
  shows "bslice (unat (vd_offset d)) (unat (vd_length d)) pl = bs \<and> unat n = unat len + length bs \<and>
    vd_flags d = (if trunc then VAR_FLAG_TRUNCATED else VAR_FLAG_NONE)"
proof -
  let ?start = "ucast len :: u32"
  obtain c f pl' ex where loop:
    "argv_loop (with_memory m k) argv cap [0..<8] ?start 0 payload = (c, f, pl', ex)"
    by (metis prod_cases4)
  have res: "unat c = unat len + length bs" "bslice (unat len) (length bs) pl' = bs"
    "(if ex then argv_rest (with_memory m k) argv f else f) =
      (if trunc then VAR_FLAG_TRUNCATED else VAR_FLAG_NONE)"
    using argv_loop_copies [of m argv 0 args ?start cap payload k c f pl' ex bs trunc] assms loop
    by simp_all
  have le: "unat c \<le> 512"
    using memory_env.argv_loop_bounds [OF loop] assms(3-6) by simp
  have start: "\<not> of_nat cap \<le> ?start"
    using assms(3,6) by (simp add: word_le_nat_alt unat_of_nat take_bit_nat_eq_self not_le)
  show ?thesis
  proof (cases "bs = []")
    case True
    then have "unat c = unat ?start" using res by simp
    then have "\<not> ?start < c" by (simp add: word_less_nat_alt)
    then show ?thesis
      using assms(2,7) loop start res True by (auto simp: capture_argv_def Let_def)
  next
    case False
    then have lt: "?start < c" using res by (simp add: word_less_nat_alt)
    have "unat (ucast c :: u16) = unat c" using le by (intro unat_ucast_small) simp
    moreover have "unat (ucast (c - ?start) :: u16) = length bs"
    proof -
      have "unat (c - ?start) = length bs" using lt res by (simp add: unat_sub word_le_nat_alt)
      then show ?thesis using le res by (simp add: unat_ucast_small)
    qed
    ultimately show ?thesis
      using assms(2,7) loop start res lt by (auto simp: capture_argv_def Let_def)
  qed
qed

end
