(* ===== verification/Execve.thy ===== *)
theory Execve
  imports Capture_Spec
begin

text \<open>
  The captures of \<^verbatim>\<open>internal/bpf/tracer.c\<close> that an execve makes when it enters the
  kernel, before its memory is replaced: \<open>append_execve_var_string\<close> and
  \<open>append_execve_var_argv\<close>, into the snapshot that the exit handler copies into
  the event.
\<close>

section \<open>The functions\<close>

definition store_snapshot_desc :: "var_arg_desc \<Rightarrow> execve_snapshot \<Rightarrow> execve_snapshot" where
  "store_snapshot_desc desc snap =
     snap\<lparr>sn_var_desc := (sn_var_desc snap)[unat (sn_var_count snap) := desc],
          sn_var_count := sn_var_count snap + 1\<rparr>"

definition append_execve_var_string :: "kenv \<Rightarrow> execve_snapshot \<Rightarrow> u8 \<Rightarrow> u64 \<Rightarrow> execve_snapshot" where
  "append_execve_var_string k snap arg_index ptr =
     (if of_nat MAX_EXECVE_STATE_VARS \<le> sn_var_count snap then snap
      else
        let desc = new_desc arg_index 0
        in if ptr = 0 then store_snapshot_desc (or_flag VAR_FLAG_NULL_POINTER desc) snap
           else
             let (copied, bs) = k_read_str k ptr MAX_EXECVE_ARG_STR;
                 snap = snap\<lparr>sn_payload := blit 0 bs (sn_payload snap)\<rparr>
             in if copied < 0 then store_snapshot_desc (or_flag VAR_FLAG_READ_ERROR desc) snap
                else
                  let copied = (if int MAX_EXECVE_ARG_STR < copied then int MAX_EXECVE_ARG_STR else copied);
                      desc = (if copied = int MAX_EXECVE_ARG_STR
                              then or_flag VAR_FLAG_TRUNCATED desc else desc)
                  in if 0 < copied
                     then let desc = desc\<lparr>vd_length := of_int (copied - 1)\<rparr>
                          in store_snapshot_desc desc (snap\<lparr>sn_payload_len := vd_length desc\<rparr>)
                     else store_snapshot_desc desc snap)"

definition append_execve_var_argv :: "kenv \<Rightarrow> execve_snapshot \<Rightarrow> u8 \<Rightarrow> u64 \<Rightarrow> execve_snapshot" where
  "append_execve_var_argv k snap arg_index argv =
     (if of_nat MAX_EXECVE_STATE_VARS \<le> sn_var_count snap then snap
      else
        let (desc, payload_len, payload) =
              capture_argv k arg_index argv MAX_EXECVE_STATE_PAYLOAD (sn_payload_len snap) (sn_payload snap)
        in store_snapshot_desc desc (snap\<lparr>sn_payload := payload, sn_payload_len := payload_len\<rparr>))"

section \<open>Well-formed snapshots\<close>

text \<open>
  The handler starts from an all-zero snapshot and appends the path, then the
  argument list: \<open>snap_ok n\<close> is the state with \<open>n\<close> descriptors stored.
\<close>

definition snap_ok :: "nat \<Rightarrow> execve_snapshot \<Rightarrow> bool" where
  "snap_ok n s \<longleftrightarrow>
     snapshot_shape s \<and> unat (sn_payload_len s) \<le> MAX_EXECVE_STATE_PAYLOAD \<and>
     unat (sn_var_count s) = n \<and> descs_ok (unat (sn_payload_len s)) n (sn_var_desc s)"

lemma snap_ok_zero [shape_intros]: "snap_ok 0 zero_snapshot"
  using snapshot_shape_zero by (simp add: snap_ok_def) (simp add: zero_snapshot_def)

lemma snapshot_full:
  "snap_ok 2 s \<Longrightarrow> append_execve_var_string k s i p = s"
  "snap_ok 2 s \<Longrightarrow> append_execve_var_argv k s i p = s"
  by (simp_all add: append_execve_var_string_def append_execve_var_argv_def snap_ok_def word_le_nat_alt)

lemma snap_ok_store:
  assumes "snapshot_shape s" and "unat (sn_payload_len s) \<le> 256" and "unat (sn_var_count s) = n" and "n < 2"
    and "descs_ok len n (sn_var_desc s)" and "len \<le> unat (sn_payload_len s)"
    and "desc_ok (unat (sn_payload_len s)) d"
  shows "snap_ok (Suc n) (store_snapshot_desc d s)"
proof -
  have "unat (sn_var_count s + 1) = Suc n" using assms(3,4) unat_inc by fastforce
  moreover have "descs_ok (unat (sn_payload_len s)) (Suc n) ((sn_var_desc s)[n := d])"
    using assms by (intro descs_ok_store) (auto simp: snapshot_shape_def)
  ultimately show ?thesis
    using assms by (simp add: snap_ok_def store_snapshot_desc_def snapshot_shape_def)
qed

text \<open>What descriptor \<open>i\<close> of a snapshot stands for.\<close>

definition snap_captured :: "execve_snapshot \<Rightarrow> nat \<Rightarrow> var_arg_desc \<times> u8 list" where
  "snap_captured s i =
     (let d = sn_var_desc s ! i
      in (d, bslice (unat (vd_offset d)) (unat (vd_length d)) (sn_payload s)))"

lemma argv_snapshot:
  assumes "capture_argv k i p 256 (sn_payload_len s) (sn_payload s) = (d, n, pl)" and "snap_ok 1 s"
  shows "append_execve_var_argv k s i p =
    store_snapshot_desc d (s\<lparr>sn_payload := pl, sn_payload_len := n\<rparr>)"
  using assms by (simp add: append_execve_var_argv_def snap_ok_def word_le_nat_alt)

context kernel_env
begin

lemma string_snapshot_ok:
  assumes "snap_ok 0 s"
  shows "snap_ok 1 (append_execve_var_string k s i p)"
proof -
  have s: "snapshot_shape s" "unat (sn_payload_len s) \<le> 256" "unat (sn_var_count s) = 0"
    using assms by (simp_all add: snap_ok_def)
  have vc: "\<not> 2 \<le> sn_var_count s" using s(3) by (simp add: word_le_nat_alt)
  obtain r bs where rd: "k_read_str k p 128 = (r, bs)" by force
  let ?s = "s\<lparr>sn_payload := blit 0 bs (sn_payload s)\<rparr>"
  have shape: "snapshot_shape ?s"
    using s(1) str_room [OF rd] by (simp add: snapshot_shape_def length_blit)
  consider (null) "p = 0" | (fault) "p \<noteq> 0" "r < 0" | (ok) "p \<noteq> 0" "0 \<le> r" by linarith
  then show ?thesis
  proof cases
    case null
    then have "append_execve_var_string k s i p =
        store_snapshot_desc (or_flag VAR_FLAG_NULL_POINTER (new_desc i 0)) s"
      using vc by (simp add: append_execve_var_string_def)
    then show ?thesis
      using snap_ok_store [of s 0 0 "or_flag VAR_FLAG_NULL_POINTER (new_desc i 0)"] s
      by (simp add: desc_ok_def)
  next
    case fault
    then have "append_execve_var_string k s i p =
        store_snapshot_desc (or_flag VAR_FLAG_READ_ERROR (new_desc i 0)) ?s"
      using vc rd by (simp add: append_execve_var_string_def)
    then show ?thesis
      using snap_ok_store [of ?s 0 0 "or_flag VAR_FLAG_READ_ERROR (new_desc i 0)"] s shape
      by (simp add: desc_ok_def)
  next
    case ok
    have r: "0 < r" "r \<le> 128" using str_bounds [OF rd ok(2)] by auto
    define d where "d = (if r = 128 then or_flag VAR_FLAG_TRUNCATED (new_desc i 0) else new_desc i 0)
      \<lparr>vd_length := of_int (r - 1)\<rparr>"
    have "unat (of_int (r - 1) :: u16) = nat (r - 1)"
      by (rule unat_of_int_small) (use r in simp_all)
    then have len: "unat (vd_length d) \<le> 256" "unat (vd_offset d) = 0"
      using r by (simp_all add: d_def del: of_int_diff)
    have "append_execve_var_string k s i p = store_snapshot_desc d (?s\<lparr>sn_payload_len := vd_length d\<rparr>)"
      using vc rd ok r by (simp add: append_execve_var_string_def d_def Let_def)
    then show ?thesis
      using snap_ok_store [of "?s\<lparr>sn_payload_len := vd_length d\<rparr>" 0 0 d] s shape len
      by (simp add: desc_ok_def desc_fits_def snapshot_shape_def)
  qed
qed

lemma argv_snapshot_ok:
  assumes "snap_ok 1 s"
  shows "snap_ok 2 (append_execve_var_argv k s i p)"
proof -
  obtain d n pl where cap: "capture_argv k i p 256 (sn_payload_len s) (sn_payload s) = (d, n, pl)"
    by (metis prod_cases3)
  have s: "unat (sn_payload_len s) \<le> 256" "256 = length (sn_payload s)"
    using assms by (simp_all add: snap_ok_def snapshot_shape_def)
  from capture_argv_bounds [OF cap s] have b: "unat (sn_payload_len s) \<le> unat n" "unat n \<le> 256"
      "desc_fits (unat n) d" "length pl = 256"
    by simp_all
  have "snap_ok (Suc 1) (store_snapshot_desc d (s\<lparr>sn_payload := pl, sn_payload_len := n\<rparr>))"
    by (rule snap_ok_store [where len = "unat (sn_payload_len s)"])
      (use assms b in \<open>simp_all add: snap_ok_def snapshot_shape_def desc_ok_def\<close>)
  then show ?thesis
    using argv_snapshot [OF cap assms] by (simp add: numeral_2_eq_2)
qed

end

section \<open>What a snapshot holds\<close>

lemma snapshot_string_copied:
  assumes "cstring_at m p s" and "p \<noteq> 0" and "snap_ok 0 sn"
  shows "\<exists>d. snap_captured (append_execve_var_string (with_memory m k) sn i p) 0 = (d, take 127 s) \<and>
    vd_arg_index d = i \<and> unat (vd_offset d) + unat (vd_length d) =
      unat (sn_payload_len (append_execve_var_string (with_memory m k) sn i p)) \<and>
    unat (sn_payload_len (append_execve_var_string (with_memory m k) sn i p)) = min (length s) 127 \<and>
    vd_flags d = (if 127 \<le> length s then VAR_FLAG_TRUNCATED else VAR_FLAG_NONE)"
proof -
  have sn: "unat (sn_var_count sn) = 0" "length (sn_var_desc sn) = 2" "length (sn_payload sn) = 256"
    using assms(3) by (simp_all add: snap_ok_def snapshot_shape_def)
  have vc: "\<not> 2 \<le> sn_var_count sn" using sn(1) by (simp add: word_le_nat_alt)
  define r where "r = int (min (length s) 127) + 1"
  define d where "d = (if r = 128 then or_flag VAR_FLAG_TRUNCATED (new_desc i 0) else new_desc i 0)
      \<lparr>vd_length := of_int (r - 1)\<rparr>"
  let ?e = "append_execve_var_string (with_memory m k) sn i p"
  have str: "mem_read_str m p 128 = (r, take 127 s @ [0])"
    using mem_read_str_cstring [OF assms(1), of 128] by (simp add: r_def)
  have e: "?e = store_snapshot_desc d
      (sn\<lparr>sn_payload := blit 0 (take 127 s @ [0]) (sn_payload sn), sn_payload_len := vd_length d\<rparr>)"
    using vc str assms(2) by (simp add: append_execve_var_string_def d_def Let_def r_def)
  have "unat (of_int (r - 1) :: u16) = nat (r - 1)"
    by (rule unat_of_int_small) (simp_all add: r_def)
  then have len: "unat (vd_length d) = min (length s) 127"
    by (simp add: d_def r_def del: of_int_diff)
  have "bslice 0 (min (length s) 127) (blit 0 (take 127 s @ [0]) (sn_payload sn)) = take 127 s"
    by (simp add: slice_blit_inside min_def)
  then have "snap_captured ?e 0 = (d, take 127 s)"
    using sn len by (simp add: e snap_captured_def store_snapshot_desc_def d_def)
  moreover have "vd_arg_index d = i" "unat (vd_offset d) = 0" by (simp_all add: d_def)
  moreover have "r = 128 \<longleftrightarrow> 127 \<le> length s" by (auto simp: r_def)
  then have "vd_flags d = (if 127 \<le> length s then VAR_FLAG_TRUNCATED else VAR_FLAG_NONE)"
    by (simp add: d_def)
  ultimately show ?thesis
    using len by (simp add: e store_snapshot_desc_def)
qed

lemma snapshot_argv_copied:
  assumes "argv_at m argv args" and "argv \<noteq> 0" and "snap_ok 1 sn" and "unat (sn_payload_len sn) < 256"
    and "argv_spec 8 (256 - unat (sn_payload_len sn)) (map snd args) = (bs, trunc)"
  shows "\<exists>d. snap_captured (append_execve_var_argv (with_memory m k) sn i argv) 1 = (d, bs) \<and>
    vd_arg_index d = i \<and> vd_flags d = (if trunc then VAR_FLAG_TRUNCATED else VAR_FLAG_NONE)"
    and "desc_fits (unat (sn_payload_len sn)) (sn_var_desc sn ! 0) \<Longrightarrow>
      snap_captured (append_execve_var_argv (with_memory m k) sn i argv) 0 = snap_captured sn 0"
proof -
  obtain d n pl where cap:
    "capture_argv (with_memory m k) i argv 256 (sn_payload_len sn) (sn_payload sn) = (d, n, pl)"
    by (metis prod_cases3)
  have sn: "unat (sn_var_count sn) = 1" "length (sn_var_desc sn) = 2" "256 = length (sn_payload sn)"
    using assms(3) by (simp_all add: snap_ok_def snapshot_shape_def)
  note copied = argv_copied [OF assms(1,2,4) sn(3) _ _ cap assms(5)]
  note bounds = memory_env.capture_argv_bounds [OF cap _ sn(3)]
  have "vd_arg_index d = i" using bounds assms(4) by simp
  with copied show "\<exists>d. snap_captured (append_execve_var_argv (with_memory m k) sn i argv) 1 = (d, bs) \<and>
    vd_arg_index d = i \<and> vd_flags d = (if trunc then VAR_FLAG_TRUNCATED else VAR_FLAG_NONE)"
    using sn by (simp add: argv_snapshot [OF cap assms(3)] snap_captured_def store_snapshot_desc_def Let_def)
  assume fits: "desc_fits (unat (sn_payload_len sn)) (sn_var_desc sn ! 0)"
  have "take (unat (sn_payload_len sn)) pl = take (unat (sn_payload_len sn)) (sn_payload sn)"
    using bounds assms(4) by simp
  then show "snap_captured (append_execve_var_argv (with_memory m k) sn i argv) 0 = snap_captured sn 0"
    using sn fits
    by (auto simp: argv_snapshot [OF cap assms(3)] snap_captured_def store_snapshot_desc_def Let_def
        desc_fits_def intro: bslice_take_cong)
qed

end
