(* ===== verification/Syscall_Numbers.thy ===== *)
theory Syscall_Numbers
  imports Types
begin

text \<open>
  The \<^verbatim>\<open>#define __NR_...\<close> block of \<^verbatim>\<open>internal/bpf/syscalls/x86_64.h\<close>. The C names
  begin with underscores, which an Isabelle name may not, so \<open>__NR_read\<close> is \<open>NR_read\<close>.
  They are macros, so they are abbreviations: a term holds the number.
\<close>

abbreviation (input) NR_read :: s64 where "NR_read \<equiv> 0"
abbreviation (input) NR_write :: s64 where "NR_write \<equiv> 1"
abbreviation (input) NR_open :: s64 where "NR_open \<equiv> 2"
abbreviation (input) NR_close :: s64 where "NR_close \<equiv> 3"
abbreviation (input) NR_newstat :: s64 where "NR_newstat \<equiv> 4"
abbreviation (input) NR_newfstat :: s64 where "NR_newfstat \<equiv> 5"
abbreviation (input) NR_newlstat :: s64 where "NR_newlstat \<equiv> 6"
abbreviation (input) NR_poll :: s64 where "NR_poll \<equiv> 7"
abbreviation (input) NR_lseek :: s64 where "NR_lseek \<equiv> 8"
abbreviation (input) NR_mmap :: s64 where "NR_mmap \<equiv> 9"
abbreviation (input) NR_mprotect :: s64 where "NR_mprotect \<equiv> 10"
abbreviation (input) NR_munmap :: s64 where "NR_munmap \<equiv> 11"
abbreviation (input) NR_brk :: s64 where "NR_brk \<equiv> 12"
abbreviation (input) NR_rt_sigaction :: s64 where "NR_rt_sigaction \<equiv> 13"
abbreviation (input) NR_rt_sigprocmask :: s64 where "NR_rt_sigprocmask \<equiv> 14"
abbreviation (input) NR_rt_sigreturn :: s64 where "NR_rt_sigreturn \<equiv> 15"
abbreviation (input) NR_ioctl :: s64 where "NR_ioctl \<equiv> 16"
abbreviation (input) NR_pread64 :: s64 where "NR_pread64 \<equiv> 17"
abbreviation (input) NR_pwrite64 :: s64 where "NR_pwrite64 \<equiv> 18"
abbreviation (input) NR_readv :: s64 where "NR_readv \<equiv> 19"
abbreviation (input) NR_writev :: s64 where "NR_writev \<equiv> 20"
abbreviation (input) NR_access :: s64 where "NR_access \<equiv> 21"
abbreviation (input) NR_pipe :: s64 where "NR_pipe \<equiv> 22"
abbreviation (input) NR_select :: s64 where "NR_select \<equiv> 23"
abbreviation (input) NR_sched_yield :: s64 where "NR_sched_yield \<equiv> 24"
abbreviation (input) NR_mremap :: s64 where "NR_mremap \<equiv> 25"
abbreviation (input) NR_msync :: s64 where "NR_msync \<equiv> 26"
abbreviation (input) NR_mincore :: s64 where "NR_mincore \<equiv> 27"
abbreviation (input) NR_madvise :: s64 where "NR_madvise \<equiv> 28"
abbreviation (input) NR_shmget :: s64 where "NR_shmget \<equiv> 29"
abbreviation (input) NR_shmat :: s64 where "NR_shmat \<equiv> 30"
abbreviation (input) NR_shmctl :: s64 where "NR_shmctl \<equiv> 31"
abbreviation (input) NR_dup :: s64 where "NR_dup \<equiv> 32"
abbreviation (input) NR_dup2 :: s64 where "NR_dup2 \<equiv> 33"
abbreviation (input) NR_pause :: s64 where "NR_pause \<equiv> 34"
abbreviation (input) NR_nanosleep :: s64 where "NR_nanosleep \<equiv> 35"
abbreviation (input) NR_getitimer :: s64 where "NR_getitimer \<equiv> 36"
abbreviation (input) NR_alarm :: s64 where "NR_alarm \<equiv> 37"
abbreviation (input) NR_setitimer :: s64 where "NR_setitimer \<equiv> 38"
abbreviation (input) NR_getpid :: s64 where "NR_getpid \<equiv> 39"
abbreviation (input) NR_sendfile64 :: s64 where "NR_sendfile64 \<equiv> 40"
abbreviation (input) NR_socket :: s64 where "NR_socket \<equiv> 41"
abbreviation (input) NR_connect :: s64 where "NR_connect \<equiv> 42"
abbreviation (input) NR_accept :: s64 where "NR_accept \<equiv> 43"
abbreviation (input) NR_sendto :: s64 where "NR_sendto \<equiv> 44"
abbreviation (input) NR_recvfrom :: s64 where "NR_recvfrom \<equiv> 45"
abbreviation (input) NR_sendmsg :: s64 where "NR_sendmsg \<equiv> 46"
abbreviation (input) NR_recvmsg :: s64 where "NR_recvmsg \<equiv> 47"
abbreviation (input) NR_shutdown :: s64 where "NR_shutdown \<equiv> 48"
abbreviation (input) NR_bind :: s64 where "NR_bind \<equiv> 49"
abbreviation (input) NR_listen :: s64 where "NR_listen \<equiv> 50"
abbreviation (input) NR_getsockname :: s64 where "NR_getsockname \<equiv> 51"
abbreviation (input) NR_getpeername :: s64 where "NR_getpeername \<equiv> 52"
abbreviation (input) NR_socketpair :: s64 where "NR_socketpair \<equiv> 53"
abbreviation (input) NR_setsockopt :: s64 where "NR_setsockopt \<equiv> 54"
abbreviation (input) NR_getsockopt :: s64 where "NR_getsockopt \<equiv> 55"
abbreviation (input) NR_clone :: s64 where "NR_clone \<equiv> 56"
abbreviation (input) NR_fork :: s64 where "NR_fork \<equiv> 57"
abbreviation (input) NR_vfork :: s64 where "NR_vfork \<equiv> 58"
abbreviation (input) NR_execve :: s64 where "NR_execve \<equiv> 59"
abbreviation (input) NR_exit :: s64 where "NR_exit \<equiv> 60"
abbreviation (input) NR_wait4 :: s64 where "NR_wait4 \<equiv> 61"
abbreviation (input) NR_kill :: s64 where "NR_kill \<equiv> 62"
abbreviation (input) NR_newuname :: s64 where "NR_newuname \<equiv> 63"
abbreviation (input) NR_semget :: s64 where "NR_semget \<equiv> 64"
abbreviation (input) NR_semop :: s64 where "NR_semop \<equiv> 65"
abbreviation (input) NR_semctl :: s64 where "NR_semctl \<equiv> 66"
abbreviation (input) NR_shmdt :: s64 where "NR_shmdt \<equiv> 67"
abbreviation (input) NR_msgget :: s64 where "NR_msgget \<equiv> 68"
abbreviation (input) NR_msgsnd :: s64 where "NR_msgsnd \<equiv> 69"
abbreviation (input) NR_msgrcv :: s64 where "NR_msgrcv \<equiv> 70"
abbreviation (input) NR_msgctl :: s64 where "NR_msgctl \<equiv> 71"
abbreviation (input) NR_fcntl :: s64 where "NR_fcntl \<equiv> 72"
abbreviation (input) NR_flock :: s64 where "NR_flock \<equiv> 73"
abbreviation (input) NR_fsync :: s64 where "NR_fsync \<equiv> 74"
abbreviation (input) NR_fdatasync :: s64 where "NR_fdatasync \<equiv> 75"
abbreviation (input) NR_truncate :: s64 where "NR_truncate \<equiv> 76"
abbreviation (input) NR_ftruncate :: s64 where "NR_ftruncate \<equiv> 77"
abbreviation (input) NR_getdents :: s64 where "NR_getdents \<equiv> 78"
abbreviation (input) NR_getcwd :: s64 where "NR_getcwd \<equiv> 79"
abbreviation (input) NR_chdir :: s64 where "NR_chdir \<equiv> 80"
abbreviation (input) NR_fchdir :: s64 where "NR_fchdir \<equiv> 81"
abbreviation (input) NR_rename :: s64 where "NR_rename \<equiv> 82"
abbreviation (input) NR_mkdir :: s64 where "NR_mkdir \<equiv> 83"
abbreviation (input) NR_rmdir :: s64 where "NR_rmdir \<equiv> 84"
abbreviation (input) NR_creat :: s64 where "NR_creat \<equiv> 85"
abbreviation (input) NR_link :: s64 where "NR_link \<equiv> 86"
abbreviation (input) NR_unlink :: s64 where "NR_unlink \<equiv> 87"
abbreviation (input) NR_symlink :: s64 where "NR_symlink \<equiv> 88"
abbreviation (input) NR_readlink :: s64 where "NR_readlink \<equiv> 89"
abbreviation (input) NR_chmod :: s64 where "NR_chmod \<equiv> 90"
abbreviation (input) NR_fchmod :: s64 where "NR_fchmod \<equiv> 91"
abbreviation (input) NR_chown :: s64 where "NR_chown \<equiv> 92"
abbreviation (input) NR_fchown :: s64 where "NR_fchown \<equiv> 93"
abbreviation (input) NR_lchown :: s64 where "NR_lchown \<equiv> 94"
abbreviation (input) NR_umask :: s64 where "NR_umask \<equiv> 95"
abbreviation (input) NR_gettimeofday :: s64 where "NR_gettimeofday \<equiv> 96"
abbreviation (input) NR_getrlimit :: s64 where "NR_getrlimit \<equiv> 97"
abbreviation (input) NR_getrusage :: s64 where "NR_getrusage \<equiv> 98"
abbreviation (input) NR_sysinfo :: s64 where "NR_sysinfo \<equiv> 99"
abbreviation (input) NR_times :: s64 where "NR_times \<equiv> 100"
abbreviation (input) NR_ptrace :: s64 where "NR_ptrace \<equiv> 101"
abbreviation (input) NR_getuid :: s64 where "NR_getuid \<equiv> 102"
abbreviation (input) NR_syslog :: s64 where "NR_syslog \<equiv> 103"
abbreviation (input) NR_getgid :: s64 where "NR_getgid \<equiv> 104"
abbreviation (input) NR_setuid :: s64 where "NR_setuid \<equiv> 105"
abbreviation (input) NR_setgid :: s64 where "NR_setgid \<equiv> 106"
abbreviation (input) NR_geteuid :: s64 where "NR_geteuid \<equiv> 107"
abbreviation (input) NR_getegid :: s64 where "NR_getegid \<equiv> 108"
abbreviation (input) NR_setpgid :: s64 where "NR_setpgid \<equiv> 109"
abbreviation (input) NR_getppid :: s64 where "NR_getppid \<equiv> 110"
abbreviation (input) NR_getpgrp :: s64 where "NR_getpgrp \<equiv> 111"
abbreviation (input) NR_setsid :: s64 where "NR_setsid \<equiv> 112"
abbreviation (input) NR_setreuid :: s64 where "NR_setreuid \<equiv> 113"
abbreviation (input) NR_setregid :: s64 where "NR_setregid \<equiv> 114"
abbreviation (input) NR_getgroups :: s64 where "NR_getgroups \<equiv> 115"
abbreviation (input) NR_setgroups :: s64 where "NR_setgroups \<equiv> 116"
abbreviation (input) NR_setresuid :: s64 where "NR_setresuid \<equiv> 117"
abbreviation (input) NR_getresuid :: s64 where "NR_getresuid \<equiv> 118"
abbreviation (input) NR_setresgid :: s64 where "NR_setresgid \<equiv> 119"
abbreviation (input) NR_getresgid :: s64 where "NR_getresgid \<equiv> 120"
abbreviation (input) NR_getpgid :: s64 where "NR_getpgid \<equiv> 121"
abbreviation (input) NR_setfsuid :: s64 where "NR_setfsuid \<equiv> 122"
abbreviation (input) NR_setfsgid :: s64 where "NR_setfsgid \<equiv> 123"
abbreviation (input) NR_getsid :: s64 where "NR_getsid \<equiv> 124"
abbreviation (input) NR_capget :: s64 where "NR_capget \<equiv> 125"
abbreviation (input) NR_capset :: s64 where "NR_capset \<equiv> 126"
abbreviation (input) NR_rt_sigpending :: s64 where "NR_rt_sigpending \<equiv> 127"
abbreviation (input) NR_rt_sigtimedwait :: s64 where "NR_rt_sigtimedwait \<equiv> 128"
abbreviation (input) NR_rt_sigqueueinfo :: s64 where "NR_rt_sigqueueinfo \<equiv> 129"
abbreviation (input) NR_rt_sigsuspend :: s64 where "NR_rt_sigsuspend \<equiv> 130"
abbreviation (input) NR_sigaltstack :: s64 where "NR_sigaltstack \<equiv> 131"
abbreviation (input) NR_utime :: s64 where "NR_utime \<equiv> 132"
abbreviation (input) NR_mknod :: s64 where "NR_mknod \<equiv> 133"
abbreviation (input) NR_personality :: s64 where "NR_personality \<equiv> 135"
abbreviation (input) NR_ustat :: s64 where "NR_ustat \<equiv> 136"
abbreviation (input) NR_statfs :: s64 where "NR_statfs \<equiv> 137"
abbreviation (input) NR_fstatfs :: s64 where "NR_fstatfs \<equiv> 138"
abbreviation (input) NR_sysfs :: s64 where "NR_sysfs \<equiv> 139"
abbreviation (input) NR_getpriority :: s64 where "NR_getpriority \<equiv> 140"
abbreviation (input) NR_setpriority :: s64 where "NR_setpriority \<equiv> 141"
abbreviation (input) NR_sched_setparam :: s64 where "NR_sched_setparam \<equiv> 142"
abbreviation (input) NR_sched_getparam :: s64 where "NR_sched_getparam \<equiv> 143"
abbreviation (input) NR_sched_setscheduler :: s64 where "NR_sched_setscheduler \<equiv> 144"
abbreviation (input) NR_sched_getscheduler :: s64 where "NR_sched_getscheduler \<equiv> 145"
abbreviation (input) NR_sched_get_priority_max :: s64 where "NR_sched_get_priority_max \<equiv> 146"
abbreviation (input) NR_sched_get_priority_min :: s64 where "NR_sched_get_priority_min \<equiv> 147"
abbreviation (input) NR_sched_rr_get_interval :: s64 where "NR_sched_rr_get_interval \<equiv> 148"
abbreviation (input) NR_mlock :: s64 where "NR_mlock \<equiv> 149"
abbreviation (input) NR_munlock :: s64 where "NR_munlock \<equiv> 150"
abbreviation (input) NR_mlockall :: s64 where "NR_mlockall \<equiv> 151"
abbreviation (input) NR_munlockall :: s64 where "NR_munlockall \<equiv> 152"
abbreviation (input) NR_vhangup :: s64 where "NR_vhangup \<equiv> 153"
abbreviation (input) NR_modify_ldt :: s64 where "NR_modify_ldt \<equiv> 154"
abbreviation (input) NR_pivot_root :: s64 where "NR_pivot_root \<equiv> 155"
abbreviation (input) NR_prctl :: s64 where "NR_prctl \<equiv> 157"
abbreviation (input) NR_arch_prctl :: s64 where "NR_arch_prctl \<equiv> 158"
abbreviation (input) NR_adjtimex :: s64 where "NR_adjtimex \<equiv> 159"
abbreviation (input) NR_setrlimit :: s64 where "NR_setrlimit \<equiv> 160"
abbreviation (input) NR_chroot :: s64 where "NR_chroot \<equiv> 161"
abbreviation (input) NR_sync :: s64 where "NR_sync \<equiv> 162"
abbreviation (input) NR_acct :: s64 where "NR_acct \<equiv> 163"
abbreviation (input) NR_settimeofday :: s64 where "NR_settimeofday \<equiv> 164"
abbreviation (input) NR_mount :: s64 where "NR_mount \<equiv> 165"
abbreviation (input) NR_umount :: s64 where "NR_umount \<equiv> 166"
abbreviation (input) NR_swapon :: s64 where "NR_swapon \<equiv> 167"
abbreviation (input) NR_swapoff :: s64 where "NR_swapoff \<equiv> 168"
abbreviation (input) NR_reboot :: s64 where "NR_reboot \<equiv> 169"
abbreviation (input) NR_sethostname :: s64 where "NR_sethostname \<equiv> 170"
abbreviation (input) NR_setdomainname :: s64 where "NR_setdomainname \<equiv> 171"
abbreviation (input) NR_iopl :: s64 where "NR_iopl \<equiv> 172"
abbreviation (input) NR_ioperm :: s64 where "NR_ioperm \<equiv> 173"
abbreviation (input) NR_init_module :: s64 where "NR_init_module \<equiv> 175"
abbreviation (input) NR_delete_module :: s64 where "NR_delete_module \<equiv> 176"
abbreviation (input) NR_quotactl :: s64 where "NR_quotactl \<equiv> 179"
abbreviation (input) NR_gettid :: s64 where "NR_gettid \<equiv> 186"
abbreviation (input) NR_readahead :: s64 where "NR_readahead \<equiv> 187"
abbreviation (input) NR_setxattr :: s64 where "NR_setxattr \<equiv> 188"
abbreviation (input) NR_lsetxattr :: s64 where "NR_lsetxattr \<equiv> 189"
abbreviation (input) NR_fsetxattr :: s64 where "NR_fsetxattr \<equiv> 190"
abbreviation (input) NR_getxattr :: s64 where "NR_getxattr \<equiv> 191"
abbreviation (input) NR_lgetxattr :: s64 where "NR_lgetxattr \<equiv> 192"
abbreviation (input) NR_fgetxattr :: s64 where "NR_fgetxattr \<equiv> 193"
abbreviation (input) NR_listxattr :: s64 where "NR_listxattr \<equiv> 194"
abbreviation (input) NR_llistxattr :: s64 where "NR_llistxattr \<equiv> 195"
abbreviation (input) NR_flistxattr :: s64 where "NR_flistxattr \<equiv> 196"
abbreviation (input) NR_removexattr :: s64 where "NR_removexattr \<equiv> 197"
abbreviation (input) NR_lremovexattr :: s64 where "NR_lremovexattr \<equiv> 198"
abbreviation (input) NR_fremovexattr :: s64 where "NR_fremovexattr \<equiv> 199"
abbreviation (input) NR_tkill :: s64 where "NR_tkill \<equiv> 200"
abbreviation (input) NR_time :: s64 where "NR_time \<equiv> 201"
abbreviation (input) NR_futex :: s64 where "NR_futex \<equiv> 202"
abbreviation (input) NR_sched_setaffinity :: s64 where "NR_sched_setaffinity \<equiv> 203"
abbreviation (input) NR_sched_getaffinity :: s64 where "NR_sched_getaffinity \<equiv> 204"
abbreviation (input) NR_io_setup :: s64 where "NR_io_setup \<equiv> 206"
abbreviation (input) NR_io_destroy :: s64 where "NR_io_destroy \<equiv> 207"
abbreviation (input) NR_io_getevents :: s64 where "NR_io_getevents \<equiv> 208"
abbreviation (input) NR_io_submit :: s64 where "NR_io_submit \<equiv> 209"
abbreviation (input) NR_io_cancel :: s64 where "NR_io_cancel \<equiv> 210"
abbreviation (input) NR_epoll_create :: s64 where "NR_epoll_create \<equiv> 213"
abbreviation (input) NR_remap_file_pages :: s64 where "NR_remap_file_pages \<equiv> 216"
abbreviation (input) NR_getdents64 :: s64 where "NR_getdents64 \<equiv> 217"
abbreviation (input) NR_set_tid_address :: s64 where "NR_set_tid_address \<equiv> 218"
abbreviation (input) NR_restart_syscall :: s64 where "NR_restart_syscall \<equiv> 219"
abbreviation (input) NR_semtimedop :: s64 where "NR_semtimedop \<equiv> 220"
abbreviation (input) NR_fadvise64 :: s64 where "NR_fadvise64 \<equiv> 221"
abbreviation (input) NR_timer_create :: s64 where "NR_timer_create \<equiv> 222"
abbreviation (input) NR_timer_settime :: s64 where "NR_timer_settime \<equiv> 223"
abbreviation (input) NR_timer_gettime :: s64 where "NR_timer_gettime \<equiv> 224"
abbreviation (input) NR_timer_getoverrun :: s64 where "NR_timer_getoverrun \<equiv> 225"
abbreviation (input) NR_timer_delete :: s64 where "NR_timer_delete \<equiv> 226"
abbreviation (input) NR_clock_settime :: s64 where "NR_clock_settime \<equiv> 227"
abbreviation (input) NR_clock_gettime :: s64 where "NR_clock_gettime \<equiv> 228"
abbreviation (input) NR_clock_getres :: s64 where "NR_clock_getres \<equiv> 229"
abbreviation (input) NR_clock_nanosleep :: s64 where "NR_clock_nanosleep \<equiv> 230"
abbreviation (input) NR_exit_group :: s64 where "NR_exit_group \<equiv> 231"
abbreviation (input) NR_epoll_wait :: s64 where "NR_epoll_wait \<equiv> 232"
abbreviation (input) NR_epoll_ctl :: s64 where "NR_epoll_ctl \<equiv> 233"
abbreviation (input) NR_tgkill :: s64 where "NR_tgkill \<equiv> 234"
abbreviation (input) NR_utimes :: s64 where "NR_utimes \<equiv> 235"
abbreviation (input) NR_mbind :: s64 where "NR_mbind \<equiv> 237"
abbreviation (input) NR_set_mempolicy :: s64 where "NR_set_mempolicy \<equiv> 238"
abbreviation (input) NR_get_mempolicy :: s64 where "NR_get_mempolicy \<equiv> 239"
abbreviation (input) NR_mq_open :: s64 where "NR_mq_open \<equiv> 240"
abbreviation (input) NR_mq_unlink :: s64 where "NR_mq_unlink \<equiv> 241"
abbreviation (input) NR_mq_timedsend :: s64 where "NR_mq_timedsend \<equiv> 242"
abbreviation (input) NR_mq_timedreceive :: s64 where "NR_mq_timedreceive \<equiv> 243"
abbreviation (input) NR_mq_notify :: s64 where "NR_mq_notify \<equiv> 244"
abbreviation (input) NR_mq_getsetattr :: s64 where "NR_mq_getsetattr \<equiv> 245"
abbreviation (input) NR_kexec_load :: s64 where "NR_kexec_load \<equiv> 246"
abbreviation (input) NR_waitid :: s64 where "NR_waitid \<equiv> 247"
abbreviation (input) NR_add_key :: s64 where "NR_add_key \<equiv> 248"
abbreviation (input) NR_request_key :: s64 where "NR_request_key \<equiv> 249"
abbreviation (input) NR_keyctl :: s64 where "NR_keyctl \<equiv> 250"
abbreviation (input) NR_ioprio_set :: s64 where "NR_ioprio_set \<equiv> 251"
abbreviation (input) NR_ioprio_get :: s64 where "NR_ioprio_get \<equiv> 252"
abbreviation (input) NR_inotify_init :: s64 where "NR_inotify_init \<equiv> 253"
abbreviation (input) NR_inotify_add_watch :: s64 where "NR_inotify_add_watch \<equiv> 254"
abbreviation (input) NR_inotify_rm_watch :: s64 where "NR_inotify_rm_watch \<equiv> 255"
abbreviation (input) NR_migrate_pages :: s64 where "NR_migrate_pages \<equiv> 256"
abbreviation (input) NR_openat :: s64 where "NR_openat \<equiv> 257"
abbreviation (input) NR_mkdirat :: s64 where "NR_mkdirat \<equiv> 258"
abbreviation (input) NR_mknodat :: s64 where "NR_mknodat \<equiv> 259"
abbreviation (input) NR_fchownat :: s64 where "NR_fchownat \<equiv> 260"
abbreviation (input) NR_futimesat :: s64 where "NR_futimesat \<equiv> 261"
abbreviation (input) NR_newfstatat :: s64 where "NR_newfstatat \<equiv> 262"
abbreviation (input) NR_unlinkat :: s64 where "NR_unlinkat \<equiv> 263"
abbreviation (input) NR_renameat :: s64 where "NR_renameat \<equiv> 264"
abbreviation (input) NR_linkat :: s64 where "NR_linkat \<equiv> 265"
abbreviation (input) NR_symlinkat :: s64 where "NR_symlinkat \<equiv> 266"
abbreviation (input) NR_readlinkat :: s64 where "NR_readlinkat \<equiv> 267"
abbreviation (input) NR_fchmodat :: s64 where "NR_fchmodat \<equiv> 268"
abbreviation (input) NR_faccessat :: s64 where "NR_faccessat \<equiv> 269"
abbreviation (input) NR_pselect6 :: s64 where "NR_pselect6 \<equiv> 270"
abbreviation (input) NR_ppoll :: s64 where "NR_ppoll \<equiv> 271"
abbreviation (input) NR_unshare :: s64 where "NR_unshare \<equiv> 272"
abbreviation (input) NR_set_robust_list :: s64 where "NR_set_robust_list \<equiv> 273"
abbreviation (input) NR_get_robust_list :: s64 where "NR_get_robust_list \<equiv> 274"
abbreviation (input) NR_splice :: s64 where "NR_splice \<equiv> 275"
abbreviation (input) NR_tee :: s64 where "NR_tee \<equiv> 276"
abbreviation (input) NR_sync_file_range :: s64 where "NR_sync_file_range \<equiv> 277"
abbreviation (input) NR_vmsplice :: s64 where "NR_vmsplice \<equiv> 278"
abbreviation (input) NR_move_pages :: s64 where "NR_move_pages \<equiv> 279"
abbreviation (input) NR_utimensat :: s64 where "NR_utimensat \<equiv> 280"
abbreviation (input) NR_epoll_pwait :: s64 where "NR_epoll_pwait \<equiv> 281"
abbreviation (input) NR_signalfd :: s64 where "NR_signalfd \<equiv> 282"
abbreviation (input) NR_timerfd_create :: s64 where "NR_timerfd_create \<equiv> 283"
abbreviation (input) NR_eventfd :: s64 where "NR_eventfd \<equiv> 284"
abbreviation (input) NR_fallocate :: s64 where "NR_fallocate \<equiv> 285"
abbreviation (input) NR_timerfd_settime :: s64 where "NR_timerfd_settime \<equiv> 286"
abbreviation (input) NR_timerfd_gettime :: s64 where "NR_timerfd_gettime \<equiv> 287"
abbreviation (input) NR_accept4 :: s64 where "NR_accept4 \<equiv> 288"
abbreviation (input) NR_signalfd4 :: s64 where "NR_signalfd4 \<equiv> 289"
abbreviation (input) NR_eventfd2 :: s64 where "NR_eventfd2 \<equiv> 290"
abbreviation (input) NR_epoll_create1 :: s64 where "NR_epoll_create1 \<equiv> 291"
abbreviation (input) NR_dup3 :: s64 where "NR_dup3 \<equiv> 292"
abbreviation (input) NR_pipe2 :: s64 where "NR_pipe2 \<equiv> 293"
abbreviation (input) NR_inotify_init1 :: s64 where "NR_inotify_init1 \<equiv> 294"
abbreviation (input) NR_preadv :: s64 where "NR_preadv \<equiv> 295"
abbreviation (input) NR_pwritev :: s64 where "NR_pwritev \<equiv> 296"
abbreviation (input) NR_rt_tgsigqueueinfo :: s64 where "NR_rt_tgsigqueueinfo \<equiv> 297"
abbreviation (input) NR_perf_event_open :: s64 where "NR_perf_event_open \<equiv> 298"
abbreviation (input) NR_recvmmsg :: s64 where "NR_recvmmsg \<equiv> 299"
abbreviation (input) NR_fanotify_init :: s64 where "NR_fanotify_init \<equiv> 300"
abbreviation (input) NR_fanotify_mark :: s64 where "NR_fanotify_mark \<equiv> 301"
abbreviation (input) NR_prlimit64 :: s64 where "NR_prlimit64 \<equiv> 302"
abbreviation (input) NR_name_to_handle_at :: s64 where "NR_name_to_handle_at \<equiv> 303"
abbreviation (input) NR_open_by_handle_at :: s64 where "NR_open_by_handle_at \<equiv> 304"
abbreviation (input) NR_clock_adjtime :: s64 where "NR_clock_adjtime \<equiv> 305"
abbreviation (input) NR_syncfs :: s64 where "NR_syncfs \<equiv> 306"
abbreviation (input) NR_sendmmsg :: s64 where "NR_sendmmsg \<equiv> 307"
abbreviation (input) NR_setns :: s64 where "NR_setns \<equiv> 308"
abbreviation (input) NR_getcpu :: s64 where "NR_getcpu \<equiv> 309"
abbreviation (input) NR_process_vm_readv :: s64 where "NR_process_vm_readv \<equiv> 310"
abbreviation (input) NR_process_vm_writev :: s64 where "NR_process_vm_writev \<equiv> 311"
abbreviation (input) NR_kcmp :: s64 where "NR_kcmp \<equiv> 312"
abbreviation (input) NR_finit_module :: s64 where "NR_finit_module \<equiv> 313"
abbreviation (input) NR_sched_setattr :: s64 where "NR_sched_setattr \<equiv> 314"
abbreviation (input) NR_sched_getattr :: s64 where "NR_sched_getattr \<equiv> 315"
abbreviation (input) NR_renameat2 :: s64 where "NR_renameat2 \<equiv> 316"
abbreviation (input) NR_seccomp :: s64 where "NR_seccomp \<equiv> 317"
abbreviation (input) NR_getrandom :: s64 where "NR_getrandom \<equiv> 318"
abbreviation (input) NR_memfd_create :: s64 where "NR_memfd_create \<equiv> 319"
abbreviation (input) NR_kexec_file_load :: s64 where "NR_kexec_file_load \<equiv> 320"
abbreviation (input) NR_bpf :: s64 where "NR_bpf \<equiv> 321"
abbreviation (input) NR_execveat :: s64 where "NR_execveat \<equiv> 322"
abbreviation (input) NR_userfaultfd :: s64 where "NR_userfaultfd \<equiv> 323"
abbreviation (input) NR_membarrier :: s64 where "NR_membarrier \<equiv> 324"
abbreviation (input) NR_mlock2 :: s64 where "NR_mlock2 \<equiv> 325"
abbreviation (input) NR_copy_file_range :: s64 where "NR_copy_file_range \<equiv> 326"
abbreviation (input) NR_preadv2 :: s64 where "NR_preadv2 \<equiv> 327"
abbreviation (input) NR_pwritev2 :: s64 where "NR_pwritev2 \<equiv> 328"
abbreviation (input) NR_pkey_mprotect :: s64 where "NR_pkey_mprotect \<equiv> 329"
abbreviation (input) NR_pkey_alloc :: s64 where "NR_pkey_alloc \<equiv> 330"
abbreviation (input) NR_pkey_free :: s64 where "NR_pkey_free \<equiv> 331"
abbreviation (input) NR_statx :: s64 where "NR_statx \<equiv> 332"
abbreviation (input) NR_io_pgetevents :: s64 where "NR_io_pgetevents \<equiv> 333"
abbreviation (input) NR_rseq :: s64 where "NR_rseq \<equiv> 334"
abbreviation (input) NR_uretprobe :: s64 where "NR_uretprobe \<equiv> 335"
abbreviation (input) NR_pidfd_send_signal :: s64 where "NR_pidfd_send_signal \<equiv> 424"
abbreviation (input) NR_io_uring_setup :: s64 where "NR_io_uring_setup \<equiv> 425"
abbreviation (input) NR_io_uring_enter :: s64 where "NR_io_uring_enter \<equiv> 426"
abbreviation (input) NR_io_uring_register :: s64 where "NR_io_uring_register \<equiv> 427"
abbreviation (input) NR_open_tree :: s64 where "NR_open_tree \<equiv> 428"
abbreviation (input) NR_move_mount :: s64 where "NR_move_mount \<equiv> 429"
abbreviation (input) NR_fsopen :: s64 where "NR_fsopen \<equiv> 430"
abbreviation (input) NR_fsconfig :: s64 where "NR_fsconfig \<equiv> 431"
abbreviation (input) NR_fsmount :: s64 where "NR_fsmount \<equiv> 432"
abbreviation (input) NR_fspick :: s64 where "NR_fspick \<equiv> 433"
abbreviation (input) NR_pidfd_open :: s64 where "NR_pidfd_open \<equiv> 434"
abbreviation (input) NR_clone3 :: s64 where "NR_clone3 \<equiv> 435"
abbreviation (input) NR_close_range :: s64 where "NR_close_range \<equiv> 436"
abbreviation (input) NR_openat2 :: s64 where "NR_openat2 \<equiv> 437"
abbreviation (input) NR_pidfd_getfd :: s64 where "NR_pidfd_getfd \<equiv> 438"
abbreviation (input) NR_faccessat2 :: s64 where "NR_faccessat2 \<equiv> 439"
abbreviation (input) NR_process_madvise :: s64 where "NR_process_madvise \<equiv> 440"
abbreviation (input) NR_epoll_pwait2 :: s64 where "NR_epoll_pwait2 \<equiv> 441"
abbreviation (input) NR_mount_setattr :: s64 where "NR_mount_setattr \<equiv> 442"
abbreviation (input) NR_quotactl_fd :: s64 where "NR_quotactl_fd \<equiv> 443"
abbreviation (input) NR_landlock_create_ruleset :: s64 where "NR_landlock_create_ruleset \<equiv> 444"
abbreviation (input) NR_landlock_add_rule :: s64 where "NR_landlock_add_rule \<equiv> 445"
abbreviation (input) NR_landlock_restrict_self :: s64 where "NR_landlock_restrict_self \<equiv> 446"
abbreviation (input) NR_memfd_secret :: s64 where "NR_memfd_secret \<equiv> 447"
abbreviation (input) NR_process_mrelease :: s64 where "NR_process_mrelease \<equiv> 448"
abbreviation (input) NR_futex_waitv :: s64 where "NR_futex_waitv \<equiv> 449"
abbreviation (input) NR_set_mempolicy_home_node :: s64 where "NR_set_mempolicy_home_node \<equiv> 450"
abbreviation (input) NR_cachestat :: s64 where "NR_cachestat \<equiv> 451"
abbreviation (input) NR_fchmodat2 :: s64 where "NR_fchmodat2 \<equiv> 452"
abbreviation (input) NR_map_shadow_stack :: s64 where "NR_map_shadow_stack \<equiv> 453"
abbreviation (input) NR_futex_wake :: s64 where "NR_futex_wake \<equiv> 454"
abbreviation (input) NR_futex_wait :: s64 where "NR_futex_wait \<equiv> 455"
abbreviation (input) NR_futex_requeue :: s64 where "NR_futex_requeue \<equiv> 456"
abbreviation (input) NR_statmount :: s64 where "NR_statmount \<equiv> 457"
abbreviation (input) NR_listmount :: s64 where "NR_listmount \<equiv> 458"
abbreviation (input) NR_lsm_get_self_attr :: s64 where "NR_lsm_get_self_attr \<equiv> 459"
abbreviation (input) NR_lsm_set_self_attr :: s64 where "NR_lsm_set_self_attr \<equiv> 460"
abbreviation (input) NR_lsm_list_modules :: s64 where "NR_lsm_list_modules \<equiv> 461"
abbreviation (input) NR_mseal :: s64 where "NR_mseal \<equiv> 462"
abbreviation (input) NR_setxattrat :: s64 where "NR_setxattrat \<equiv> 463"
abbreviation (input) NR_getxattrat :: s64 where "NR_getxattrat \<equiv> 464"
abbreviation (input) NR_listxattrat :: s64 where "NR_listxattrat \<equiv> 465"
abbreviation (input) NR_removexattrat :: s64 where "NR_removexattrat \<equiv> 466"
abbreviation (input) NR_open_tree_attr :: s64 where "NR_open_tree_attr \<equiv> 467"
abbreviation (input) NR_file_getattr :: s64 where "NR_file_getattr \<equiv> 468"
abbreviation (input) NR_file_setattr :: s64 where "NR_file_setattr \<equiv> 469"

end
