(* ===== verification/Schema_Table.thy ===== *)
theory Schema_Table
  imports Syscall_Numbers
begin

text \<open>
  The array \<open>syscall_schemas[]\<close> of \<^verbatim>\<open>internal/bpf/syscalls/x86_64.h\<close>, row by row, in
  blocks of thirty rows.
\<close>

definition syscall_schemas_00 :: "syscall_arg_schema list" where
  "syscall_schemas_00 =
   [\<lparr>sc_syscall_id = NR_read, sc_arg_count = 3, sc_arg_types = [ARG_FD, VAR_ARG_BYTES, ARG_UINT, ARG_NONE, ARG_NONE, ARG_NONE]\<rparr>,
    \<lparr>sc_syscall_id = NR_write, sc_arg_count = 3, sc_arg_types = [ARG_FD, VAR_ARG_BYTES, ARG_UINT, ARG_NONE, ARG_NONE, ARG_NONE]\<rparr>,
    \<lparr>sc_syscall_id = NR_open, sc_arg_count = 3, sc_arg_types = [VAR_ARG_STRING, ARG_FLAGS, ARG_MODE, ARG_NONE, ARG_NONE, ARG_NONE]\<rparr>,
    \<lparr>sc_syscall_id = NR_close, sc_arg_count = 1, sc_arg_types = [ARG_FD, ARG_NONE, ARG_NONE, ARG_NONE, ARG_NONE, ARG_NONE]\<rparr>,
    \<lparr>sc_syscall_id = NR_newstat, sc_arg_count = 2, sc_arg_types = [VAR_ARG_STRING, ARG_PTR, ARG_NONE, ARG_NONE, ARG_NONE, ARG_NONE]\<rparr>,
    \<lparr>sc_syscall_id = NR_newfstat, sc_arg_count = 2, sc_arg_types = [ARG_FD, ARG_PTR, ARG_NONE, ARG_NONE, ARG_NONE, ARG_NONE]\<rparr>,
    \<lparr>sc_syscall_id = NR_newlstat, sc_arg_count = 2, sc_arg_types = [VAR_ARG_STRING, ARG_PTR, ARG_NONE, ARG_NONE, ARG_NONE, ARG_NONE]\<rparr>,
    \<lparr>sc_syscall_id = NR_poll, sc_arg_count = 3, sc_arg_types = [ARG_FD, ARG_FD, ARG_INT, ARG_NONE, ARG_NONE, ARG_NONE]\<rparr>,
    \<lparr>sc_syscall_id = NR_lseek, sc_arg_count = 3, sc_arg_types = [ARG_FD, ARG_OFF, ARG_INT, ARG_NONE, ARG_NONE, ARG_NONE]\<rparr>,
    \<lparr>sc_syscall_id = NR_mmap, sc_arg_count = 6, sc_arg_types = [ARG_UINT, ARG_UINT, ARG_UINT, ARG_UINT, ARG_FD, ARG_UINT]\<rparr>,
    \<lparr>sc_syscall_id = NR_mprotect, sc_arg_count = 3, sc_arg_types = [ARG_UINT, ARG_UINT, ARG_UINT, ARG_NONE, ARG_NONE, ARG_NONE]\<rparr>,
    \<lparr>sc_syscall_id = NR_munmap, sc_arg_count = 2, sc_arg_types = [ARG_UINT, ARG_UINT, ARG_NONE, ARG_NONE, ARG_NONE, ARG_NONE]\<rparr>,
    \<lparr>sc_syscall_id = NR_brk, sc_arg_count = 1, sc_arg_types = [ARG_UINT, ARG_NONE, ARG_NONE, ARG_NONE, ARG_NONE, ARG_NONE]\<rparr>,
    \<lparr>sc_syscall_id = NR_rt_sigaction, sc_arg_count = 4, sc_arg_types = [ARG_INT, ARG_PTR, ARG_PTR, ARG_UINT, ARG_NONE, ARG_NONE]\<rparr>,
    \<lparr>sc_syscall_id = NR_rt_sigprocmask, sc_arg_count = 4, sc_arg_types = [ARG_INT, ARG_PTR, ARG_PTR, ARG_UINT, ARG_NONE, ARG_NONE]\<rparr>,
    \<lparr>sc_syscall_id = NR_rt_sigreturn, sc_arg_count = 0, sc_arg_types = [ARG_NONE, ARG_NONE, ARG_NONE, ARG_NONE, ARG_NONE, ARG_NONE]\<rparr>,
    \<lparr>sc_syscall_id = NR_ioctl, sc_arg_count = 3, sc_arg_types = [ARG_FD, ARG_UINT, ARG_UINT, ARG_NONE, ARG_NONE, ARG_NONE]\<rparr>,
    \<lparr>sc_syscall_id = NR_pread64, sc_arg_count = 4, sc_arg_types = [ARG_FD, VAR_ARG_STRING, ARG_UINT, ARG_OFF, ARG_NONE, ARG_NONE]\<rparr>,
    \<lparr>sc_syscall_id = NR_pwrite64, sc_arg_count = 4, sc_arg_types = [ARG_FD, VAR_ARG_STRING, ARG_UINT, ARG_OFF, ARG_NONE, ARG_NONE]\<rparr>,
    \<lparr>sc_syscall_id = NR_readv, sc_arg_count = 3, sc_arg_types = [ARG_FD, ARG_PTR, ARG_UINT, ARG_NONE, ARG_NONE, ARG_NONE]\<rparr>,
    \<lparr>sc_syscall_id = NR_writev, sc_arg_count = 3, sc_arg_types = [ARG_FD, ARG_PTR, ARG_UINT, ARG_NONE, ARG_NONE, ARG_NONE]\<rparr>,
    \<lparr>sc_syscall_id = NR_access, sc_arg_count = 2, sc_arg_types = [VAR_ARG_STRING, ARG_MODE, ARG_NONE, ARG_NONE, ARG_NONE, ARG_NONE]\<rparr>,
    \<lparr>sc_syscall_id = NR_pipe, sc_arg_count = 1, sc_arg_types = [ARG_FD, ARG_NONE, ARG_NONE, ARG_NONE, ARG_NONE, ARG_NONE]\<rparr>,
    \<lparr>sc_syscall_id = NR_select, sc_arg_count = 5, sc_arg_types = [ARG_INT, ARG_PTR, ARG_PTR, ARG_PTR, ARG_PTR, ARG_NONE]\<rparr>,
    \<lparr>sc_syscall_id = NR_sched_yield, sc_arg_count = 0, sc_arg_types = [ARG_NONE, ARG_NONE, ARG_NONE, ARG_NONE, ARG_NONE, ARG_NONE]\<rparr>,
    \<lparr>sc_syscall_id = NR_mremap, sc_arg_count = 5, sc_arg_types = [ARG_UINT, ARG_UINT, ARG_UINT, ARG_UINT, ARG_UINT, ARG_NONE]\<rparr>,
    \<lparr>sc_syscall_id = NR_msync, sc_arg_count = 3, sc_arg_types = [ARG_UINT, ARG_UINT, ARG_INT, ARG_NONE, ARG_NONE, ARG_NONE]\<rparr>,
    \<lparr>sc_syscall_id = NR_mincore, sc_arg_count = 3, sc_arg_types = [ARG_UINT, ARG_UINT, ARG_PTR, ARG_NONE, ARG_NONE, ARG_NONE]\<rparr>,
    \<lparr>sc_syscall_id = NR_madvise, sc_arg_count = 3, sc_arg_types = [ARG_UINT, ARG_UINT, ARG_INT, ARG_NONE, ARG_NONE, ARG_NONE]\<rparr>,
    \<lparr>sc_syscall_id = NR_shmget, sc_arg_count = 3, sc_arg_types = [ARG_INT, ARG_UINT, ARG_INT, ARG_NONE, ARG_NONE, ARG_NONE]\<rparr>]"

definition syscall_schemas_01 :: "syscall_arg_schema list" where
  "syscall_schemas_01 =
   [\<lparr>sc_syscall_id = NR_shmat, sc_arg_count = 3, sc_arg_types = [ARG_INT, VAR_ARG_STRING, ARG_INT, ARG_NONE, ARG_NONE, ARG_NONE]\<rparr>,
    \<lparr>sc_syscall_id = NR_shmctl, sc_arg_count = 3, sc_arg_types = [ARG_INT, ARG_INT, ARG_PTR, ARG_NONE, ARG_NONE, ARG_NONE]\<rparr>,
    \<lparr>sc_syscall_id = NR_dup, sc_arg_count = 1, sc_arg_types = [ARG_FD, ARG_NONE, ARG_NONE, ARG_NONE, ARG_NONE, ARG_NONE]\<rparr>,
    \<lparr>sc_syscall_id = NR_dup2, sc_arg_count = 2, sc_arg_types = [ARG_FD, ARG_FD, ARG_NONE, ARG_NONE, ARG_NONE, ARG_NONE]\<rparr>,
    \<lparr>sc_syscall_id = NR_pause, sc_arg_count = 0, sc_arg_types = [ARG_NONE, ARG_NONE, ARG_NONE, ARG_NONE, ARG_NONE, ARG_NONE]\<rparr>,
    \<lparr>sc_syscall_id = NR_nanosleep, sc_arg_count = 2, sc_arg_types = [ARG_PTR, ARG_PTR, ARG_NONE, ARG_NONE, ARG_NONE, ARG_NONE]\<rparr>,
    \<lparr>sc_syscall_id = NR_getitimer, sc_arg_count = 2, sc_arg_types = [ARG_INT, ARG_PTR, ARG_NONE, ARG_NONE, ARG_NONE, ARG_NONE]\<rparr>,
    \<lparr>sc_syscall_id = NR_alarm, sc_arg_count = 1, sc_arg_types = [ARG_UINT, ARG_NONE, ARG_NONE, ARG_NONE, ARG_NONE, ARG_NONE]\<rparr>,
    \<lparr>sc_syscall_id = NR_setitimer, sc_arg_count = 3, sc_arg_types = [ARG_INT, ARG_PTR, ARG_PTR, ARG_NONE, ARG_NONE, ARG_NONE]\<rparr>,
    \<lparr>sc_syscall_id = NR_getpid, sc_arg_count = 0, sc_arg_types = [ARG_NONE, ARG_NONE, ARG_NONE, ARG_NONE, ARG_NONE, ARG_NONE]\<rparr>,
    \<lparr>sc_syscall_id = NR_sendfile64, sc_arg_count = 4, sc_arg_types = [ARG_FD, ARG_FD, ARG_OFF, ARG_UINT, ARG_NONE, ARG_NONE]\<rparr>,
    \<lparr>sc_syscall_id = NR_socket, sc_arg_count = 3, sc_arg_types = [ARG_INT, ARG_INT, ARG_INT, ARG_NONE, ARG_NONE, ARG_NONE]\<rparr>,
    \<lparr>sc_syscall_id = NR_connect, sc_arg_count = 3, sc_arg_types = [ARG_FD, ARG_PTR, ARG_INT, ARG_NONE, ARG_NONE, ARG_NONE]\<rparr>,
    \<lparr>sc_syscall_id = NR_accept, sc_arg_count = 3, sc_arg_types = [ARG_FD, ARG_PTR, ARG_PTR, ARG_NONE, ARG_NONE, ARG_NONE]\<rparr>,
    \<lparr>sc_syscall_id = NR_sendto, sc_arg_count = 6, sc_arg_types = [ARG_FD, ARG_PTR, ARG_UINT, ARG_UINT, ARG_PTR, ARG_INT]\<rparr>,
    \<lparr>sc_syscall_id = NR_recvfrom, sc_arg_count = 6, sc_arg_types = [ARG_FD, ARG_PTR, ARG_UINT, ARG_UINT, ARG_PTR, ARG_PTR]\<rparr>,
    \<lparr>sc_syscall_id = NR_sendmsg, sc_arg_count = 3, sc_arg_types = [ARG_FD, ARG_PTR, ARG_UINT, ARG_NONE, ARG_NONE, ARG_NONE]\<rparr>,
    \<lparr>sc_syscall_id = NR_recvmsg, sc_arg_count = 3, sc_arg_types = [ARG_FD, ARG_PTR, ARG_UINT, ARG_NONE, ARG_NONE, ARG_NONE]\<rparr>,
    \<lparr>sc_syscall_id = NR_shutdown, sc_arg_count = 2, sc_arg_types = [ARG_FD, ARG_INT, ARG_NONE, ARG_NONE, ARG_NONE, ARG_NONE]\<rparr>,
    \<lparr>sc_syscall_id = NR_bind, sc_arg_count = 3, sc_arg_types = [ARG_FD, ARG_PTR, ARG_INT, ARG_NONE, ARG_NONE, ARG_NONE]\<rparr>,
    \<lparr>sc_syscall_id = NR_listen, sc_arg_count = 2, sc_arg_types = [ARG_FD, ARG_INT, ARG_NONE, ARG_NONE, ARG_NONE, ARG_NONE]\<rparr>,
    \<lparr>sc_syscall_id = NR_getsockname, sc_arg_count = 3, sc_arg_types = [ARG_FD, ARG_PTR, ARG_PTR, ARG_NONE, ARG_NONE, ARG_NONE]\<rparr>,
    \<lparr>sc_syscall_id = NR_getpeername, sc_arg_count = 3, sc_arg_types = [ARG_FD, ARG_PTR, ARG_PTR, ARG_NONE, ARG_NONE, ARG_NONE]\<rparr>,
    \<lparr>sc_syscall_id = NR_socketpair, sc_arg_count = 4, sc_arg_types = [ARG_INT, ARG_INT, ARG_INT, ARG_PTR, ARG_NONE, ARG_NONE]\<rparr>,
    \<lparr>sc_syscall_id = NR_setsockopt, sc_arg_count = 5, sc_arg_types = [ARG_FD, ARG_INT, ARG_INT, VAR_ARG_STRING, ARG_INT, ARG_NONE]\<rparr>,
    \<lparr>sc_syscall_id = NR_getsockopt, sc_arg_count = 5, sc_arg_types = [ARG_FD, ARG_INT, ARG_INT, VAR_ARG_STRING, ARG_PTR, ARG_NONE]\<rparr>,
    \<lparr>sc_syscall_id = NR_clone, sc_arg_count = 5, sc_arg_types = [ARG_UINT, ARG_UINT, ARG_PTR, ARG_PTR, ARG_UINT, ARG_NONE]\<rparr>,
    \<lparr>sc_syscall_id = NR_fork, sc_arg_count = 0, sc_arg_types = [ARG_NONE, ARG_NONE, ARG_NONE, ARG_NONE, ARG_NONE, ARG_NONE]\<rparr>,
    \<lparr>sc_syscall_id = NR_vfork, sc_arg_count = 0, sc_arg_types = [ARG_NONE, ARG_NONE, ARG_NONE, ARG_NONE, ARG_NONE, ARG_NONE]\<rparr>,
    \<lparr>sc_syscall_id = NR_execve, sc_arg_count = 3, sc_arg_types = [VAR_ARG_STRING, VAR_ARG_ARGV, VAR_ARG_ARGV, ARG_NONE, ARG_NONE, ARG_NONE]\<rparr>]"

definition syscall_schemas_02 :: "syscall_arg_schema list" where
  "syscall_schemas_02 =
   [\<lparr>sc_syscall_id = NR_exit, sc_arg_count = 1, sc_arg_types = [ARG_INT, ARG_NONE, ARG_NONE, ARG_NONE, ARG_NONE, ARG_NONE]\<rparr>,
    \<lparr>sc_syscall_id = NR_wait4, sc_arg_count = 4, sc_arg_types = [ARG_INT, ARG_PTR, ARG_INT, ARG_PTR, ARG_NONE, ARG_NONE]\<rparr>,
    \<lparr>sc_syscall_id = NR_kill, sc_arg_count = 2, sc_arg_types = [ARG_INT, ARG_INT, ARG_NONE, ARG_NONE, ARG_NONE, ARG_NONE]\<rparr>,
    \<lparr>sc_syscall_id = NR_newuname, sc_arg_count = 1, sc_arg_types = [ARG_PTR, ARG_NONE, ARG_NONE, ARG_NONE, ARG_NONE, ARG_NONE]\<rparr>,
    \<lparr>sc_syscall_id = NR_semget, sc_arg_count = 3, sc_arg_types = [ARG_INT, ARG_INT, ARG_INT, ARG_NONE, ARG_NONE, ARG_NONE]\<rparr>,
    \<lparr>sc_syscall_id = NR_semop, sc_arg_count = 3, sc_arg_types = [ARG_INT, ARG_PTR, ARG_UINT, ARG_NONE, ARG_NONE, ARG_NONE]\<rparr>,
    \<lparr>sc_syscall_id = NR_semctl, sc_arg_count = 4, sc_arg_types = [ARG_INT, ARG_INT, ARG_INT, ARG_UINT, ARG_NONE, ARG_NONE]\<rparr>,
    \<lparr>sc_syscall_id = NR_shmdt, sc_arg_count = 1, sc_arg_types = [VAR_ARG_STRING, ARG_NONE, ARG_NONE, ARG_NONE, ARG_NONE, ARG_NONE]\<rparr>,
    \<lparr>sc_syscall_id = NR_msgget, sc_arg_count = 2, sc_arg_types = [ARG_INT, ARG_INT, ARG_NONE, ARG_NONE, ARG_NONE, ARG_NONE]\<rparr>,
    \<lparr>sc_syscall_id = NR_msgsnd, sc_arg_count = 4, sc_arg_types = [ARG_INT, ARG_PTR, ARG_UINT, ARG_INT, ARG_NONE, ARG_NONE]\<rparr>,
    \<lparr>sc_syscall_id = NR_msgrcv, sc_arg_count = 5, sc_arg_types = [ARG_INT, ARG_PTR, ARG_UINT, ARG_UINT, ARG_INT, ARG_NONE]\<rparr>,
    \<lparr>sc_syscall_id = NR_msgctl, sc_arg_count = 3, sc_arg_types = [ARG_INT, ARG_INT, ARG_PTR, ARG_NONE, ARG_NONE, ARG_NONE]\<rparr>,
    \<lparr>sc_syscall_id = NR_fcntl, sc_arg_count = 3, sc_arg_types = [ARG_FD, ARG_UINT, ARG_UINT, ARG_NONE, ARG_NONE, ARG_NONE]\<rparr>,
    \<lparr>sc_syscall_id = NR_flock, sc_arg_count = 2, sc_arg_types = [ARG_FD, ARG_UINT, ARG_NONE, ARG_NONE, ARG_NONE, ARG_NONE]\<rparr>,
    \<lparr>sc_syscall_id = NR_fsync, sc_arg_count = 1, sc_arg_types = [ARG_FD, ARG_NONE, ARG_NONE, ARG_NONE, ARG_NONE, ARG_NONE]\<rparr>,
    \<lparr>sc_syscall_id = NR_fdatasync, sc_arg_count = 1, sc_arg_types = [ARG_FD, ARG_NONE, ARG_NONE, ARG_NONE, ARG_NONE, ARG_NONE]\<rparr>,
    \<lparr>sc_syscall_id = NR_truncate, sc_arg_count = 2, sc_arg_types = [VAR_ARG_STRING, ARG_UINT, ARG_NONE, ARG_NONE, ARG_NONE, ARG_NONE]\<rparr>,
    \<lparr>sc_syscall_id = NR_ftruncate, sc_arg_count = 2, sc_arg_types = [ARG_FD, ARG_OFF, ARG_NONE, ARG_NONE, ARG_NONE, ARG_NONE]\<rparr>,
    \<lparr>sc_syscall_id = NR_getdents, sc_arg_count = 3, sc_arg_types = [ARG_FD, ARG_PTR, ARG_UINT, ARG_NONE, ARG_NONE, ARG_NONE]\<rparr>,
    \<lparr>sc_syscall_id = NR_getcwd, sc_arg_count = 2, sc_arg_types = [VAR_ARG_STRING, ARG_UINT, ARG_NONE, ARG_NONE, ARG_NONE, ARG_NONE]\<rparr>,
    \<lparr>sc_syscall_id = NR_chdir, sc_arg_count = 1, sc_arg_types = [VAR_ARG_STRING, ARG_NONE, ARG_NONE, ARG_NONE, ARG_NONE, ARG_NONE]\<rparr>,
    \<lparr>sc_syscall_id = NR_fchdir, sc_arg_count = 1, sc_arg_types = [ARG_FD, ARG_NONE, ARG_NONE, ARG_NONE, ARG_NONE, ARG_NONE]\<rparr>,
    \<lparr>sc_syscall_id = NR_rename, sc_arg_count = 2, sc_arg_types = [VAR_ARG_STRING, VAR_ARG_STRING, ARG_NONE, ARG_NONE, ARG_NONE, ARG_NONE]\<rparr>,
    \<lparr>sc_syscall_id = NR_mkdir, sc_arg_count = 2, sc_arg_types = [VAR_ARG_STRING, ARG_MODE, ARG_NONE, ARG_NONE, ARG_NONE, ARG_NONE]\<rparr>,
    \<lparr>sc_syscall_id = NR_rmdir, sc_arg_count = 1, sc_arg_types = [VAR_ARG_STRING, ARG_NONE, ARG_NONE, ARG_NONE, ARG_NONE, ARG_NONE]\<rparr>,
    \<lparr>sc_syscall_id = NR_creat, sc_arg_count = 2, sc_arg_types = [VAR_ARG_STRING, ARG_MODE, ARG_NONE, ARG_NONE, ARG_NONE, ARG_NONE]\<rparr>,
    \<lparr>sc_syscall_id = NR_link, sc_arg_count = 2, sc_arg_types = [VAR_ARG_STRING, VAR_ARG_STRING, ARG_NONE, ARG_NONE, ARG_NONE, ARG_NONE]\<rparr>,
    \<lparr>sc_syscall_id = NR_unlink, sc_arg_count = 1, sc_arg_types = [VAR_ARG_STRING, ARG_NONE, ARG_NONE, ARG_NONE, ARG_NONE, ARG_NONE]\<rparr>,
    \<lparr>sc_syscall_id = NR_symlink, sc_arg_count = 2, sc_arg_types = [VAR_ARG_STRING, VAR_ARG_STRING, ARG_NONE, ARG_NONE, ARG_NONE, ARG_NONE]\<rparr>,
    \<lparr>sc_syscall_id = NR_readlink, sc_arg_count = 3, sc_arg_types = [VAR_ARG_STRING, VAR_ARG_STRING, ARG_INT, ARG_NONE, ARG_NONE, ARG_NONE]\<rparr>]"

definition syscall_schemas_03 :: "syscall_arg_schema list" where
  "syscall_schemas_03 =
   [\<lparr>sc_syscall_id = NR_chmod, sc_arg_count = 2, sc_arg_types = [VAR_ARG_STRING, ARG_MODE, ARG_NONE, ARG_NONE, ARG_NONE, ARG_NONE]\<rparr>,
    \<lparr>sc_syscall_id = NR_fchmod, sc_arg_count = 2, sc_arg_types = [ARG_FD, ARG_MODE, ARG_NONE, ARG_NONE, ARG_NONE, ARG_NONE]\<rparr>,
    \<lparr>sc_syscall_id = NR_chown, sc_arg_count = 3, sc_arg_types = [VAR_ARG_STRING, ARG_INT, ARG_INT, ARG_NONE, ARG_NONE, ARG_NONE]\<rparr>,
    \<lparr>sc_syscall_id = NR_fchown, sc_arg_count = 3, sc_arg_types = [ARG_FD, ARG_INT, ARG_INT, ARG_NONE, ARG_NONE, ARG_NONE]\<rparr>,
    \<lparr>sc_syscall_id = NR_lchown, sc_arg_count = 3, sc_arg_types = [VAR_ARG_STRING, ARG_INT, ARG_INT, ARG_NONE, ARG_NONE, ARG_NONE]\<rparr>,
    \<lparr>sc_syscall_id = NR_umask, sc_arg_count = 1, sc_arg_types = [ARG_MODE, ARG_NONE, ARG_NONE, ARG_NONE, ARG_NONE, ARG_NONE]\<rparr>,
    \<lparr>sc_syscall_id = NR_gettimeofday, sc_arg_count = 2, sc_arg_types = [ARG_PTR, ARG_PTR, ARG_NONE, ARG_NONE, ARG_NONE, ARG_NONE]\<rparr>,
    \<lparr>sc_syscall_id = NR_getrlimit, sc_arg_count = 2, sc_arg_types = [ARG_UINT, ARG_PTR, ARG_NONE, ARG_NONE, ARG_NONE, ARG_NONE]\<rparr>,
    \<lparr>sc_syscall_id = NR_getrusage, sc_arg_count = 2, sc_arg_types = [ARG_INT, ARG_PTR, ARG_NONE, ARG_NONE, ARG_NONE, ARG_NONE]\<rparr>,
    \<lparr>sc_syscall_id = NR_sysinfo, sc_arg_count = 1, sc_arg_types = [ARG_PTR, ARG_NONE, ARG_NONE, ARG_NONE, ARG_NONE, ARG_NONE]\<rparr>,
    \<lparr>sc_syscall_id = NR_times, sc_arg_count = 1, sc_arg_types = [ARG_PTR, ARG_NONE, ARG_NONE, ARG_NONE, ARG_NONE, ARG_NONE]\<rparr>,
    \<lparr>sc_syscall_id = NR_ptrace, sc_arg_count = 4, sc_arg_types = [ARG_UINT, ARG_UINT, ARG_UINT, ARG_UINT, ARG_NONE, ARG_NONE]\<rparr>,
    \<lparr>sc_syscall_id = NR_getuid, sc_arg_count = 0, sc_arg_types = [ARG_NONE, ARG_NONE, ARG_NONE, ARG_NONE, ARG_NONE, ARG_NONE]\<rparr>,
    \<lparr>sc_syscall_id = NR_syslog, sc_arg_count = 3, sc_arg_types = [ARG_INT, VAR_ARG_STRING, ARG_INT, ARG_NONE, ARG_NONE, ARG_NONE]\<rparr>,
    \<lparr>sc_syscall_id = NR_getgid, sc_arg_count = 0, sc_arg_types = [ARG_NONE, ARG_NONE, ARG_NONE, ARG_NONE, ARG_NONE, ARG_NONE]\<rparr>,
    \<lparr>sc_syscall_id = NR_setuid, sc_arg_count = 1, sc_arg_types = [ARG_INT, ARG_NONE, ARG_NONE, ARG_NONE, ARG_NONE, ARG_NONE]\<rparr>,
    \<lparr>sc_syscall_id = NR_setgid, sc_arg_count = 1, sc_arg_types = [ARG_INT, ARG_NONE, ARG_NONE, ARG_NONE, ARG_NONE, ARG_NONE]\<rparr>,
    \<lparr>sc_syscall_id = NR_geteuid, sc_arg_count = 0, sc_arg_types = [ARG_NONE, ARG_NONE, ARG_NONE, ARG_NONE, ARG_NONE, ARG_NONE]\<rparr>,
    \<lparr>sc_syscall_id = NR_getegid, sc_arg_count = 0, sc_arg_types = [ARG_NONE, ARG_NONE, ARG_NONE, ARG_NONE, ARG_NONE, ARG_NONE]\<rparr>,
    \<lparr>sc_syscall_id = NR_setpgid, sc_arg_count = 2, sc_arg_types = [ARG_INT, ARG_INT, ARG_NONE, ARG_NONE, ARG_NONE, ARG_NONE]\<rparr>,
    \<lparr>sc_syscall_id = NR_getppid, sc_arg_count = 0, sc_arg_types = [ARG_NONE, ARG_NONE, ARG_NONE, ARG_NONE, ARG_NONE, ARG_NONE]\<rparr>,
    \<lparr>sc_syscall_id = NR_getpgrp, sc_arg_count = 0, sc_arg_types = [ARG_NONE, ARG_NONE, ARG_NONE, ARG_NONE, ARG_NONE, ARG_NONE]\<rparr>,
    \<lparr>sc_syscall_id = NR_setsid, sc_arg_count = 0, sc_arg_types = [ARG_NONE, ARG_NONE, ARG_NONE, ARG_NONE, ARG_NONE, ARG_NONE]\<rparr>,
    \<lparr>sc_syscall_id = NR_setreuid, sc_arg_count = 2, sc_arg_types = [ARG_INT, ARG_INT, ARG_NONE, ARG_NONE, ARG_NONE, ARG_NONE]\<rparr>,
    \<lparr>sc_syscall_id = NR_setregid, sc_arg_count = 2, sc_arg_types = [ARG_INT, ARG_INT, ARG_NONE, ARG_NONE, ARG_NONE, ARG_NONE]\<rparr>,
    \<lparr>sc_syscall_id = NR_getgroups, sc_arg_count = 2, sc_arg_types = [ARG_INT, ARG_PTR, ARG_NONE, ARG_NONE, ARG_NONE, ARG_NONE]\<rparr>,
    \<lparr>sc_syscall_id = NR_setgroups, sc_arg_count = 2, sc_arg_types = [ARG_INT, ARG_PTR, ARG_NONE, ARG_NONE, ARG_NONE, ARG_NONE]\<rparr>,
    \<lparr>sc_syscall_id = NR_setresuid, sc_arg_count = 3, sc_arg_types = [ARG_INT, ARG_INT, ARG_INT, ARG_NONE, ARG_NONE, ARG_NONE]\<rparr>,
    \<lparr>sc_syscall_id = NR_getresuid, sc_arg_count = 3, sc_arg_types = [ARG_PTR, ARG_PTR, ARG_PTR, ARG_NONE, ARG_NONE, ARG_NONE]\<rparr>,
    \<lparr>sc_syscall_id = NR_setresgid, sc_arg_count = 3, sc_arg_types = [ARG_INT, ARG_INT, ARG_INT, ARG_NONE, ARG_NONE, ARG_NONE]\<rparr>]"

definition syscall_schemas_04 :: "syscall_arg_schema list" where
  "syscall_schemas_04 =
   [\<lparr>sc_syscall_id = NR_getresgid, sc_arg_count = 3, sc_arg_types = [ARG_PTR, ARG_PTR, ARG_PTR, ARG_NONE, ARG_NONE, ARG_NONE]\<rparr>,
    \<lparr>sc_syscall_id = NR_getpgid, sc_arg_count = 1, sc_arg_types = [ARG_INT, ARG_NONE, ARG_NONE, ARG_NONE, ARG_NONE, ARG_NONE]\<rparr>,
    \<lparr>sc_syscall_id = NR_setfsuid, sc_arg_count = 1, sc_arg_types = [ARG_INT, ARG_NONE, ARG_NONE, ARG_NONE, ARG_NONE, ARG_NONE]\<rparr>,
    \<lparr>sc_syscall_id = NR_setfsgid, sc_arg_count = 1, sc_arg_types = [ARG_INT, ARG_NONE, ARG_NONE, ARG_NONE, ARG_NONE, ARG_NONE]\<rparr>,
    \<lparr>sc_syscall_id = NR_getsid, sc_arg_count = 1, sc_arg_types = [ARG_INT, ARG_NONE, ARG_NONE, ARG_NONE, ARG_NONE, ARG_NONE]\<rparr>,
    \<lparr>sc_syscall_id = NR_capget, sc_arg_count = 2, sc_arg_types = [ARG_RAW, ARG_RAW, ARG_NONE, ARG_NONE, ARG_NONE, ARG_NONE]\<rparr>,
    \<lparr>sc_syscall_id = NR_capset, sc_arg_count = 2, sc_arg_types = [ARG_RAW, ARG_RAW, ARG_NONE, ARG_NONE, ARG_NONE, ARG_NONE]\<rparr>,
    \<lparr>sc_syscall_id = NR_rt_sigpending, sc_arg_count = 2, sc_arg_types = [ARG_PTR, ARG_UINT, ARG_NONE, ARG_NONE, ARG_NONE, ARG_NONE]\<rparr>,
    \<lparr>sc_syscall_id = NR_rt_sigtimedwait, sc_arg_count = 4, sc_arg_types = [ARG_PTR, ARG_PTR, ARG_PTR, ARG_UINT, ARG_NONE, ARG_NONE]\<rparr>,
    \<lparr>sc_syscall_id = NR_rt_sigqueueinfo, sc_arg_count = 3, sc_arg_types = [ARG_INT, ARG_INT, ARG_PTR, ARG_NONE, ARG_NONE, ARG_NONE]\<rparr>,
    \<lparr>sc_syscall_id = NR_rt_sigsuspend, sc_arg_count = 2, sc_arg_types = [ARG_PTR, ARG_UINT, ARG_NONE, ARG_NONE, ARG_NONE, ARG_NONE]\<rparr>,
    \<lparr>sc_syscall_id = NR_sigaltstack, sc_arg_count = 2, sc_arg_types = [ARG_PTR, ARG_PTR, ARG_NONE, ARG_NONE, ARG_NONE, ARG_NONE]\<rparr>,
    \<lparr>sc_syscall_id = NR_utime, sc_arg_count = 2, sc_arg_types = [VAR_ARG_STRING, ARG_PTR, ARG_NONE, ARG_NONE, ARG_NONE, ARG_NONE]\<rparr>,
    \<lparr>sc_syscall_id = NR_mknod, sc_arg_count = 3, sc_arg_types = [VAR_ARG_STRING, ARG_MODE, ARG_UINT, ARG_NONE, ARG_NONE, ARG_NONE]\<rparr>,
    \<lparr>sc_syscall_id = NR_personality, sc_arg_count = 1, sc_arg_types = [ARG_UINT, ARG_NONE, ARG_NONE, ARG_NONE, ARG_NONE, ARG_NONE]\<rparr>,
    \<lparr>sc_syscall_id = NR_ustat, sc_arg_count = 2, sc_arg_types = [ARG_UINT, ARG_PTR, ARG_NONE, ARG_NONE, ARG_NONE, ARG_NONE]\<rparr>,
    \<lparr>sc_syscall_id = NR_statfs, sc_arg_count = 2, sc_arg_types = [VAR_ARG_STRING, ARG_PTR, ARG_NONE, ARG_NONE, ARG_NONE, ARG_NONE]\<rparr>,
    \<lparr>sc_syscall_id = NR_fstatfs, sc_arg_count = 2, sc_arg_types = [ARG_FD, ARG_PTR, ARG_NONE, ARG_NONE, ARG_NONE, ARG_NONE]\<rparr>,
    \<lparr>sc_syscall_id = NR_sysfs, sc_arg_count = 3, sc_arg_types = [ARG_INT, ARG_UINT, ARG_UINT, ARG_NONE, ARG_NONE, ARG_NONE]\<rparr>,
    \<lparr>sc_syscall_id = NR_getpriority, sc_arg_count = 2, sc_arg_types = [ARG_INT, ARG_INT, ARG_NONE, ARG_NONE, ARG_NONE, ARG_NONE]\<rparr>,
    \<lparr>sc_syscall_id = NR_setpriority, sc_arg_count = 3, sc_arg_types = [ARG_INT, ARG_INT, ARG_INT, ARG_NONE, ARG_NONE, ARG_NONE]\<rparr>,
    \<lparr>sc_syscall_id = NR_sched_setparam, sc_arg_count = 2, sc_arg_types = [ARG_INT, ARG_PTR, ARG_NONE, ARG_NONE, ARG_NONE, ARG_NONE]\<rparr>,
    \<lparr>sc_syscall_id = NR_sched_getparam, sc_arg_count = 2, sc_arg_types = [ARG_INT, ARG_PTR, ARG_NONE, ARG_NONE, ARG_NONE, ARG_NONE]\<rparr>,
    \<lparr>sc_syscall_id = NR_sched_setscheduler, sc_arg_count = 3, sc_arg_types = [ARG_INT, ARG_INT, ARG_PTR, ARG_NONE, ARG_NONE, ARG_NONE]\<rparr>,
    \<lparr>sc_syscall_id = NR_sched_getscheduler, sc_arg_count = 1, sc_arg_types = [ARG_INT, ARG_NONE, ARG_NONE, ARG_NONE, ARG_NONE, ARG_NONE]\<rparr>,
    \<lparr>sc_syscall_id = NR_sched_get_priority_max, sc_arg_count = 1, sc_arg_types = [ARG_INT, ARG_NONE, ARG_NONE, ARG_NONE, ARG_NONE, ARG_NONE]\<rparr>,
    \<lparr>sc_syscall_id = NR_sched_get_priority_min, sc_arg_count = 1, sc_arg_types = [ARG_INT, ARG_NONE, ARG_NONE, ARG_NONE, ARG_NONE, ARG_NONE]\<rparr>,
    \<lparr>sc_syscall_id = NR_sched_rr_get_interval, sc_arg_count = 2, sc_arg_types = [ARG_INT, ARG_PTR, ARG_NONE, ARG_NONE, ARG_NONE, ARG_NONE]\<rparr>,
    \<lparr>sc_syscall_id = NR_mlock, sc_arg_count = 2, sc_arg_types = [ARG_UINT, ARG_UINT, ARG_NONE, ARG_NONE, ARG_NONE, ARG_NONE]\<rparr>,
    \<lparr>sc_syscall_id = NR_munlock, sc_arg_count = 2, sc_arg_types = [ARG_UINT, ARG_UINT, ARG_NONE, ARG_NONE, ARG_NONE, ARG_NONE]\<rparr>]"

definition syscall_schemas_05 :: "syscall_arg_schema list" where
  "syscall_schemas_05 =
   [\<lparr>sc_syscall_id = NR_mlockall, sc_arg_count = 1, sc_arg_types = [ARG_INT, ARG_NONE, ARG_NONE, ARG_NONE, ARG_NONE, ARG_NONE]\<rparr>,
    \<lparr>sc_syscall_id = NR_munlockall, sc_arg_count = 0, sc_arg_types = [ARG_NONE, ARG_NONE, ARG_NONE, ARG_NONE, ARG_NONE, ARG_NONE]\<rparr>,
    \<lparr>sc_syscall_id = NR_vhangup, sc_arg_count = 0, sc_arg_types = [ARG_NONE, ARG_NONE, ARG_NONE, ARG_NONE, ARG_NONE, ARG_NONE]\<rparr>,
    \<lparr>sc_syscall_id = NR_modify_ldt, sc_arg_count = 3, sc_arg_types = [ARG_INT, ARG_PTR, ARG_UINT, ARG_NONE, ARG_NONE, ARG_NONE]\<rparr>,
    \<lparr>sc_syscall_id = NR_pivot_root, sc_arg_count = 2, sc_arg_types = [VAR_ARG_STRING, VAR_ARG_STRING, ARG_NONE, ARG_NONE, ARG_NONE, ARG_NONE]\<rparr>,
    \<lparr>sc_syscall_id = NR_prctl, sc_arg_count = 5, sc_arg_types = [ARG_INT, ARG_UINT, ARG_UINT, ARG_UINT, ARG_UINT, ARG_NONE]\<rparr>,
    \<lparr>sc_syscall_id = NR_arch_prctl, sc_arg_count = 2, sc_arg_types = [ARG_INT, ARG_UINT, ARG_NONE, ARG_NONE, ARG_NONE, ARG_NONE]\<rparr>,
    \<lparr>sc_syscall_id = NR_adjtimex, sc_arg_count = 1, sc_arg_types = [ARG_PTR, ARG_NONE, ARG_NONE, ARG_NONE, ARG_NONE, ARG_NONE]\<rparr>,
    \<lparr>sc_syscall_id = NR_setrlimit, sc_arg_count = 2, sc_arg_types = [ARG_UINT, ARG_PTR, ARG_NONE, ARG_NONE, ARG_NONE, ARG_NONE]\<rparr>,
    \<lparr>sc_syscall_id = NR_chroot, sc_arg_count = 1, sc_arg_types = [VAR_ARG_STRING, ARG_NONE, ARG_NONE, ARG_NONE, ARG_NONE, ARG_NONE]\<rparr>,
    \<lparr>sc_syscall_id = NR_sync, sc_arg_count = 0, sc_arg_types = [ARG_NONE, ARG_NONE, ARG_NONE, ARG_NONE, ARG_NONE, ARG_NONE]\<rparr>,
    \<lparr>sc_syscall_id = NR_acct, sc_arg_count = 1, sc_arg_types = [VAR_ARG_STRING, ARG_NONE, ARG_NONE, ARG_NONE, ARG_NONE, ARG_NONE]\<rparr>,
    \<lparr>sc_syscall_id = NR_settimeofday, sc_arg_count = 2, sc_arg_types = [ARG_PTR, ARG_PTR, ARG_NONE, ARG_NONE, ARG_NONE, ARG_NONE]\<rparr>,
    \<lparr>sc_syscall_id = NR_mount, sc_arg_count = 5, sc_arg_types = [VAR_ARG_STRING, VAR_ARG_STRING, VAR_ARG_STRING, ARG_UINT, ARG_PTR, ARG_NONE]\<rparr>,
    \<lparr>sc_syscall_id = NR_umount, sc_arg_count = 2, sc_arg_types = [VAR_ARG_STRING, ARG_INT, ARG_NONE, ARG_NONE, ARG_NONE, ARG_NONE]\<rparr>,
    \<lparr>sc_syscall_id = NR_swapon, sc_arg_count = 2, sc_arg_types = [VAR_ARG_STRING, ARG_INT, ARG_NONE, ARG_NONE, ARG_NONE, ARG_NONE]\<rparr>,
    \<lparr>sc_syscall_id = NR_swapoff, sc_arg_count = 1, sc_arg_types = [VAR_ARG_STRING, ARG_NONE, ARG_NONE, ARG_NONE, ARG_NONE, ARG_NONE]\<rparr>,
    \<lparr>sc_syscall_id = NR_reboot, sc_arg_count = 4, sc_arg_types = [ARG_INT, ARG_INT, ARG_UINT, ARG_PTR, ARG_NONE, ARG_NONE]\<rparr>,
    \<lparr>sc_syscall_id = NR_sethostname, sc_arg_count = 2, sc_arg_types = [VAR_ARG_STRING, ARG_INT, ARG_NONE, ARG_NONE, ARG_NONE, ARG_NONE]\<rparr>,
    \<lparr>sc_syscall_id = NR_setdomainname, sc_arg_count = 2, sc_arg_types = [VAR_ARG_STRING, ARG_INT, ARG_NONE, ARG_NONE, ARG_NONE, ARG_NONE]\<rparr>,
    \<lparr>sc_syscall_id = NR_iopl, sc_arg_count = 1, sc_arg_types = [ARG_UINT, ARG_NONE, ARG_NONE, ARG_NONE, ARG_NONE, ARG_NONE]\<rparr>,
    \<lparr>sc_syscall_id = NR_ioperm, sc_arg_count = 3, sc_arg_types = [ARG_UINT, ARG_UINT, ARG_INT, ARG_NONE, ARG_NONE, ARG_NONE]\<rparr>,
    \<lparr>sc_syscall_id = NR_init_module, sc_arg_count = 3, sc_arg_types = [ARG_PTR, ARG_UINT, VAR_ARG_STRING, ARG_NONE, ARG_NONE, ARG_NONE]\<rparr>,
    \<lparr>sc_syscall_id = NR_delete_module, sc_arg_count = 2, sc_arg_types = [VAR_ARG_STRING, ARG_UINT, ARG_NONE, ARG_NONE, ARG_NONE, ARG_NONE]\<rparr>,
    \<lparr>sc_syscall_id = NR_quotactl, sc_arg_count = 4, sc_arg_types = [ARG_UINT, VAR_ARG_STRING, ARG_INT, ARG_PTR, ARG_NONE, ARG_NONE]\<rparr>,
    \<lparr>sc_syscall_id = NR_gettid, sc_arg_count = 0, sc_arg_types = [ARG_NONE, ARG_NONE, ARG_NONE, ARG_NONE, ARG_NONE, ARG_NONE]\<rparr>,
    \<lparr>sc_syscall_id = NR_readahead, sc_arg_count = 3, sc_arg_types = [ARG_FD, ARG_OFF, ARG_UINT, ARG_NONE, ARG_NONE, ARG_NONE]\<rparr>,
    \<lparr>sc_syscall_id = NR_setxattr, sc_arg_count = 5, sc_arg_types = [VAR_ARG_STRING, VAR_ARG_STRING, ARG_PTR, ARG_UINT, ARG_INT, ARG_NONE]\<rparr>,
    \<lparr>sc_syscall_id = NR_lsetxattr, sc_arg_count = 5, sc_arg_types = [VAR_ARG_STRING, VAR_ARG_STRING, ARG_PTR, ARG_UINT, ARG_INT, ARG_NONE]\<rparr>,
    \<lparr>sc_syscall_id = NR_fsetxattr, sc_arg_count = 5, sc_arg_types = [ARG_FD, VAR_ARG_STRING, ARG_PTR, ARG_UINT, ARG_INT, ARG_NONE]\<rparr>]"

definition syscall_schemas_06 :: "syscall_arg_schema list" where
  "syscall_schemas_06 =
   [\<lparr>sc_syscall_id = NR_getxattr, sc_arg_count = 4, sc_arg_types = [VAR_ARG_STRING, VAR_ARG_STRING, ARG_PTR, ARG_UINT, ARG_NONE, ARG_NONE]\<rparr>,
    \<lparr>sc_syscall_id = NR_lgetxattr, sc_arg_count = 4, sc_arg_types = [VAR_ARG_STRING, VAR_ARG_STRING, ARG_PTR, ARG_UINT, ARG_NONE, ARG_NONE]\<rparr>,
    \<lparr>sc_syscall_id = NR_fgetxattr, sc_arg_count = 4, sc_arg_types = [ARG_FD, VAR_ARG_STRING, ARG_PTR, ARG_UINT, ARG_NONE, ARG_NONE]\<rparr>,
    \<lparr>sc_syscall_id = NR_listxattr, sc_arg_count = 3, sc_arg_types = [VAR_ARG_STRING, VAR_ARG_STRING, ARG_UINT, ARG_NONE, ARG_NONE, ARG_NONE]\<rparr>,
    \<lparr>sc_syscall_id = NR_llistxattr, sc_arg_count = 3, sc_arg_types = [VAR_ARG_STRING, VAR_ARG_STRING, ARG_UINT, ARG_NONE, ARG_NONE, ARG_NONE]\<rparr>,
    \<lparr>sc_syscall_id = NR_flistxattr, sc_arg_count = 3, sc_arg_types = [ARG_FD, VAR_ARG_STRING, ARG_UINT, ARG_NONE, ARG_NONE, ARG_NONE]\<rparr>,
    \<lparr>sc_syscall_id = NR_removexattr, sc_arg_count = 2, sc_arg_types = [VAR_ARG_STRING, VAR_ARG_STRING, ARG_NONE, ARG_NONE, ARG_NONE, ARG_NONE]\<rparr>,
    \<lparr>sc_syscall_id = NR_lremovexattr, sc_arg_count = 2, sc_arg_types = [VAR_ARG_STRING, VAR_ARG_STRING, ARG_NONE, ARG_NONE, ARG_NONE, ARG_NONE]\<rparr>,
    \<lparr>sc_syscall_id = NR_fremovexattr, sc_arg_count = 2, sc_arg_types = [ARG_FD, VAR_ARG_STRING, ARG_NONE, ARG_NONE, ARG_NONE, ARG_NONE]\<rparr>,
    \<lparr>sc_syscall_id = NR_tkill, sc_arg_count = 2, sc_arg_types = [ARG_INT, ARG_INT, ARG_NONE, ARG_NONE, ARG_NONE, ARG_NONE]\<rparr>,
    \<lparr>sc_syscall_id = NR_time, sc_arg_count = 1, sc_arg_types = [ARG_PTR, ARG_NONE, ARG_NONE, ARG_NONE, ARG_NONE, ARG_NONE]\<rparr>,
    \<lparr>sc_syscall_id = NR_futex, sc_arg_count = 6, sc_arg_types = [ARG_PTR, ARG_INT, ARG_UINT, ARG_PTR, ARG_PTR, ARG_UINT]\<rparr>,
    \<lparr>sc_syscall_id = NR_sched_setaffinity, sc_arg_count = 3, sc_arg_types = [ARG_INT, ARG_UINT, ARG_PTR, ARG_NONE, ARG_NONE, ARG_NONE]\<rparr>,
    \<lparr>sc_syscall_id = NR_sched_getaffinity, sc_arg_count = 3, sc_arg_types = [ARG_INT, ARG_UINT, ARG_PTR, ARG_NONE, ARG_NONE, ARG_NONE]\<rparr>,
    \<lparr>sc_syscall_id = NR_io_setup, sc_arg_count = 2, sc_arg_types = [ARG_UINT, ARG_PTR, ARG_NONE, ARG_NONE, ARG_NONE, ARG_NONE]\<rparr>,
    \<lparr>sc_syscall_id = NR_io_destroy, sc_arg_count = 1, sc_arg_types = [ARG_INT, ARG_NONE, ARG_NONE, ARG_NONE, ARG_NONE, ARG_NONE]\<rparr>,
    \<lparr>sc_syscall_id = NR_io_getevents, sc_arg_count = 5, sc_arg_types = [ARG_INT, ARG_UINT, ARG_UINT, ARG_PTR, ARG_PTR, ARG_NONE]\<rparr>,
    \<lparr>sc_syscall_id = NR_io_submit, sc_arg_count = 3, sc_arg_types = [ARG_INT, ARG_UINT, ARG_PTR, ARG_NONE, ARG_NONE, ARG_NONE]\<rparr>,
    \<lparr>sc_syscall_id = NR_io_cancel, sc_arg_count = 3, sc_arg_types = [ARG_INT, ARG_PTR, ARG_PTR, ARG_NONE, ARG_NONE, ARG_NONE]\<rparr>,
    \<lparr>sc_syscall_id = NR_epoll_create, sc_arg_count = 1, sc_arg_types = [ARG_INT, ARG_NONE, ARG_NONE, ARG_NONE, ARG_NONE, ARG_NONE]\<rparr>,
    \<lparr>sc_syscall_id = NR_remap_file_pages, sc_arg_count = 5, sc_arg_types = [ARG_UINT, ARG_UINT, ARG_UINT, ARG_UINT, ARG_UINT, ARG_NONE]\<rparr>,
    \<lparr>sc_syscall_id = NR_getdents64, sc_arg_count = 3, sc_arg_types = [ARG_FD, ARG_PTR, ARG_UINT, ARG_NONE, ARG_NONE, ARG_NONE]\<rparr>,
    \<lparr>sc_syscall_id = NR_set_tid_address, sc_arg_count = 1, sc_arg_types = [ARG_PTR, ARG_NONE, ARG_NONE, ARG_NONE, ARG_NONE, ARG_NONE]\<rparr>,
    \<lparr>sc_syscall_id = NR_restart_syscall, sc_arg_count = 0, sc_arg_types = [ARG_NONE, ARG_NONE, ARG_NONE, ARG_NONE, ARG_NONE, ARG_NONE]\<rparr>,
    \<lparr>sc_syscall_id = NR_semtimedop, sc_arg_count = 4, sc_arg_types = [ARG_INT, ARG_PTR, ARG_UINT, ARG_PTR, ARG_NONE, ARG_NONE]\<rparr>,
    \<lparr>sc_syscall_id = NR_fadvise64, sc_arg_count = 4, sc_arg_types = [ARG_FD, ARG_OFF, ARG_UINT, ARG_INT, ARG_NONE, ARG_NONE]\<rparr>,
    \<lparr>sc_syscall_id = NR_timer_create, sc_arg_count = 3, sc_arg_types = [ARG_INT, ARG_PTR, ARG_PTR, ARG_NONE, ARG_NONE, ARG_NONE]\<rparr>,
    \<lparr>sc_syscall_id = NR_timer_settime, sc_arg_count = 4, sc_arg_types = [ARG_INT, ARG_INT, ARG_PTR, ARG_PTR, ARG_NONE, ARG_NONE]\<rparr>,
    \<lparr>sc_syscall_id = NR_timer_gettime, sc_arg_count = 2, sc_arg_types = [ARG_INT, ARG_PTR, ARG_NONE, ARG_NONE, ARG_NONE, ARG_NONE]\<rparr>,
    \<lparr>sc_syscall_id = NR_timer_getoverrun, sc_arg_count = 1, sc_arg_types = [ARG_INT, ARG_NONE, ARG_NONE, ARG_NONE, ARG_NONE, ARG_NONE]\<rparr>]"

definition syscall_schemas_07 :: "syscall_arg_schema list" where
  "syscall_schemas_07 =
   [\<lparr>sc_syscall_id = NR_timer_delete, sc_arg_count = 1, sc_arg_types = [ARG_INT, ARG_NONE, ARG_NONE, ARG_NONE, ARG_NONE, ARG_NONE]\<rparr>,
    \<lparr>sc_syscall_id = NR_clock_settime, sc_arg_count = 2, sc_arg_types = [ARG_INT, ARG_PTR, ARG_NONE, ARG_NONE, ARG_NONE, ARG_NONE]\<rparr>,
    \<lparr>sc_syscall_id = NR_clock_gettime, sc_arg_count = 2, sc_arg_types = [ARG_INT, ARG_PTR, ARG_NONE, ARG_NONE, ARG_NONE, ARG_NONE]\<rparr>,
    \<lparr>sc_syscall_id = NR_clock_getres, sc_arg_count = 2, sc_arg_types = [ARG_INT, ARG_PTR, ARG_NONE, ARG_NONE, ARG_NONE, ARG_NONE]\<rparr>,
    \<lparr>sc_syscall_id = NR_clock_nanosleep, sc_arg_count = 4, sc_arg_types = [ARG_INT, ARG_INT, ARG_PTR, ARG_PTR, ARG_NONE, ARG_NONE]\<rparr>,
    \<lparr>sc_syscall_id = NR_exit_group, sc_arg_count = 1, sc_arg_types = [ARG_INT, ARG_NONE, ARG_NONE, ARG_NONE, ARG_NONE, ARG_NONE]\<rparr>,
    \<lparr>sc_syscall_id = NR_epoll_wait, sc_arg_count = 4, sc_arg_types = [ARG_FD, ARG_PTR, ARG_INT, ARG_INT, ARG_NONE, ARG_NONE]\<rparr>,
    \<lparr>sc_syscall_id = NR_epoll_ctl, sc_arg_count = 4, sc_arg_types = [ARG_FD, ARG_INT, ARG_FD, ARG_PTR, ARG_NONE, ARG_NONE]\<rparr>,
    \<lparr>sc_syscall_id = NR_tgkill, sc_arg_count = 3, sc_arg_types = [ARG_INT, ARG_INT, ARG_INT, ARG_NONE, ARG_NONE, ARG_NONE]\<rparr>,
    \<lparr>sc_syscall_id = NR_utimes, sc_arg_count = 2, sc_arg_types = [VAR_ARG_STRING, ARG_PTR, ARG_NONE, ARG_NONE, ARG_NONE, ARG_NONE]\<rparr>,
    \<lparr>sc_syscall_id = NR_mbind, sc_arg_count = 6, sc_arg_types = [ARG_UINT, ARG_UINT, ARG_MODE, ARG_PTR, ARG_UINT, ARG_UINT]\<rparr>,
    \<lparr>sc_syscall_id = NR_set_mempolicy, sc_arg_count = 3, sc_arg_types = [ARG_MODE, ARG_PTR, ARG_UINT, ARG_NONE, ARG_NONE, ARG_NONE]\<rparr>,
    \<lparr>sc_syscall_id = NR_get_mempolicy, sc_arg_count = 5, sc_arg_types = [ARG_PTR, ARG_PTR, ARG_UINT, ARG_UINT, ARG_UINT, ARG_NONE]\<rparr>,
    \<lparr>sc_syscall_id = NR_mq_open, sc_arg_count = 4, sc_arg_types = [VAR_ARG_STRING, ARG_INT, ARG_MODE, ARG_PTR, ARG_NONE, ARG_NONE]\<rparr>,
    \<lparr>sc_syscall_id = NR_mq_unlink, sc_arg_count = 1, sc_arg_types = [VAR_ARG_STRING, ARG_NONE, ARG_NONE, ARG_NONE, ARG_NONE, ARG_NONE]\<rparr>,
    \<lparr>sc_syscall_id = NR_mq_timedsend, sc_arg_count = 5, sc_arg_types = [ARG_INT, VAR_ARG_STRING, ARG_UINT, ARG_UINT, ARG_PTR, ARG_NONE]\<rparr>,
    \<lparr>sc_syscall_id = NR_mq_timedreceive, sc_arg_count = 5, sc_arg_types = [ARG_INT, VAR_ARG_STRING, ARG_UINT, ARG_PTR, ARG_PTR, ARG_NONE]\<rparr>,
    \<lparr>sc_syscall_id = NR_mq_notify, sc_arg_count = 2, sc_arg_types = [ARG_INT, ARG_PTR, ARG_NONE, ARG_NONE, ARG_NONE, ARG_NONE]\<rparr>,
    \<lparr>sc_syscall_id = NR_mq_getsetattr, sc_arg_count = 3, sc_arg_types = [ARG_INT, ARG_PTR, ARG_PTR, ARG_NONE, ARG_NONE, ARG_NONE]\<rparr>,
    \<lparr>sc_syscall_id = NR_kexec_load, sc_arg_count = 4, sc_arg_types = [ARG_UINT, ARG_UINT, ARG_PTR, ARG_UINT, ARG_NONE, ARG_NONE]\<rparr>,
    \<lparr>sc_syscall_id = NR_waitid, sc_arg_count = 5, sc_arg_types = [ARG_INT, ARG_INT, ARG_PTR, ARG_INT, ARG_PTR, ARG_NONE]\<rparr>,
    \<lparr>sc_syscall_id = NR_add_key, sc_arg_count = 5, sc_arg_types = [VAR_ARG_STRING, VAR_ARG_STRING, ARG_PTR, ARG_UINT, ARG_RAW, ARG_NONE]\<rparr>,
    \<lparr>sc_syscall_id = NR_request_key, sc_arg_count = 4, sc_arg_types = [VAR_ARG_STRING, VAR_ARG_STRING, VAR_ARG_STRING, ARG_RAW, ARG_NONE, ARG_NONE]\<rparr>,
    \<lparr>sc_syscall_id = NR_keyctl, sc_arg_count = 5, sc_arg_types = [ARG_INT, ARG_UINT, ARG_UINT, ARG_UINT, ARG_UINT, ARG_NONE]\<rparr>,
    \<lparr>sc_syscall_id = NR_ioprio_set, sc_arg_count = 3, sc_arg_types = [ARG_INT, ARG_INT, ARG_INT, ARG_NONE, ARG_NONE, ARG_NONE]\<rparr>,
    \<lparr>sc_syscall_id = NR_ioprio_get, sc_arg_count = 2, sc_arg_types = [ARG_INT, ARG_INT, ARG_NONE, ARG_NONE, ARG_NONE, ARG_NONE]\<rparr>,
    \<lparr>sc_syscall_id = NR_inotify_init, sc_arg_count = 0, sc_arg_types = [ARG_NONE, ARG_NONE, ARG_NONE, ARG_NONE, ARG_NONE, ARG_NONE]\<rparr>,
    \<lparr>sc_syscall_id = NR_inotify_add_watch, sc_arg_count = 3, sc_arg_types = [ARG_FD, VAR_ARG_STRING, ARG_MODE, ARG_NONE, ARG_NONE, ARG_NONE]\<rparr>,
    \<lparr>sc_syscall_id = NR_inotify_rm_watch, sc_arg_count = 2, sc_arg_types = [ARG_FD, ARG_INT, ARG_NONE, ARG_NONE, ARG_NONE, ARG_NONE]\<rparr>,
    \<lparr>sc_syscall_id = NR_migrate_pages, sc_arg_count = 4, sc_arg_types = [ARG_INT, ARG_UINT, ARG_PTR, ARG_PTR, ARG_NONE, ARG_NONE]\<rparr>]"

definition syscall_schemas_08 :: "syscall_arg_schema list" where
  "syscall_schemas_08 =
   [\<lparr>sc_syscall_id = NR_openat, sc_arg_count = 4, sc_arg_types = [ARG_FD, VAR_ARG_STRING, ARG_FLAGS, ARG_MODE, ARG_NONE, ARG_NONE]\<rparr>,
    \<lparr>sc_syscall_id = NR_mkdirat, sc_arg_count = 3, sc_arg_types = [ARG_FD, VAR_ARG_STRING, ARG_MODE, ARG_NONE, ARG_NONE, ARG_NONE]\<rparr>,
    \<lparr>sc_syscall_id = NR_mknodat, sc_arg_count = 4, sc_arg_types = [ARG_FD, VAR_ARG_STRING, ARG_MODE, ARG_UINT, ARG_NONE, ARG_NONE]\<rparr>,
    \<lparr>sc_syscall_id = NR_fchownat, sc_arg_count = 5, sc_arg_types = [ARG_FD, VAR_ARG_STRING, ARG_INT, ARG_INT, ARG_INT, ARG_NONE]\<rparr>,
    \<lparr>sc_syscall_id = NR_futimesat, sc_arg_count = 3, sc_arg_types = [ARG_FD, VAR_ARG_STRING, ARG_PTR, ARG_NONE, ARG_NONE, ARG_NONE]\<rparr>,
    \<lparr>sc_syscall_id = NR_newfstatat, sc_arg_count = 4, sc_arg_types = [ARG_FD, VAR_ARG_STRING, ARG_PTR, ARG_INT, ARG_NONE, ARG_NONE]\<rparr>,
    \<lparr>sc_syscall_id = NR_unlinkat, sc_arg_count = 3, sc_arg_types = [ARG_FD, VAR_ARG_STRING, ARG_INT, ARG_NONE, ARG_NONE, ARG_NONE]\<rparr>,
    \<lparr>sc_syscall_id = NR_renameat, sc_arg_count = 4, sc_arg_types = [ARG_FD, VAR_ARG_STRING, ARG_FD, VAR_ARG_STRING, ARG_NONE, ARG_NONE]\<rparr>,
    \<lparr>sc_syscall_id = NR_linkat, sc_arg_count = 5, sc_arg_types = [ARG_FD, VAR_ARG_STRING, ARG_FD, VAR_ARG_STRING, ARG_INT, ARG_NONE]\<rparr>,
    \<lparr>sc_syscall_id = NR_symlinkat, sc_arg_count = 3, sc_arg_types = [VAR_ARG_STRING, ARG_FD, VAR_ARG_STRING, ARG_NONE, ARG_NONE, ARG_NONE]\<rparr>,
    \<lparr>sc_syscall_id = NR_readlinkat, sc_arg_count = 4, sc_arg_types = [ARG_FD, VAR_ARG_STRING, VAR_ARG_STRING, ARG_INT, ARG_NONE, ARG_NONE]\<rparr>,
    \<lparr>sc_syscall_id = NR_fchmodat, sc_arg_count = 3, sc_arg_types = [ARG_FD, VAR_ARG_STRING, ARG_MODE, ARG_NONE, ARG_NONE, ARG_NONE]\<rparr>,
    \<lparr>sc_syscall_id = NR_faccessat, sc_arg_count = 3, sc_arg_types = [ARG_FD, VAR_ARG_STRING, ARG_MODE, ARG_NONE, ARG_NONE, ARG_NONE]\<rparr>,
    \<lparr>sc_syscall_id = NR_pselect6, sc_arg_count = 6, sc_arg_types = [ARG_INT, ARG_PTR, ARG_PTR, ARG_PTR, ARG_PTR, ARG_PTR]\<rparr>,
    \<lparr>sc_syscall_id = NR_ppoll, sc_arg_count = 5, sc_arg_types = [ARG_FD, ARG_FD, ARG_PTR, ARG_PTR, ARG_UINT, ARG_NONE]\<rparr>,
    \<lparr>sc_syscall_id = NR_unshare, sc_arg_count = 1, sc_arg_types = [ARG_UINT, ARG_NONE, ARG_NONE, ARG_NONE, ARG_NONE, ARG_NONE]\<rparr>,
    \<lparr>sc_syscall_id = NR_set_robust_list, sc_arg_count = 2, sc_arg_types = [ARG_PTR, ARG_UINT, ARG_NONE, ARG_NONE, ARG_NONE, ARG_NONE]\<rparr>,
    \<lparr>sc_syscall_id = NR_get_robust_list, sc_arg_count = 3, sc_arg_types = [ARG_INT, ARG_PTR, ARG_PTR, ARG_NONE, ARG_NONE, ARG_NONE]\<rparr>,
    \<lparr>sc_syscall_id = NR_splice, sc_arg_count = 6, sc_arg_types = [ARG_FD, ARG_OFF, ARG_FD, ARG_OFF, ARG_UINT, ARG_UINT]\<rparr>,
    \<lparr>sc_syscall_id = NR_tee, sc_arg_count = 4, sc_arg_types = [ARG_FD, ARG_FD, ARG_UINT, ARG_UINT, ARG_NONE, ARG_NONE]\<rparr>,
    \<lparr>sc_syscall_id = NR_sync_file_range, sc_arg_count = 4, sc_arg_types = [ARG_FD, ARG_OFF, ARG_OFF, ARG_UINT, ARG_NONE, ARG_NONE]\<rparr>,
    \<lparr>sc_syscall_id = NR_vmsplice, sc_arg_count = 4, sc_arg_types = [ARG_FD, ARG_PTR, ARG_UINT, ARG_UINT, ARG_NONE, ARG_NONE]\<rparr>,
    \<lparr>sc_syscall_id = NR_move_pages, sc_arg_count = 6, sc_arg_types = [ARG_INT, ARG_UINT, ARG_PTR, ARG_PTR, ARG_PTR, ARG_INT]\<rparr>,
    \<lparr>sc_syscall_id = NR_utimensat, sc_arg_count = 4, sc_arg_types = [ARG_FD, VAR_ARG_STRING, ARG_PTR, ARG_INT, ARG_NONE, ARG_NONE]\<rparr>,
    \<lparr>sc_syscall_id = NR_epoll_pwait, sc_arg_count = 6, sc_arg_types = [ARG_FD, ARG_PTR, ARG_INT, ARG_INT, ARG_PTR, ARG_UINT]\<rparr>,
    \<lparr>sc_syscall_id = NR_signalfd, sc_arg_count = 3, sc_arg_types = [ARG_FD, ARG_PTR, ARG_UINT, ARG_NONE, ARG_NONE, ARG_NONE]\<rparr>,
    \<lparr>sc_syscall_id = NR_timerfd_create, sc_arg_count = 2, sc_arg_types = [ARG_INT, ARG_INT, ARG_NONE, ARG_NONE, ARG_NONE, ARG_NONE]\<rparr>,
    \<lparr>sc_syscall_id = NR_eventfd, sc_arg_count = 1, sc_arg_types = [ARG_UINT, ARG_NONE, ARG_NONE, ARG_NONE, ARG_NONE, ARG_NONE]\<rparr>,
    \<lparr>sc_syscall_id = NR_fallocate, sc_arg_count = 4, sc_arg_types = [ARG_FD, ARG_MODE, ARG_OFF, ARG_OFF, ARG_NONE, ARG_NONE]\<rparr>,
    \<lparr>sc_syscall_id = NR_timerfd_settime, sc_arg_count = 4, sc_arg_types = [ARG_FD, ARG_INT, ARG_PTR, ARG_PTR, ARG_NONE, ARG_NONE]\<rparr>]"

definition syscall_schemas_09 :: "syscall_arg_schema list" where
  "syscall_schemas_09 =
   [\<lparr>sc_syscall_id = NR_timerfd_gettime, sc_arg_count = 2, sc_arg_types = [ARG_FD, ARG_PTR, ARG_NONE, ARG_NONE, ARG_NONE, ARG_NONE]\<rparr>,
    \<lparr>sc_syscall_id = NR_accept4, sc_arg_count = 4, sc_arg_types = [ARG_FD, ARG_PTR, ARG_PTR, ARG_INT, ARG_NONE, ARG_NONE]\<rparr>,
    \<lparr>sc_syscall_id = NR_signalfd4, sc_arg_count = 4, sc_arg_types = [ARG_FD, ARG_PTR, ARG_UINT, ARG_INT, ARG_NONE, ARG_NONE]\<rparr>,
    \<lparr>sc_syscall_id = NR_eventfd2, sc_arg_count = 2, sc_arg_types = [ARG_UINT, ARG_INT, ARG_NONE, ARG_NONE, ARG_NONE, ARG_NONE]\<rparr>,
    \<lparr>sc_syscall_id = NR_epoll_create1, sc_arg_count = 1, sc_arg_types = [ARG_INT, ARG_NONE, ARG_NONE, ARG_NONE, ARG_NONE, ARG_NONE]\<rparr>,
    \<lparr>sc_syscall_id = NR_dup3, sc_arg_count = 3, sc_arg_types = [ARG_FD, ARG_FD, ARG_INT, ARG_NONE, ARG_NONE, ARG_NONE]\<rparr>,
    \<lparr>sc_syscall_id = NR_pipe2, sc_arg_count = 2, sc_arg_types = [ARG_FD, ARG_INT, ARG_NONE, ARG_NONE, ARG_NONE, ARG_NONE]\<rparr>,
    \<lparr>sc_syscall_id = NR_inotify_init1, sc_arg_count = 1, sc_arg_types = [ARG_INT, ARG_NONE, ARG_NONE, ARG_NONE, ARG_NONE, ARG_NONE]\<rparr>,
    \<lparr>sc_syscall_id = NR_preadv, sc_arg_count = 5, sc_arg_types = [ARG_FD, ARG_PTR, ARG_UINT, ARG_UINT, ARG_UINT, ARG_NONE]\<rparr>,
    \<lparr>sc_syscall_id = NR_pwritev, sc_arg_count = 5, sc_arg_types = [ARG_FD, ARG_PTR, ARG_UINT, ARG_UINT, ARG_UINT, ARG_NONE]\<rparr>,
    \<lparr>sc_syscall_id = NR_rt_tgsigqueueinfo, sc_arg_count = 4, sc_arg_types = [ARG_INT, ARG_INT, ARG_INT, ARG_PTR, ARG_NONE, ARG_NONE]\<rparr>,
    \<lparr>sc_syscall_id = NR_perf_event_open, sc_arg_count = 5, sc_arg_types = [ARG_PTR, ARG_INT, ARG_INT, ARG_FD, ARG_UINT, ARG_NONE]\<rparr>,
    \<lparr>sc_syscall_id = NR_recvmmsg, sc_arg_count = 5, sc_arg_types = [ARG_FD, ARG_PTR, ARG_UINT, ARG_UINT, ARG_PTR, ARG_NONE]\<rparr>,
    \<lparr>sc_syscall_id = NR_fanotify_init, sc_arg_count = 2, sc_arg_types = [ARG_UINT, ARG_UINT, ARG_NONE, ARG_NONE, ARG_NONE, ARG_NONE]\<rparr>,
    \<lparr>sc_syscall_id = NR_fanotify_mark, sc_arg_count = 5, sc_arg_types = [ARG_FD, ARG_UINT, ARG_MODE, ARG_FD, VAR_ARG_STRING, ARG_NONE]\<rparr>,
    \<lparr>sc_syscall_id = NR_prlimit64, sc_arg_count = 4, sc_arg_types = [ARG_INT, ARG_UINT, ARG_PTR, ARG_PTR, ARG_NONE, ARG_NONE]\<rparr>,
    \<lparr>sc_syscall_id = NR_name_to_handle_at, sc_arg_count = 5, sc_arg_types = [ARG_FD, VAR_ARG_STRING, ARG_PTR, ARG_PTR, ARG_INT, ARG_NONE]\<rparr>,
    \<lparr>sc_syscall_id = NR_open_by_handle_at, sc_arg_count = 3, sc_arg_types = [ARG_FD, ARG_PTR, ARG_INT, ARG_NONE, ARG_NONE, ARG_NONE]\<rparr>,
    \<lparr>sc_syscall_id = NR_clock_adjtime, sc_arg_count = 2, sc_arg_types = [ARG_INT, ARG_PTR, ARG_NONE, ARG_NONE, ARG_NONE, ARG_NONE]\<rparr>,
    \<lparr>sc_syscall_id = NR_syncfs, sc_arg_count = 1, sc_arg_types = [ARG_FD, ARG_NONE, ARG_NONE, ARG_NONE, ARG_NONE, ARG_NONE]\<rparr>,
    \<lparr>sc_syscall_id = NR_sendmmsg, sc_arg_count = 4, sc_arg_types = [ARG_FD, ARG_PTR, ARG_UINT, ARG_UINT, ARG_NONE, ARG_NONE]\<rparr>,
    \<lparr>sc_syscall_id = NR_setns, sc_arg_count = 2, sc_arg_types = [ARG_FD, ARG_INT, ARG_NONE, ARG_NONE, ARG_NONE, ARG_NONE]\<rparr>,
    \<lparr>sc_syscall_id = NR_getcpu, sc_arg_count = 3, sc_arg_types = [ARG_PTR, ARG_PTR, ARG_PTR, ARG_NONE, ARG_NONE, ARG_NONE]\<rparr>,
    \<lparr>sc_syscall_id = NR_process_vm_readv, sc_arg_count = 6, sc_arg_types = [ARG_INT, ARG_PTR, ARG_UINT, ARG_PTR, ARG_UINT, ARG_UINT]\<rparr>,
    \<lparr>sc_syscall_id = NR_process_vm_writev, sc_arg_count = 6, sc_arg_types = [ARG_INT, ARG_PTR, ARG_UINT, ARG_PTR, ARG_UINT, ARG_UINT]\<rparr>,
    \<lparr>sc_syscall_id = NR_kcmp, sc_arg_count = 5, sc_arg_types = [ARG_INT, ARG_INT, ARG_INT, ARG_UINT, ARG_UINT, ARG_NONE]\<rparr>,
    \<lparr>sc_syscall_id = NR_finit_module, sc_arg_count = 3, sc_arg_types = [ARG_FD, VAR_ARG_STRING, ARG_INT, ARG_NONE, ARG_NONE, ARG_NONE]\<rparr>,
    \<lparr>sc_syscall_id = NR_sched_setattr, sc_arg_count = 3, sc_arg_types = [ARG_INT, ARG_PTR, ARG_UINT, ARG_NONE, ARG_NONE, ARG_NONE]\<rparr>,
    \<lparr>sc_syscall_id = NR_sched_getattr, sc_arg_count = 4, sc_arg_types = [ARG_INT, ARG_PTR, ARG_UINT, ARG_UINT, ARG_NONE, ARG_NONE]\<rparr>,
    \<lparr>sc_syscall_id = NR_renameat2, sc_arg_count = 5, sc_arg_types = [ARG_FD, VAR_ARG_STRING, ARG_FD, VAR_ARG_STRING, ARG_UINT, ARG_NONE]\<rparr>]"

definition syscall_schemas_10 :: "syscall_arg_schema list" where
  "syscall_schemas_10 =
   [\<lparr>sc_syscall_id = NR_seccomp, sc_arg_count = 3, sc_arg_types = [ARG_UINT, ARG_UINT, ARG_PTR, ARG_NONE, ARG_NONE, ARG_NONE]\<rparr>,
    \<lparr>sc_syscall_id = NR_getrandom, sc_arg_count = 3, sc_arg_types = [VAR_ARG_STRING, ARG_UINT, ARG_UINT, ARG_NONE, ARG_NONE, ARG_NONE]\<rparr>,
    \<lparr>sc_syscall_id = NR_memfd_create, sc_arg_count = 2, sc_arg_types = [VAR_ARG_STRING, ARG_UINT, ARG_NONE, ARG_NONE, ARG_NONE, ARG_NONE]\<rparr>,
    \<lparr>sc_syscall_id = NR_kexec_file_load, sc_arg_count = 5, sc_arg_types = [ARG_FD, ARG_FD, ARG_UINT, VAR_ARG_STRING, ARG_UINT, ARG_NONE]\<rparr>,
    \<lparr>sc_syscall_id = NR_bpf, sc_arg_count = 3, sc_arg_types = [ARG_INT, ARG_PTR, ARG_UINT, ARG_NONE, ARG_NONE, ARG_NONE]\<rparr>,
    \<lparr>sc_syscall_id = NR_execveat, sc_arg_count = 5, sc_arg_types = [ARG_FD, VAR_ARG_STRING, VAR_ARG_ARGV, VAR_ARG_ARGV, ARG_INT, ARG_NONE]\<rparr>,
    \<lparr>sc_syscall_id = NR_userfaultfd, sc_arg_count = 1, sc_arg_types = [ARG_INT, ARG_NONE, ARG_NONE, ARG_NONE, ARG_NONE, ARG_NONE]\<rparr>,
    \<lparr>sc_syscall_id = NR_membarrier, sc_arg_count = 3, sc_arg_types = [ARG_INT, ARG_UINT, ARG_INT, ARG_NONE, ARG_NONE, ARG_NONE]\<rparr>,
    \<lparr>sc_syscall_id = NR_mlock2, sc_arg_count = 3, sc_arg_types = [ARG_UINT, ARG_UINT, ARG_INT, ARG_NONE, ARG_NONE, ARG_NONE]\<rparr>,
    \<lparr>sc_syscall_id = NR_copy_file_range, sc_arg_count = 6, sc_arg_types = [ARG_FD, ARG_OFF, ARG_FD, ARG_OFF, ARG_UINT, ARG_UINT]\<rparr>,
    \<lparr>sc_syscall_id = NR_preadv2, sc_arg_count = 6, sc_arg_types = [ARG_FD, ARG_PTR, ARG_UINT, ARG_UINT, ARG_UINT, ARG_RAW]\<rparr>,
    \<lparr>sc_syscall_id = NR_pwritev2, sc_arg_count = 6, sc_arg_types = [ARG_FD, ARG_PTR, ARG_UINT, ARG_UINT, ARG_UINT, ARG_RAW]\<rparr>,
    \<lparr>sc_syscall_id = NR_pkey_mprotect, sc_arg_count = 4, sc_arg_types = [ARG_UINT, ARG_UINT, ARG_UINT, ARG_INT, ARG_NONE, ARG_NONE]\<rparr>,
    \<lparr>sc_syscall_id = NR_pkey_alloc, sc_arg_count = 2, sc_arg_types = [ARG_UINT, ARG_UINT, ARG_NONE, ARG_NONE, ARG_NONE, ARG_NONE]\<rparr>,
    \<lparr>sc_syscall_id = NR_pkey_free, sc_arg_count = 1, sc_arg_types = [ARG_INT, ARG_NONE, ARG_NONE, ARG_NONE, ARG_NONE, ARG_NONE]\<rparr>,
    \<lparr>sc_syscall_id = NR_statx, sc_arg_count = 5, sc_arg_types = [ARG_FD, VAR_ARG_STRING, ARG_UINT, ARG_MODE, ARG_PTR, ARG_NONE]\<rparr>,
    \<lparr>sc_syscall_id = NR_io_pgetevents, sc_arg_count = 6, sc_arg_types = [ARG_INT, ARG_UINT, ARG_UINT, ARG_PTR, ARG_PTR, ARG_PTR]\<rparr>,
    \<lparr>sc_syscall_id = NR_rseq, sc_arg_count = 4, sc_arg_types = [ARG_PTR, ARG_UINT, ARG_INT, ARG_UINT, ARG_NONE, ARG_NONE]\<rparr>,
    \<lparr>sc_syscall_id = NR_uretprobe, sc_arg_count = 0, sc_arg_types = [ARG_NONE, ARG_NONE, ARG_NONE, ARG_NONE, ARG_NONE, ARG_NONE]\<rparr>,
    \<lparr>sc_syscall_id = NR_pidfd_send_signal, sc_arg_count = 4, sc_arg_types = [ARG_FD, ARG_INT, ARG_PTR, ARG_UINT, ARG_NONE, ARG_NONE]\<rparr>,
    \<lparr>sc_syscall_id = NR_io_uring_setup, sc_arg_count = 2, sc_arg_types = [ARG_UINT, ARG_PTR, ARG_NONE, ARG_NONE, ARG_NONE, ARG_NONE]\<rparr>,
    \<lparr>sc_syscall_id = NR_io_uring_enter, sc_arg_count = 6, sc_arg_types = [ARG_FD, ARG_UINT, ARG_UINT, ARG_UINT, ARG_PTR, ARG_UINT]\<rparr>,
    \<lparr>sc_syscall_id = NR_io_uring_register, sc_arg_count = 4, sc_arg_types = [ARG_FD, ARG_UINT, ARG_PTR, ARG_UINT, ARG_NONE, ARG_NONE]\<rparr>,
    \<lparr>sc_syscall_id = NR_open_tree, sc_arg_count = 3, sc_arg_types = [ARG_FD, VAR_ARG_STRING, ARG_UINT, ARG_NONE, ARG_NONE, ARG_NONE]\<rparr>,
    \<lparr>sc_syscall_id = NR_move_mount, sc_arg_count = 5, sc_arg_types = [ARG_FD, VAR_ARG_STRING, ARG_FD, VAR_ARG_STRING, ARG_UINT, ARG_NONE]\<rparr>,
    \<lparr>sc_syscall_id = NR_fsopen, sc_arg_count = 2, sc_arg_types = [VAR_ARG_STRING, ARG_UINT, ARG_NONE, ARG_NONE, ARG_NONE, ARG_NONE]\<rparr>,
    \<lparr>sc_syscall_id = NR_fsconfig, sc_arg_count = 5, sc_arg_types = [ARG_FD, ARG_UINT, VAR_ARG_STRING, ARG_PTR, ARG_INT, ARG_NONE]\<rparr>,
    \<lparr>sc_syscall_id = NR_fsmount, sc_arg_count = 3, sc_arg_types = [ARG_FD, ARG_UINT, ARG_UINT, ARG_NONE, ARG_NONE, ARG_NONE]\<rparr>,
    \<lparr>sc_syscall_id = NR_fspick, sc_arg_count = 3, sc_arg_types = [ARG_FD, VAR_ARG_STRING, ARG_UINT, ARG_NONE, ARG_NONE, ARG_NONE]\<rparr>,
    \<lparr>sc_syscall_id = NR_pidfd_open, sc_arg_count = 2, sc_arg_types = [ARG_INT, ARG_UINT, ARG_NONE, ARG_NONE, ARG_NONE, ARG_NONE]\<rparr>]"

definition syscall_schemas_11 :: "syscall_arg_schema list" where
  "syscall_schemas_11 =
   [\<lparr>sc_syscall_id = NR_clone3, sc_arg_count = 2, sc_arg_types = [ARG_PTR, ARG_UINT, ARG_NONE, ARG_NONE, ARG_NONE, ARG_NONE]\<rparr>,
    \<lparr>sc_syscall_id = NR_close_range, sc_arg_count = 3, sc_arg_types = [ARG_FD, ARG_FD, ARG_UINT, ARG_NONE, ARG_NONE, ARG_NONE]\<rparr>,
    \<lparr>sc_syscall_id = NR_openat2, sc_arg_count = 4, sc_arg_types = [ARG_FD, VAR_ARG_STRING, ARG_PTR, ARG_UINT, ARG_NONE, ARG_NONE]\<rparr>,
    \<lparr>sc_syscall_id = NR_pidfd_getfd, sc_arg_count = 3, sc_arg_types = [ARG_FD, ARG_FD, ARG_UINT, ARG_NONE, ARG_NONE, ARG_NONE]\<rparr>,
    \<lparr>sc_syscall_id = NR_faccessat2, sc_arg_count = 4, sc_arg_types = [ARG_FD, VAR_ARG_STRING, ARG_MODE, ARG_INT, ARG_NONE, ARG_NONE]\<rparr>,
    \<lparr>sc_syscall_id = NR_process_madvise, sc_arg_count = 5, sc_arg_types = [ARG_FD, ARG_PTR, ARG_UINT, ARG_INT, ARG_UINT, ARG_NONE]\<rparr>,
    \<lparr>sc_syscall_id = NR_epoll_pwait2, sc_arg_count = 6, sc_arg_types = [ARG_FD, ARG_PTR, ARG_INT, ARG_PTR, ARG_PTR, ARG_UINT]\<rparr>,
    \<lparr>sc_syscall_id = NR_mount_setattr, sc_arg_count = 5, sc_arg_types = [ARG_FD, VAR_ARG_STRING, ARG_UINT, ARG_PTR, ARG_UINT, ARG_NONE]\<rparr>,
    \<lparr>sc_syscall_id = NR_quotactl_fd, sc_arg_count = 4, sc_arg_types = [ARG_FD, ARG_UINT, ARG_INT, ARG_PTR, ARG_NONE, ARG_NONE]\<rparr>,
    \<lparr>sc_syscall_id = NR_landlock_create_ruleset, sc_arg_count = 3, sc_arg_types = [ARG_PTR, ARG_UINT, ARG_UINT, ARG_NONE, ARG_NONE, ARG_NONE]\<rparr>,
    \<lparr>sc_syscall_id = NR_landlock_add_rule, sc_arg_count = 4, sc_arg_types = [ARG_FD, ARG_RAW, ARG_PTR, ARG_UINT, ARG_NONE, ARG_NONE]\<rparr>,
    \<lparr>sc_syscall_id = NR_landlock_restrict_self, sc_arg_count = 2, sc_arg_types = [ARG_FD, ARG_UINT, ARG_NONE, ARG_NONE, ARG_NONE, ARG_NONE]\<rparr>,
    \<lparr>sc_syscall_id = NR_memfd_secret, sc_arg_count = 1, sc_arg_types = [ARG_UINT, ARG_NONE, ARG_NONE, ARG_NONE, ARG_NONE, ARG_NONE]\<rparr>,
    \<lparr>sc_syscall_id = NR_process_mrelease, sc_arg_count = 2, sc_arg_types = [ARG_FD, ARG_UINT, ARG_NONE, ARG_NONE, ARG_NONE, ARG_NONE]\<rparr>,
    \<lparr>sc_syscall_id = NR_futex_waitv, sc_arg_count = 5, sc_arg_types = [ARG_PTR, ARG_UINT, ARG_UINT, ARG_PTR, ARG_INT, ARG_NONE]\<rparr>,
    \<lparr>sc_syscall_id = NR_set_mempolicy_home_node, sc_arg_count = 4, sc_arg_types = [ARG_UINT, ARG_UINT, ARG_UINT, ARG_UINT, ARG_NONE, ARG_NONE]\<rparr>,
    \<lparr>sc_syscall_id = NR_cachestat, sc_arg_count = 4, sc_arg_types = [ARG_FD, ARG_PTR, ARG_PTR, ARG_UINT, ARG_NONE, ARG_NONE]\<rparr>,
    \<lparr>sc_syscall_id = NR_fchmodat2, sc_arg_count = 4, sc_arg_types = [ARG_FD, VAR_ARG_STRING, ARG_MODE, ARG_UINT, ARG_NONE, ARG_NONE]\<rparr>,
    \<lparr>sc_syscall_id = NR_map_shadow_stack, sc_arg_count = 3, sc_arg_types = [ARG_UINT, ARG_UINT, ARG_UINT, ARG_NONE, ARG_NONE, ARG_NONE]\<rparr>,
    \<lparr>sc_syscall_id = NR_futex_wake, sc_arg_count = 4, sc_arg_types = [ARG_PTR, ARG_MODE, ARG_INT, ARG_UINT, ARG_NONE, ARG_NONE]\<rparr>,
    \<lparr>sc_syscall_id = NR_futex_wait, sc_arg_count = 6, sc_arg_types = [ARG_PTR, ARG_UINT, ARG_MODE, ARG_UINT, ARG_PTR, ARG_INT]\<rparr>,
    \<lparr>sc_syscall_id = NR_futex_requeue, sc_arg_count = 4, sc_arg_types = [ARG_PTR, ARG_UINT, ARG_INT, ARG_INT, ARG_NONE, ARG_NONE]\<rparr>,
    \<lparr>sc_syscall_id = NR_statmount, sc_arg_count = 4, sc_arg_types = [ARG_PTR, ARG_PTR, ARG_UINT, ARG_UINT, ARG_NONE, ARG_NONE]\<rparr>,
    \<lparr>sc_syscall_id = NR_listmount, sc_arg_count = 4, sc_arg_types = [ARG_PTR, ARG_PTR, ARG_UINT, ARG_UINT, ARG_NONE, ARG_NONE]\<rparr>,
    \<lparr>sc_syscall_id = NR_lsm_get_self_attr, sc_arg_count = 4, sc_arg_types = [ARG_UINT, ARG_PTR, ARG_PTR, ARG_UINT, ARG_NONE, ARG_NONE]\<rparr>,
    \<lparr>sc_syscall_id = NR_lsm_set_self_attr, sc_arg_count = 4, sc_arg_types = [ARG_UINT, ARG_PTR, ARG_UINT, ARG_UINT, ARG_NONE, ARG_NONE]\<rparr>,
    \<lparr>sc_syscall_id = NR_lsm_list_modules, sc_arg_count = 3, sc_arg_types = [ARG_PTR, ARG_PTR, ARG_UINT, ARG_NONE, ARG_NONE, ARG_NONE]\<rparr>,
    \<lparr>sc_syscall_id = NR_mseal, sc_arg_count = 3, sc_arg_types = [ARG_UINT, ARG_UINT, ARG_UINT, ARG_NONE, ARG_NONE, ARG_NONE]\<rparr>,
    \<lparr>sc_syscall_id = NR_setxattrat, sc_arg_count = 6, sc_arg_types = [ARG_FD, VAR_ARG_STRING, ARG_UINT, VAR_ARG_STRING, ARG_PTR, ARG_UINT]\<rparr>,
    \<lparr>sc_syscall_id = NR_getxattrat, sc_arg_count = 6, sc_arg_types = [ARG_FD, VAR_ARG_STRING, ARG_UINT, VAR_ARG_STRING, ARG_PTR, ARG_UINT]\<rparr>]"

definition syscall_schemas_12 :: "syscall_arg_schema list" where
  "syscall_schemas_12 =
   [\<lparr>sc_syscall_id = NR_listxattrat, sc_arg_count = 5, sc_arg_types = [ARG_FD, VAR_ARG_STRING, ARG_UINT, VAR_ARG_STRING, ARG_UINT, ARG_NONE]\<rparr>,
    \<lparr>sc_syscall_id = NR_removexattrat, sc_arg_count = 4, sc_arg_types = [ARG_FD, VAR_ARG_STRING, ARG_UINT, VAR_ARG_STRING, ARG_NONE, ARG_NONE]\<rparr>,
    \<lparr>sc_syscall_id = NR_open_tree_attr, sc_arg_count = 5, sc_arg_types = [ARG_FD, VAR_ARG_STRING, ARG_UINT, ARG_PTR, ARG_UINT, ARG_NONE]\<rparr>,
    \<lparr>sc_syscall_id = NR_file_getattr, sc_arg_count = 5, sc_arg_types = [ARG_FD, VAR_ARG_STRING, ARG_PTR, ARG_UINT, ARG_UINT, ARG_NONE]\<rparr>,
    \<lparr>sc_syscall_id = NR_file_setattr, sc_arg_count = 5, sc_arg_types = [ARG_FD, VAR_ARG_STRING, ARG_PTR, ARG_UINT, ARG_UINT, ARG_NONE]\<rparr>]"

definition syscall_schemas :: "syscall_arg_schema list" where
  "syscall_schemas =
    syscall_schemas_00 @
    syscall_schemas_01 @
    syscall_schemas_02 @
    syscall_schemas_03 @
    syscall_schemas_04 @
    syscall_schemas_05 @
    syscall_schemas_06 @
    syscall_schemas_07 @
    syscall_schemas_08 @
    syscall_schemas_09 @
    syscall_schemas_10 @
    syscall_schemas_11 @
    syscall_schemas_12"

lemmas schema_blocks =
  syscall_schemas_00_def
  syscall_schemas_01_def
  syscall_schemas_02_def
  syscall_schemas_03_def
  syscall_schemas_04_def
  syscall_schemas_05_def
  syscall_schemas_06_def
  syscall_schemas_07_def
  syscall_schemas_08_def
  syscall_schemas_09_def
  syscall_schemas_10_def
  syscall_schemas_11_def
  syscall_schemas_12_def

end
