(* ===== verification/Schema.thy ===== *)
theory Schema
  imports Schema_Table
begin

text \<open>
  \<^verbatim>\<open>set_syscall_arg_schema\<close> of \<^verbatim>\<open>internal/bpf/tracer.c\<close>: the search of the schema
  table that types the arguments of an event, and what makes the table usable:
  every row is well formed and the syscall numbers strictly increase, so the
  first match of the search is the only one.
\<close>

section \<open>The search\<close>

fun schema_loop :: "syscall_arg_schema list \<Rightarrow> s64 \<Rightarrow> event \<Rightarrow> event" where
  "schema_loop [] syscall_id e =
     e\<lparr>ev_arg_count := 6, ev_arg_types := fill_loop 6 ARG_RAW (ev_arg_types e)\<rparr>"
| "schema_loop (schema # rest) syscall_id e =
     (if sc_syscall_id schema \<noteq> syscall_id then schema_loop rest syscall_id e
      else e\<lparr>ev_arg_count := sc_arg_count schema,
             ev_arg_types := copy_loop 6 (sc_arg_types schema) (ev_arg_types e)\<rparr>)"

definition set_syscall_arg_schema :: "s64 \<Rightarrow> event \<Rightarrow> event" where
  "set_syscall_arg_schema syscall_id e = schema_loop syscall_schemas syscall_id e"

section \<open>The table\<close>

text \<open>
  A row is well formed when it types six positions, the first \<open>arg_count\<close> of them
  with a type and the others with \<open>ARG_NONE\<close>.
\<close>

definition row_ok :: "syscall_arg_schema \<Rightarrow> bool" where
  "row_ok sc \<longleftrightarrow>
     length (sc_arg_types sc) = 6 \<and> unat (sc_arg_count sc) \<le> 6 \<and>
     list_all (\<lambda>t. t \<noteq> ARG_NONE) (take (unat (sc_arg_count sc)) (sc_arg_types sc)) \<and>
     list_all (\<lambda>t. t = ARG_NONE) (drop (unat (sc_arg_count sc)) (sc_arg_types sc))"

fun ascending :: "nat \<Rightarrow> syscall_arg_schema list \<Rightarrow> bool" where
  "ascending lo [] = True"
| "ascending lo (sc # scs) = (lo \<le> unat (sc_syscall_id sc) \<and> ascending (Suc (unat (sc_syscall_id sc))) scs)"

lemma rows_ok: "list_all row_ok syscall_schemas"
  by (simp add: syscall_schemas_def schema_blocks row_ok_def)

lemma table_ascending: "ascending 0 syscall_schemas"
  by (simp add: syscall_schemas_def schema_blocks)

lemma ascending_lower: "ascending lo scs \<Longrightarrow> sc \<in> set scs \<Longrightarrow> lo \<le> unat (sc_syscall_id sc)"
  by (induction scs arbitrary: lo) force+

lemma ascending_distinct: "ascending lo scs \<Longrightarrow> distinct (map sc_syscall_id scs)"
  by (induction lo scs rule: ascending.induct) (auto dest!: ascending_lower)

lemma schema_loop_hit:
  "distinct (map sc_syscall_id scs) \<Longrightarrow> sc \<in> set scs \<Longrightarrow>
   schema_loop scs (sc_syscall_id sc) e =
     e\<lparr>ev_arg_count := sc_arg_count sc,
       ev_arg_types := copy_loop 6 (sc_arg_types sc) (ev_arg_types e)\<rparr>"
  by (induction scs) force+

lemma schema_loop_miss:
  "syscall_id \<notin> sc_syscall_id ` set scs \<Longrightarrow>
   schema_loop scs syscall_id e =
     e\<lparr>ev_arg_count := 6, ev_arg_types := fill_loop 6 ARG_RAW (ev_arg_types e)\<rparr>"
  by (induction scs) auto

lemma row_okI: "sc \<in> set syscall_schemas \<Longrightarrow> row_ok sc"
  using rows_ok by (simp add: list_all_iff)

lemma schema_hit:
  assumes "sc \<in> set syscall_schemas" and "length (ev_arg_types e) = 6"
  shows "set_syscall_arg_schema (sc_syscall_id sc) e =
    e\<lparr>ev_arg_count := sc_arg_count sc, ev_arg_types := sc_arg_types sc\<rparr>"
  using schema_loop_hit [OF ascending_distinct [OF table_ascending] assms(1), of e]
    row_okI [OF assms(1)] assms(2)
  by (simp add: set_syscall_arg_schema_def row_ok_def copy_loop_eq)

lemma schema_miss:
  assumes "syscall_id \<notin> sc_syscall_id ` set syscall_schemas" and "length (ev_arg_types e) = 6"
  shows "set_syscall_arg_schema syscall_id e =
    e\<lparr>ev_arg_count := 6, ev_arg_types := replicate 6 ARG_RAW\<rparr>"
  using assms by (simp add: set_syscall_arg_schema_def schema_loop_miss fill_loop_eq)

lemma schema_cases [consumes 1, case_names hit miss]:
  assumes "length (ev_arg_types e) = 6"
    and "\<And>sc. sc \<in> set syscall_schemas \<Longrightarrow> syscall_id = sc_syscall_id sc \<Longrightarrow> row_ok sc \<Longrightarrow>
      set_syscall_arg_schema syscall_id e =
        e\<lparr>ev_arg_count := sc_arg_count sc, ev_arg_types := sc_arg_types sc\<rparr> \<Longrightarrow> P"
    and "syscall_id \<notin> sc_syscall_id ` set syscall_schemas \<Longrightarrow>
      set_syscall_arg_schema syscall_id e =
        e\<lparr>ev_arg_count := 6, ev_arg_types := replicate 6 ARG_RAW\<rparr> \<Longrightarrow> P"
  shows P
proof (cases "syscall_id \<in> sc_syscall_id ` set syscall_schemas")
  case True
  then show ?thesis using assms(1,2) schema_hit row_okI by blast
next
  case False
  then show ?thesis using assms(1,3) schema_miss by blast
qed

end
