(* ===== verification/Tracer.thy ===== *)
theory Tracer
  imports Execve Schema
begin

text \<open>
  The three tracepoint programs of \<^verbatim>\<open>internal/bpf/tracer.c\<close>,
  \<open>trace_sys_enter\<close>, \<open>trace_sys_exit\<close> and \<open>trace_sched_process_exit\<close>, as functions
  from the state of the maps to the state of the maps. A run of a program is one
  step: it sees one \<^typ>\<open>kenv\<close>, and no other program runs in between.
\<close>

section \<open>State\<close>

text \<open>
  The constants the loader patches into the program (\<open>follow_forks\<close>,
  \<open>trace_filter_enabled\<close>) and those of the kernel headers the program is compiled
  with, which are not part of the repository.
\<close>

record tracer_abi =
  follow_forks :: u8
  trace_filter_enabled :: u8
  CLONE_THREAD :: u64
  sizeof_stat :: u64
  sizeof_statx :: u64

text \<open>
  The maps, and the ring buffer as the list of the events submitted to it, oldest
  first.
\<close>

record tracer =
  target_pids :: "u32 \<rightharpoonup> u8"
  trace_syscall_filter :: "u32 \<rightharpoonup> u8"
  events :: "event list"
  inflight_syscalls :: "u32 \<rightharpoonup> syscall_data"
  execve_snapshots :: "u32 \<rightharpoonup> execve_snapshot"
  tid_sequences :: "u32 \<rightharpoonup> u32"

abbreviation (input) EVENT_FLAG_PROCESS_CLONE :: u8 where "EVENT_FLAG_PROCESS_CLONE \<equiv> 1"

text \<open>\<open>pid_tgid >> 32\<close> and \<open>(__u32) pid_tgid\<close>.\<close>

definition cur_tgid :: "kenv \<Rightarrow> u32" where
  "cur_tgid k = ucast (drop_bit 32 (k_pid_tgid k))"

definition cur_tid :: "kenv \<Rightarrow> u32" where
  "cur_tid k = ucast (k_pid_tgid k)"

section \<open>Processes and threads\<close>

definition is_process_clone :: "tracer_abi \<Rightarrow> kenv \<Rightarrow> syscall_data \<Rightarrow> bool" where
  "is_process_clone abi k state =
     (if sd_syscall_id state = NR_fork \<or> sd_syscall_id state = NR_vfork then True
      else if sd_syscall_id state = NR_clone
      then (if sd_args state ! 0 AND CLONE_THREAD abi \<noteq> 0 then False else True)
      else if sd_syscall_id state = NR_clone3
      then let (r, bs) = k_read k (sd_args state ! 0) 8 in
           if r < 0 then True
           else let args = \<lparr>c3_flags = le_word bs\<rparr>
                in if c3_flags args AND CLONE_THREAD abi \<noteq> 0 then False else True
      else False)"

definition should_track_unselected_syscall :: "tracer_abi \<Rightarrow> kenv \<Rightarrow> s64 \<Rightarrow> bool" where
  "should_track_unselected_syscall abi k syscall_id =
     (let state = zero_syscall_data\<lparr>sd_syscall_id := syscall_id\<rparr>
      in if follow_forks abi = 0 then False else is_process_clone abi k state)"

definition track_child_process :: "tracer_abi \<Rightarrow> kenv \<Rightarrow> syscall_data \<Rightarrow> s64 \<Rightarrow> tracer \<Rightarrow> tracer" where
  "track_child_process abi k state ret s =
     (if sint ret \<le> 0 then s
      else if \<not> is_process_clone abi k state then s
      else if follow_forks abi = 0 then s
      else let child_tgid = ucast ret
           in s\<lparr>target_pids := map_update k Target_pids (target_pids s) child_tgid 1\<rparr>)"

definition cleanup_tid_state :: "u32 \<Rightarrow> tracer \<Rightarrow> tracer" where
  "cleanup_tid_state tid s =
     s\<lparr>inflight_syscalls := map_delete (inflight_syscalls s) tid,
       execve_snapshots := map_delete (execve_snapshots s) tid,
       tid_sequences := map_delete (tid_sequences s) tid\<rparr>"

section \<open>Entering a system call\<close>

definition snapshot_execve :: "kenv \<Rightarrow> u32 \<Rightarrow> sys_enter_args \<Rightarrow> tracer \<Rightarrow> tracer" where
  "snapshot_execve k tid ctx s =
     (let m = lru_update k Execve_snapshots (execve_snapshots s) tid zero_snapshot in
      case m tid of
        None \<Rightarrow> s\<lparr>execve_snapshots := m\<rparr>
      | Some snapshot \<Rightarrow>
          let snapshot = append_execve_var_string k snapshot 0 (en_args ctx ! 0);
              snapshot = append_execve_var_argv k snapshot 1 (en_args ctx ! 1)
          in s\<lparr>execve_snapshots := m(tid \<mapsto> snapshot)\<rparr>)"

definition trace_sys_enter :: "tracer_abi \<Rightarrow> kenv \<Rightarrow> sys_enter_args \<Rightarrow> tracer \<Rightarrow> tracer" where
  "trace_sys_enter abi k ctx s =
     (let tgid = cur_tgid k; tid = cur_tid k; syscall_id = ucast (en_id ctx) :: u32 in
      if target_pids s tgid = None then s
      else
        let selected =
              (if trace_filter_enabled abi \<noteq> 0 \<and> trace_syscall_filter s syscall_id = None
               then 0 else 1)
        in if selected = 0 \<and> \<not> should_track_unselected_syscall abi k (en_id ctx) then s
           else
             let next_seq = (case tid_sequences s tid of None \<Rightarrow> 1 | Some prev_seq \<Rightarrow> prev_seq + 1);
                 s = s\<lparr>tid_sequences := lru_update k Tid_sequences (tid_sequences s) tid next_seq\<rparr>;
                 state = zero_syscall_data
                   \<lparr>sd_ts := k_ktime k, sd_syscall_id := en_id ctx, sd_seq := next_seq,
                    sd_selected := selected,
                    sd_args := [en_args ctx ! 0, en_args ctx ! 1, en_args ctx ! 2,
                                en_args ctx ! 3, en_args ctx ! 4, en_args ctx ! 5]\<rparr>;
                 s = (if en_id ctx = NR_execve then snapshot_execve k tid ctx s else s)
             in s\<lparr>inflight_syscalls :=
                   lru_update k Inflight_syscalls (inflight_syscalls s) tid state\<rparr>)"

section \<open>Leaving a system call\<close>

text \<open>The event's fixed fields, and its arrays cleared, in the memory \<open>e\<close> reserved for it.\<close>

definition init_event ::
  "tracer_abi \<Rightarrow> kenv \<Rightarrow> syscall_data \<Rightarrow> s64 \<Rightarrow> event \<Rightarrow> event" where
  "init_event abi k state ret e =
     (let e = e\<lparr>ev_ts := sd_ts state, ev_dur := k_ktime k - sd_ts state, ev_pid := cur_tgid k,
                ev_tid := cur_tid k, ev_seq := sd_seq state, ev_syscall_id := sd_syscall_id state,
                ev_ret := ret, ev_arg_count := 0, ev_payload_len := 0, ev_var_count := 0,
                ev_event_flags := 0\<rparr>;
          e = (if 0 < sint ret \<and> is_process_clone abi k state
               then e\<lparr>ev_event_flags := ev_event_flags e OR EVENT_FLAG_PROCESS_CLONE\<rparr> else e);
          e = e\<lparr>ev_args := copy_loop 6 (sd_args state) (ev_args e),
                ev_arg_types := fill_loop 6 ARG_NONE (ev_arg_types e),
                ev_var_desc := fill_loop 6 zero_desc (ev_var_desc e)\<rparr>
      in e\<lparr>ev_payload := fill_loop MAX_VAR_PAYLOAD 0 (ev_payload e)\<rparr>)"

definition set_arg_type :: "nat \<Rightarrow> u8 \<Rightarrow> event \<Rightarrow> event" where
  "set_arg_type i typ e = e\<lparr>ev_arg_types := (ev_arg_types e)[i := typ]\<rparr>"

definition capture_string :: "kenv \<Rightarrow> syscall_data \<Rightarrow> nat \<Rightarrow> event \<Rightarrow> event" where
  "capture_string k state i e =
     set_arg_type i VAR_ARG_STRING (append_var_string k e (of_nat i) (sd_args state ! i))"

definition capture_bytes :: "kenv \<Rightarrow> syscall_data \<Rightarrow> nat \<Rightarrow> u64 \<Rightarrow> event \<Rightarrow> event" where
  "capture_bytes k state i sz e =
     set_arg_type i VAR_ARG_BYTES (append_var_bytes k e (of_nat i) (sd_args state ! i) sz)"

text \<open>
  The handler's \<open>if\<close> statements, in order: each a condition and what is done to the
  event when it holds. Those before the execve case, and those after it.
\<close>

definition capture_steps ::
  "tracer_abi \<Rightarrow> kenv \<Rightarrow> syscall_data \<Rightarrow> s64 \<Rightarrow> (bool \<times> (event \<Rightarrow> event)) list" where
  "capture_steps abi k state ret =
     (let nr = sd_syscall_id state in
      [(nr = NR_open, capture_string k state 0),
       (nr = NR_openat, capture_string k state 1),
       (nr = NR_openat2 \<or> nr = NR_newfstatat \<or> nr = NR_faccessat \<or> nr = NR_statx \<or> nr = NR_faccessat2,
        capture_string k state 1),
       (nr = NR_access \<or> nr = NR_newstat \<or> nr = NR_newlstat, capture_string k state 0),
       (nr = NR_newfstat \<and> 0 \<le> sint ret, capture_bytes k state 1 (sizeof_stat abi)),
       ((nr = NR_newstat \<or> nr = NR_newlstat) \<and> 0 \<le> sint ret,
        capture_bytes k state 1 (sizeof_stat abi)),
       (nr = NR_newfstatat \<and> 0 \<le> sint ret, capture_bytes k state 2 (sizeof_stat abi)),
       (nr = NR_statx \<and> 0 \<le> sint ret, capture_bytes k state 4 (sizeof_statx abi)),
       (nr = NR_chdir \<or> nr = NR_unlink, capture_string k state 0),
       (nr = NR_rename, \<lambda>e. capture_string k state 1 (capture_string k state 0 e)),
       (nr = NR_unlinkat, capture_string k state 1),
       (nr = NR_renameat \<or> nr = NR_renameat2,
        \<lambda>e. capture_string k state 3 (capture_string k state 1 e))])"

definition io_steps :: "kenv \<Rightarrow> syscall_data \<Rightarrow> s64 \<Rightarrow> (bool \<times> (event \<Rightarrow> event)) list" where
  "io_steps k state ret =
     (let nr = sd_syscall_id state in
      [(nr = NR_write, \<lambda>e. append_var_bytes k e 1 (sd_args state ! 1) (sd_args state ! 2)),
       (nr = NR_read \<and> 0 \<le> sint ret, \<lambda>e. append_var_bytes k e 1 (sd_args state ! 1) ret)])"

fun run_steps :: "(bool \<times> (event \<Rightarrow> event)) list \<Rightarrow> event \<Rightarrow> event" where
  "run_steps [] e = e"
| "run_steps ((c, f) # steps) e = run_steps steps (if c then f e else e)"

definition copy_snapshot :: "execve_snapshot option \<Rightarrow> event \<Rightarrow> event" where
  "copy_snapshot lookup e =
     (case lookup of
        Some snapshot \<Rightarrow>
          e\<lparr>ev_payload_len := sn_payload_len snapshot, ev_var_count := sn_var_count snapshot,
            ev_var_desc := copy_loop MAX_EXECVE_STATE_VARS (sn_var_desc snapshot) (ev_var_desc e),
            ev_payload := copy_loop MAX_EXECVE_STATE_PAYLOAD (sn_payload snapshot) (ev_payload e)\<rparr>
      | None \<Rightarrow>
          let ds = ev_var_desc e;
              ds = ds[0 := (ds ! 0)\<lparr>vd_arg_index := 0, vd_flags := VAR_FLAG_READ_ERROR\<rparr>];
              ds = ds[1 := (ds ! 1)\<lparr>vd_arg_index := 1, vd_flags := VAR_FLAG_READ_ERROR\<rparr>]
          in e\<lparr>ev_var_count := 2, ev_var_desc := ds\<rparr>)"

definition build_event ::
  "tracer_abi \<Rightarrow> kenv \<Rightarrow> syscall_data \<Rightarrow> s64 \<Rightarrow> execve_snapshot option \<Rightarrow> event \<Rightarrow> event" where
  "build_event abi k state ret lookup e =
     (let e = init_event abi k state ret e;
          e = set_syscall_arg_schema (sd_syscall_id state) e;
          e = run_steps (capture_steps abi k state ret) e;
          e = (if sd_syscall_id state = NR_execve then copy_snapshot lookup e else e)
      in run_steps (io_steps k state ret) e)"

definition trace_sys_exit :: "tracer_abi \<Rightarrow> kenv \<Rightarrow> sys_exit_args \<Rightarrow> tracer \<Rightarrow> tracer" where
  "trace_sys_exit abi k ctx s =
     (let tgid = cur_tgid k; tid = cur_tid k in
      if target_pids s tgid = None then s
      else
        case inflight_syscalls s tid of
          None \<Rightarrow> s
        | Some state \<Rightarrow>
            let s = track_child_process abi k state (ex_ret ctx) s in
            if sd_selected state = 0
            then s\<lparr>inflight_syscalls := map_delete (inflight_syscalls s) tid\<rparr>
            else
              case k_reserve k of
                None \<Rightarrow> s
              | Some e \<Rightarrow>
                  let e = build_event abi k state (ex_ret ctx) (execve_snapshots s tid) e;
                      s = (if sd_syscall_id state = NR_execve
                           then s\<lparr>execve_snapshots := map_delete (execve_snapshots s) tid\<rparr> else s);
                      s = s\<lparr>events := events s @ [e]\<rparr>;
                      s = s\<lparr>inflight_syscalls := map_delete (inflight_syscalls s) tid\<rparr>
                  in if sd_syscall_id state = NR_exit \<or> sd_syscall_id state = NR_exit_group
                     then let s = cleanup_tid_state tid s
                          in if sd_syscall_id state = NR_exit_group
                             then s\<lparr>target_pids := map_delete (target_pids s) tgid\<rparr> else s
                     else s)"

section \<open>The end of a thread\<close>

definition trace_sched_process_exit :: "kenv \<Rightarrow> tracer \<Rightarrow> tracer" where
  "trace_sched_process_exit k s =
     (let tgid = cur_tgid k; tid = cur_tid k in
      if target_pids s tgid = None then s
      else
        let s = cleanup_tid_state tid s
        in if tid = tgid then s\<lparr>target_pids := map_delete (target_pids s) tgid\<rparr> else s)"

end
