(* ===== verification/Event_Build.thy ===== *)
theory Event_Build
  imports Tracer
begin

text \<open>
  What the exit handler of theory Tracer puts into an event: a closed form of the
  initialisation, which shows that nothing of the reserved memory survives; the
  fixed fields, which no capture changes; and the well-formedness of the result.
\<close>

section \<open>Initialisation\<close>

definition blank_event :: "tracer_abi \<Rightarrow> kenv \<Rightarrow> syscall_data \<Rightarrow> s64 \<Rightarrow> event" where
  "blank_event abi k state ret =
     \<lparr>ev_ts = sd_ts state, ev_dur = k_ktime k - sd_ts state, ev_syscall_id = sd_syscall_id state,
      ev_ret = ret, ev_args = take 6 (sd_args state), ev_var_desc = replicate 6 zero_desc,
      ev_payload = replicate MAX_VAR_PAYLOAD 0, ev_pid = cur_tgid k, ev_tid = cur_tid k,
      ev_seq = sd_seq state, ev_payload_len = 0, ev_arg_count = 0, ev_var_count = 0,
      ev_arg_types = replicate 6 ARG_NONE,
      ev_event_flags = (if 0 < sint ret \<and> is_process_clone abi k state
                        then EVENT_FLAG_PROCESS_CLONE else 0)\<rparr>"

lemma init_event_eq:
  assumes "event_shape g" and "length (sd_args state) = 6"
  shows "init_event abi k state ret g = blank_event abi k state ret"
  using assms
  by (cases g) (simp add: init_event_def blank_event_def event_shape_def Let_def buf_simps)

text \<open>The event after the schema has typed its arguments.\<close>

definition typed_event :: "tracer_abi \<Rightarrow> kenv \<Rightarrow> syscall_data \<Rightarrow> s64 \<Rightarrow> event" where
  "typed_event abi k state ret =
     set_syscall_arg_schema (sd_syscall_id state) (blank_event abi k state ret)"

lemma blank_event_simps [simp]:
  "ev_payload_len (blank_event abi k state ret) = 0"
  "ev_var_count (blank_event abi k state ret) = 0"
  "length (ev_arg_types (blank_event abi k state ret)) = 6"
  "length (ev_var_desc (blank_event abi k state ret)) = 6"
  "length (ev_payload (blank_event abi k state ret)) = 512"
  by (simp_all add: blank_event_def)

lemma typed_event_cases:
  obtains n ts where "typed_event abi k state ret =
      (blank_event abi k state ret)\<lparr>ev_arg_count := n, ev_arg_types := ts\<rparr>"
    and "unat n \<le> 6" and "length ts = 6"
proof (rule schema_cases [of "blank_event abi k state ret" "sd_syscall_id state"])
  show "length (ev_arg_types (blank_event abi k state ret)) = 6" by simp
next
  fix sc
  assume "row_ok sc" and "set_syscall_arg_schema (sd_syscall_id state) (blank_event abi k state ret) =
    (blank_event abi k state ret)\<lparr>ev_arg_count := sc_arg_count sc, ev_arg_types := sc_arg_types sc\<rparr>"
  then show thesis
    using that unfolding typed_event_def row_ok_def by blast
next
  assume "set_syscall_arg_schema (sd_syscall_id state) (blank_event abi k state ret) =
    (blank_event abi k state ret)\<lparr>ev_arg_count := 6, ev_arg_types := replicate 6 ARG_RAW\<rparr>"
  then show thesis
    using that [where n = 6 and ts = "replicate 6 ARG_RAW"] unfolding typed_event_def by simp
qed

lemma typed_event_simps [simp]:
  "ev_payload_len (typed_event abi k state ret) = 0"
  "ev_var_count (typed_event abi k state ret) = 0"
  "ev_var_desc (typed_event abi k state ret) = replicate 6 zero_desc"
  "ev_payload (typed_event abi k state ret) = replicate 512 0"
  "ev_args (typed_event abi k state ret) = take 6 (sd_args state)"
  by (rule typed_event_cases [of abi k state ret], simp add: blank_event_def)+

lemma slots_ok_typed:
  assumes "length (sd_args state) = 6"
  shows "slots_ok (typed_event abi k state ret)"
  by (rule typed_event_cases [of abi k state ret])
    (use assms in \<open>simp add: slots_ok_def event_ok_def event_shape_def blank_event_def\<close>)

section \<open>Fields no capture changes\<close>

definition event_ids ::
  "event \<Rightarrow> (u64 \<times> u64 \<times> s64 \<times> s64 \<times> u64 list) \<times> (u32 \<times> u32 \<times> u32) \<times> u8 \<times> u8" where
  "event_ids e =
     ((ev_ts e, ev_dur e, ev_syscall_id e, ev_ret e, ev_args e),
      (ev_pid e, ev_tid e, ev_seq e), ev_arg_count e, ev_event_flags e)"

lemma event_ids_header: "event_header e = event_header e' \<Longrightarrow> event_ids e = event_ids e'"
  by (simp add: event_ids_def event_header_def)

lemma set_arg_type_simps [simp]:
  "event_ids (set_arg_type i t e) = event_ids e"
  "ev_var_count (set_arg_type i t e) = ev_var_count e"
  "ev_var_desc (set_arg_type i t e) = ev_var_desc e"
  "ev_payload (set_arg_type i t e) = ev_payload e"
  "ev_payload_len (set_arg_type i t e) = ev_payload_len e"
  "captured (set_arg_type i t e) j = captured e j"
  by (simp_all add: set_arg_type_def event_ids_def captured_def)

lemma event_shape_set_arg_type [simp]: "event_shape (set_arg_type i t e) = event_shape e"
  by (simp add: set_arg_type_def event_shape_def)

lemma event_ok_set_arg_type [simp]: "event_ok (set_arg_type i t e) = event_ok e"
  by (simp add: event_ok_def)

lemma slots_ok_set_arg_type [simp]: "slots_ok (set_arg_type i t e) = slots_ok e"
  by (simp add: slots_ok_def)

lemma run_steps_append: "run_steps (xs @ ys) e = run_steps ys (run_steps xs e)"
  by (induction xs e rule: run_steps.induct) auto

lemma run_steps_inv:
  assumes "\<And>c f e. (c, f) \<in> set steps \<Longrightarrow> c \<Longrightarrow> P e \<Longrightarrow> P (f e)" and "P e"
  shows "P (run_steps steps e)"
  using assms by (induction steps e rule: run_steps.induct) auto

lemma run_steps_skip: "(\<And>c f. (c, f) \<in> set steps \<Longrightarrow> \<not> c) \<Longrightarrow> run_steps steps e = e"
  by (induction steps e rule: run_steps.induct) (auto, blast)

lemma event_ids_append [simp]:
  "event_ids (append_var_string k e i p) = event_ids e"
  "event_ids (append_var_bytes k e i p sz) = event_ids e"
  by (rule event_ids_header, simp add: append_var_string_header append_var_bytes_header)+

lemma event_ids_capture [simp]:
  "event_ids (capture_string k state i e) = event_ids e"
  "event_ids (capture_bytes k state i sz e) = event_ids e"
  by (simp_all add: capture_string_def capture_bytes_def)

lemma event_ids_copy_snapshot [simp]: "event_ids (copy_snapshot lookup e) = event_ids e"
  by (simp add: copy_snapshot_def event_ids_def Let_def split: option.split)

lemma event_ids_steps:
  "event_ids (run_steps (capture_steps abi k state ret) e) = event_ids e"
  "event_ids (run_steps (io_steps k state ret) e) = event_ids e"
  by (rule run_steps_inv [where P = "\<lambda>x. event_ids x = event_ids e"],
      auto simp: capture_steps_def io_steps_def Let_def)+

lemma build_event_typed:
  assumes "event_shape g" and "length (sd_args state) = 6"
  shows "build_event abi k state ret lookup g =
    run_steps (io_steps k state ret)
      (if sd_syscall_id state = NR_execve
       then copy_snapshot lookup (run_steps (capture_steps abi k state ret) (typed_event abi k state ret))
       else run_steps (capture_steps abi k state ret) (typed_event abi k state ret))"
  by (simp add: build_event_def init_event_eq [OF assms] typed_event_def Let_def)

lemma build_event_ids:
  assumes "event_shape g" and "length (sd_args state) = 6"
  shows "event_ids (build_event abi k state ret lookup g) = event_ids (typed_event abi k state ret)"
  by (simp add: build_event_typed [OF assms] event_ids_steps)

section \<open>Well-formedness of the result\<close>

text \<open>The header structures \<open>struct stat\<close> and \<open>struct statx\<close> are not empty.\<close>

definition abi_ok :: "tracer_abi \<Rightarrow> bool" where
  "abi_ok abi \<longleftrightarrow> sizeof_stat abi \<noteq> 0 \<and> sizeof_statx abi \<noteq> 0"

context kernel_env
begin

lemma capture_string_slots: "slots_ok e \<Longrightarrow> slots_ok (capture_string k state i e)"
  by (simp add: capture_string_def str.op_inv)

lemma capture_bytes_slots:
  assumes "sz \<noteq> 0" and "slots_ok e"
  shows "slots_ok (capture_bytes k state i sz e)"
  using capture_op.op_inv [OF bytes_op [OF assms(1)]] assms(2) by (simp add: capture_bytes_def)

lemma capture_steps_slots:
  assumes "abi_ok abi" and "slots_ok e"
  shows "slots_ok (run_steps (capture_steps abi k state ret) e)"
proof (rule run_steps_inv [where P = slots_ok, OF _ assms(2)])
  fix c f e'
  assume "(c, f) \<in> set (capture_steps abi k state ret)" and "slots_ok e'"
  then show "slots_ok (f e')"
    using assms(1)
    by (auto simp: capture_steps_def Let_def abi_ok_def intro!: capture_string_slots capture_bytes_slots)
qed

text \<open>A read or a write of zero bytes: the one capture of size zero, in the first slot.\<close>

lemma first_bytes_slots:
  assumes "slots_ok e" and "ev_var_count e = 0"
  shows "slots_ok (append_var_bytes k e i p sz)"
proof -
  obtain bs d where "slot_capture e bs d (append_var_bytes k e i p sz)"
    using bytes_capture [of e sz i p] assms(2) by auto
  then show ?thesis
    using slot_capture_ok [OF assms(1)] assms(2) by simp
qed

end

lemma capture_steps_io:
  assumes "sd_syscall_id state = NR_write \<or> sd_syscall_id state = NR_read \<or> sd_syscall_id state = NR_execve"
  shows "run_steps (capture_steps abi k state ret) e = e"
  using assms by (intro run_steps_skip) (auto simp: capture_steps_def Let_def)

lemma io_steps_other:
  assumes "sd_syscall_id state \<noteq> NR_write" and "sd_syscall_id state \<noteq> NR_read"
  shows "run_steps (io_steps k state ret) e = e"
  using assms by (intro run_steps_skip) (auto simp: io_steps_def Let_def)

lemma copy_snapshot_ok:
  assumes "event_shape e" and "ev_payload_len e = 0" and "ev_var_desc e = replicate 6 zero_desc"
    and "\<And>s. lookup = Some s \<Longrightarrow> snap_ok 2 s"
  shows "event_ok (copy_snapshot lookup e)"
proof (cases lookup)
  case None
  have "ev_var_desc e = [zero_desc, zero_desc, zero_desc, zero_desc, zero_desc, zero_desc]"
    using assms(3) by (simp add: replicate_six)
  with None show ?thesis
    using assms(1,2) by (simp add: copy_snapshot_def event_ok_def event_shape_def Let_def descs_ok_def
        desc_ok_def desc_fits_def zero_desc_def)
next
  case (Some s)
  with assms(4) have s: "length (sn_var_desc s) = 2" "length (sn_payload s) = 256"
      "unat (sn_payload_len s) \<le> 256" "unat (sn_var_count s) = 2"
      "descs_ok (unat (sn_payload_len s)) 2 (sn_var_desc s)"
    by (auto simp: snap_ok_def snapshot_shape_def)
  then show ?thesis
    using assms(1) by (simp add: Some copy_snapshot_def event_ok_def event_shape_def copy_loop_eq descs_ok_def)
qed

lemma build_event_ok:
  assumes "kernel_env k" and "abi_ok abi" and "event_shape g" and "length (sd_args state) = 6"
    and "\<And>s. lookup = Some s \<Longrightarrow> snap_ok 2 s"
  shows "event_ok (build_event abi k state ret lookup g)"
proof -
  note build = build_event_typed [OF assms(3,4)]
  note typed = slots_ok_typed [OF assms(4), of abi k ret]
  consider (execve) "sd_syscall_id state = NR_execve"
    | (io) "sd_syscall_id state = NR_write \<or> sd_syscall_id state = NR_read"
    | (other) "sd_syscall_id state \<noteq> NR_execve" "sd_syscall_id state \<noteq> NR_write" "sd_syscall_id state \<noteq> NR_read"
    by blast
  then show ?thesis
  proof cases
    case execve
    then have "build_event abi k state ret lookup g = copy_snapshot lookup (typed_event abi k state ret)"
      by (simp add: build capture_steps_io io_steps_other)
    moreover have "event_shape (typed_event abi k state ret)"
      using typed by (simp add: slots_ok_def event_ok_def)
    ultimately show ?thesis
      using assms(5) by (simp add: copy_snapshot_ok)
  next
    case io
    then have "build_event abi k state ret lookup g =
        run_steps (io_steps k state ret) (typed_event abi k state ret)"
      by (auto simp: build capture_steps_io)
    moreover have "slots_ok (run_steps (io_steps k state ret) (typed_event abi k state ret))"
      using io typed kernel_env.first_bytes_slots [OF assms(1) typed] by (auto simp: io_steps_def Let_def)
    ultimately show ?thesis by (simp add: slots_ok_def)
  next
    case other
    then have "build_event abi k state ret lookup g =
        run_steps (capture_steps abi k state ret) (typed_event abi k state ret)"
      by (simp add: build io_steps_other)
    then show ?thesis
      using kernel_env.capture_steps_slots [OF assms(1,2) typed] by (simp add: slots_ok_def)
  qed
qed

text \<open>The fixed fields of the result, one by one.\<close>

lemma build_event_fields:
  assumes "event_shape g" and "length (sd_args state) = 6"
  shows "ev_ts (build_event abi k state ret lookup g) = sd_ts state"
    and "ev_dur (build_event abi k state ret lookup g) = k_ktime k - sd_ts state"
    and "ev_syscall_id (build_event abi k state ret lookup g) = sd_syscall_id state"
    and "ev_ret (build_event abi k state ret lookup g) = ret"
    and "ev_args (build_event abi k state ret lookup g) = sd_args state"
    and "ev_pid (build_event abi k state ret lookup g) = cur_tgid k"
    and "ev_tid (build_event abi k state ret lookup g) = cur_tid k"
    and "ev_seq (build_event abi k state ret lookup g) = sd_seq state"
    and "unat (ev_arg_count (build_event abi k state ret lookup g)) \<le> 6"
    and "ev_event_flags (build_event abi k state ret lookup g) =
      (if 0 < sint ret \<and> is_process_clone abi k state then EVENT_FLAG_PROCESS_CLONE else 0)"
proof -
  obtain n ts where t: "typed_event abi k state ret =
      (blank_event abi k state ret)\<lparr>ev_arg_count := n, ev_arg_types := ts\<rparr>" and n: "unat n \<le> 6"
    by (rule typed_event_cases)
  note ids = build_event_ids [OF assms, of abi k ret lookup, unfolded t]
  show "ev_ts (build_event abi k state ret lookup g) = sd_ts state"
    and "ev_dur (build_event abi k state ret lookup g) = k_ktime k - sd_ts state"
    and "ev_syscall_id (build_event abi k state ret lookup g) = sd_syscall_id state"
    and "ev_ret (build_event abi k state ret lookup g) = ret"
    and "ev_args (build_event abi k state ret lookup g) = sd_args state"
    and "ev_pid (build_event abi k state ret lookup g) = cur_tgid k"
    and "ev_tid (build_event abi k state ret lookup g) = cur_tid k"
    and "ev_seq (build_event abi k state ret lookup g) = sd_seq state"
    and "unat (ev_arg_count (build_event abi k state ret lookup g)) \<le> 6"
    and "ev_event_flags (build_event abi k state ret lookup g) =
      (if 0 < sint ret \<and> is_process_clone abi k state then EVENT_FLAG_PROCESS_CLONE else 0)"
    using ids n assms(2) by (simp_all add: event_ids_def blank_event_def)
qed

text \<open>Nothing of the reserved memory is left in the event.\<close>

lemma build_event_reserved:
  assumes "event_shape g" and "event_shape g'" and "length (sd_args state) = 6"
  shows "build_event abi k state ret lookup g = build_event abi k state ret lookup g'"
  by (simp add: build_event_typed [OF assms(1,3)] build_event_typed [OF assms(2,3)])

end
