(* ===== verification/Tracer_Inv.thy ===== *)
theory Tracer_Inv
  imports Event_Build
begin

text \<open>
  The tracer as a transition system: a step is one run of one of the three
  programs of theory Tracer in some environment that obeys the helpers' laws, for
  any thread and any context. An invariant is stated once as the locale
  \<open>tracer_invariant\<close>, and each interpretation proves that the three programs keep
  it. The lemmas before it say which maps each program changes, and how.
\<close>

section \<open>Steps and reachable states\<close>

inductive tracer_step :: "tracer_abi \<Rightarrow> tracer \<Rightarrow> tracer \<Rightarrow> bool" for abi where
  sys_enter: "helpers_ok k \<Longrightarrow> length (en_args ctx) = 6 \<Longrightarrow> tracer_step abi s (trace_sys_enter abi k ctx s)"
| sys_exit: "helpers_ok k \<Longrightarrow> tracer_step abi s (trace_sys_exit abi k ctx s)"
| sched_exit: "helpers_ok k \<Longrightarrow> tracer_step abi s (trace_sched_process_exit k s)"

inductive reachable :: "tracer_abi \<Rightarrow> tracer \<Rightarrow> tracer \<Rightarrow> bool" for abi s0 where
  start: "reachable abi s0 s0"
| step: "reachable abi s0 s \<Longrightarrow> tracer_step abi s t \<Longrightarrow> reachable abi s0 t"

inductive_cases tracer_stepE: "tracer_step abi s t"

text \<open>The maps right after the loader has filled in the targets and the filter.\<close>

definition initial_state :: "tracer \<Rightarrow> bool" where
  "initial_state s \<longleftrightarrow>
     events s = [] \<and> inflight_syscalls s = Map.empty \<and> execve_snapshots s = Map.empty \<and>
     tid_sequences s = Map.empty"

locale tracer_invariant =
  fixes abi :: tracer_abi
    and inv :: "tracer \<Rightarrow> bool"
  assumes inv_enter: "helpers_ok k \<Longrightarrow> inv s \<Longrightarrow> inv (trace_sys_enter abi k ctx s)"
    and inv_exit: "helpers_ok k \<Longrightarrow> inv s \<Longrightarrow> inv (trace_sys_exit abi k ctx' s)"
    and inv_sched: "helpers_ok k \<Longrightarrow> inv s \<Longrightarrow> inv (trace_sched_process_exit k s)"
begin

lemma inv_step: "tracer_step abi s t \<Longrightarrow> inv s \<Longrightarrow> inv t"
  by (auto elim!: tracer_stepE intro: inv_enter inv_exit inv_sched)

lemma inv_reachable: "reachable abi s0 s \<Longrightarrow> inv s0 \<Longrightarrow> inv s"
  by (induction rule: reachable.induct) (auto intro: inv_step)

end

section \<open>What each program changes\<close>

text \<open>The state recorded at entry, the targets after a child has been tracked.\<close>

definition enter_selected :: "tracer_abi \<Rightarrow> sys_enter_args \<Rightarrow> tracer \<Rightarrow> bool" where
  "enter_selected abi ctx s \<longleftrightarrow>
     trace_filter_enabled abi = 0 \<or> trace_syscall_filter s (ucast (en_id ctx)) \<noteq> None"

definition enter_tracked :: "tracer_abi \<Rightarrow> kenv \<Rightarrow> sys_enter_args \<Rightarrow> tracer \<Rightarrow> bool" where
  "enter_tracked abi k ctx s \<longleftrightarrow>
     target_pids s (cur_tgid k) \<noteq> None \<and>
     (enter_selected abi ctx s \<or> should_track_unselected_syscall abi k (en_id ctx))"

definition next_seq :: "(u32 \<rightharpoonup> u32) \<Rightarrow> u32 \<Rightarrow> u32" where
  "next_seq m tid = (case m tid of None \<Rightarrow> 1 | Some prev_seq \<Rightarrow> prev_seq + 1)"

definition enter_data :: "tracer_abi \<Rightarrow> kenv \<Rightarrow> sys_enter_args \<Rightarrow> tracer \<Rightarrow> syscall_data" where
  "enter_data abi k ctx s =
     \<lparr>sd_ts = k_ktime k, sd_syscall_id = en_id ctx,
      sd_args = [en_args ctx ! 0, en_args ctx ! 1, en_args ctx ! 2,
                 en_args ctx ! 3, en_args ctx ! 4, en_args ctx ! 5],
      sd_seq = next_seq (tid_sequences s) (cur_tid k),
      sd_selected = (if enter_selected abi ctx s then 1 else 0), sd_reserved = [0, 0, 0]\<rparr>"

definition child_targets :: "tracer_abi \<Rightarrow> kenv \<Rightarrow> syscall_data \<Rightarrow> s64 \<Rightarrow> (u32 \<rightharpoonup> u8) \<Rightarrow> (u32 \<rightharpoonup> u8)" where
  "child_targets abi k state ret m =
     (if 0 < sint ret \<and> is_process_clone abi k state \<and> follow_forks abi \<noteq> 0
      then map_update k Target_pids m (ucast ret) 1 else m)"

definition emitted :: "tracer_abi \<Rightarrow> kenv \<Rightarrow> sys_exit_args \<Rightarrow> tracer \<Rightarrow> event option" where
  "emitted abi k ctx s =
     (if target_pids s (cur_tgid k) = None then None
      else case inflight_syscalls s (cur_tid k) of
             None \<Rightarrow> None
           | Some state \<Rightarrow>
               if sd_selected state = 0 then None
               else map_option (build_event abi k state (ex_ret ctx) (execve_snapshots s (cur_tid k)))
                      (k_reserve k))"

lemma enter_untracked: "\<not> enter_tracked abi k ctx s \<Longrightarrow> trace_sys_enter abi k ctx s = s"
  by (auto simp: trace_sys_enter_def enter_tracked_def enter_selected_def Let_def)

lemma snapshot_execve_eq: "snapshot_execve k tid ctx s = s\<lparr>execve_snapshots := execve_snapshots (snapshot_execve k tid ctx s)\<rparr>"
  by (simp add: snapshot_execve_def Let_def split: option.split)

lemma enter_tracked_eq:
  assumes "enter_tracked abi k ctx s"
  shows "trace_sys_enter abi k ctx s =
    s\<lparr>tid_sequences := lru_update k Tid_sequences (tid_sequences s) (cur_tid k)
         (next_seq (tid_sequences s) (cur_tid k)),
      execve_snapshots := (if en_id ctx = NR_execve
         then execve_snapshots (snapshot_execve k (cur_tid k) ctx s) else execve_snapshots s),
      inflight_syscalls := lru_update k Inflight_syscalls (inflight_syscalls s) (cur_tid k)
         (enter_data abi k ctx s)\<rparr>"
proof -
  have snap: "snapshot_execve k tid ctx (s\<lparr>tid_sequences := m\<rparr>) =
      s\<lparr>tid_sequences := m, execve_snapshots := execve_snapshots (snapshot_execve k tid ctx s)\<rparr>" for tid m
    by (simp add: snapshot_execve_def Let_def split: option.split)
  have data: "zero_syscall_data\<lparr>sd_ts := a, sd_syscall_id := b, sd_seq := c, sd_selected := d, sd_args := e\<rparr>
      = \<lparr>sd_ts = a, sd_syscall_id = b, sd_args = e, sd_seq = c, sd_selected = d, sd_reserved = [0, 0, 0]\<rparr>"
    for a b c d e
    by (simp add: zero_syscall_data_def numeral_eq_Suc)
  have "(if trace_filter_enabled abi \<noteq> 0 \<and> trace_syscall_filter s (ucast (en_id ctx)) = None then 0 else 1)
      = (if enter_selected abi ctx s then 1 else (0 :: u8))"
    by (simp add: enter_selected_def)
  then show ?thesis
    using assms unfolding trace_sys_enter_def Let_def
    by (auto simp: enter_tracked_def enter_data_def next_seq_def [symmetric] data snap)
qed

lemma track_child_eq:
  "track_child_process abi k state ret s = s\<lparr>target_pids := child_targets abi k state ret (target_pids s)\<rparr>"
  by (simp add: track_child_process_def child_targets_def Let_def not_le)

lemmas exit_unfold = trace_sys_exit_def emitted_def track_child_eq cleanup_tid_state_def Let_def

lemma exit_events:
  "events (trace_sys_exit abi k ctx s) =
     events s @ (case emitted abi k ctx s of None \<Rightarrow> [] | Some e \<Rightarrow> [e])"
  by (simp add: exit_unfold split: option.split)

lemma exit_filter [simp]: "trace_syscall_filter (trace_sys_exit abi k ctx s) = trace_syscall_filter s"
  by (simp add: exit_unfold split: option.split)

lemma map_delete_twice [simp]: "map_delete (map_delete m t) t = map_delete m t"
  by (simp add: map_delete_def)

lemma exit_inflight:
  "inflight_syscalls (trace_sys_exit abi k ctx s) = inflight_syscalls s \<or>
   inflight_syscalls (trace_sys_exit abi k ctx s) = map_delete (inflight_syscalls s) (cur_tid k)"
  by (simp add: exit_unfold split: option.split)

lemma exit_snapshots:
  "execve_snapshots (trace_sys_exit abi k ctx s) = execve_snapshots s \<or>
   execve_snapshots (trace_sys_exit abi k ctx s) = map_delete (execve_snapshots s) (cur_tid k)"
  by (simp add: exit_unfold split: option.split)

lemma exit_targets:
  assumes "inflight_syscalls s (cur_tid k) = Some state"
  shows "dom (target_pids (trace_sys_exit abi k ctx s)) \<subseteq>
    dom (child_targets abi k state (ex_ret ctx) (target_pids s)) \<union> dom (target_pids s)"
  using assms by (auto simp: exit_unfold target_map.del_dom split: option.splits if_splits)

lemma exit_ignored:
  "target_pids s (cur_tgid k) = None \<or> inflight_syscalls s (cur_tid k) = None \<Longrightarrow>
   trace_sys_exit abi k ctx s = s"
  by (auto simp: trace_sys_exit_def Let_def split: option.split)

lemma sched_exit_simps [simp]:
  "events (trace_sched_process_exit k s) = events s"
  "trace_syscall_filter (trace_sched_process_exit k s) = trace_syscall_filter s"
  by (simp_all add: trace_sched_process_exit_def cleanup_tid_state_def Let_def)

lemma sched_exit_inflight:
  "inflight_syscalls (trace_sched_process_exit k s) = inflight_syscalls s \<or>
   inflight_syscalls (trace_sched_process_exit k s) = map_delete (inflight_syscalls s) (cur_tid k)"
  by (simp add: trace_sched_process_exit_def cleanup_tid_state_def Let_def)

lemma sched_exit_snapshots:
  "execve_snapshots (trace_sched_process_exit k s) = execve_snapshots s \<or>
   execve_snapshots (trace_sched_process_exit k s) = map_delete (execve_snapshots s) (cur_tid k)"
  by (simp add: trace_sched_process_exit_def cleanup_tid_state_def Let_def)

lemma sched_exit_targets: "dom (target_pids (trace_sched_process_exit k s)) \<subseteq> dom (target_pids s)"
  by (auto simp: trace_sched_process_exit_def cleanup_tid_state_def Let_def target_map.del_dom)

section \<open>Well-formed states\<close>

definition inflight_ok :: "tracer \<Rightarrow> bool" where
  "inflight_ok s \<longleftrightarrow> (\<forall>t st. inflight_syscalls s t = Some st \<longrightarrow> length (sd_args st) = 6)"

definition snapshots_ok :: "tracer \<Rightarrow> bool" where
  "snapshots_ok s \<longleftrightarrow> (\<forall>t sn. execve_snapshots s t = Some sn \<longrightarrow> snap_ok 2 sn)"

definition tracer_ok :: "tracer \<Rightarrow> bool" where
  "tracer_ok s \<longleftrightarrow> inflight_ok s \<and> snapshots_ok s \<and>
     list_all (\<lambda>e. event_ok e \<and> unat (ev_arg_count e) \<le> 6) (events s)"

text \<open>
  The per-thread maps under the operations of the programs: an entry after the
  operation is an old one or the new one.
\<close>

lemma map_delete_all: "(\<And>t v. m t = Some v \<Longrightarrow> P t v) \<Longrightarrow> map_delete m x t = Some v \<Longrightarrow> P t v"
  by (rule lru_map.del_all)

lemma enter_inflight_all:
  assumes "\<And>t st. inflight_syscalls s t = Some st \<Longrightarrow> P t st"
    and "enter_tracked abi k ctx s \<Longrightarrow> P (cur_tid k) (enter_data abi k ctx s)"
    and "inflight_syscalls (trace_sys_enter abi k ctx s) t = Some st"
  shows "P t st"
proof (cases "enter_tracked abi k ctx s")
  case True
  show ?thesis
    by (rule lru_map.upd_all [where P = P and m = "inflight_syscalls s"])
      (use assms True in \<open>simp_all add: enter_tracked_eq\<close>)
qed (use assms in \<open>simp add: enter_untracked\<close>)

lemma exit_inflight_all:
  "(\<And>t st. inflight_syscalls s t = Some st \<Longrightarrow> P t st) \<Longrightarrow>
   inflight_syscalls (trace_sys_exit abi k ctx s) t = Some st \<Longrightarrow> P t st"
  using exit_inflight [of abi k ctx s] map_delete_all by metis

lemma sched_exit_inflight_all:
  "(\<And>t st. inflight_syscalls s t = Some st \<Longrightarrow> P t st) \<Longrightarrow>
   inflight_syscalls (trace_sched_process_exit k s) t = Some st \<Longrightarrow> P t st"
  using sched_exit_inflight [of k s] map_delete_all by metis

lemma enter_inflight_ok: "inflight_ok s \<Longrightarrow> inflight_ok (trace_sys_enter abi k ctx s)"
  unfolding inflight_ok_def
proof (intro allI impI)
  fix t st
  assume "\<forall>t st. inflight_syscalls s t = Some st \<longrightarrow> length (sd_args st) = 6"
    and "inflight_syscalls (trace_sys_enter abi k ctx s) t = Some st"
  then show "length (sd_args st) = 6"
    by (rule_tac enter_inflight_all [where P = "\<lambda>_ st. length (sd_args st) = 6"])
      (auto simp: enter_data_def)
qed

lemma exit_inflight_ok: "inflight_ok s \<Longrightarrow> inflight_ok (trace_sys_exit abi k ctx s)"
  unfolding inflight_ok_def using exit_inflight_all [where P = "\<lambda>_ st. length (sd_args st) = 6"] by blast

lemma sched_exit_inflight_ok: "inflight_ok s \<Longrightarrow> inflight_ok (trace_sched_process_exit k s)"
  unfolding inflight_ok_def using sched_exit_inflight_all [where P = "\<lambda>_ st. length (sd_args st) = 6"] by blast

lemma snapshot_execve_ok:
  assumes "kernel_env k" and "snapshots_ok s"
  shows "snapshots_ok (snapshot_execve k tid ctx s)"
proof -
  let ?m = "lru_update k Execve_snapshots (execve_snapshots s) tid zero_snapshot"
  have old: "sn = zero_snapshot \<or> snap_ok 2 sn" if "?m x = Some sn" for x sn
    using lru_map.upd_cases [OF that] assms(2) by (auto simp: snapshots_ok_def)
  have other: "snap_ok 2 sn" if "?m x = Some sn" "x \<noteq> tid" for x sn
    using lru_map.upd_cases [OF that(1)] that(2) assms(2) by (auto simp: snapshots_ok_def)
  have filled: "snap_ok 2 (append_execve_var_argv k (append_execve_var_string k sn 0 p) 1 q)"
    if "sn = zero_snapshot \<or> snap_ok 2 sn" for sn p q
    using that snap_ok_zero
      kernel_env.argv_snapshot_ok [OF assms(1) kernel_env.string_snapshot_ok [OF assms(1)]]
    by (auto simp: snapshot_full)
  show ?thesis
  proof (cases "?m tid")
    case None
    then show ?thesis
      using other by (auto simp: snapshots_ok_def snapshot_execve_def) (metis option.distinct(1))
  next
    case (Some sn)
    then show ?thesis
      using other filled [OF old [OF Some]]
      by (auto simp: snapshots_ok_def snapshot_execve_def Let_def)
  qed
qed

lemma exit_snapshots_ok: "snapshots_ok s \<Longrightarrow> snapshots_ok (trace_sys_exit abi k ctx s)"
  by (rule disjE [OF exit_snapshots [of abi k ctx s]])
    (auto simp: snapshots_ok_def map_delete_def split: if_splits)

lemma sched_exit_snapshots_ok: "snapshots_ok s \<Longrightarrow> snapshots_ok (trace_sched_process_exit k s)"
  by (rule disjE [OF sched_exit_snapshots [of k s]])
    (auto simp: snapshots_ok_def map_delete_def split: if_splits)

lemma emitted_cases:
  assumes "emitted abi k ctx s = Some e"
  obtains state g where "target_pids s (cur_tgid k) \<noteq> None"
    and "inflight_syscalls s (cur_tid k) = Some state" and "sd_selected state \<noteq> 0"
    and "k_reserve k = Some g"
    and "e = build_event abi k state (ex_ret ctx) (execve_snapshots s (cur_tid k)) g"
  using assms by (auto simp: emitted_def split: option.splits if_splits)

interpretation well_formed: tracer_invariant abi "\<lambda>s. abi_ok abi \<longrightarrow> tracer_ok s" for abi
proof
  fix k s ctx ctx'
  assume k: "helpers_ok k" and s: "abi_ok abi \<longrightarrow> tracer_ok s"
  note env = helpers_ok_env [OF k]
  show "abi_ok abi \<longrightarrow> tracer_ok (trace_sys_enter abi k ctx s)"
  proof
    assume "abi_ok abi"
    with s have ok: "tracer_ok s" by simp
    have "snapshots_ok (trace_sys_enter abi k ctx s)"
      using ok snapshot_execve_ok [OF env, of s "cur_tid k" ctx]
      by (cases "enter_tracked abi k ctx s")
        (auto simp: tracer_ok_def enter_untracked enter_tracked_eq snapshots_ok_def)
    moreover have "events (trace_sys_enter abi k ctx s) = events s"
      by (cases "enter_tracked abi k ctx s") (simp_all add: enter_untracked enter_tracked_eq)
    ultimately show "tracer_ok (trace_sys_enter abi k ctx s)"
      using ok by (simp add: tracer_ok_def enter_inflight_ok)
  qed
  show "abi_ok abi \<longrightarrow> tracer_ok (trace_sys_exit abi k ctx' s)"
  proof
    assume abi: "abi_ok abi"
    with s have ok: "tracer_ok s" by simp
    have "event_ok e \<and> unat (ev_arg_count e) \<le> 6" if "emitted abi k ctx' s = Some e" for e
      using that
    proof (cases rule: emitted_cases)
      case (1 state g)
      then show ?thesis
        using build_event_ok [OF env abi helpers_ok_reserve [OF k], of g state]
          build_event_fields(9) [OF helpers_ok_reserve [OF k], of g state] ok
        by (auto simp: tracer_ok_def inflight_ok_def snapshots_ok_def)
    qed
    then have "list_all (\<lambda>e. event_ok e \<and> unat (ev_arg_count e) \<le> 6) (events (trace_sys_exit abi k ctx' s))"
      using ok by (simp add: tracer_ok_def exit_events split: option.split)
    then show "tracer_ok (trace_sys_exit abi k ctx' s)"
      using ok by (simp add: tracer_ok_def exit_inflight_ok exit_snapshots_ok)
  qed
  show "abi_ok abi \<longrightarrow> tracer_ok (trace_sched_process_exit k s)"
  proof
    assume "abi_ok abi"
    with s have ok: "tracer_ok s" by simp
    then show "tracer_ok (trace_sched_process_exit k s)"
      by (simp add: tracer_ok_def sched_exit_inflight_ok sched_exit_snapshots_ok)
  qed
qed

lemma tracer_ok_initial: "initial_state s \<Longrightarrow> tracer_ok s"
  by (simp add: initial_state_def tracer_ok_def inflight_ok_def snapshots_ok_def)

end
