(* ===== verification/Tracer_Safety.thy ===== *)
theory Tracer_Safety
  imports Tracer_Inv
begin

text \<open>
  Safety of the tracer of theory Tracer over all its reachable states: what events
  may be about (the filter and the targets), and what one program run may do to the
  state of other threads.
\<close>

section \<open>The filter\<close>

definition passes :: "tracer_abi \<Rightarrow> (u32 \<rightharpoonup> u8) \<Rightarrow> s64 \<Rightarrow> bool" where
  "passes abi flt nr \<longleftrightarrow> trace_filter_enabled abi = 0 \<or> flt (ucast nr) \<noteq> None"

definition filter_inv :: "tracer_abi \<Rightarrow> (u32 \<rightharpoonup> u8) \<Rightarrow> tracer \<Rightarrow> bool" where
  "filter_inv abi flt s \<longleftrightarrow>
     trace_syscall_filter s = flt \<and> inflight_ok s \<and>
     (\<forall>t st. inflight_syscalls s t = Some st \<longrightarrow> sd_selected st \<noteq> 0 \<longrightarrow> passes abi flt (sd_syscall_id st)) \<and>
     (\<forall>e \<in> set (events s). passes abi flt (ev_syscall_id e))"

lemma enter_events [simp]: "events (trace_sys_enter abi k ctx s) = events s"
  by (cases "enter_tracked abi k ctx s") (simp_all add: enter_untracked enter_tracked_eq)

lemma enter_filter [simp]: "trace_syscall_filter (trace_sys_enter abi k ctx s) = trace_syscall_filter s"
  by (cases "enter_tracked abi k ctx s") (simp_all add: enter_untracked enter_tracked_eq)

lemma enter_targets [simp]: "target_pids (trace_sys_enter abi k ctx s) = target_pids s"
  by (cases "enter_tracked abi k ctx s") (simp_all add: enter_untracked enter_tracked_eq)

text \<open>The event of a run, with the in-flight record it comes from.\<close>

lemma emitted_fields:
  assumes "helpers_ok k" and "inflight_ok s" and "emitted abi k ctx s = Some e"
  obtains state where "inflight_syscalls s (cur_tid k) = Some state" and "sd_selected state \<noteq> 0"
    and "ev_syscall_id e = sd_syscall_id state" and "ev_pid e = cur_tgid k"
    and "ev_tid e = cur_tid k" and "ev_seq e = sd_seq state"
    and "target_pids s (cur_tgid k) \<noteq> None"
  using assms(3)
proof (cases rule: emitted_cases)
  case (1 state g)
  then have "event_shape g" "length (sd_args state) = 6"
    using assms(1,2) helpers_ok_reserve by (auto simp: inflight_ok_def)
  with 1 show ?thesis using that build_event_fields by metis
qed

lemma exit_event_cases:
  assumes "e \<in> set (events (trace_sys_exit abi k ctx s))"
  obtains "e \<in> set (events s)" | "emitted abi k ctx s = Some e"
  using assms by (auto simp: exit_events split: option.splits)

interpretation filtered: tracer_invariant abi "filter_inv abi flt" for abi flt
proof
  fix k s ctx ctx'
  assume k: "helpers_ok k" and s: "filter_inv abi flt s"
  let ?P = "\<lambda>_ st. sd_selected st \<noteq> 0 \<longrightarrow> passes abi flt (sd_syscall_id st)"
  have fl: "?P t st" if "inflight_syscalls s t = Some st" for t st
    using s that by (simp add: filter_inv_def)
  have ok: "inflight_ok s" using s by (simp add: filter_inv_def)
  have "?P t st" if "inflight_syscalls (trace_sys_enter abi k ctx s) t = Some st" for t st
    by (rule enter_inflight_all [where P = ?P, OF fl _ that])
      (use s in \<open>auto simp: enter_data_def enter_selected_def passes_def filter_inv_def\<close>)
  then show "filter_inv abi flt (trace_sys_enter abi k ctx s)"
    using s by (simp add: filter_inv_def enter_inflight_ok)
  have "?P t st" if "inflight_syscalls (trace_sys_exit abi k ctx' s) t = Some st" for t st
    by (rule exit_inflight_all [where P = ?P, OF fl that])
  moreover have "passes abi flt (ev_syscall_id e)" if "e \<in> set (events (trace_sys_exit abi k ctx' s))" for e
    using that
  proof (cases rule: exit_event_cases)
    case 1
    then show ?thesis using s by (simp add: filter_inv_def)
  next
    case 2
    from k ok 2 show ?thesis by (rule emitted_fields) (use fl in auto)
  qed
  ultimately show "filter_inv abi flt (trace_sys_exit abi k ctx' s)"
    using s by (simp add: filter_inv_def exit_inflight_ok)
  have "?P t st" if "inflight_syscalls (trace_sched_process_exit k s) t = Some st" for t st
    by (rule sched_exit_inflight_all [where P = ?P, OF fl that])
  then show "filter_inv abi flt (trace_sched_process_exit k s)"
    using s by (simp add: filter_inv_def sched_exit_inflight_ok)
qed

section \<open>The targets\<close>

definition confined :: "u32 set \<Rightarrow> tracer \<Rightarrow> bool" where
  "confined T s \<longleftrightarrow>
     inflight_ok s \<and> dom (target_pids s) \<subseteq> T \<and> (\<forall>e \<in> set (events s). ev_pid e \<in> T)"

lemma exit_targets_unfollowed:
  assumes "follow_forks abi = 0"
  shows "dom (target_pids (trace_sys_exit abi k ctx s)) \<subseteq> dom (target_pids s)"
proof (cases "inflight_syscalls s (cur_tid k)")
  case None
  then show ?thesis by (simp add: exit_ignored)
next
  case (Some state)
  then show ?thesis
    using exit_targets [OF Some, of abi ctx] assms by (simp add: child_targets_def)
qed

interpretation confinement: tracer_invariant abi "\<lambda>s. follow_forks abi = 0 \<longrightarrow> confined T s" for abi T
proof
  fix k s ctx ctx'
  assume k: "helpers_ok k" and s: "follow_forks abi = 0 \<longrightarrow> confined T s"
  show "follow_forks abi = 0 \<longrightarrow> confined T (trace_sys_enter abi k ctx s)"
    using s by (simp add: confined_def enter_inflight_ok)
  show "follow_forks abi = 0 \<longrightarrow> confined T (trace_sys_exit abi k ctx' s)"
  proof
    assume ff: "follow_forks abi = 0"
    with s have ok: "confined T s" by simp
    have "ev_pid e \<in> T" if "e \<in> set (events (trace_sys_exit abi k ctx' s))" for e
      using that
    proof (cases rule: exit_event_cases)
      case 2
      have "inflight_ok s" using ok by (simp add: confined_def)
      with k show ?thesis using 2 by (rule emitted_fields) (use ok in \<open>auto simp: confined_def\<close>)
    qed (use ok in \<open>simp add: confined_def\<close>)
    then show "confined T (trace_sys_exit abi k ctx' s)"
      using ok exit_targets_unfollowed [OF ff, of k ctx' s] by (auto simp: confined_def exit_inflight_ok)
  qed
  show "follow_forks abi = 0 \<longrightarrow> confined T (trace_sched_process_exit k s)"
    using s sched_exit_targets [of k s] by (auto simp: confined_def sched_exit_inflight_ok)
qed

lemma initial_filter_inv: "initial_state s \<Longrightarrow> filter_inv abi (trace_syscall_filter s) s"
  by (simp add: initial_state_def filter_inv_def inflight_ok_def)

lemma initial_confined: "initial_state s \<Longrightarrow> confined (dom (target_pids s)) s"
  by (simp add: initial_state_def confined_def inflight_ok_def)

section \<open>Other threads\<close>

text \<open>
  A program run leaves alone what the maps hold for another thread, but for an entry
  an update evicts.
\<close>

definition untouched :: "(u32 \<rightharpoonup> 'v) \<Rightarrow> (u32 \<rightharpoonup> 'v) \<Rightarrow> u32 \<Rightarrow> bool" where
  "untouched m m' t \<longleftrightarrow> m' t = m t \<or> m' t = None"

lemma untouched_refl [simp]: "untouched m m t"
  by (simp add: untouched_def)

lemma untouched_update: "t \<noteq> x \<Longrightarrow> untouched m (lru_update k i m x v) t"
  using lru_map.upd_other [of t x k i m v] by (auto simp: untouched_def)

lemma untouched_delete [simp]: "untouched m (map_delete m x) t"
  by (auto simp: untouched_def map_delete_def)

lemma untouched_snapshot:
  "t \<noteq> cur_tid k \<Longrightarrow> untouched (execve_snapshots s) (execve_snapshots (snapshot_execve k (cur_tid k) ctx s)) t"
  using untouched_update [of t "cur_tid k" "execve_snapshots s" k Execve_snapshots zero_snapshot]
  by (auto simp: snapshot_execve_def Let_def untouched_def split: option.split)

lemma enter_other:
  assumes "t \<noteq> cur_tid k"
  shows "untouched (inflight_syscalls s) (inflight_syscalls (trace_sys_enter abi k ctx s)) t"
    and "untouched (execve_snapshots s) (execve_snapshots (trace_sys_enter abi k ctx s)) t"
    and "untouched (tid_sequences s) (tid_sequences (trace_sys_enter abi k ctx s)) t"
  using assms
  by (cases "enter_tracked abi k ctx s";
      simp add: enter_untracked enter_tracked_eq untouched_update untouched_snapshot)+

end
