(* ===== verification/Tracer_Spec.thy ===== *)
theory Tracer_Spec
  imports Tracer_Safety
begin

text \<open>
  The abstract tracer: a set of traced processes, the call each thread is in, how
  many calls of each thread have been recorded, and the log of completed calls. It
  has no maps, no slots, no 32-bit counter and no capture. Each operation comes twice:
  for a kernel that refuses no update, evicts nothing and has room in the ring buffer,
  and for any kernel, with what is lost written out. Every program of theory Tracer
  does to the maps what the second does to this state, in any environment, and what the
  first does when nothing is lost.
\<close>

section \<open>The abstract state\<close>

record call =
  c_nr :: s64
  c_args :: "u64 list"
  c_start :: u64
  c_number :: nat
  c_wanted :: bool

record log_entry =
  l_process :: u32
  l_thread :: u32
  l_call :: call
  l_ret :: s64
  l_end :: u64
  l_creates :: bool

record spec =
  traced :: "u32 set"
  ongoing :: "u32 \<rightharpoonup> call"
  recorded :: "u32 \<Rightarrow> nat"
  log :: "log_entry list"

text \<open>
  Which calls create a process: fork and vfork; clone and clone3 unless the new task
  is a thread. The flags of clone are its first argument, those of clone3 are read
  from memory when the question is asked, and a failed read counts as a process.
\<close>

definition creates_process :: "tracer_abi \<Rightarrow> kenv \<Rightarrow> s64 \<Rightarrow> u64 list \<Rightarrow> bool" where
  "creates_process abi k nr as \<longleftrightarrow>
     nr \<in> {NR_fork, NR_vfork} \<or>
     nr = NR_clone \<and> as ! 0 AND CLONE_THREAD abi = 0 \<or>
     nr = NR_clone3 \<and>
       (fst (k_read k (as ! 0) 8) < 0 \<or> le_word (snd (k_read k (as ! 0) 8)) AND CLONE_THREAD abi = 0)"

lemma process_clone_iff:
  "is_process_clone abi k state \<longleftrightarrow> creates_process abi k (sd_syscall_id state) (sd_args state)"
  by (auto simp: is_process_clone_def creates_process_def split: prod.split)

section \<open>The abstract operations\<close>

definition spec_records :: "tracer_abi \<Rightarrow> (u32 \<rightharpoonup> u8) \<Rightarrow> kenv \<Rightarrow> s64 \<Rightarrow> bool" where
  "spec_records abi flt k nr \<longleftrightarrow>
     passes abi flt nr \<or> follow_forks abi \<noteq> 0 \<and> creates_process abi k nr (replicate 6 0)"

definition spec_enter :: "tracer_abi \<Rightarrow> (u32 \<rightharpoonup> u8) \<Rightarrow> kenv \<Rightarrow> sys_enter_args \<Rightarrow> spec \<Rightarrow> spec" where
  "spec_enter abi flt k ctx a =
     (let t = cur_tid k; n = Suc (recorded a t) in
      if cur_tgid k \<in> traced a \<and> spec_records abi flt k (en_id ctx)
      then a\<lparr>recorded := (recorded a)(t := n),
             ongoing := (ongoing a)(t \<mapsto>
               \<lparr>c_nr = en_id ctx, c_args = en_args ctx, c_start = k_ktime k, c_number = n,
                c_wanted = passes abi flt (en_id ctx)\<rparr>)\<rparr>
      else a)"

definition spec_forget :: "u32 \<Rightarrow> spec \<Rightarrow> spec" where
  "spec_forget t a = a\<lparr>ongoing := (ongoing a)(t := None), recorded := (recorded a)(t := 0)\<rparr>"

definition spec_exit :: "tracer_abi \<Rightarrow> kenv \<Rightarrow> sys_exit_args \<Rightarrow> spec \<Rightarrow> spec" where
  "spec_exit abi k ctx a =
     (let p = cur_tgid k; t = cur_tid k in
      case ongoing a t of
        None \<Rightarrow> a
      | Some c \<Rightarrow>
          if p \<notin> traced a then a
          else
            let child = 0 < sint (ex_ret ctx) \<and> creates_process abi k (c_nr c) (c_args c);
                a = a\<lparr>traced := traced a \<union>
                        (if child \<and> follow_forks abi \<noteq> 0 then {ucast (ex_ret ctx)} else {}),
                      ongoing := (ongoing a)(t := None)\<rparr>
            in if \<not> c_wanted c then a
               else
                 let a = a\<lparr>log := log a @ [\<lparr>l_process = p, l_thread = t, l_call = c, l_ret = ex_ret ctx,
                                             l_end = k_ktime k, l_creates = child\<rparr>]\<rparr>
                 in if c_nr c = NR_exit then spec_forget t a
                    else if c_nr c = NR_exit_group
                    then (spec_forget t a)\<lparr>traced := traced a - {p}\<rparr>
                    else a)"

definition spec_thread_end :: "kenv \<Rightarrow> spec \<Rightarrow> spec" where
  "spec_thread_end k a =
     (if cur_tgid k \<notin> traced a then a
      else (spec_forget (cur_tid k) a)
             \<lparr>traced := (if cur_tid k = cur_tgid k then traced a - {cur_tgid k} else traced a)\<rparr>)"

section \<open>The abstract operations, with losses\<close>

text \<open>
  A kernel may refuse an update or evict the entries of other threads, and the ring
  buffer may be full. A call whose record is refused is not noticed, so that an earlier
  one that is still there stays in progress; a thread whose counter is evicted is
  counted from one again; a child that is refused is not traced; and a call that finds
  no room when it returns leaves no log entry and stays in progress.
\<close>

definition lossy_enter :: "tracer_abi \<Rightarrow> (u32 \<rightharpoonup> u8) \<Rightarrow> kenv \<Rightarrow> sys_enter_args \<Rightarrow> spec \<Rightarrow> spec" where
  "lossy_enter abi flt k ctx a =
     (let t = cur_tid k; n = Suc (recorded a t);
          c = \<lparr>c_nr = en_id ctx, c_args = en_args ctx, c_start = k_ktime k, c_number = n,
               c_wanted = passes abi flt (en_id ctx)\<rparr>
      in if cur_tgid k \<in> traced a \<and> spec_records abi flt k (en_id ctx)
         then a\<lparr>recorded := (\<lambda>x. if x = t then (if k_accepts k Tid_sequences then n else recorded a t)
                              else if k_evicts k Tid_sequences x then 0 else recorded a x),
                ongoing := (\<lambda>x. if x = t then (if k_accepts k Inflight_syscalls then Some c else ongoing a t)
                              else if k_evicts k Inflight_syscalls x then None else ongoing a x)\<rparr>
         else a)"

definition lossy_exit :: "tracer_abi \<Rightarrow> kenv \<Rightarrow> sys_exit_args \<Rightarrow> spec \<Rightarrow> spec" where
  "lossy_exit abi k ctx a =
     (let p = cur_tgid k; t = cur_tid k in
      case ongoing a t of
        None \<Rightarrow> a
      | Some c \<Rightarrow>
          if p \<notin> traced a then a
          else
            let child = 0 < sint (ex_ret ctx) \<and> creates_process abi k (c_nr c) (c_args c);
                a = a\<lparr>traced := traced a \<union>
                        (if child \<and> follow_forks abi \<noteq> 0 \<and> k_accepts k Target_pids
                         then {ucast (ex_ret ctx)} else {})\<rparr>
            in if \<not> c_wanted c then a\<lparr>ongoing := (ongoing a)(t := None)\<rparr>
               else if k_reserve k = None then a
               else
                 let a = a\<lparr>ongoing := (ongoing a)(t := None),
                           log := log a @ [\<lparr>l_process = p, l_thread = t, l_call = c, l_ret = ex_ret ctx,
                                            l_end = k_ktime k, l_creates = child\<rparr>]\<rparr>
                 in if c_nr c = NR_exit then spec_forget t a
                    else if c_nr c = NR_exit_group
                    then (spec_forget t a)\<lparr>traced := traced a - {p}\<rparr>
                    else a)"

definition quiet :: "kenv \<Rightarrow> bool" where
  "quiet k \<longleftrightarrow> helpers_ok k \<and> (\<forall>i. k_accepts k i) \<and> (\<forall>i x. \<not> k_evicts k i x) \<and> k_reserve k \<noteq> None"

lemma quiet_answers:
  "quiet k \<Longrightarrow> k_accepts k i" "quiet k \<Longrightarrow> \<not> k_evicts k i x" "quiet k \<Longrightarrow> k_reserve k \<noteq> None"
  by (simp_all add: quiet_def)

lemma lossy_enter_quiet:
  assumes "quiet k"
  shows "lossy_enter abi flt k ctx a = spec_enter abi flt k ctx a"
  unfolding lossy_enter_def spec_enter_def Let_def fun_upd_def
  by (simp add: quiet_answers [OF assms] cong: if_cong)

lemma lossy_exit_quiet: "quiet k \<Longrightarrow> lossy_exit abi k ctx a = spec_exit abi k ctx a"
  using quiet_answers(3) [of k]
  by (auto simp: lossy_exit_def spec_exit_def quiet_answers(1) spec_forget_def Let_def split: option.split)

section \<open>The refinement relation\<close>

definition call_rel :: "syscall_data \<Rightarrow> call \<Rightarrow> bool" where
  "call_rel st c \<longleftrightarrow>
     sd_syscall_id st = c_nr c \<and> sd_args st = c_args c \<and> length (c_args c) = 6 \<and>
     sd_ts st = c_start c \<and> sd_seq st = of_nat (c_number c) \<and> (sd_selected st \<noteq> 0 \<longleftrightarrow> c_wanted c)"

definition entry_rel :: "event \<Rightarrow> log_entry \<Rightarrow> bool" where
  "entry_rel e l \<longleftrightarrow>
     ev_pid e = l_process l \<and> ev_tid e = l_thread l \<and> ev_ret e = l_ret l \<and>
     ev_syscall_id e = c_nr (l_call l) \<and> ev_args e = c_args (l_call l) \<and>
     ev_ts e = c_start (l_call l) \<and> ev_dur e = l_end l - c_start (l_call l) \<and>
     ev_seq e = of_nat (c_number (l_call l)) \<and>
     (ev_event_flags e AND EVENT_FLAG_PROCESS_CLONE \<noteq> 0 \<longleftrightarrow> l_creates l)"

definition seq_rel :: "u32 option \<Rightarrow> nat \<Rightarrow> bool" where
  "seq_rel m n \<longleftrightarrow> m = (if n = 0 then None else Some (of_nat n))"

definition refines :: "(u32 \<rightharpoonup> u8) \<Rightarrow> tracer \<Rightarrow> spec \<Rightarrow> bool" where
  "refines flt s a \<longleftrightarrow>
     trace_syscall_filter s = flt \<and> traced a = dom (target_pids s) \<and>
     (\<forall>t. rel_option call_rel (inflight_syscalls s t) (ongoing a t)) \<and>
     (\<forall>t. seq_rel (tid_sequences s t) (recorded a t)) \<and>
     list_all2 entry_rel (events s) (log a)"

lemma lru_update_at:
  "lru_update k i m x v y =
     (if y = x then (if k_accepts k i then Some v else m x) else if k_evicts k i y then None else m y)"
  by (simp add: lru_update_def map_update_def)

lemma next_seq_rel: "seq_rel (m t) n \<Longrightarrow> seq_rel (Some (next_seq m t)) (Suc n)"
  by (auto simp: seq_rel_def next_seq_def split: if_splits)

lemma rel_option_update:
  assumes "\<And>t. rel_option R (f t) (g t)" and "rel_option R v w"
  shows "rel_option R ((f(x := v)) t) ((g(x := w)) t)"
  using assms by simp

lemma enter_selected_passes:
  "trace_syscall_filter s = flt \<Longrightarrow> enter_selected abi ctx s \<longleftrightarrow> passes abi flt (en_id ctx)"
  by (simp add: enter_selected_def passes_def)

lemma enter_tracked_records:
  assumes "refines flt s a"
  shows "enter_tracked abi k ctx s \<longleftrightarrow> cur_tgid k \<in> traced a \<and> spec_records abi flt k (en_id ctx)"
  using assms
  by (auto simp: refines_def enter_tracked_def spec_records_def enter_selected_passes
      should_track_unselected_syscall_def process_clone_iff zero_syscall_data_def)

lemma six_nths: "length xs = 6 \<Longrightarrow> [xs ! 0, xs ! Suc 0, xs ! 2, xs ! 3, xs ! 4, xs ! 5] = xs"
  by (auto simp: numeral_eq_Suc length_Suc_conv)

lemma refine_enter:
  assumes "length (en_args ctx) = 6" and "refines flt s a"
  shows "refines flt (trace_sys_enter abi k ctx s) (lossy_enter abi flt k ctx a)"
proof (cases "enter_tracked abi k ctx s")
  case False
  then show ?thesis
    using assms(2) enter_tracked_records [OF assms(2)]
    by (auto simp: enter_untracked lossy_enter_def Let_def)
next
  case True
  then have rec: "cur_tgid k \<in> traced a" "spec_records abi flt k (en_id ctx)"
    using enter_tracked_records [OF assms(2)] by blast+
  let ?t = "cur_tid k"
  have seq: "seq_rel (Some (next_seq (tid_sequences s) ?t)) (Suc (recorded a ?t))"
    using assms(2) next_seq_rel by (simp add: refines_def)
  then have "call_rel (enter_data abi k ctx s)
      \<lparr>c_nr = en_id ctx, c_args = en_args ctx, c_start = k_ktime k,
       c_number = Suc (recorded a ?t), c_wanted = passes abi flt (en_id ctx)\<rparr>"
    using assms
    by (simp add: call_rel_def enter_data_def six_nths seq_rel_def enter_selected_passes refines_def)
  then show ?thesis
    using assms rec seq
    by (simp add: enter_tracked_eq [OF True] lossy_enter_def refines_def Let_def lru_update_at seq_rel_def [of None])
qed

text \<open>The exit handler, one case of its branches at a time.\<close>

lemma build_event_entry:
  assumes "event_shape g" and "call_rel st c"
  shows "entry_rel (build_event abi k st ret lookup g)
    \<lparr>l_process = cur_tgid k, l_thread = cur_tid k, l_call = c, l_ret = ret, l_end = k_ktime k,
     l_creates = (0 < sint ret \<and> creates_process abi k (c_nr c) (c_args c))\<rparr>"
proof -
  have "length (sd_args st) = 6" using assms(2) by (simp add: call_rel_def)
  note fields = build_event_fields [OF assms(1) this]
  show ?thesis
    using assms(2) by (simp add: entry_rel_def fields call_rel_def process_clone_iff)
qed

lemma child_targets_rel:
  assumes "call_rel st c"
  shows "dom (child_targets abi k st ret m) = dom m \<union>
    (if (0 < sint ret \<and> creates_process abi k (c_nr c) (c_args c)) \<and> follow_forks abi \<noteq> 0 \<and> k_accepts k Target_pids
     then {ucast ret} else {})"
  using assms by (auto simp: child_targets_def process_clone_iff call_rel_def map_update_def)

lemma refine_exit:
  assumes "helpers_ok k" and "refines flt s a"
  shows "refines flt (trace_sys_exit abi k ctx s) (lossy_exit abi k ctx a)"
proof -
  let ?p = "cur_tgid k" and ?t = "cur_tid k"
  have R: "trace_syscall_filter s = flt" "traced a = dom (target_pids s)"
      "\<And>t. rel_option call_rel (inflight_syscalls s t) (ongoing a t)"
      "\<And>t. seq_rel (tid_sequences s t) (recorded a t)" "list_all2 entry_rel (events s) (log a)"
    using assms(2) by (auto simp: refines_def)
  show ?thesis
  proof (cases "target_pids s ?p = None \<or> inflight_syscalls s ?t = None")
    case True
    moreover have "ongoing a ?t = None" if "inflight_syscalls s ?t = None"
      using R(3) [of ?t] that by simp
    ultimately show ?thesis
      using assms(2) R(2) by (auto simp: exit_ignored lossy_exit_def Let_def dom_def split: option.split)
  next
    case False
    then have p: "?p \<in> traced a" using R(2) by auto
    obtain st c where st: "inflight_syscalls s ?t = Some st" and c: "ongoing a ?t = Some c"
        and rel: "call_rel st c"
      using False R(3) [of ?t] by (auto simp: option_rel_Some1)
    note sel = rel [unfolded call_rel_def]
    define l where "l = \<lparr>l_process = ?p, l_thread = ?t, l_call = c, l_ret = ex_ret ctx, l_end = k_ktime k,
      l_creates = (0 < sint (ex_ret ctx) \<and> creates_process abi k (c_nr c) (c_args c))\<rparr>"
    define T where "T = child_targets abi k st (ex_ret ctx) (target_pids s)"
    have T: "dom T = traced a \<union>
        (if l_creates l \<and> follow_forks abi \<noteq> 0 \<and> k_accepts k Target_pids then {ucast (ex_ret ctx)} else {})"
      unfolding T_def child_targets_rel [OF rel] R(2) by (simp add: l_def)
    have spec: "lossy_exit abi k ctx a =
      (if \<not> c_wanted c then a\<lparr>traced := dom T, ongoing := (ongoing a)(?t := None)\<rparr>
       else if k_reserve k = None then a\<lparr>traced := dom T\<rparr>
       else if c_nr c = NR_exit \<or> c_nr c = NR_exit_group
       then a\<lparr>traced := (if c_nr c = NR_exit_group then dom T - {?p} else dom T),
              ongoing := (ongoing a)(?t := None), recorded := (recorded a)(?t := 0),
              log := log a @ [l]\<rparr>
       else a\<lparr>traced := dom T, ongoing := (ongoing a)(?t := None), log := log a @ [l]\<rparr>)"
      unfolding T using p by (simp add: lossy_exit_def c Let_def spec_forget_def l_def)
    show ?thesis
    proof (cases "k_reserve k")
      case None
      then have "trace_sys_exit abi k ctx s =
          (if sd_selected st = 0
           then s\<lparr>target_pids := T, inflight_syscalls := (inflight_syscalls s)(?t := None)\<rparr>
           else s\<lparr>target_pids := T\<rparr>)"
        using False by (auto simp: exit_unfold st map_delete_def T_def)
      then show ?thesis
        unfolding spec using sel None by (cases "c_wanted c") (simp_all add: refines_def R)
    next
      case (Some g)
      define e where "e = build_event abi k st (ex_ret ctx) (execve_snapshots s ?t) g"
      have entry: "entry_rel e l"
        unfolding e_def l_def by (rule build_event_entry [OF helpers_ok_reserve [OF assms(1) Some] rel])
      have conc: "trace_sys_exit abi k ctx s =
        (if sd_selected st = 0
         then s\<lparr>target_pids := T, inflight_syscalls := (inflight_syscalls s)(?t := None)\<rparr>
         else if c_nr c = NR_exit \<or> c_nr c = NR_exit_group
         then s\<lparr>target_pids := (if c_nr c = NR_exit_group then T(?p := None) else T),
                events := events s @ [e], inflight_syscalls := (inflight_syscalls s)(?t := None),
                execve_snapshots := (execve_snapshots s)(?t := None),
                tid_sequences := (tid_sequences s)(?t := None)\<rparr>
         else s\<lparr>target_pids := T, events := events s @ [e],
                inflight_syscalls := (inflight_syscalls s)(?t := None),
                execve_snapshots := (if c_nr c = NR_execve then (execve_snapshots s)(?t := None)
                                     else execve_snapshots s)\<rparr>)"
        using False sel by (auto simp: exit_unfold st Some map_delete_def e_def T_def)
      show ?thesis
        unfolding conc spec using sel Some
        by (cases "c_wanted c")
          (simp_all add: refines_def R entry list_all2_appendI seq_rel_def [of None])
    qed
  qed
qed

lemma refine_thread_end:
  assumes "refines flt s a"
  shows "refines flt (trace_sched_process_exit k s) (spec_thread_end k a)"
  using assms
  by (auto simp: trace_sched_process_exit_def spec_thread_end_def refines_def cleanup_tid_state_def
      spec_forget_def map_delete_def seq_rel_def Let_def)

section \<open>Runs\<close>

text \<open>
  A run is a sequence of program runs, by any threads in any order, each in its own
  environment. The transition systems run side by side.
\<close>

datatype action = Enter sys_enter_args | Exit sys_exit_args | Thread_end

fun act :: "tracer_abi \<Rightarrow> kenv \<times> action \<Rightarrow> tracer \<Rightarrow> tracer" where
  "act abi (k, Enter ctx) s = trace_sys_enter abi k ctx s"
| "act abi (k, Exit ctx) s = trace_sys_exit abi k ctx s"
| "act abi (k, Thread_end) s = trace_sched_process_exit k s"

fun spec_act :: "tracer_abi \<Rightarrow> (u32 \<rightharpoonup> u8) \<Rightarrow> kenv \<times> action \<Rightarrow> spec \<Rightarrow> spec" where
  "spec_act abi flt (k, Enter ctx) a = spec_enter abi flt k ctx a"
| "spec_act abi flt (k, Exit ctx) a = spec_exit abi k ctx a"
| "spec_act abi flt (k, Thread_end) a = spec_thread_end k a"

fun lossy_act :: "tracer_abi \<Rightarrow> (u32 \<rightharpoonup> u8) \<Rightarrow> kenv \<times> action \<Rightarrow> spec \<Rightarrow> spec" where
  "lossy_act abi flt (k, Enter ctx) a = lossy_enter abi flt k ctx a"
| "lossy_act abi flt (k, Exit ctx) a = lossy_exit abi k ctx a"
| "lossy_act abi flt (k, Thread_end) a = spec_thread_end k a"

text \<open>
  The runs to consider are those in which the helpers obey their laws and a system call
  has its six arguments; in a quiet one, nothing is lost.
\<close>

fun allowed :: "kenv \<times> action \<Rightarrow> bool" where
  "allowed (k, Enter ctx) = (helpers_ok k \<and> length (en_args ctx) = 6)"
| "allowed (k, _) = helpers_ok k"

fun quiet_action :: "kenv \<times> action \<Rightarrow> bool" where
  "quiet_action (k, Enter ctx) = (quiet k \<and> length (en_args ctx) = 6)"
| "quiet_action (k, _) = quiet k"

definition run :: "tracer_abi \<Rightarrow> (kenv \<times> action) list \<Rightarrow> tracer \<Rightarrow> tracer" where
  "run abi = fold (act abi)"

definition spec_run :: "tracer_abi \<Rightarrow> (u32 \<rightharpoonup> u8) \<Rightarrow> (kenv \<times> action) list \<Rightarrow> spec \<Rightarrow> spec" where
  "spec_run abi flt = fold (spec_act abi flt)"

definition lossy_run :: "tracer_abi \<Rightarrow> (u32 \<rightharpoonup> u8) \<Rightarrow> (kenv \<times> action) list \<Rightarrow> spec \<Rightarrow> spec" where
  "lossy_run abi flt = fold (lossy_act abi flt)"

lemma run_simps [simp]:
  "run abi [] s = s" "run abi (x # xs) s = run abi xs (act abi x s)"
  "run abi (xs @ ys) s = run abi ys (run abi xs s)"
  by (simp_all add: run_def)

lemma spec_run_simps [simp]:
  "spec_run abi flt [] a = a" "spec_run abi flt (x # xs) a = spec_run abi flt xs (spec_act abi flt x a)"
  by (simp_all add: spec_run_def)

lemma lossy_run_simps [simp]:
  "lossy_run abi flt [] a = a" "lossy_run abi flt (x # xs) a = lossy_run abi flt xs (lossy_act abi flt x a)"
  by (simp_all add: lossy_run_def)

lemma refine_act:
  assumes "allowed x" and "refines flt s a"
  shows "refines flt (act abi x s) (lossy_act abi flt x a)"
proof -
  obtain k y where x: "x = (k, y)" by fastforce
  then show ?thesis
    using assms by (cases y) (auto intro: refine_enter refine_exit refine_thread_end)
qed

lemma refine_run:
  "list_all allowed xs \<Longrightarrow> refines flt s a \<Longrightarrow> refines flt (run abi xs s) (lossy_run abi flt xs a)"
  by (induction xs arbitrary: s a) (simp_all add: refine_act)

lemma lossy_act_quiet: "quiet_action x \<Longrightarrow> lossy_act abi flt x a = spec_act abi flt x a"
  by (cases x rule: quiet_action.cases) (simp_all add: lossy_enter_quiet lossy_exit_quiet)

lemma lossy_run_quiet: "list_all quiet_action xs \<Longrightarrow> lossy_run abi flt xs a = spec_run abi flt xs a"
  by (induction xs arbitrary: a) (simp_all add: lossy_act_quiet)

text \<open>The abstract state the loader's maps stand for.\<close>

definition spec_init :: "u32 set \<Rightarrow> spec" where
  "spec_init T = \<lparr>traced = T, ongoing = Map.empty, recorded = (\<lambda>_. 0), log = []\<rparr>"

lemma refines_init:
  "initial_state s \<Longrightarrow> refines (trace_syscall_filter s) s (spec_init (dom (target_pids s)))"
  by (simp add: refines_def initial_state_def spec_init_def seq_rel_def)

end
