(* ===== verification/Tracer_Runs.thy ===== *)
theory Tracer_Runs
  imports Tracer_Spec
begin

text \<open>
  One call of one thread in a run of the tracer of theory Tracer: between the entry
  and the exit of the call any other threads may run any programs, in environments
  of their own. The call's record and its execve snapshot survive them, so the
  event of the call holds what was seen at its entry.
\<close>

section \<open>Steps of other threads\<close>

text \<open>
  \<open>elsewhere t x\<close>: the step \<open>x\<close> is one of another thread than \<open>t\<close>, and no map evicts
  an entry of \<open>t\<close> in it. Updates may be refused and the ring buffer may be full.
\<close>

definition elsewhere :: "u32 \<Rightarrow> kenv \<times> action \<Rightarrow> bool" where
  "elsewhere t x \<longleftrightarrow> cur_tid (fst x) \<noteq> t \<and> (\<forall>i. \<not> k_evicts (fst x) i t)"

definition same_thread :: "u32 \<Rightarrow> tracer \<Rightarrow> tracer \<Rightarrow> bool" where
  "same_thread t s s' \<longleftrightarrow>
     inflight_syscalls s' t = inflight_syscalls s t \<and>
     execve_snapshots s' t = execve_snapshots s t \<and> tid_sequences s' t = tid_sequences s t"

lemma spared_update [simp]: "t \<noteq> x \<Longrightarrow> \<not> k_evicts k i t \<Longrightarrow> lru_update k i m x v t = m t"
  by (simp add: lru_update_def map_update_def)

lemma deleted_other [simp]: "t \<noteq> x \<Longrightarrow> map_delete m x t = m t"
  by (rule lru_map.del_other)

lemma spared_snapshot:
  "t \<noteq> x \<Longrightarrow> \<not> k_evicts k Execve_snapshots t \<Longrightarrow>
   execve_snapshots (snapshot_execve k x ctx s) t = execve_snapshots s t"
  by (simp add: snapshot_execve_def Let_def split: option.split)

lemma elsewhere_enter:
  "cur_tid k \<noteq> t \<Longrightarrow> \<forall>i. \<not> k_evicts k i t \<Longrightarrow> same_thread t s (trace_sys_enter abi k ctx s)"
  by (cases "enter_tracked abi k ctx s")
    (simp_all add: same_thread_def enter_untracked enter_tracked_eq spared_snapshot)

lemma elsewhere_exit: "cur_tid k \<noteq> t \<Longrightarrow> same_thread t s (trace_sys_exit abi k ctx s)"
  by (simp add: same_thread_def exit_unfold split: option.split)

lemma elsewhere_thread_end: "cur_tid k \<noteq> t \<Longrightarrow> same_thread t s (trace_sched_process_exit k s)"
  by (simp add: same_thread_def trace_sched_process_exit_def cleanup_tid_state_def Let_def)

lemma elsewhere_act:
  assumes "elsewhere t x"
  shows "same_thread t s (act abi x s)"
proof -
  obtain k y where "x = (k, y)" by fastforce
  then show ?thesis
    using assms by (cases y) (auto simp: elsewhere_def elsewhere_enter elsewhere_exit elsewhere_thread_end)
qed

lemma elsewhere_run: "list_all (elsewhere t) xs \<Longrightarrow> same_thread t s (run abi xs s)"
proof (induction xs arbitrary: s)
  case (Cons x xs)
  then show ?case
    using elsewhere_act [of t x s abi] by (simp add: same_thread_def)
qed (simp add: same_thread_def)

text \<open>
  Whatever the maps answer, other threads leave a thread's record as it is or evict it,
  and they do not evict it when no map answers so.
\<close>

definition others :: "u32 \<Rightarrow> (kenv \<times> action) list \<Rightarrow> bool" where
  "others t xs \<longleftrightarrow> list_all (\<lambda>x. cur_tid (fst x) \<noteq> t) xs"

definition spared :: "u32 \<Rightarrow> (kenv \<times> action) list \<Rightarrow> bool" where
  "spared t xs \<longleftrightarrow> list_all (\<lambda>x. \<not> k_evicts (fst x) Inflight_syscalls t) xs"

lemma others_record:
  assumes "cur_tid (fst x) \<noteq> t"
  shows "inflight_syscalls (act abi x s) t = inflight_syscalls s t \<or>
    inflight_syscalls (act abi x s) t = None \<and> k_evicts (fst x) Inflight_syscalls t"
proof -
  obtain k y where x: "x = (k, y)" by fastforce
  show ?thesis
  proof (cases y)
    case (Enter ctx)
    then show ?thesis
      using assms x
      by (cases "enter_tracked abi k ctx s") (simp_all add: enter_untracked enter_tracked_eq lru_update_at)
  next
    case (Exit ctx)
    then show ?thesis using assms x elsewhere_exit [of k t s abi ctx] by (simp add: same_thread_def)
  next
    case Thread_end
    then show ?thesis using assms x elsewhere_thread_end [of k t s] by (simp add: same_thread_def)
  qed
qed

lemma others_run_record:
  assumes "others t xs"
  shows "inflight_syscalls (run abi xs s) t = inflight_syscalls s t \<or>
    inflight_syscalls (run abi xs s) t = None \<and> \<not> spared t xs"
  using assms
proof (induction xs arbitrary: s)
  case (Cons x xs)
  then have "cur_tid (fst x) \<noteq> t" "others t xs" by (simp_all add: others_def)
  then show ?case
    using others_record [of x t abi s] Cons.IH [of "act abi x s"] by (auto simp: spared_def)
qed simp

section \<open>The end of a process\<close>

text \<open>
  The steps that can take a process out of the targets: its leader ends, or a thread of
  it leaves a recorded call of \<open>exit_group\<close>.
\<close>

fun ends_process :: "u32 \<Rightarrow> kenv \<times> action \<Rightarrow> tracer \<Rightarrow> bool" where
  "ends_process p (k, Enter ctx) s = False"
| "ends_process p (k, Exit ctx) s =
     (cur_tgid k = p \<and>
      (case inflight_syscalls s (cur_tid k) of None \<Rightarrow> False | Some st \<Rightarrow> sd_syscall_id st = NR_exit_group))"
| "ends_process p (k, Thread_end) s = (cur_tgid k = p \<and> cur_tid k = p)"

fun process_ends :: "tracer_abi \<Rightarrow> u32 \<Rightarrow> (kenv \<times> action) list \<Rightarrow> tracer \<Rightarrow> bool" where
  "process_ends abi p [] s = False"
| "process_ends abi p (x # xs) s = (ends_process p x s \<or> process_ends abi p xs (act abi x s))"

lemma child_targets_ge: "m p \<noteq> None \<Longrightarrow> child_targets abi k st ret m p \<noteq> None"
  using target_map.upd_dom_ge [of m k Target_pids "ucast ret" 1] by (auto simp: child_targets_def)

lemma target_kept:
  assumes "target_pids s p \<noteq> None" and "\<not> ends_process p x s"
  shows "target_pids (act abi x s) p \<noteq> None"
proof -
  obtain k y where x: "x = (k, y)" by fastforce
  show ?thesis
  proof (cases y)
    case (Enter ctx)
    then show ?thesis using assms(1) x by simp
  next
    case (Exit ctx)
    then show ?thesis
      using assms x child_targets_ge [of "target_pids s" p]
      by (auto simp: exit_unfold map_delete_def split: option.split)
  next
    case Thread_end
    then show ?thesis
      using assms x by (auto simp: trace_sched_process_exit_def cleanup_tid_state_def Let_def map_delete_def)
  qed
qed

lemma run_target_kept:
  "target_pids s p \<noteq> None \<Longrightarrow> \<not> process_ends abi p xs s \<Longrightarrow> target_pids (run abi xs s) p \<noteq> None"
  by (induction xs arbitrary: s) (simp_all add: target_kept del: not_None_eq)

section \<open>One call\<close>

text \<open>The entry of a recorded call, when the updates of its maps are accepted.\<close>

lemma enter_inflight:
  assumes "enter_tracked abi k ctx s" and "k_accepts k Inflight_syscalls"
  shows "inflight_syscalls (trace_sys_enter abi k ctx s) (cur_tid k) = Some (enter_data abi k ctx s)"
  using assms by (simp add: enter_tracked_eq lru_update_accept)

lemma enter_seq:
  assumes "enter_tracked abi k ctx s" and "k_accepts k Tid_sequences"
  shows "tid_sequences (trace_sys_enter abi k ctx s) (cur_tid k) =
    Some (next_seq (tid_sequences s) (cur_tid k))"
  using assms by (simp add: enter_tracked_eq lru_update_accept)

lemma enter_snapshot:
  assumes "enter_tracked abi k ctx s" and "k_accepts k Execve_snapshots" and "en_id ctx = NR_execve"
  shows "execve_snapshots (trace_sys_enter abi k ctx s) (cur_tid k) =
    Some (append_execve_var_argv k (append_execve_var_string k zero_snapshot 0 (en_args ctx ! 0)) 1
           (en_args ctx ! 1))"
  using assms lru_update_accept [of k Execve_snapshots "execve_snapshots s" "cur_tid k" zero_snapshot]
  by (simp add: enter_tracked_eq snapshot_execve_def Let_def)

text \<open>The exit of a call whose record is there and selected, with room in the ring buffer.\<close>

lemma exit_emits:
  assumes "target_pids s (cur_tgid k) \<noteq> None" and "inflight_syscalls s (cur_tid k) = Some st"
    and "sd_selected st \<noteq> 0" and "k_reserve k = Some g"
  shows "events (trace_sys_exit abi k ctx s) =
      events s @ [build_event abi k st (ex_ret ctx) (execve_snapshots s (cur_tid k)) g]"
    and "inflight_syscalls (trace_sys_exit abi k ctx s) (cur_tid k) = None"
proof -
  show "events (trace_sys_exit abi k ctx s) =
      events s @ [build_event abi k st (ex_ret ctx) (execve_snapshots s (cur_tid k)) g]"
    using assms by (simp add: exit_events emitted_def)
  show "inflight_syscalls (trace_sys_exit abi k ctx s) (cur_tid k) = None"
    using assms by (auto simp: exit_unfold map_delete_def)
qed

lemma exit_keeps_targets:
  assumes "inflight_syscalls s (cur_tid k) = Some st" and "\<not> is_process_clone abi k st"
    and "sd_syscall_id st \<noteq> NR_exit_group"
  shows "target_pids (trace_sys_exit abi k ctx s) = target_pids s"
  using assms by (simp add: exit_unfold child_targets_def split: option.split)

lemma enter_data_fields [simp]:
  "sd_ts (enter_data abi k ctx s) = k_ktime k"
  "sd_syscall_id (enter_data abi k ctx s) = en_id ctx"
  "sd_seq (enter_data abi k ctx s) = next_seq (tid_sequences s) (cur_tid k)"
  "length (sd_args (enter_data abi k ctx s)) = 6"
  "length (en_args ctx) = 6 \<Longrightarrow> sd_args (enter_data abi k ctx s) = en_args ctx"
  by (simp_all add: enter_data_def six_nths)

definition one_call :: "tracer_abi \<Rightarrow> kenv \<Rightarrow> sys_enter_args \<Rightarrow> (kenv \<times> action) list \<Rightarrow> tracer \<Rightarrow> tracer" where
  "one_call abi k ctx xs s = run abi xs (trace_sys_enter abi k ctx s)"

lemma one_call_state:
  assumes "enter_tracked abi k ctx s" and "k_accepts k Inflight_syscalls"
    and "list_all (elsewhere (cur_tid k)) xs"
  shows "inflight_syscalls (one_call abi k ctx xs s) (cur_tid k) = Some (enter_data abi k ctx s)"
    and "execve_snapshots (one_call abi k ctx xs s) (cur_tid k) =
      execve_snapshots (trace_sys_enter abi k ctx s) (cur_tid k)"
    and "tid_sequences (one_call abi k ctx xs s) (cur_tid k) =
      tid_sequences (trace_sys_enter abi k ctx s) (cur_tid k)"
  using elsewhere_run [OF assms(3), of "trace_sys_enter abi k ctx s" abi] enter_inflight [OF assms(1,2)]
  by (simp_all add: same_thread_def one_call_def)

lemma one_call_event:
  assumes "enter_tracked abi k ctx s" and "enter_selected abi ctx s" and "k_accepts k Inflight_syscalls"
    and "list_all (elsewhere (cur_tid k)) xs" and "k_pid_tgid k' = k_pid_tgid k"
    and "target_pids (one_call abi k ctx xs s) (cur_tgid k) \<noteq> None" and "k_reserve k' = Some g"
  shows "events (trace_sys_exit abi k' ctx' (one_call abi k ctx xs s)) =
    events (one_call abi k ctx xs s) @
      [build_event abi k' (enter_data abi k ctx s) (ex_ret ctx')
         (execve_snapshots (trace_sys_enter abi k ctx s) (cur_tid k)) g]"
proof -
  have [simp]: "cur_tgid k' = cur_tgid k" "cur_tid k' = cur_tid k"
    using assms(5) by (simp_all add: cur_tgid_def cur_tid_def)
  have "sd_selected (enter_data abi k ctx s) \<noteq> 0"
    using assms(2) by (simp add: enter_data_def)
  then show ?thesis
    using exit_emits(1) [of "one_call abi k ctx xs s" k'] assms(6,7) one_call_state [OF assms(1,3,4)]
    by simp
qed

text \<open>
  The record of a call whose thread had none before: whatever the maps answer, there is
  none or the one its entry has made, and it is there when its update is accepted and
  no map evicts it.
\<close>

lemma enter_record_cases:
  assumes "enter_tracked abi k ctx s" and "inflight_syscalls s (cur_tid k) = None"
  shows "inflight_syscalls (trace_sys_enter abi k ctx s) (cur_tid k) =
    (if k_accepts k Inflight_syscalls then Some (enter_data abi k ctx s) else None)"
  using assms by (simp add: enter_tracked_eq lru_update_at)

lemma call_record:
  assumes "enter_tracked abi k ctx s" and "inflight_syscalls s (cur_tid k) = None" and "others (cur_tid k) xs"
  shows "inflight_syscalls (one_call abi k ctx xs s) (cur_tid k) \<in> {None, Some (enter_data abi k ctx s)}"
  using others_run_record [OF assms(3), of abi "trace_sys_enter abi k ctx s"] enter_record_cases [OF assms(1,2)]
  by (auto simp: one_call_def)

lemma call_record_kept:
  assumes "enter_tracked abi k ctx s" and "k_accepts k Inflight_syscalls"
    and "others (cur_tid k) xs" and "spared (cur_tid k) xs"
  shows "inflight_syscalls (one_call abi k ctx xs s) (cur_tid k) = Some (enter_data abi k ctx s)"
  using others_run_record [OF assms(3), of abi "trace_sys_enter abi k ctx s"] enter_inflight [OF assms(1,2)] assms(4)
  by (auto simp: one_call_def)

lemma call_target_kept:
  assumes "target_pids s p \<noteq> None" and "\<not> process_ends abi p xs (trace_sys_enter abi k ctx s)"
  shows "target_pids (one_call abi k ctx xs s) p \<noteq> None"
  using run_target_kept [OF _ assms(2)] assms(1) by (simp add: one_call_def)

text \<open>
  \<open>completes\<close>: a call of a traced process passes the filter, its record is stored,
  other threads run \<open>xs\<close>, in which no map evicts an entry of the thread, and its exit,
  in the environment \<open>k'\<close>, finds the process still traced and room in the ring buffer.
  It is what must be the case for the call to have an event; what happens otherwise is
  in \<open>call_produces_event\<close> of theory \<open>Tracer_Properties\<close>.
\<close>

definition completes ::
  "tracer_abi \<Rightarrow> kenv \<Rightarrow> sys_enter_args \<Rightarrow> (kenv \<times> action) list \<Rightarrow> kenv \<Rightarrow> tracer \<Rightarrow> bool" where
  "completes abi k ctx xs k' s \<longleftrightarrow>
     target_pids s (cur_tgid k) \<noteq> None \<and> enter_selected abi ctx s \<and> length (en_args ctx) = 6 \<and>
     k_accepts k Inflight_syscalls \<and> list_all (elsewhere (cur_tid k)) xs \<and>
     k_pid_tgid k' = k_pid_tgid k \<and> helpers_ok k' \<and> k_reserve k' \<noteq> None \<and>
     target_pids (one_call abi k ctx xs s) (cur_tgid k) \<noteq> None"

lemma completes_event:
  assumes "completes abi k ctx xs k' s"
  obtains g where "event_shape g"
    and "events (trace_sys_exit abi k' ctx' (one_call abi k ctx xs s)) =
      events (one_call abi k ctx xs s) @
        [build_event abi k' (enter_data abi k ctx s) (ex_ret ctx')
           (execve_snapshots (trace_sys_enter abi k ctx s) (cur_tid k)) g]"
proof -
  obtain g where g: "k_reserve k' = Some g" "event_shape g"
    using assms helpers_ok_reserve by (auto simp: completes_def)
  have "enter_tracked abi k ctx s"
    using assms by (simp add: completes_def enter_tracked_def)
  from that [OF g(2) one_call_event [OF this, of xs k' g ctx']] assms g(1) show thesis
    by (simp add: completes_def)
qed

text \<open>The number of the call's event, and the number the thread keeps.\<close>

lemma completes_tracked: "completes abi k ctx xs k' s \<Longrightarrow> enter_tracked abi k ctx s"
  by (simp add: completes_def enter_tracked_def)

lemma completes_seq:
  assumes "completes abi k ctx xs k' s"
  shows "ev_seq (last (events (trace_sys_exit abi k' ctx' (one_call abi k ctx xs s)))) =
    next_seq (tid_sequences s) (cur_tid k)"
proof -
  obtain g where "event_shape g"
    and "events (trace_sys_exit abi k' ctx' (one_call abi k ctx xs s)) =
      events (one_call abi k ctx xs s) @
        [build_event abi k' (enter_data abi k ctx s) (ex_ret ctx')
           (execve_snapshots (trace_sys_enter abi k ctx s) (cur_tid k)) g]"
    by (rule completes_event [OF assms])
  then show ?thesis by (simp add: build_event_fields)
qed

lemma exit_keeps_sequences:
  assumes "inflight_syscalls s (cur_tid k) = Some st" and "sd_syscall_id st \<notin> {NR_exit, NR_exit_group}"
  shows "tid_sequences (trace_sys_exit abi k ctx s) = tid_sequences s"
  using assms by (simp add: exit_unfold split: option.split)

lemma completes_sequences:
  assumes "completes abi k ctx xs k' s" and "k_accepts k Tid_sequences"
    and "en_id ctx \<notin> {NR_exit, NR_exit_group}"
  shows "tid_sequences (trace_sys_exit abi k' ctx' (one_call abi k ctx xs s)) (cur_tid k) =
    Some (next_seq (tid_sequences s) (cur_tid k))"
proof -
  have "cur_tid k' = cur_tid k" "k_accepts k Inflight_syscalls" "list_all (elsewhere (cur_tid k)) xs"
    using assms(1) by (simp_all add: completes_def cur_tid_def)
  note state = one_call_state [OF completes_tracked [OF assms(1)] this(2,3)] and tid = this(1)
  have "inflight_syscalls (one_call abi k ctx xs s) (cur_tid k') = Some (enter_data abi k ctx s)"
    using state tid by simp
  from exit_keeps_sequences [OF this] assms(3)
  have "tid_sequences (trace_sys_exit abi k' ctx' (one_call abi k ctx xs s)) =
      tid_sequences (one_call abi k ctx xs s)" by simp
  then show ?thesis
    using state(3) enter_seq [OF completes_tracked [OF assms(1)] assms(2)] by simp
qed

section \<open>Runs are reachable\<close>

lemma allowed_step: "allowed x \<Longrightarrow> tracer_step abi s (act abi x s)"
  by (cases x rule: allowed.cases) (auto intro: tracer_step.intros)

lemma reachable_run: "list_all allowed xs \<Longrightarrow> reachable abi s0 s \<Longrightarrow> reachable abi s0 (run abi xs s)"
  by (induction xs arbitrary: s) (auto intro: reachable.step allowed_step)

end
