(* ===== verification/Event_Args.thy ===== *)
theory Event_Args
  imports Tracer_Runs
begin

text \<open>
  Which arguments the exit handler of theory Tracer captures, call by call, as two
  tables: the paths a call takes and the buffer it has filled. The handler's chain
  of \<open>if\<close> statements does what the tables say, and what it stores in the event is
  what user memory holds at those arguments.
\<close>

section \<open>The tables\<close>

definition path_args :: "s64 \<Rightarrow> nat list" where
  "path_args nr =
     (if nr \<in> {NR_open, NR_access, NR_newstat, NR_newlstat, NR_chdir, NR_unlink} then [0]
      else if nr \<in> {NR_openat, NR_openat2, NR_newfstatat, NR_faccessat, NR_statx, NR_faccessat2, NR_unlinkat}
      then [1]
      else if nr = NR_rename then [0, 1]
      else if nr \<in> {NR_renameat, NR_renameat2} then [1, 3]
      else [])"

definition stat_arg :: "tracer_abi \<Rightarrow> s64 \<Rightarrow> (nat \<times> u64) option" where
  "stat_arg abi nr =
     (if nr \<in> {NR_newfstat, NR_newstat, NR_newlstat} then Some (1, sizeof_stat abi)
      else if nr = NR_newfstatat then Some (2, sizeof_stat abi)
      else if nr = NR_statx then Some (4, sizeof_statx abi)
      else None)"

definition capture_paths :: "kenv \<Rightarrow> syscall_data \<Rightarrow> nat list \<Rightarrow> event \<Rightarrow> event" where
  "capture_paths k st = fold (capture_string k st)"

definition capture_stat :: "kenv \<Rightarrow> syscall_data \<Rightarrow> (nat \<times> u64) option \<Rightarrow> event \<Rightarrow> event" where
  "capture_stat k st arg e = (case arg of None \<Rightarrow> e | Some (i, sz) \<Rightarrow> capture_bytes k st i sz e)"

lemmas table_simps = path_args_def stat_arg_def capture_paths_def capture_stat_def

lemma capture_steps_table:
  "run_steps (capture_steps abi k st ret) e =
     capture_stat k st (if 0 \<le> sint ret then stat_arg abi (sd_syscall_id st) else None)
       (capture_paths k st (path_args (sd_syscall_id st)) e)"
proof (cases "sd_syscall_id st \<in> {NR_open, NR_access, NR_newstat, NR_newlstat, NR_chdir, NR_unlink, NR_openat,
    NR_openat2, NR_newfstatat, NR_faccessat, NR_statx, NR_faccessat2, NR_unlinkat, NR_rename, NR_renameat,
    NR_renameat2, NR_newfstat}")
  case True
  then show ?thesis
    by (elim insertE emptyE) (simp_all add: capture_steps_def table_simps Let_def)
next
  case False
  then show ?thesis
    by (simp add: capture_steps_def table_simps)
qed

lemma path_args_io: "nr \<in> {NR_read, NR_write, NR_execve} \<Longrightarrow> path_args nr = [] \<and> stat_arg abi nr = None"
  by (elim insertE emptyE) (simp_all add: table_simps)

lemma path_args_bound: "length (path_args nr) \<le> 2 \<and> (\<forall>i \<in> set (path_args nr). i < 6)"
  by (simp add: path_args_def)

lemma path_args_distinct: "distinct (path_args nr)"
  by (simp add: path_args_def)

lemma stat_arg_room: "stat_arg abi nr = Some (i, sz) \<Longrightarrow> length (path_args nr) \<le> 1 \<and> i \<notin> set (path_args nr) \<and> i < 6"
  by (auto simp: table_simps split: if_splits)

section \<open>The captured paths\<close>

text \<open>The number of captures, and what a capture does to the slots before it.\<close>

context kernel_env
begin

lemma capture_string_count:
  assumes "slots_ok e" and "unat (ev_var_count e) < 2"
  shows "unat (ev_var_count (capture_string k st i e)) = Suc (unat (ev_var_count e))"
  using assms string_capture [of e "of_nat i" "sd_args st ! i"] slot_capture_count [of e]
  by (auto simp: capture_string_def slots_ok_def event_ok_def)

lemma capture_string_keeps:
  "slots_ok e \<Longrightarrow> j < unat (ev_var_count e) \<Longrightarrow> captured (capture_string k st i e) j = captured e j"
  by (simp add: capture_string_def str.op_captured)

lemma capture_paths_keeps:
  assumes "slots_ok e" and "unat (ev_var_count e) + length is' \<le> 2"
  shows "slots_ok (capture_paths k st is' e) \<and>
    unat (ev_var_count (capture_paths k st is' e)) = unat (ev_var_count e) + length is' \<and>
    (\<forall>j < unat (ev_var_count e). captured (capture_paths k st is' e) j = captured e j)"
  using assms
proof (induction is' arbitrary: e)
  case (Cons i is')
  then have "unat (ev_var_count (capture_string k st i e)) = Suc (unat (ev_var_count e))"
    using capture_string_count [of e] by simp
  then show ?case
    using Cons capture_string_keeps [OF Cons.prems(1)] capture_string_slots [OF Cons.prems(1)]
    by (simp add: capture_paths_def)
qed (simp add: capture_paths_def)

lemma capture_bytes_keeps:
  "sz \<noteq> 0 \<Longrightarrow> slots_ok e \<Longrightarrow> j < unat (ev_var_count e) \<Longrightarrow>
   captured (capture_bytes k st i sz e) j = captured e j"
  using capture_op.op_captured [OF bytes_op [of sz]] by (simp add: capture_bytes_def)

end

text \<open>What is copied, over a process memory.\<close>

lemma capture_string_copies:
  assumes "cstring_at m (sd_args st ! i) s" and "sd_args st ! i \<noteq> 0"
    and "slots_ok e" and "unat (ev_var_count e) < 2"
  shows "\<exists>d. captured (capture_string (with_memory m k) st i e) (unat (ev_var_count e)) = (d, take 255 s) \<and>
    vd_arg_index d = of_nat i \<and>
    vd_flags d = (if 255 \<le> length s then VAR_FLAG_TRUNCATED else VAR_FLAG_NONE)"
  using string_copied [OF assms, of k "of_nat i"] by (simp add: capture_string_def)

lemma capture_paths_copies:
  assumes "slots_ok e" and "unat (ev_var_count e) + length is' \<le> 2" and "j < length is'"
    and "cstring_at m (sd_args st ! (is' ! j)) s" and "sd_args st ! (is' ! j) \<noteq> 0"
  shows "\<exists>d. captured (capture_paths (with_memory m k) st is' e) (unat (ev_var_count e) + j) = (d, take 255 s) \<and>
    vd_arg_index d = of_nat (is' ! j) \<and>
    vd_flags d = (if 255 \<le> length s then VAR_FLAG_TRUNCATED else VAR_FLAG_NONE)"
  using assms
proof (induction is' arbitrary: e j)
  case (Cons i is')
  let ?e = "capture_string (with_memory m k) st i e"
  have room: "unat (ev_var_count e) < 2" using Cons.prems(2) by simp
  have count: "unat (ev_var_count ?e) = Suc (unat (ev_var_count e))"
    by (rule memory_env.capture_string_count [OF Cons.prems(1) room])
  have ok: "slots_ok ?e" by (rule memory_env.capture_string_slots [OF Cons.prems(1)])
  show ?case
  proof (cases j)
    case 0
    have "captured (capture_paths (with_memory m k) st is' ?e) (unat (ev_var_count e)) =
        captured ?e (unat (ev_var_count e))"
      using memory_env.capture_paths_keeps [OF ok, of is' m k st] count Cons.prems(2)
      by simp
    then show ?thesis
      using capture_string_copies [OF _ _ Cons.prems(1) room, of m st i s k] Cons.prems(4,5) 0
      by (simp add: capture_paths_def)
  next
    case (Suc j')
    then show ?thesis
      using Cons.IH [OF ok, of j'] Cons.prems count by (simp add: capture_paths_def)
  qed
qed simp

section \<open>The captures of a whole event\<close>

text \<open>The event of a call other than read, write and execve, and that of an execve.\<close>

lemma build_event_table:
  assumes "event_shape g" and "length (sd_args st) = 6"
    and "sd_syscall_id st \<notin> {NR_read, NR_write, NR_execve}"
  shows "build_event abi k st ret lookup g =
    capture_stat k st (if 0 \<le> sint ret then stat_arg abi (sd_syscall_id st) else None)
      (capture_paths k st (path_args (sd_syscall_id st)) (typed_event abi k st ret))"
  using assms by (simp add: build_event_typed io_steps_other capture_steps_table)

lemma build_event_execve:
  assumes "event_shape g" and "length (sd_args st) = 6" and "sd_syscall_id st = NR_execve"
  shows "build_event abi k st ret lookup g = copy_snapshot lookup (typed_event abi k st ret)"
  using assms by (simp add: build_event_typed io_steps_other capture_steps_io)

lemma build_event_io:
  assumes "event_shape g" and "length (sd_args st) = 6"
    and "sd_syscall_id st = NR_write \<or> sd_syscall_id st = NR_read \<and> 0 \<le> sint ret"
  shows "build_event abi k st ret lookup g =
    append_var_bytes k (typed_event abi k st ret) 1 (sd_args st ! 1)
      (if sd_syscall_id st = NR_write then sd_args st ! 2 else ret)"
proof -
  have "build_event abi k st ret lookup g = run_steps (io_steps k st ret) (typed_event abi k st ret)"
    using assms by (auto simp: build_event_typed capture_steps_io)
  with assms(3) show ?thesis by (auto simp: io_steps_def)
qed

lemma path_args_special: "path_args nr \<noteq> [] \<Longrightarrow> nr \<notin> {NR_read, NR_write, NR_execve}"
  using path_args_io by blast

lemma build_event_path:
  assumes "event_shape g" and "length (sd_args st) = 6" and "abi_ok abi"
    and "j < length (path_args (sd_syscall_id st))"
    and "cstring_at m (sd_args st ! (path_args (sd_syscall_id st) ! j)) s"
    and "sd_args st ! (path_args (sd_syscall_id st) ! j) \<noteq> 0"
  shows "\<exists>d. captured (build_event abi (with_memory m k) st ret lookup g) j = (d, take 255 s) \<and>
    vd_arg_index d = of_nat (path_args (sd_syscall_id st) ! j) \<and>
    vd_flags d = (if 255 \<le> length s then VAR_FLAG_TRUNCATED else VAR_FLAG_NONE)"
proof -
  let ?nr = "sd_syscall_id st" and ?k = "with_memory m k"
  let ?p = "capture_paths ?k st (path_args ?nr) (typed_event abi ?k st ret)"
  note typed = slots_ok_typed [OF assms(2), of abi ?k ret]
  have nr: "?nr \<notin> {NR_read, NR_write, NR_execve}"
    by (rule path_args_special) (use assms(4) in auto)
  have paths: "\<exists>d. captured ?p j = (d, take 255 s) \<and> vd_arg_index d = of_nat (path_args ?nr ! j) \<and>
      vd_flags d = (if 255 \<le> length s then VAR_FLAG_TRUNCATED else VAR_FLAG_NONE)"
    using capture_paths_copies [OF typed _ assms(4-6), of k] path_args_bound [of ?nr] by simp
  have ok: "slots_ok ?p \<and> unat (ev_var_count ?p) = length (path_args ?nr)"
    using memory_env.capture_paths_keeps [OF typed] path_args_bound [of ?nr] by simp
  show ?thesis
  proof (cases "(if 0 \<le> sint ret then stat_arg abi ?nr else None)")
    case None
    then show ?thesis
      using paths by (simp only: build_event_table [OF assms(1,2) nr] capture_stat_def option.case)
  next
    case (Some a)
    obtain i sz where a: "a = (i, sz)" by force
    then have "sz \<noteq> 0"
      using Some assms(3) by (auto simp: table_simps abi_ok_def split: if_splits)
    then have "captured (capture_bytes ?k st i sz ?p) j = captured ?p j"
      using memory_env.capture_bytes_keeps ok assms(4) by simp
    with Some a show ?thesis
      using paths by (simp only: build_event_table [OF assms(1,2) nr] capture_stat_def option.case prod.case)
  qed
qed

text \<open>The stat buffer a call has filled, after its path.\<close>

lemma build_event_stat:
  assumes "event_shape g" and "length (sd_args st) = 6" and "abi_ok abi" and "0 \<le> sint ret"
    and "stat_arg abi (sd_syscall_id st) = Some (i, sz)"
    and "mem_bytes m (sd_args st ! i) (min (unat sz) 256) = Some bs" and "sd_args st ! i \<noteq> 0"
  shows "\<exists>d. captured (build_event abi (with_memory m k) st ret lookup g)
      (length (path_args (sd_syscall_id st))) = (d, bs) \<and>
    vd_arg_index d = of_nat i \<and>
    vd_flags d = (if 256 < unat sz then VAR_FLAG_TRUNCATED else VAR_FLAG_NONE)"
proof -
  let ?nr = "sd_syscall_id st" and ?k = "with_memory m k"
  let ?p = "capture_paths ?k st (path_args ?nr) (typed_event abi ?k st ret)"
  note typed = slots_ok_typed [OF assms(2), of abi ?k ret]
  have nr: "?nr \<notin> {NR_read, NR_write, NR_execve}"
    using assms(5) path_args_io [of ?nr abi] by auto
  have ok: "slots_ok ?p \<and> unat (ev_var_count ?p) = length (path_args ?nr)"
    using memory_env.capture_paths_keeps [OF typed] path_args_bound [of ?nr] by simp
  have "unat (ev_var_count ?p) < 2"
    using ok stat_arg_room [OF assms(5)] by simp
  moreover have "sz \<noteq> 0"
    using assms(3,5) by (auto simp: table_simps abi_ok_def split: if_splits)
  ultimately show ?thesis
    using bytes_copied [OF assms(6,7), of ?p k "of_nat i"] ok assms(4,5)
    by (simp add: build_event_table [OF assms(1,2) nr] capture_stat_def capture_bytes_def)
qed

text \<open>What a write was given and what a read has returned.\<close>

lemma build_event_data:
  assumes "event_shape g" and "length (sd_args st) = 6"
    and "sd_syscall_id st = NR_write \<or> sd_syscall_id st = NR_read \<and> 0 \<le> sint ret"
    and "sz = (if sd_syscall_id st = NR_write then sd_args st ! 2 else ret)" and "sz \<noteq> 0"
    and "mem_bytes m (sd_args st ! 1) (min (unat sz) 256) = Some bs" and "sd_args st ! 1 \<noteq> 0"
  shows "\<exists>d. captured (build_event abi (with_memory m k) st ret lookup g) 0 = (d, bs) \<and>
    vd_arg_index d = 1 \<and>
    vd_flags d = (if 256 < unat sz then VAR_FLAG_TRUNCATED else VAR_FLAG_NONE)"
  using bytes_copied [OF assms(6,7,5), of "typed_event abi (with_memory m k) st ret" k 1]
    slots_ok_typed [OF assms(2)] assms(4)
  by (simp add: build_event_io [OF assms(1-3)])

text \<open>The path and the argument list of an execve, as they were when it entered the kernel.\<close>

lemma captured_copy_snapshot:
  assumes "event_shape e" and "snap_ok 2 sn" and "i < 2"
  shows "captured (copy_snapshot (Some sn) e) i = snap_captured sn i"
proof -
  have sn: "length (sn_var_desc sn) = 2" "length (sn_payload sn) = 256" "unat (sn_payload_len sn) \<le> 256"
      "descs_ok (unat (sn_payload_len sn)) 2 (sn_var_desc sn)"
    using assms(2) by (auto simp: snap_ok_def snapshot_shape_def)
  let ?d = "sn_var_desc sn ! i"
  have "desc_ok (unat (sn_payload_len sn)) ?d"
    using descs_okD [OF sn(4) assms(3)] assms(3) sn(1) by simp
  then have "unat (vd_length ?d) = 0 \<or> unat (vd_offset ?d) + unat (vd_length ?d) \<le> 256"
    using sn(3) by (auto simp: desc_ok_def desc_fits_def)
  then have "bslice (unat (vd_offset ?d)) (unat (vd_length ?d)) (sn_payload sn @ drop 256 (ev_payload e)) =
      bslice (unat (vd_offset ?d)) (unat (vd_length ?d)) (sn_payload sn)"
  proof
    assume "unat (vd_offset ?d) + unat (vd_length ?d) \<le> 256"
    then show ?thesis by (rule bslice_take_cong [where n = 256, rotated]) (simp add: sn(2))
  qed simp
  then show ?thesis
    using assms(1,3) sn by (simp add: captured_def snap_captured_def copy_snapshot_def copy_loop_eq
        event_shape_def nth_append Let_def)
qed

lemma execve_snapshot_contents:
  assumes "cstring_at m p path" and "p \<noteq> 0" and "argv_at m a args" and "a \<noteq> 0"
    and "argv_spec 8 (256 - min (length path) 127) (map snd args) = (bs, trunc)"
    and "sn = append_execve_var_argv (with_memory m k) (append_execve_var_string (with_memory m k) zero_snapshot 0 p) 1 a"
  shows "snap_ok 2 sn"
    and "\<exists>d. snap_captured sn 0 = (d, take 127 path) \<and> vd_arg_index d = 0 \<and>
      vd_flags d = (if 127 \<le> length path then VAR_FLAG_TRUNCATED else VAR_FLAG_NONE)"
    and "\<exists>d. snap_captured sn 1 = (d, bs) \<and> vd_arg_index d = 1 \<and>
      vd_flags d = (if trunc then VAR_FLAG_TRUNCATED else VAR_FLAG_NONE)"
proof -
  let ?s = "append_execve_var_string (with_memory m k) zero_snapshot 0 p"
  have ok: "snap_ok 1 ?s"
    by (rule memory_env.string_snapshot_ok [OF snap_ok_zero])
  show "snap_ok 2 sn"
    unfolding assms(6) by (rule memory_env.argv_snapshot_ok [OF ok])
  obtain d where d: "snap_captured ?s 0 = (d, take 127 path)" "vd_arg_index d = 0"
      "unat (vd_offset d) + unat (vd_length d) = unat (sn_payload_len ?s)"
      "unat (sn_payload_len ?s) = min (length path) 127"
      "vd_flags d = (if 127 \<le> length path then VAR_FLAG_TRUNCATED else VAR_FLAG_NONE)"
    using snapshot_string_copied [OF assms(1,2) snap_ok_zero, of k 0] by blast
  have fits: "desc_fits (unat (sn_payload_len ?s)) (sn_var_desc ?s ! 0)"
    using d(1,3) by (simp add: snap_captured_def desc_fits_def Let_def)
  have lt: "unat (sn_payload_len ?s) < 256" using d(4) by simp
  have spec: "argv_spec 8 (256 - unat (sn_payload_len ?s)) (map snd args) = (bs, trunc)"
    using assms(5) d(4) by simp
  note argv = snapshot_argv_copied [OF assms(3,4) ok lt spec, of k 1]
  show "\<exists>d. snap_captured sn 1 = (d, bs) \<and> vd_arg_index d = 1 \<and>
      vd_flags d = (if trunc then VAR_FLAG_TRUNCATED else VAR_FLAG_NONE)"
    unfolding assms(6) by (rule argv(1))
  show "\<exists>d. snap_captured sn 0 = (d, take 127 path) \<and> vd_arg_index d = 0 \<and>
      vd_flags d = (if 127 \<le> length path then VAR_FLAG_TRUNCATED else VAR_FLAG_NONE)"
    unfolding assms(6) argv(2) [OF fits] using d by blast
qed

text \<open>The event of a whole execve call.\<close>

lemma execve_call_event:
  assumes "completes abi (with_memory m k) ctx xs k' s" and "en_id ctx = NR_execve"
    and "k_accepts k Execve_snapshots"
    and "cstring_at m (en_args ctx ! 0) path" and "en_args ctx ! 0 \<noteq> 0"
    and "argv_at m (en_args ctx ! 1) args" and "en_args ctx ! 1 \<noteq> 0"
    and "argv_spec 8 (256 - min (length path) 127) (map snd args) = (bs, trunc)"
  obtains e where "events (trace_sys_exit abi k' ctx' (one_call abi (with_memory m k) ctx xs s)) =
      events (one_call abi (with_memory m k) ctx xs s) @ [e]"
    and "\<exists>d. captured e 0 = (d, take 127 path) \<and> vd_arg_index d = 0 \<and>
      vd_flags d = (if 127 \<le> length path then VAR_FLAG_TRUNCATED else VAR_FLAG_NONE)"
    and "\<exists>d. captured e 1 = (d, bs) \<and> vd_arg_index d = 1 \<and>
      vd_flags d = (if trunc then VAR_FLAG_TRUNCATED else VAR_FLAG_NONE)"
    and "unat (ev_var_count e) = 2" and "abi_ok abi \<longrightarrow> event_ok e"
proof -
  let ?k = "with_memory m k"
  let ?st = "enter_data abi ?k ctx s" and ?t = "cur_tid ?k"
  define sn where "sn = append_execve_var_argv ?k
    (append_execve_var_string ?k zero_snapshot 0 (en_args ctx ! 0)) 1 (en_args ctx ! 1)"
  note contents = execve_snapshot_contents [OF assms(4-8) sn_def]
  obtain g where g: "event_shape g"
    "events (trace_sys_exit abi k' ctx' (one_call abi ?k ctx xs s)) = events (one_call abi ?k ctx xs s) @
       [build_event abi k' ?st (ex_ret ctx') (execve_snapshots (trace_sys_enter abi ?k ctx s) ?t) g]"
    by (rule completes_event [OF assms(1)])
  let ?e = "build_event abi k' ?st (ex_ret ctx') (Some sn) g"
  have "execve_snapshots (trace_sys_enter abi ?k ctx s) ?t = Some sn"
    using enter_snapshot [OF completes_tracked [OF assms(1)]] assms(2,3) by (simp add: sn_def)
  then have ev: "events (trace_sys_exit abi k' ctx' (one_call abi ?k ctx xs s)) =
      events (one_call abi ?k ctx xs s) @ [?e]" using g(2) by simp
  have e: "?e = copy_snapshot (Some sn) (typed_event abi k' ?st (ex_ret ctx'))"
    using g(1) assms(2) by (simp add: build_event_execve)
  have shape: "event_shape (typed_event abi k' ?st (ex_ret ctx'))"
    using slots_ok_typed [of ?st] by (simp add: slots_ok_def event_ok_def)
  note cap = captured_copy_snapshot [OF shape contents(1), folded e]
  have "unat (ev_var_count ?e) = 2"
    using contents(1) by (simp add: e copy_snapshot_def snap_ok_def Let_def)
  moreover have "abi_ok abi \<longrightarrow> event_ok ?e"
    by (rule impI, rule build_event_ok [OF helpers_ok_env _ g(1)])
      (use assms(1) contents(1) in \<open>auto simp: completes_def\<close>)
  ultimately show thesis
    using that [OF ev] contents(2,3) cap [of 0] cap [of 1] by simp
qed

section \<open>The types of the arguments\<close>

lemma capture_types [simp]:
  "ev_arg_types (capture_string k st i e) = (ev_arg_types e)[i := VAR_ARG_STRING]"
  "ev_arg_types (capture_bytes k st i sz e) = (ev_arg_types e)[i := VAR_ARG_BYTES]"
  "ev_arg_types (append_var_bytes k e j p sz) = ev_arg_types e"
  using append_var_string_header [of k e "of_nat i" "sd_args st ! i"]
    append_var_bytes_header [of k e "of_nat i" "sd_args st ! i" sz] append_var_bytes_header [of k e j p sz]
  by (simp_all add: capture_string_def capture_bytes_def set_arg_type_def event_header_def)

lemma capture_paths_types:
  "length (ev_arg_types e) = 6 \<Longrightarrow> i < 6 \<Longrightarrow>
   length (ev_arg_types (capture_paths k st is' e)) = 6 \<and>
   ev_arg_types (capture_paths k st is' e) ! i =
     (if i \<in> set is' then VAR_ARG_STRING else ev_arg_types e ! i)"
  by (induction is' arbitrary: e) (auto simp: capture_paths_def nth_list_update)

lemma copy_snapshot_types [simp]: "ev_arg_types (copy_snapshot lookup e) = ev_arg_types e"
  by (simp add: copy_snapshot_def Let_def split: option.split)

lemma typed_event_types: "length (ev_arg_types (typed_event abi k st ret)) = 6"
  by (rule typed_event_cases [of abi k st ret]) simp

lemma build_event_types:
  assumes "event_shape g" and "length (sd_args st) = 6" and "i < 6"
  shows "ev_arg_types (build_event abi k st ret lookup g) ! i =
    (if i \<in> set (path_args (sd_syscall_id st)) then VAR_ARG_STRING
     else if 0 \<le> sint ret \<and> i \<in> fst ` set_option (stat_arg abi (sd_syscall_id st)) then VAR_ARG_BYTES
     else ev_arg_types (typed_event abi k st ret) ! i)"
proof (cases "sd_syscall_id st \<in> {NR_read, NR_write, NR_execve}")
  case True
  then have "ev_arg_types (build_event abi k st ret lookup g) = ev_arg_types (typed_event abi k st ret)"
    using assms(1,2) by (auto simp: build_event_typed capture_steps_io io_steps_def)
  then show ?thesis using path_args_io [OF True, of abi] by simp
next
  case False
  let ?p = "capture_paths k st (path_args (sd_syscall_id st)) (typed_event abi k st ret)"
  note paths = capture_paths_types [OF typed_event_types assms(3)]
  show ?thesis
  proof (cases "0 \<le> sint ret \<and> stat_arg abi (sd_syscall_id st) \<noteq> None")
    case True
    then obtain j sz where "stat_arg abi (sd_syscall_id st) = Some (j, sz)" by auto
    then show ?thesis
      using paths assms(3) True stat_arg_room [of abi "sd_syscall_id st" j sz]
      by (auto simp: build_event_table [OF assms(1,2) False] capture_stat_def nth_list_update)
  next
    case False': False
    then have "build_event abi k st ret lookup g = ?p"
      by (auto simp: build_event_table [OF assms(1,2) False] capture_stat_def split: option.split)
    then show ?thesis using paths False' by auto
  qed
qed

lemma typed_event_schema:
  assumes "length (sd_args st) = 6" and "sc \<in> set syscall_schemas" and "sd_syscall_id st = sc_syscall_id sc"
  shows "ev_arg_types (typed_event abi k st ret) = sc_arg_types sc"
  using schema_hit [OF assms(2), of "blank_event abi k st ret"] assms(3) by (simp add: typed_event_def)

end
