(* ===== verification/Examples.thy ===== *)
theory Examples
  imports Event_Args
begin

text \<open>
  One concrete machine, on which the properties' hypotheses are seen to hold: a
  tracer that follows forks and filters nothing, a kernel that refuses nothing and
  reserves memory full of old bytes, a process 100 with the threads 100 and 101, and
  a user memory with a path, a pointer array and a buffer.
\<close>

definition demo_abi :: tracer_abi where
  "demo_abi = \<lparr>follow_forks = 1, trace_filter_enabled = 0, CLONE_THREAD = 0x10000,
               sizeof_stat = 144, sizeof_statx = 256\<rparr>"

definition stale_event :: event where
  "stale_event =
     \<lparr>ev_ts = 9, ev_dur = 9, ev_syscall_id = 9, ev_ret = 9, ev_args = replicate 6 0xAA,
      ev_var_desc = replicate 6 \<lparr>vd_arg_index = 9, vd_flags = 9, vd_offset = 9, vd_length = 9, vd_reserved = 9\<rparr>,
      ev_payload = replicate 512 0xAA, ev_pid = 9, ev_tid = 9, ev_seq = 9, ev_payload_len = 9,
      ev_arg_count = 9, ev_var_count = 9, ev_arg_types = replicate 6 9, ev_event_flags = 9\<rparr>"

text \<open>The path \<open>/a\<close> at 16, the array of a pointer to it at 32, a buffer at 64.\<close>

definition demo_memory :: memory where
  "demo_memory a =
     (if a = 16 then Some 47 else if a = 17 then Some 97 else if a = 18 then Some 0
      else if a = 32 then Some 16 else if 32 < a \<and> a < 48 then Some 0
      else if 64 \<le> a \<and> a < 512 then Some 7
      else None)"

definition demo_kernel :: "u64 \<Rightarrow> u64 \<Rightarrow> kenv" where
  "demo_kernel tid now = with_memory demo_memory
     \<lparr>k_pid_tgid = push_bit 32 100 OR tid, k_ktime = now, k_read = mem_read demo_memory,
      k_read_str = mem_read_str demo_memory, k_accepts = \<lambda>_. True, k_evicts = \<lambda>_ _. False,
      k_reserve = Some stale_event\<rparr>"

definition demo_state :: tracer where
  "demo_state = \<lparr>target_pids = [100 \<mapsto> 1], trace_syscall_filter = Map.empty, events = [],
                 inflight_syscalls = Map.empty, execve_snapshots = Map.empty, tid_sequences = Map.empty\<rparr>"

definition demo_enter :: "s64 \<Rightarrow> u64 list \<Rightarrow> sys_enter_args" where
  "demo_enter nr as = \<lparr>en_pad = 0, en_id = nr, en_args = as\<rparr>"

definition demo_exit :: "s64 \<Rightarrow> sys_exit_args" where
  "demo_exit ret = \<lparr>ex_pad = 0, ex_id = 0, ex_ret = ret\<rparr>"

lemmas demo_defs = demo_abi_def demo_state_def demo_enter_def demo_exit_def

lemma demo_kernel_simps [simp]:
  "k_ktime (demo_kernel tid now) = now"
  "k_read (demo_kernel tid now) = mem_read demo_memory"
  "k_read_str (demo_kernel tid now) = mem_read_str demo_memory"
  "k_accepts (demo_kernel tid now) i"
  "\<not> k_evicts (demo_kernel tid now) i x"
  "k_reserve (demo_kernel tid now) = Some stale_event"
  "k_pid_tgid (demo_kernel tid now) = push_bit 32 100 OR tid"
  "with_memory demo_memory (demo_kernel tid now) = demo_kernel tid now"
  by (simp_all add: demo_kernel_def with_memory_def)

lemma demo_ids [simp]:
  "cur_tgid (demo_kernel 100 now) = 100" "cur_tid (demo_kernel 100 now) = 100"
  "cur_tgid (demo_kernel 101 now) = 100" "cur_tid (demo_kernel 101 now) = 101"
  by (simp_all add: cur_tgid_def cur_tid_def)

lemma stale_shape [simp]: "event_shape stale_event"
  by (simp add: stale_event_def event_shape_def)

lemma demo_helpers [simp]: "helpers_ok (demo_kernel tid now)"
  using helpers_ok_memory [of demo_memory "demo_kernel tid now"] by simp

lemma demo_quiet [simp]: "quiet (demo_kernel tid now)"
  by (simp add: quiet_def)

lemma demo_initial [simp]: "initial_state demo_state"
  by (simp add: initial_state_def demo_state_def)

lemma demo_abi_ok [simp]: "abi_ok demo_abi"
  by (simp add: abi_ok_def demo_abi_def)

lemma demo_path [simp]: "cstring_at demo_memory 16 [47, 97]"
  by (simp add: demo_memory_def)

text \<open>Reads of a numeral number of bytes, one byte at a time.\<close>

lemma mem_bytes_numeral:
  "mem_bytes m p (numeral n) =
     (case m p of None \<Rightarrow> None | Some b \<Rightarrow> map_option (Cons b) (mem_bytes m (p + 1) (pred_numeral n)))"
  by (simp add: numeral_eq_Suc [of n])

lemma le_bytes_numeral: "le_bytes (numeral n) x = of_nat (x mod 256) # le_bytes (pred_numeral n) (x div 256)"
  by (simp add: numeral_eq_Suc [of n])

lemma demo_words: "word_at demo_memory 32 16" "word_at demo_memory 40 0"
proof -
  have "mem_bytes demo_memory 32 8 = Some [16, 0, 0, 0, 0, 0, 0, 0]"
      "mem_bytes demo_memory 40 8 = Some [0, 0, 0, 0, 0, 0, 0, 0]"
    by (simp_all add: mem_bytes_numeral demo_memory_def)
  moreover have "le_bytes 8 16 = [16, 0, 0, 0, 0, 0, 0, 0]" "le_bytes 8 0 = [0, 0, 0, 0, 0, 0, 0, 0]"
    by (simp_all add: le_bytes_numeral)
  ultimately show "word_at demo_memory 32 16" "word_at demo_memory 40 0"
    by (simp_all add: word_at_def)
qed

lemma demo_argv [simp]: "argv_at demo_memory 32 [(16, [47, 97])]"
  using demo_path by (simp add: demo_words)

lemma demo_bytes: "mem_bytes demo_memory 64 4 = Some [7, 7, 7, 7]"
  by (simp add: mem_bytes_numeral demo_memory_def)

text \<open>A call of thread 100, with a call of thread 101 inside it.\<close>

definition demo_between :: "(kenv \<times> action) list" where
  "demo_between = [(demo_kernel 101 5, Enter (demo_enter NR_getpid [0, 0, 0, 0, 0, 0])),
                   (demo_kernel 101 6, Exit (demo_exit 100))]"

lemma demo_elsewhere [simp]: "list_all (elsewhere 100) demo_between"
  by (simp add: demo_between_def elsewhere_def)

lemma demo_tracked [simp]:
  "target_pids s = [100 \<mapsto> 1] \<Longrightarrow> enter_tracked demo_abi (demo_kernel 100 now) ctx s"
  "target_pids s = [100 \<mapsto> 1] \<Longrightarrow> enter_tracked demo_abi (demo_kernel 101 now) ctx s"
  by (simp_all add: enter_tracked_def enter_selected_def demo_abi_def)

lemma demo_targets [simp]:
  "target_pids (one_call demo_abi (demo_kernel 100 2) (demo_enter nr as) demo_between demo_state) = [100 \<mapsto> 1]"
proof -
  let ?s = "trace_sys_enter demo_abi (demo_kernel 100 2) (demo_enter nr as) demo_state"
  let ?ctx = "demo_enter NR_getpid [0, 0, 0, 0, 0, 0]"
  have t: "target_pids ?s = [100 \<mapsto> 1]" by (simp add: demo_state_def)
  have "inflight_syscalls (trace_sys_enter demo_abi (demo_kernel 101 5) ?ctx ?s) (cur_tid (demo_kernel 101 6)) =
      Some (enter_data demo_abi (demo_kernel 101 5) ?ctx ?s)"
    using enter_inflight [of demo_abi "demo_kernel 101 5" ?ctx ?s] t by simp
  then show ?thesis
    using exit_keeps_targets [of "trace_sys_enter demo_abi (demo_kernel 101 5) ?ctx ?s" "demo_kernel 101 6"] t
    by (simp add: one_call_def demo_between_def is_process_clone_def demo_enter_def enter_data_def)
qed

lemma demo_completes_memory:
  "length as = 6 \<Longrightarrow>
   completes demo_abi (demo_kernel 100 2) (demo_enter nr as) demo_between
     (with_memory m (demo_kernel 100 9)) demo_state"
  by (simp add: completes_def enter_selected_def) (simp add: demo_defs)

lemma demo_completes:
  "length as = 6 \<Longrightarrow>
   completes demo_abi (demo_kernel 100 2) (demo_enter nr as) demo_between (demo_kernel 100 9) demo_state"
  using demo_completes_memory [of as nr demo_memory] by simp

lemma demo_simps [simp]:
  "target_pids demo_state = [100 \<mapsto> 1]" "trace_syscall_filter demo_state = Map.empty"
  "tid_sequences demo_state = Map.empty" "inflight_syscalls demo_state = Map.empty" "events demo_state = []"
  "en_id (demo_enter nr as) = nr" "en_args (demo_enter nr as) = as" "ex_ret (demo_exit ret) = ret"
  by (simp_all add: demo_defs)

text \<open>A whole run: an open by thread 100 around the call of thread 101.\<close>

definition demo_run :: "(kenv \<times> action) list" where
  "demo_run = (demo_kernel 100 2, Enter (demo_enter NR_open [16, 0, 0, 0, 0, 0])) #
     demo_between @ [(demo_kernel 100 9, Exit (demo_exit 0))]"

lemma demo_allowed [simp]: "list_all allowed demo_run"
  by (simp add: demo_run_def demo_between_def)

lemma demo_reachable [simp]: "reachable abi s0 (run abi demo_run s0)"
  by (rule reachable_run [OF demo_allowed reachable.start])

text \<open>The state after it.\<close>

definition demo_done :: tracer where
  "demo_done = trace_sys_exit demo_abi (demo_kernel 100 9) (demo_exit 0)
     (one_call demo_abi (demo_kernel 100 2) (demo_enter NR_open [16, 0, 0, 0, 0, 0]) demo_between demo_state)"

lemma demo_done_targets: "target_pids demo_done = [100 \<mapsto> 1]"
proof -
  let ?ctx = "demo_enter NR_open [16, 0, 0, 0, 0, 0]"
  have "completes demo_abi (demo_kernel 100 2) ?ctx demo_between (demo_kernel 100 9) demo_state"
    by (rule demo_completes) simp
  note state = one_call_state(1) [OF completes_tracked [OF this], of demo_between]
  show ?thesis
    using exit_keeps_targets [of _ "demo_kernel 100 9"] state
    by (simp add: demo_done_def is_process_clone_def enter_data_def)
qed

lemma demo_done_run: "demo_done = run demo_abi demo_run demo_state"
  by (simp add: demo_done_def demo_run_def one_call_def)

end
