(* ===== verification/Tracer_Properties.thy ===== *)
theory Tracer_Properties
  imports Examples
begin

text \<open>
  The properties of the tracer programs as a whole: what a run does against the
  abstract tracer, what a call leaves in the ring buffer, and what holds of every
  reachable state. Each is followed by a witness on the machine of theory Examples.
\<close>

section \<open>Refinement\<close>

text \<open>
  C1. From the maps the loader has filled in, any sequence of program runs by any
  threads, whatever the maps and the ring buffer answer, keeps the tracer's maps and its
  ring buffer in step with the abstract tracer with losses: the same traced processes,
  the same call in progress in every thread, the same numbers, and one event for each
  log entry, with the entry's process, thread, call, result, times and clone flag. When
  nothing is refused or evicted and the ring buffer has room, that is the abstract
  tracer in which every recorded call of a traced process has its log entry.
\<close>

theorem tracer_refines_spec:
  assumes "initial_state s" and "list_all allowed xs"
  shows "refines (trace_syscall_filter s) (run abi xs s)
      (lossy_run abi (trace_syscall_filter s) xs (spec_init (dom (target_pids s)))) \<and>
    (list_all quiet_action xs \<longrightarrow>
      lossy_run abi (trace_syscall_filter s) xs (spec_init (dom (target_pids s))) =
      spec_run abi (trace_syscall_filter s) xs (spec_init (dom (target_pids s))))"
  using refine_run [OF assms(2) refines_init [OF assms(1)]] lossy_run_quiet by blast

text \<open>A run in which the ring buffer is full, and one in which nothing is lost.\<close>

definition full_ring :: "(kenv \<times> action) list" where
  "full_ring = [(demo_kernel 101 5, Enter (demo_enter NR_getpid [0, 0, 0, 0, 0, 0])),
                ((demo_kernel 101 6)\<lparr>k_reserve := None\<rparr>, Exit (demo_exit 100))]"

lemma tracer_refines_spec_witness:
  "refines Map.empty (run demo_abi full_ring demo_state)
     (lossy_run demo_abi Map.empty full_ring (spec_init {100})) \<and>
   refines Map.empty (run demo_abi demo_between demo_state)
     (spec_run demo_abi Map.empty demo_between (spec_init {100}))"
proof -
  have "helpers_ok ((demo_kernel 101 6)\<lparr>k_reserve := None\<rparr>)"
    using demo_helpers [of 101 6] by (simp add: helpers_ok_def)
  then have "list_all allowed full_ring" by (simp add: full_ring_def)
  from tracer_refines_spec [OF demo_initial this, of demo_abi]
  have full: "refines Map.empty (run demo_abi full_ring demo_state)
      (lossy_run demo_abi Map.empty full_ring (spec_init {100}))" by simp
  have "list_all allowed demo_between" "list_all quiet_action demo_between" by (simp_all add: demo_between_def)
  with tracer_refines_spec [OF demo_initial this(1), of demo_abi] full show ?thesis by auto
qed

section \<open>One call\<close>

text \<open>
  C2. The event of an execve tells the path and the argument list that were in
  memory when the call entered the kernel, whatever memory holds when it leaves it
  and whatever other threads have done in between: the path up to 127 bytes, then
  the arguments with their NULs up to the first that does not fit, each marked
  truncated exactly when it is cut.
\<close>

theorem execve_reports_entry_memory:
  assumes "completes abi (with_memory m k) ctx xs k' s" and "en_id ctx = NR_execve"
    and "k_accepts k Execve_snapshots"
    and "cstring_at m (en_args ctx ! 0) path" and "en_args ctx ! 0 \<noteq> 0"
    and "argv_at m (en_args ctx ! 1) args" and "en_args ctx ! 1 \<noteq> 0"
    and "argv_spec 8 (256 - min (length path) 127) (map snd args) = (bs, trunc)"
  shows "\<exists>e. events (trace_sys_exit abi k' ctx' (one_call abi (with_memory m k) ctx xs s)) =
      events (one_call abi (with_memory m k) ctx xs s) @ [e] \<and>
    (\<exists>d. captured e 0 = (d, take 127 path) \<and> vd_arg_index d = 0 \<and>
      vd_flags d = (if 127 \<le> length path then VAR_FLAG_TRUNCATED else VAR_FLAG_NONE)) \<and>
    (\<exists>d. captured e 1 = (d, bs) \<and> vd_arg_index d = 1 \<and>
      vd_flags d = (if trunc then VAR_FLAG_TRUNCATED else VAR_FLAG_NONE))"
  by (rule execve_call_event [OF assms, where ctx' = ctx']) blast

lemma execve_reports_entry_memory_witness:
  "\<exists>e. events (trace_sys_exit demo_abi (with_memory Map.empty (demo_kernel 100 9)) (demo_exit 0)
        (one_call demo_abi (demo_kernel 100 2) (demo_enter NR_execve [16, 32, 0, 0, 0, 0]) demo_between demo_state)) =
      events (one_call demo_abi (demo_kernel 100 2) (demo_enter NR_execve [16, 32, 0, 0, 0, 0]) demo_between demo_state)
        @ [e] \<and>
    (\<exists>d. captured e 0 = (d, [47, 97]) \<and> vd_arg_index d = 0 \<and> vd_flags d = VAR_FLAG_NONE) \<and>
    (\<exists>d. captured e 1 = (d, [47, 97, 0]) \<and> vd_arg_index d = 1 \<and> vd_flags d = VAR_FLAG_NONE)"
proof -
  have spec: "argv_spec 8 (256 - min (length [47, 97 :: u8]) 127) (map snd [(16 :: u64, [47, 97])]) =
      ([47, 97, 0], False)"
    by (simp add: numeral_eq_Suc)
  have "completes demo_abi (with_memory demo_memory (demo_kernel 100 2)) (demo_enter NR_execve [16, 32, 0, 0, 0, 0])
      demo_between (with_memory Map.empty (demo_kernel 100 9)) demo_state"
    using demo_completes_memory [of "[16, 32, 0, 0, 0, 0]"] by simp
  from execve_reports_entry_memory [OF this, of "[47, 97]" "[(16, [47, 97])]" "[47, 97, 0]" False "demo_exit 0"] spec
  show ?thesis using demo_path demo_argv by (simp del: argv_at.simps cstring_at.simps)
qed

text \<open>
  C3. A call of a traced process that passes the filter, of a thread without a record
  from before. Other threads run any programs between its entry and its exit, and the
  maps and the ring buffer answer what they like. When the call leaves the kernel with
  its record still there, its process still a target and room in the ring buffer, it
  ends in exactly one event: with the process, the thread, the call's number and
  arguments, the time of its entry and its duration, its result, the thread's next
  sequence number, and the clone flag exactly when the call has created a process; and
  its record is gone. Otherwise there is no event. The record is still there unless its
  update is refused or an update by another thread evicts it; the process is still a
  target unless its leader ends or a thread of it leaves \<open>exit_group\<close> in between.
\<close>

theorem call_produces_event:
  assumes "target_pids s (cur_tgid k) \<noteq> None"
    and "trace_filter_enabled abi = 0 \<or> trace_syscall_filter s (ucast (en_id ctx)) \<noteq> None"
    and "length (en_args ctx) = 6" and "inflight_syscalls s (cur_tid k) = None"
    and "others (cur_tid k) xs" and "k_pid_tgid k' = k_pid_tgid k" and "helpers_ok k'"
    and "s' = run abi xs (trace_sys_enter abi k ctx s)"
  shows "(if inflight_syscalls s' (cur_tid k) \<noteq> None \<and> target_pids s' (cur_tgid k) \<noteq> None \<and> k_reserve k' \<noteq> None
     then inflight_syscalls (trace_sys_exit abi k' ctx' s') (cur_tid k) = None \<and>
       (\<exists>e. events (trace_sys_exit abi k' ctx' s') = events s' @ [e] \<and>
         ev_pid e = cur_tgid k \<and> ev_tid e = cur_tid k \<and> ev_syscall_id e = en_id ctx \<and>
         ev_args e = en_args ctx \<and> ev_ts e = k_ktime k \<and> ev_dur e = k_ktime k' - k_ktime k \<and>
         ev_ret e = ex_ret ctx' \<and> ev_seq e = next_seq (tid_sequences s) (cur_tid k) \<and>
         (ev_event_flags e = EVENT_FLAG_PROCESS_CLONE \<longleftrightarrow>
            0 < sint (ex_ret ctx') \<and> creates_process abi k' (en_id ctx) (en_args ctx)))
     else events (trace_sys_exit abi k' ctx' s') = events s') \<and>
    (k_accepts k Inflight_syscalls \<and> spared (cur_tid k) xs \<longrightarrow> inflight_syscalls s' (cur_tid k) \<noteq> None) \<and>
    (\<not> process_ends abi (cur_tgid k) xs (trace_sys_enter abi k ctx s) \<longrightarrow> target_pids s' (cur_tgid k) \<noteq> None)"
proof -
  let ?st = "enter_data abi k ctx s" and ?t = "cur_tid k"
  have sel: "enter_selected abi ctx s" using assms(2) by (simp add: enter_selected_def)
  then have tracked: "enter_tracked abi k ctx s" using assms(1) by (simp add: enter_tracked_def)
  have ids: "cur_tgid k' = cur_tgid k" "cur_tid k' = ?t" using assms(6) by (simp_all add: cur_tgid_def cur_tid_def)
  have s': "s' = one_call abi k ctx xs s" using assms(8) by (simp add: one_call_def)
  have wanted: "sd_selected ?st \<noteq> 0" using sel by (simp add: enter_data_def)
  note rec = call_record [OF tracked assms(4,5), folded s']
  have kept: "k_accepts k Inflight_syscalls \<and> spared ?t xs \<longrightarrow> inflight_syscalls s' ?t \<noteq> None"
    using call_record_kept [OF tracked _ assms(5)] s' by auto
  have target: "\<not> process_ends abi (cur_tgid k) xs (trace_sys_enter abi k ctx s) \<longrightarrow> target_pids s' (cur_tgid k) \<noteq> None"
    using call_target_kept [OF assms(1)] s' by blast
  show ?thesis
  proof (cases "inflight_syscalls s' ?t \<noteq> None \<and> target_pids s' (cur_tgid k) \<noteq> None \<and> k_reserve k' \<noteq> None")
    case True
    then obtain g where g: "k_reserve k' = Some g" and st: "inflight_syscalls s' ?t = Some ?st"
      using rec by auto
    have "event_shape g" by (rule helpers_ok_reserve [OF assms(7) g])
    note fields = build_event_fields [OF this, of ?st]
    show ?thesis
      using True kept target exit_emits [of s' k' ?st g] st g wanted ids assms(3)
      by (simp add: fields process_clone_iff)
  next
    case False
    then have "emitted abi k' ctx' s' = None" using ids by (auto simp: emitted_def split: option.split)
    then show ?thesis using False kept target by (auto simp: exit_events)
  qed
qed

lemma call_produces_event_witness:
  "\<exists>e. events (trace_sys_exit demo_abi (demo_kernel 100 9) (demo_exit 3)
        (one_call demo_abi (demo_kernel 100 2) (demo_enter NR_open [16, 0, 0, 0, 0, 0]) demo_between demo_state)) =
      events (one_call demo_abi (demo_kernel 100 2) (demo_enter NR_open [16, 0, 0, 0, 0, 0]) demo_between demo_state)
        @ [e] \<and>
    ev_pid e = 100 \<and> ev_tid e = 100 \<and> ev_syscall_id e = NR_open \<and> ev_dur e = 7 \<and> ev_seq e = 1"
proof -
  let ?k = "demo_kernel 100 2" and ?ctx = "demo_enter NR_open [16, 0, 0, 0, 0, 0]"
  have "others (cur_tid ?k) demo_between" "spared (cur_tid ?k) demo_between"
    by (simp_all add: others_def spared_def demo_between_def)
  moreover have "target_pids demo_state (cur_tgid ?k) \<noteq> None" "inflight_syscalls demo_state (cur_tid ?k) = None"
    "trace_filter_enabled demo_abi = 0" "tid_sequences demo_state (cur_tid ?k) = None"
    by (simp_all add: demo_state_def demo_abi_def)
  moreover have "target_pids (run demo_abi demo_between (trace_sys_enter demo_abi ?k ?ctx demo_state)) (cur_tgid ?k) \<noteq> None"
    using demo_targets [of NR_open "[16, 0, 0, 0, 0, 0]"] by (simp add: one_call_def)
  ultimately show ?thesis
    using call_produces_event [of demo_state ?k demo_abi ?ctx demo_between "demo_kernel 100 9" _ "demo_exit 3", OF _ _ _ _ _ _ _ refl]
    by (auto simp: next_seq_def one_call_def)
qed

section \<open>Every reachable state\<close>

text \<open>
  C4. Every event in the ring buffer of a reachable state is well formed: its arrays
  have their declared lengths, it counts at most six arguments and six descriptors,
  the used payload is at most the 512 bytes there are, and every descriptor in use
  names bytes of the used payload or is an empty one with an error flag.
\<close>

theorem events_well_formed:
  assumes "reachable abi s0 s" and "initial_state s0" and "abi_ok abi"
  shows "list_all (\<lambda>e. event_ok e \<and> unat (ev_arg_count e) \<le> 6) (events s)"
  using well_formed.inv_reachable [OF assms(1)] tracer_ok_initial [OF assms(2)] assms(3)
  by (simp add: tracer_ok_def)

lemma events_well_formed_witness:
  "list_all (\<lambda>e. event_ok e \<and> unat (ev_arg_count e) \<le> 6) (events (run demo_abi demo_run demo_state))"
  by (rule events_well_formed [OF demo_reachable demo_initial demo_abi_ok])

text \<open>
  C12. In a reachable state, every event is about a system call the filter selects:
  when filtering is enabled, one the loader has put into the filter map.
\<close>

theorem events_pass_filter:
  assumes "reachable abi s0 s" and "initial_state s0"
  shows "list_all (\<lambda>e. trace_filter_enabled abi = 0 \<or>
      trace_syscall_filter s0 (ucast (ev_syscall_id e)) \<noteq> None) (events s)"
  using filtered.inv_reachable [OF assms(1) initial_filter_inv [OF assms(2)]]
  by (simp add: filter_inv_def passes_def list_all_iff)

lemma events_pass_filter_witness:
  "list_all (\<lambda>e. [2 \<mapsto> (1 :: u8)] (ucast (ev_syscall_id e) :: u32) \<noteq> None)
     (events (run (demo_abi\<lparr>trace_filter_enabled := 1\<rparr>) demo_run (demo_state\<lparr>trace_syscall_filter := [2 \<mapsto> 1]\<rparr>)))"
proof -
  have "initial_state (demo_state\<lparr>trace_syscall_filter := [2 \<mapsto> 1]\<rparr>)"
    by (simp add: initial_state_def demo_state_def)
  from events_pass_filter [OF demo_reachable this, of "demo_abi\<lparr>trace_filter_enabled := 1\<rparr>"]
  show ?thesis by simp
qed

text \<open>
  C13. Unless forks are followed, every event in a reachable state is about one of the
  processes the loader has put into the target map, and no other process is a target.
\<close>

theorem events_confined:
  assumes "reachable abi s0 s" and "initial_state s0" and "follow_forks abi = 0"
  shows "list_all (\<lambda>e. target_pids s0 (ev_pid e) \<noteq> None) (events s) \<and>
    dom (target_pids s) \<subseteq> dom (target_pids s0)"
  using confinement.inv_reachable [OF assms(1), of "dom (target_pids s0)"]
    initial_confined [OF assms(2)] assms(3)
  by (auto simp: confined_def list_all_iff)

lemma events_confined_witness:
  "list_all (\<lambda>e. [100 \<mapsto> (1 :: u8)] (ev_pid e) \<noteq> None)
     (events (run (demo_abi\<lparr>follow_forks := 0\<rparr>) demo_run demo_state)) \<and>
   dom (target_pids (run (demo_abi\<lparr>follow_forks := 0\<rparr>) demo_run demo_state)) \<subseteq> {100}"
  using events_confined [OF demo_reachable demo_initial, of "demo_abi\<lparr>follow_forks := 0\<rparr>"] by simp

section \<open>Children\<close>

text \<open>
  C14. When forks are followed, a call of a traced process that creates a process and
  returns the child's pid makes the child a target, and changes no other target, from
  the entry of the call to its exit and also when the call itself is not one the filter
  selects: the entry records it all the same. Other threads may run any programs in
  between, unless they end the process, and the ring buffer may be full; the call's
  record must be stored and not be evicted, and there must be room for the target. A
  clone3 that the filter does not select is recognised at its entry only if the read at
  address zero that the entry program makes for its flags fails.
\<close>

theorem child_followed:
  assumes "follow_forks abi \<noteq> 0" and "target_pids s (cur_tgid k) \<noteq> None" and "length (en_args ctx) = 6"
    and "creates_process abi k' (en_id ctx) (en_args ctx)" and "0 < sint (ex_ret ctx')"
    and "trace_filter_enabled abi = 0 \<or> trace_syscall_filter s (ucast (en_id ctx)) \<noteq> None \<or>
      en_id ctx \<noteq> NR_clone3 \<or> fst (k_read k 0 8) < 0"
    and "k_accepts k Inflight_syscalls" and "others (cur_tid k) xs" and "spared (cur_tid k) xs"
    and "\<not> process_ends abi (cur_tgid k) xs (trace_sys_enter abi k ctx s)"
    and "k_pid_tgid k' = k_pid_tgid k" and "k_accepts k' Target_pids"
    and "s' = run abi xs (trace_sys_enter abi k ctx s)"
  shows "target_pids (trace_sys_exit abi k' ctx' s') = (target_pids s')(ucast (ex_ret ctx') \<mapsto> 1)"
proof -
  let ?st = "enter_data abi k ctx s"
  have "should_track_unselected_syscall abi k (en_id ctx) \<or> enter_selected abi ctx s"
    using assms(1,4,6)
    by (auto simp: should_track_unselected_syscall_def process_clone_iff creates_process_def enter_selected_def
        zero_syscall_data_def)
  then have tracked: "enter_tracked abi k ctx s" using assms(2) by (auto simp: enter_tracked_def)
  have s': "s' = one_call abi k ctx xs s" using assms(13) by (simp add: one_call_def)
  have ids: "cur_tgid k' = cur_tgid k" "cur_tid k' = cur_tid k"
    using assms(11) by (simp_all add: cur_tgid_def cur_tid_def)
  have st: "inflight_syscalls s' (cur_tid k') = Some ?st" and target: "target_pids s' (cur_tgid k') \<noteq> None"
    using call_record_kept [OF tracked assms(7-9)] call_target_kept [OF assms(2,10)] s' ids by simp_all
  have "sd_syscall_id ?st \<noteq> NR_exit_group" using assms(4) by (auto simp: creates_process_def)
  moreover have "child_targets abi k' ?st (ex_ret ctx') (target_pids s') = (target_pids s')(ucast (ex_ret ctx') \<mapsto> 1)"
    using assms(1,3-5,12) by (simp add: child_targets_def process_clone_iff map_update_def)
  ultimately show ?thesis
    using st target by (auto simp: exit_unfold split: option.split)
qed

text \<open>With only getpid selected, thread 100 forks, and thread 101 runs a getpid in between.\<close>

lemma child_followed_witness:
  "target_pids (trace_sys_exit (demo_abi\<lparr>trace_filter_enabled := 1\<rparr>) (demo_kernel 100 9) (demo_exit 200)
     (trace_sys_enter (demo_abi\<lparr>trace_filter_enabled := 1\<rparr>) (demo_kernel 100 2) (demo_enter NR_fork [0, 0, 0, 0, 0, 0])
        (demo_state\<lparr>trace_syscall_filter := [39 \<mapsto> 1]\<rparr>))) = [100 \<mapsto> 1, 200 \<mapsto> 1]"
proof -
  have "creates_process (demo_abi\<lparr>trace_filter_enabled := 1\<rparr>) (demo_kernel 100 9) NR_fork [0, 0, 0, 0, 0, 0]"
    by (simp add: creates_process_def)
  then show ?thesis
    using child_followed [of "demo_abi\<lparr>trace_filter_enabled := 1\<rparr>" "demo_state\<lparr>trace_syscall_filter := [39 \<mapsto> 1]\<rparr>"
        "demo_kernel 100 2" "demo_enter NR_fork [0, 0, 0, 0, 0, 0]" "demo_kernel 100 9" "demo_exit 200" "[]", OF _ _ _ _ _ _ _ _ _ _ _ _ refl]
    by (simp add: others_def spared_def) (simp add: demo_defs)
qed

text \<open>
  The exit of a call makes a process a target only when forks are followed, the
  call's record is there, the call has returned that pid and it is one that creates a
  process: a new thread of a process, or a failed fork, adds no target.
\<close>

theorem only_children_become_targets:
  assumes "target_pids s x = None" and "target_pids (trace_sys_exit abi k ctx s) x \<noteq> None"
  shows "\<exists>st. inflight_syscalls s (cur_tid k) = Some st \<and> follow_forks abi \<noteq> 0 \<and>
    0 < sint (ex_ret ctx) \<and> x = ucast (ex_ret ctx) \<and>
    creates_process abi k (sd_syscall_id st) (sd_args st)"
proof (cases "inflight_syscalls s (cur_tid k)")
  case None
  then show ?thesis using assms by (simp add: exit_ignored)
next
  case (Some st)
  have "x \<in> dom (child_targets abi k st (ex_ret ctx) (target_pids s))"
    using exit_targets [OF Some, of abi ctx] assms by blast
  then show ?thesis
    using Some assms(1) by (auto simp: child_targets_def process_clone_iff map_update_def split: if_splits)
qed

lemma only_children_become_targets_witness:
  "\<exists>st. inflight_syscalls (demo_state\<lparr>inflight_syscalls := [100 \<mapsto> zero_syscall_data\<lparr>sd_syscall_id := NR_fork\<rparr>]\<rparr>)
       100 = Some st \<and> creates_process demo_abi (demo_kernel 100 9) (sd_syscall_id st) (sd_args st)"
proof -
  let ?s = "demo_state\<lparr>inflight_syscalls := [100 \<mapsto> zero_syscall_data\<lparr>sd_syscall_id := NR_fork\<rparr>]\<rparr>"
  have "child_targets demo_abi (demo_kernel 100 9) (zero_syscall_data\<lparr>sd_syscall_id := NR_fork\<rparr>) 200
      (target_pids ?s) = [100 \<mapsto> 1, 200 \<mapsto> 1]"
    by (simp add: child_targets_def process_clone_iff creates_process_def map_update_def demo_abi_def)
  then have "target_pids (trace_sys_exit demo_abi (demo_kernel 100 9) (demo_exit 200) ?s) 200 \<noteq> None"
    by (simp add: exit_unfold zero_syscall_data_def split: option.split)
  from only_children_become_targets [OF _ this] show ?thesis by simp
qed

text \<open>
  The tracer's test for a call that creates a process, over user memory: fork and
  vfork do; clone does unless its first argument asks for a thread; clone3 does unless
  the flags word stored at its first argument asks for a thread, so also when there is
  no readable word there.
\<close>

theorem process_clone_spec:
  "is_process_clone abi (with_memory m k) st \<longleftrightarrow>
     sd_syscall_id st \<in> {NR_fork, NR_vfork} \<or>
     sd_syscall_id st = NR_clone \<and> sd_args st ! 0 AND CLONE_THREAD abi = 0 \<or>
     sd_syscall_id st = NR_clone3 \<and>
       (\<forall>flags. word_at m (sd_args st ! 0) flags \<longrightarrow> flags AND CLONE_THREAD abi = 0)"
proof (cases "mem_bytes m (sd_args st ! 0) 8")
  case None
  then show ?thesis
    by (auto simp: process_clone_iff creates_process_def mem_read_def word_at_def simp del: le_bytes.simps)
next
  case (Some bs)
  have len: "length bs = 8" by (rule length_mem_bytes [OF Some])
  have "word_at m (sd_args st ! 0) flags \<longleftrightarrow> flags = le_word bs" for flags
    using Some le_word_u64 [of flags] le_bytes_le_word [of bs, where 'a = 64] len
    by (auto simp: word_at_def simp del: le_bytes.simps)
  then show ?thesis
    using Some by (simp add: process_clone_iff creates_process_def mem_read_def)
qed

lemma process_clone_spec_witness:
  "is_process_clone demo_abi (demo_kernel 100 9)
     (zero_syscall_data\<lparr>sd_syscall_id := NR_clone3, sd_args := [32, 88, 0, 0, 0, 0]\<rparr>)"
proof -
  have "flags = 16" if "word_at demo_memory 32 flags" for flags
    using that demo_words(1) le_word_u64 [of flags] le_word_u64 [of 16]
    by (simp add: word_at_def del: le_bytes.simps)
  then have "\<forall>flags. word_at demo_memory 32 flags \<longrightarrow> flags AND CLONE_THREAD demo_abi = 0"
    by (fastforce simp: demo_abi_def)
  then show ?thesis
    using process_clone_spec [of demo_abi demo_memory "demo_kernel 100 9"
        "zero_syscall_data\<lparr>sd_syscall_id := NR_clone3, sd_args := [32, 88, 0, 0, 0, 0]\<rparr>"]
    by simp
qed

end
