(* ===== verification/Payload_Properties.thy ===== *)
theory Payload_Properties
  imports Examples
begin

text \<open>
  The properties of what an event tells of a call's arguments: the paths, the
  buffers and the types of the arguments, for a call from its entry to its exit
  with other threads running in between.
\<close>

section \<open>Paths\<close>



section \<open>Buffers\<close>

text \<open>
  The event of a successful stat call tells, after the call's path if it has one,
  the first bytes of the structure the kernel has filled in, 256 at most.
\<close>

theorem stat_buffer_reported:
  assumes "completes abi k ctx xs (with_memory m k') s" and "abi_ok abi" and "0 \<le> sint (ex_ret ctx')"
    and "stat_arg abi (en_id ctx) = Some (i, sz)"
    and "mem_bytes m (en_args ctx ! i) (min (unat sz) 256) = Some bs" and "en_args ctx ! i \<noteq> 0"
  shows "\<exists>e d. events (trace_sys_exit abi (with_memory m k') ctx' (one_call abi k ctx xs s)) =
      events (one_call abi k ctx xs s) @ [e] \<and>
    captured e (length (path_args (en_id ctx))) = (d, bs) \<and> vd_arg_index d = of_nat i \<and>
    vd_flags d = (if 256 < unat sz then VAR_FLAG_TRUNCATED else VAR_FLAG_NONE)"
proof -
  have "length (en_args ctx) = 6" using assms(1) by (simp add: completes_def)
  then show ?thesis
    using completes_event [OF assms(1), of ctx']
      build_event_stat [of _ "enter_data abi k ctx s" abi "ex_ret ctx'" i sz m bs k'] assms(2-6)
    by (metis enter_data_fields(2,4,5))
qed

lemma stat_buffer_reported_witness:
  "\<exists>e d. events (trace_sys_exit (demo_abi\<lparr>sizeof_stat := 4\<rparr>) (demo_kernel 100 9) (demo_exit 0)
        (one_call (demo_abi\<lparr>sizeof_stat := 4\<rparr>) (demo_kernel 100 2) (demo_enter NR_newstat [16, 64, 0, 0, 0, 0]) []
           demo_state)) =
      events (one_call (demo_abi\<lparr>sizeof_stat := 4\<rparr>) (demo_kernel 100 2) (demo_enter NR_newstat [16, 64, 0, 0, 0, 0]) []
           demo_state) @ [e] \<and>
    captured e 1 = (d, [7, 7, 7, 7]) \<and> vd_arg_index d = 1 \<and> vd_flags d = VAR_FLAG_NONE"
proof -
  have "completes (demo_abi\<lparr>sizeof_stat := 4\<rparr>) (demo_kernel 100 2) (demo_enter NR_newstat [16, 64, 0, 0, 0, 0]) []
      (with_memory demo_memory (demo_kernel 100 9)) demo_state"
    by (simp add: completes_def enter_selected_def one_call_def) (simp add: demo_abi_def)
  from stat_buffer_reported [OF this, of "demo_exit 0" 1 4 "[7, 7, 7, 7]"] show ?thesis
    by (simp add: stat_arg_def path_args_def demo_bytes) (simp add: abi_ok_def demo_abi_def)
qed

text \<open>
  C11. The event of a write tells what the call was given, that of a successful read
  what it has returned: the bytes of the buffer, 256 at most, marked truncated exactly
  when there are more.
\<close>

theorem data_reported:
  assumes "completes abi k ctx xs (with_memory m k') s"
    and "en_id ctx = NR_write \<or> en_id ctx = NR_read \<and> 0 \<le> sint (ex_ret ctx')"
    and "sz = (if en_id ctx = NR_write then en_args ctx ! 2 else ex_ret ctx')" and "sz \<noteq> 0"
    and "mem_bytes m (en_args ctx ! 1) (min (unat sz) 256) = Some bs" and "en_args ctx ! 1 \<noteq> 0"
  shows "\<exists>e d. events (trace_sys_exit abi (with_memory m k') ctx' (one_call abi k ctx xs s)) =
      events (one_call abi k ctx xs s) @ [e] \<and>
    captured e 0 = (d, bs) \<and> vd_arg_index d = 1 \<and>
    vd_flags d = (if 256 < unat sz then VAR_FLAG_TRUNCATED else VAR_FLAG_NONE)"
proof -
  have "length (en_args ctx) = 6" using assms(1) by (simp add: completes_def)
  then show ?thesis
    using completes_event [OF assms(1), of ctx']
      build_event_data [of _ "enter_data abi k ctx s" "ex_ret ctx'" sz m bs abi k'] assms(2-6)
    by (metis enter_data_fields(2,4,5))
qed

lemma data_reported_witness:
  "\<exists>e d. events (trace_sys_exit demo_abi (demo_kernel 100 9) (demo_exit 4)
        (one_call demo_abi (demo_kernel 100 2) (demo_enter NR_write [1, 64, 4, 0, 0, 0]) demo_between demo_state)) =
      events (one_call demo_abi (demo_kernel 100 2) (demo_enter NR_write [1, 64, 4, 0, 0, 0]) demo_between demo_state)
        @ [e] \<and>
    captured e 0 = (d, [7, 7, 7, 7]) \<and> vd_arg_index d = 1 \<and> vd_flags d = VAR_FLAG_NONE"
  using data_reported [OF demo_completes_memory [of "[1, 64, 4, 0, 0, 0]" NR_write demo_memory],
      of "demo_exit 4" 4 "[7, 7, 7, 7]"]
  by (simp add: demo_bytes)

section \<open>Types\<close>

text \<open>
  C35. The event of a call the schema table knows counts the arguments the table says
  and types each of them as the table does, but for the captured ones: a path is a
  string, the structure of a successful stat call is bytes.
\<close>

theorem arguments_typed:
  assumes "completes abi k ctx xs k' s" and "sc \<in> set syscall_schemas" and "en_id ctx = sc_syscall_id sc"
    and "i < 6"
  shows "\<exists>e. events (trace_sys_exit abi k' ctx' (one_call abi k ctx xs s)) =
      events (one_call abi k ctx xs s) @ [e] \<and>
    ev_arg_count e = sc_arg_count sc \<and>
    ev_arg_types e ! i =
      (if i \<in> set (path_args (en_id ctx)) then VAR_ARG_STRING
       else if 0 \<le> sint (ex_ret ctx') \<and> i \<in> fst ` set_option (stat_arg abi (en_id ctx)) then VAR_ARG_BYTES
       else sc_arg_types sc ! i)"
proof -
  let ?st = "enter_data abi k ctx s"
  obtain g where g: "event_shape g"
    "events (trace_sys_exit abi k' ctx' (one_call abi k ctx xs s)) = events (one_call abi k ctx xs s) @
       [build_event abi k' ?st (ex_ret ctx') (execve_snapshots (trace_sys_enter abi k ctx s) (cur_tid k)) g]"
    by (rule completes_event [OF assms(1)])
  have "sd_syscall_id ?st = sc_syscall_id sc" using assms(3) by simp
  note schema = typed_event_schema [OF _ assms(2) this]
  have "ev_arg_count (build_event abi k' ?st (ex_ret ctx') lookup g) = sc_arg_count sc" for lookup
    using build_event_ids [OF g(1), of ?st] schema_hit [OF assms(2), of "blank_event abi k' ?st (ex_ret ctx')"] assms(3)
    by (simp add: event_ids_def typed_event_def)
  then show ?thesis
    using build_event_types [OF g(1) _ assms(4), of ?st] schema by (simp add: g(2))
qed

lemma arguments_typed_witness:
  "\<exists>e. events (trace_sys_exit demo_abi (demo_kernel 100 9) (demo_exit 0)
        (one_call demo_abi (demo_kernel 100 2) (demo_enter NR_read [1, 64, 4, 0, 0, 0]) demo_between demo_state)) =
      events (one_call demo_abi (demo_kernel 100 2) (demo_enter NR_read [1, 64, 4, 0, 0, 0]) demo_between demo_state)
        @ [e] \<and> ev_arg_count e = 3 \<and> ev_arg_types e ! 0 = ARG_FD"
proof -
  let ?sc = "\<lparr>sc_syscall_id = NR_read, sc_arg_count = 3,
    sc_arg_types = [ARG_FD, VAR_ARG_BYTES, ARG_UINT, ARG_NONE, ARG_NONE, ARG_NONE]\<rparr>"
  have "?sc \<in> set syscall_schemas" by (simp add: syscall_schemas_def syscall_schemas_00_def)
  from arguments_typed [OF demo_completes this, of "[1, 64, 4, 0, 0, 0]" NR_read 0 "demo_exit 0"]
  show ?thesis by (simp add: path_args_def stat_arg_def)
qed

section \<open>Numbers\<close>

text \<open>
  The events of two consecutive recorded calls of one thread, neither of which
  ends the thread, have consecutive numbers (modulo 2^32), whatever other threads do
  during the calls.
\<close>

theorem sequence_consecutive:
  assumes "completes abi k ctx xs k' s" and "k_accepts k Tid_sequences"
    and "en_id ctx \<notin> {NR_exit, NR_exit_group}"
    and "s' = trace_sys_exit abi k' ctx' (one_call abi k ctx xs s)"
    and "completes abi k2 ctx2 ys k2' s'" and "k_pid_tgid k2 = k_pid_tgid k"
    and "s'' = trace_sys_exit abi k2' ctx2' (one_call abi k2 ctx2 ys s')"
  shows "ev_seq (last (events s'')) = ev_seq (last (events s')) + 1"
proof -
  have tid: "cur_tid k2 = cur_tid k" using assms(6) by (simp add: cur_tid_def)
  have "ev_seq (last (events s'')) = next_seq (tid_sequences s') (cur_tid k)"
    unfolding assms(7) completes_seq [OF assms(5)] tid ..
  also have "\<dots> = next_seq (tid_sequences s) (cur_tid k) + 1"
    using completes_sequences [OF assms(1-3), of ctx'] by (simp add: next_seq_def assms(4))
  also have "next_seq (tid_sequences s) (cur_tid k) = ev_seq (last (events s'))"
    unfolding assms(4) completes_seq [OF assms(1)] ..
  finally show ?thesis .
qed

lemma sequence_consecutive_witness:
  "ev_seq (last (events (trace_sys_exit demo_abi (demo_kernel 100 21) (demo_exit 0)
     (one_call demo_abi (demo_kernel 100 20) (demo_enter NR_close [3, 0, 0, 0, 0, 0]) [] demo_done)))) =
   ev_seq (last (events demo_done)) + 1"
proof -
  have "completes demo_abi (demo_kernel 100 20) (demo_enter NR_close [3, 0, 0, 0, 0, 0]) []
      (demo_kernel 100 21) demo_done"
    by (simp add: completes_def one_call_def enter_selected_def demo_done_targets) (simp add: demo_abi_def)
  from sequence_consecutive [OF demo_completes _ _ demo_done_def this _ refl] show ?thesis by simp
qed

end
