(* ===== verification/Capture_Properties.thy ===== *)
theory Capture_Properties
  imports Examples
begin

text \<open>
  The properties of the pieces the tracer programs are made of: the captures, the
  schema table, a thread's entries in the maps, and the paths on which something
  fails.
\<close>

section \<open>Captures\<close>

text \<open>
  \<open>extends\<close>: an event after a capture has the fields and the captured arguments it
  had before.
\<close>

definition extends :: "event \<Rightarrow> event \<Rightarrow> bool" where
  "extends e e' \<longleftrightarrow>
     event_header e' = event_header e \<and> unat (ev_var_count e) \<le> unat (ev_var_count e') \<and>
     (\<forall>j < unat (ev_var_count e). captured e' j = captured e j)"

context capture_op
begin

lemma op_extends: "inv e \<Longrightarrow> extends e (op e)"
  by (simp add: extends_def op_header op_captured op_count_le)

end

context kernel_env
begin

lemma string_op: "capture_op slots_ok (\<lambda>_. True) (\<lambda>e. append_var_string k e i p) i"
  by (rule str.capture_op_axioms)

text \<open>The descriptor of a failed capture.\<close>

lemma string_fault:
  assumes "slots_ok e" and "unat (ev_var_count e) < 2" and "p = 0 \<or> fst (k_read_str k p 256) < 0"
  shows "\<exists>d. captured (append_var_string k e i p) (unat (ev_var_count e)) = (d, []) \<and> vd_arg_index d = i \<and>
    vd_flags d = (if p = 0 then VAR_FLAG_NULL_POINTER else VAR_FLAG_READ_ERROR)"
  using assms slots_room(1) [OF assms(1,2)]
  by (cases "k_read_str k p 256") (auto simp: append_var_string_def not_full captured_store Let_def)

lemma bytes_fault:
  assumes "slots_ok e" and "unat (ev_var_count e) < 2" and "sz \<noteq> 0" and "unat sz < 256"
    and "p = 0 \<or> fst (k_read k p (unat sz)) < 0"
  shows "\<exists>d. captured (append_var_bytes k e i p sz) (unat (ev_var_count e)) = (d, []) \<and> vd_arg_index d = i \<and>
    vd_flags d = (if p = 0 then VAR_FLAG_NULL_POINTER else VAR_FLAG_READ_ERROR)"
proof -
  have sz: "sz < 256" "unat (ucast sz :: u32) = unat sz" "(ucast sz :: u32) \<noteq> 0"
    using assms(3,4) by (simp_all add: word_less_nat_alt unat_ucast_small word_unat_eq_iff)
  obtain r bs where rd: "k_read k p (unat (ucast sz :: u32)) = (r, bs)" by force
  let ?d = "new_desc i (of_nat (slot_offset (unat (ev_var_count e))))"
  have "(if sz < 256 then (ucast sz, ?d) else if 256 < sz then (256, or_flag VAR_FLAG_TRUNCATED ?d)
      else (256, ?d)) = (ucast sz, ?d)"
    using sz(1) by simp
  note eq = append_var_bytes_eq [OF assms(2) this rd refl]
  show ?thesis
    using assms(5) sz rd slots_room(1) [OF assms(1,2)]
    by (auto simp: eq captured_store)
qed

end

text \<open>A well-formed event with a captured path, to apply the captures to.\<close>

definition demo_event :: event where
  "demo_event = append_var_string (demo_kernel 100 1)
     (blank_event demo_abi (demo_kernel 100 1) zero_syscall_data 0) 0 16"

lemma demo_blank [simp]: "slots_ok (blank_event abi k zero_syscall_data ret)"
  by (simp add: slots_ok_def event_ok_def event_shape_def) (simp add: blank_event_def zero_syscall_data_def)

lemma demo_event_slots [simp]: "slots_ok demo_event"
  using capture_op.op_inv [OF kernel_env.string_op [OF helpers_ok_env [OF demo_helpers]]] demo_blank
  by (simp add: demo_event_def)

lemma demo_event_count [simp]: "ev_var_count demo_event = 1"
proof -
  have "unat (ev_var_count demo_event) = 1"
    using memory_env.string_capture [of "blank_event demo_abi (demo_kernel 100 1) zero_syscall_data 0"
        demo_memory "demo_kernel 100 1" 0 16]
      slot_capture_count [of "blank_event demo_abi (demo_kernel 100 1) zero_syscall_data 0"]
      demo_blank [of demo_abi "demo_kernel 100 1" 0]
    by (auto simp: demo_event_def slots_ok_def event_ok_def)
  then show ?thesis by (simp add: word_unat_eq_iff)
qed

text \<open>
  A capture adds to an event and takes nothing from it: string and byte captures
  keep the two-slot layout, an argument-list capture keeps the event well formed, and
  all keep the event's fields and what was captured before, byte for byte.
\<close>

theorem captures_extend:
  assumes "helpers_ok k" and "slots_ok e" and "sz \<noteq> 0"
  shows "slots_ok (append_var_string k e i p) \<and> extends e (append_var_string k e i p) \<and>
    slots_ok (append_var_bytes k e i p sz) \<and> extends e (append_var_bytes k e i p sz) \<and>
    event_ok (append_var_argv k e i p) \<and> extends e (append_var_argv k e i p)"
proof -
  note env = helpers_ok_env [OF assms(1)]
  have "event_ok e" using assms(2) by (simp add: slots_ok_def)
  then show ?thesis
    using assms(2) capture_op.op_inv [OF kernel_env.string_op [OF env]]
      capture_op.op_extends [OF kernel_env.string_op [OF env]]
      capture_op.op_inv [OF kernel_env.bytes_op [OF env assms(3)]]
      capture_op.op_extends [OF kernel_env.bytes_op [OF env assms(3)]]
      capture_op.op_inv [OF kernel_env.argv_capture_op [OF env]]
      capture_op.op_extends [OF kernel_env.argv_capture_op [OF env]]
    by simp
qed

lemma captures_extend_witness:
  "extends demo_event (append_var_bytes (demo_kernel 100 1) demo_event 1 64 4) \<and>
   extends demo_event (append_var_argv (demo_kernel 100 1) demo_event 1 32)"
  using captures_extend [OF demo_helpers demo_event_slots, of 4 100 1] by simp

text \<open>
  The argument-list capture of an event copies, after the used payload, the
  arguments of the list with their NULs up to the first that does not fit, at most
  eight, and marks the list truncated exactly when an argument is missing or cut.
\<close>

theorem argument_list_copied:
  assumes "argv_at m argv args" and "argv \<noteq> 0" and "event_ok e" and "unat (ev_var_count e) < 6"
    and "unat (ev_payload_len e) < 512"
    and "argv_spec 8 (512 - unat (ev_payload_len e)) (map snd args) = (bs, trunc)"
  shows "\<exists>d. captured (append_var_argv (with_memory m k) e i argv) (unat (ev_var_count e)) = (d, bs) \<and>
    vd_arg_index d = i \<and> vd_flags d = (if trunc then VAR_FLAG_TRUNCATED else VAR_FLAG_NONE) \<and>
    unat (ev_payload_len (append_var_argv (with_memory m k) e i argv)) = unat (ev_payload_len e) + length bs"
proof -
  obtain d n pl where cap:
    "capture_argv (with_memory m k) i argv 512 (ev_payload_len e) (ev_payload e) = (d, n, pl)"
    by (metis prod_cases3)
  have e: "512 = length (ev_payload e)" "unat (ev_payload_len e) \<le> 512" "unat (ev_var_count e) < length (ev_var_desc e)"
    using assms(3,4) by (simp_all add: event_ok_def event_shape_def)
  have step: "append_var_argv (with_memory m k) e i argv =
      store_desc (unat (ev_var_count e)) d (e\<lparr>ev_payload := pl, ev_payload_len := n\<rparr>)"
    using assms(4) cap by (simp add: append_var_argv_def word_le_nat_alt)
  note copied = argv_copied [OF assms(1,2,5) e(1) _ _ cap assms(6)]
  have "vd_arg_index d = i"
    using memory_env.capture_argv_bounds [OF cap e(2,1)] by simp
  then show ?thesis
    using copied e(3) by (simp add: step captured_store) (simp add: store_desc_def)
qed

lemma argument_list_copied_witness:
  "\<exists>d. captured (append_var_argv (demo_kernel 100 1)
        (blank_event demo_abi (demo_kernel 100 1) zero_syscall_data 0) 1 32) 0 = (d, [47, 97, 0]) \<and>
    vd_flags d = VAR_FLAG_NONE"
proof -
  have "event_ok (blank_event demo_abi (demo_kernel 100 1) zero_syscall_data 0)"
    using demo_blank by (simp add: slots_ok_def)
  moreover have "argv_spec 8 512 [[47, 97]] = ([47, 97, 0], False)"
    using argv_spec.simps(3) [of 7 512 "[47, 97]" "[]"] by simp
  ultimately show ?thesis
    using argument_list_copied [OF demo_argv, of "blank_event demo_abi (demo_kernel 100 1) zero_syscall_data 0"
        "[47, 97, 0]" False "demo_kernel 100 1" 1]
    by auto
qed

text \<open>
  An argument that cannot be read is told as such: a null pointer, or a string or
  buffer at an address that cannot be read, gives the next descriptor, with the
  argument's number, the flag of the failure and no bytes; the event is still sent.
\<close>

theorem faults_flagged:
  assumes "helpers_ok k" and "slots_ok e" and "unat (ev_var_count e) < 2" and "sz \<noteq> 0" and "unat sz < 256"
    and "p = 0 \<or> fst (k_read_str k p 256) < 0 \<and> fst (k_read k p (unat sz)) < 0"
    and "flag = (if p = 0 then VAR_FLAG_NULL_POINTER else VAR_FLAG_READ_ERROR)"
  shows "(\<exists>d. captured (append_var_string k e i p) (unat (ev_var_count e)) = (d, []) \<and>
      vd_arg_index d = i \<and> vd_flags d = flag) \<and>
    (\<exists>d. captured (append_var_bytes k e i p sz) (unat (ev_var_count e)) = (d, []) \<and>
      vd_arg_index d = i \<and> vd_flags d = flag)"
  using kernel_env.string_fault [OF helpers_ok_env [OF assms(1)] assms(2,3), of p i]
    kernel_env.bytes_fault [OF helpers_ok_env [OF assms(1)] assms(2-5), of p i] assms(6,7)
  by blast

lemma faults_flagged_witness:
  "(\<exists>d. captured (append_var_string (demo_kernel 100 1) demo_event 1 4096) 1 = (d, []) \<and>
      vd_arg_index d = 1 \<and> vd_flags d = VAR_FLAG_READ_ERROR) \<and>
   (\<exists>d. captured (append_var_bytes (demo_kernel 100 1) demo_event 1 4096 8) 1 = (d, []) \<and>
      vd_arg_index d = 1 \<and> vd_flags d = VAR_FLAG_READ_ERROR)"
proof -
  have none: "demo_memory 4096 = None" by (simp add: demo_memory_def)
  have "mem_bytes demo_memory 4096 8 = None" "mem_scan demo_memory 4096 256 = None"
    using none mem_scan.simps(2) [of demo_memory 4096 255] by (simp_all add: mem_bytes_numeral)
  then have "fst (mem_read demo_memory 4096 8) = -14" "fst (mem_read_str demo_memory 4096 256) = -14"
    by (simp_all add: mem_read_def mem_read_str_def)
  then show ?thesis
    using faults_flagged [OF demo_helpers demo_event_slots, of 8 4096 100 1 VAR_FLAG_READ_ERROR 1]
    by simp
qed

text \<open>
  The argument-list capture, into a payload of at least 128 and at most 512
  bytes, writes only behind the used payload and within the capacity, whatever the
  pointers and the strings in memory are: the payload keeps its length and the bytes
  in use, the used length stays within the capacity, and the descriptor names bytes
  from the old used length to the new one.
\<close>

theorem argument_list_in_bounds:
  assumes "helpers_ok k" and "capture_argv k i argv cap len payload = (d, n, pl)"
    and "unat len \<le> cap" and "cap = length payload" and "MAX_EXECVE_ARG_STR \<le> cap" and "cap \<le> MAX_VAR_PAYLOAD"
  shows "vd_arg_index d = i \<and> vd_offset d = len \<and> unat len \<le> unat n \<and> unat n \<le> cap \<and>
    desc_fits (unat n) d \<and> length pl = cap \<and> take (unat len) pl = take (unat len) payload"
  by (rule kernel_env.capture_argv_bounds [OF helpers_ok_env [OF assms(1)] assms(2-6)])

lemma argument_list_in_bounds_witness:
  "case capture_argv (demo_kernel 100 1) 1 32 256 2 (replicate 256 0) of (d, n, pl) \<Rightarrow>
     vd_offset d = 2 \<and> 2 \<le> unat n \<and> unat n \<le> 256 \<and> length pl = 256"
proof -
  obtain d n pl where run: "capture_argv (demo_kernel 100 1) 1 32 256 2 (replicate 256 0) = (d, n, pl)"
    by (metis prod_cases3)
  from argument_list_in_bounds [OF demo_helpers run] show ?thesis by (simp add: run)
qed

section \<open>The schema\<close>

text \<open>
  The schema search types an event by the table: by the row of the call, which is
  the only one, when there is one, and as six raw arguments otherwise; it changes
  nothing else in the event.
\<close>

theorem schema_types_arguments:
  assumes "length (ev_arg_types e) = 6"
  shows "set_syscall_arg_schema nr e =
    (case find (\<lambda>sc. sc_syscall_id sc = nr) syscall_schemas of
       Some sc \<Rightarrow> e\<lparr>ev_arg_count := sc_arg_count sc, ev_arg_types := sc_arg_types sc\<rparr>
     | None \<Rightarrow> e\<lparr>ev_arg_count := 6, ev_arg_types := replicate 6 ARG_RAW\<rparr>) \<and>
    distinct (map sc_syscall_id syscall_schemas) \<and> list_all row_ok syscall_schemas"
proof (cases "find (\<lambda>sc. sc_syscall_id sc = nr) syscall_schemas")
  case None
  then have "nr \<notin> sc_syscall_id ` set syscall_schemas"
    by (auto simp: find_None_iff)
  with None show ?thesis
    using schema_miss [OF _ assms] ascending_distinct [OF table_ascending] rows_ok by simp
next
  case (Some sc)
  then have "sc \<in> set syscall_schemas" "sc_syscall_id sc = nr"
    by (auto simp: find_Some_iff)
  with Some show ?thesis
    using schema_hit [OF _ assms] ascending_distinct [OF table_ascending] rows_ok by auto
qed

lemma schema_types_arguments_witness:
  "distinct (map sc_syscall_id syscall_schemas) \<and>
   set_syscall_arg_schema 12345 stale_event =
     (case find (\<lambda>sc. sc_syscall_id sc = 12345) syscall_schemas of
        Some sc \<Rightarrow> stale_event\<lparr>ev_arg_count := sc_arg_count sc, ev_arg_types := sc_arg_types sc\<rparr>
      | None \<Rightarrow> stale_event\<lparr>ev_arg_count := 6, ev_arg_types := replicate 6 ARG_RAW\<rparr>)"
  using schema_types_arguments [of stale_event 12345] stale_shape by (simp add: event_shape_def)

section \<open>The ring buffer\<close>

text \<open>What the programs compute does not depend on the reservation.\<close>

lemma reserve_irrelevant [simp]:
  "cur_tgid (k\<lparr>k_reserve := x\<rparr>) = cur_tgid k" "cur_tid (k\<lparr>k_reserve := x\<rparr>) = cur_tid k"
  "append_var_string (k\<lparr>k_reserve := x\<rparr>) = append_var_string k"
  "append_var_bytes (k\<lparr>k_reserve := x\<rparr>) = append_var_bytes k"
  "is_process_clone abi (k\<lparr>k_reserve := x\<rparr>) = is_process_clone abi k"
  by (simp_all add: fun_eq_iff cur_tgid_def cur_tid_def append_var_string_def append_var_bytes_def
      is_process_clone_def cong: if_cong)

lemma reserve_irrelevant_event [simp]:
  "build_event abi (k\<lparr>k_reserve := x\<rparr>) st ret lookup g = build_event abi k st ret lookup g"
proof -
  have "capture_string (k\<lparr>k_reserve := x\<rparr>) = capture_string k" "capture_bytes (k\<lparr>k_reserve := x\<rparr>) = capture_bytes k"
    by (simp_all add: fun_eq_iff capture_string_def capture_bytes_def)
  then have "capture_steps abi (k\<lparr>k_reserve := x\<rparr>) st ret = capture_steps abi k st ret"
      "io_steps (k\<lparr>k_reserve := x\<rparr>) st ret = io_steps k st ret"
    by (simp_all add: capture_steps_def io_steps_def)
  then show ?thesis
    by (simp add: build_event_def init_event_def)
qed

text \<open>
  C36. What the reserved memory held before does not show in the event: two exits
  that differ only in the bytes of the reservation do the same to the whole state.
\<close>

theorem event_independent_of_reserved:
  assumes "k_reserve k = Some g" and "event_shape g" and "event_shape g'" and "inflight_ok s"
  shows "trace_sys_exit abi (k\<lparr>k_reserve := Some g'\<rparr>) ctx s = trace_sys_exit abi k ctx s"
proof (cases "inflight_syscalls s (cur_tid k)")
  case None
  then show ?thesis by (simp add: exit_ignored)
next
  case (Some st)
  then have "length (sd_args st) = 6" using assms(4) by (simp add: inflight_ok_def)
  from build_event_reserved [OF assms(3,2) this]
  have "build_event abi (k\<lparr>k_reserve := Some g'\<rparr>) st r lookup g' = build_event abi k st r lookup g" for r lookup
    by simp
  then show ?thesis
    using Some assms(1) by (simp add: exit_unfold child_targets_def map_update_def)
qed

lemma event_independent_of_reserved_witness:
  "trace_sys_exit demo_abi ((demo_kernel 100 9)\<lparr>k_reserve := Some demo_event\<rparr>) (demo_exit 0)
     (demo_state\<lparr>inflight_syscalls := [100 \<mapsto> zero_syscall_data\<lparr>sd_selected := 1\<rparr>]\<rparr>) =
   trace_sys_exit demo_abi (demo_kernel 100 9) (demo_exit 0)
     (demo_state\<lparr>inflight_syscalls := [100 \<mapsto> zero_syscall_data\<lparr>sd_selected := 1\<rparr>]\<rparr>)"
proof -
  have "event_shape demo_event" using demo_event_slots by (simp add: slots_ok_def event_ok_def)
  moreover have "inflight_ok (demo_state\<lparr>inflight_syscalls := [100 \<mapsto> zero_syscall_data\<lparr>sd_selected := 1\<rparr>]\<rparr>)"
    by (simp add: inflight_ok_def zero_syscall_data_def)
  ultimately show ?thesis
    using event_independent_of_reserved [of "demo_kernel 100 9" stale_event demo_event] by simp
qed

text \<open>
  When the ring buffer has no room at the exit of a selected call, the exit does
  no more than to make a child a target: no event is sent, and the call's record, the
  snapshots and the numbers stay in the maps, also when the call ends the thread.
\<close>

theorem full_ring_keeps_record:
  assumes "k_reserve k = None" and "target_pids s (cur_tgid k) \<noteq> None"
    and "inflight_syscalls s (cur_tid k) = Some st" and "sd_selected st \<noteq> 0"
  shows "trace_sys_exit abi k ctx s = track_child_process abi k st (ex_ret ctx) s \<and>
    events (trace_sys_exit abi k ctx s) = events s \<and>
    inflight_syscalls (trace_sys_exit abi k ctx s) = inflight_syscalls s \<and>
    tid_sequences (trace_sys_exit abi k ctx s) = tid_sequences s"
proof -
  have "trace_sys_exit abi k ctx s = track_child_process abi k st (ex_ret ctx) s"
    using assms by (auto simp: trace_sys_exit_def Let_def)
  then show ?thesis by (simp add: track_child_eq)
qed

lemma full_ring_keeps_record_witness:
  "inflight_syscalls (trace_sys_exit demo_abi ((demo_kernel 100 9)\<lparr>k_reserve := None\<rparr>) (demo_exit 0)
     (trace_sys_enter demo_abi (demo_kernel 100 2) (demo_enter NR_exit [0, 0, 0, 0, 0, 0]) demo_state)) 100 =
   Some (enter_data demo_abi (demo_kernel 100 2) (demo_enter NR_exit [0, 0, 0, 0, 0, 0]) demo_state)"
proof -
  let ?s = "trace_sys_enter demo_abi (demo_kernel 100 2) (demo_enter NR_exit [0, 0, 0, 0, 0, 0]) demo_state"
  have stored: "inflight_syscalls ?s 100 =
      Some (enter_data demo_abi (demo_kernel 100 2) (demo_enter NR_exit [0, 0, 0, 0, 0, 0]) demo_state)"
    using enter_inflight [of demo_abi "demo_kernel 100 2" _ demo_state] by simp
  have "sd_selected (enter_data demo_abi (demo_kernel 100 2) (demo_enter NR_exit [0, 0, 0, 0, 0, 0]) demo_state) \<noteq> 0"
    by (simp add: enter_data_def enter_selected_def demo_abi_def)
  then have "inflight_syscalls (trace_sys_exit demo_abi ((demo_kernel 100 9)\<lparr>k_reserve := None\<rparr>)
      (demo_exit 0) ?s) = inflight_syscalls ?s"
    using stored by (intro full_ring_keeps_record [THEN conjunct2, THEN conjunct2, THEN conjunct1]) simp_all
  then show ?thesis using stored by simp
qed

text \<open>
  C40. The record that a full ring buffer leaves behind is taken for the next call of
  the thread whose entry the filter ignores: the exit of that call, once there is room,
  sends an event with the number, the arguments, the start and the sequence number of
  the earlier call and with the result of the later one.
\<close>

theorem stale_record_misattributed:
  assumes "helpers_ok k3" and "inflight_ok s" and "follow_forks abi = 0" and "trace_filter_enabled abi \<noteq> 0"
    and "k_reserve k1 = None" and "target_pids s (cur_tgid k1) \<noteq> None"
    and "inflight_syscalls s (cur_tid k1) = Some st" and "sd_selected st \<noteq> 0"
    and "trace_syscall_filter s (ucast (en_id ctx2)) = None"
    and "k_pid_tgid k2 = k_pid_tgid k1" and "k_pid_tgid k3 = k_pid_tgid k1" and "k_reserve k3 \<noteq> None"
  shows "\<exists>e. events (trace_sys_exit abi k3 ctx3 (trace_sys_enter abi k2 ctx2 (trace_sys_exit abi k1 ctx1 s))) =
      events s @ [e] \<and>
    ev_syscall_id e = sd_syscall_id st \<and> ev_args e = sd_args st \<and> ev_ts e = sd_ts st \<and>
    ev_seq e = sd_seq st \<and> ev_ret e = ex_ret ctx3"
proof -
  have full: "trace_sys_exit abi k1 ctx1 s = s"
    using assms(3,5-8) by (auto simp: trace_sys_exit_def track_child_process_def Let_def)
  have ignored: "trace_sys_enter abi k2 ctx2 s = s"
    by (rule enter_untracked)
      (use assms(3,4,9) in \<open>simp add: enter_tracked_def enter_selected_def should_track_unselected_syscall_def\<close>)
  have ids: "cur_tgid k3 = cur_tgid k1" "cur_tid k3 = cur_tid k1"
    using assms(11) by (simp_all add: cur_tgid_def cur_tid_def)
  obtain g where g: "k_reserve k3 = Some g" "event_shape g"
    using assms(1,12) helpers_ok_reserve by auto
  have "length (sd_args st) = 6" using assms(2,7) by (simp add: inflight_ok_def)
  note fields = build_event_fields [OF g(2) this, of abi k3 "ex_ret ctx3" "execve_snapshots s (cur_tid k3)"]
  show ?thesis
    unfolding full ignored
    using exit_emits(1) [of s k3 st g abi ctx3] assms(6-8) ids g(1) fields by simp
qed

lemma stale_record_misattributed_witness:
  "\<exists>e. events (trace_sys_exit (demo_abi\<lparr>follow_forks := 0, trace_filter_enabled := 1\<rparr>) (demo_kernel 100 9) (demo_exit 77)
      (trace_sys_enter (demo_abi\<lparr>follow_forks := 0, trace_filter_enabled := 1\<rparr>) (demo_kernel 100 8)
        (demo_enter NR_getpid [0, 0, 0, 0, 0, 0])
        (trace_sys_exit (demo_abi\<lparr>follow_forks := 0, trace_filter_enabled := 1\<rparr>)
          ((demo_kernel 100 7)\<lparr>k_reserve := None\<rparr>) (demo_exit 3)
          (demo_state\<lparr>inflight_syscalls :=
             [100 \<mapsto> zero_syscall_data\<lparr>sd_syscall_id := NR_open, sd_selected := 1\<rparr>]\<rparr>)))) = [e] \<and>
    ev_syscall_id e = NR_open \<and> ev_ret e = 77"
proof -
  let ?st = "zero_syscall_data\<lparr>sd_syscall_id := NR_open, sd_selected := 1\<rparr>"
  have "inflight_ok (demo_state\<lparr>inflight_syscalls := [100 \<mapsto> ?st]\<rparr>)"
    by (simp add: inflight_ok_def zero_syscall_data_def)
  from stale_record_misattributed [OF demo_helpers this, of "demo_abi\<lparr>follow_forks := 0, trace_filter_enabled := 1\<rparr>"
      "(demo_kernel 100 7)\<lparr>k_reserve := None\<rparr>" ?st "demo_enter NR_getpid [0, 0, 0, 0, 0, 0]"
      "demo_kernel 100 8" 100 9 "demo_exit 77" "demo_exit 3"]
  show ?thesis by auto
qed

section \<open>The end of a thread\<close>

text \<open>
  When a thread of a traced process ends, its call in progress, its snapshot and
  its number are forgotten, so that a later thread with its number starts afresh; the
  process stops being a target exactly when the thread is its leader; no event is
  sent, and the state of every other thread stays as it was.
\<close>

theorem thread_end_forgets:
  assumes "target_pids s (cur_tgid k) \<noteq> None"
  shows "let s' = trace_sched_process_exit k s in
    inflight_syscalls s' = (inflight_syscalls s)(cur_tid k := None) \<and>
    execve_snapshots s' = (execve_snapshots s)(cur_tid k := None) \<and>
    tid_sequences s' = (tid_sequences s)(cur_tid k := None) \<and>
    target_pids s' = (if cur_tid k = cur_tgid k then (target_pids s)(cur_tgid k := None) else target_pids s) \<and>
    events s' = events s \<and> trace_syscall_filter s' = trace_syscall_filter s"
  using assms by (auto simp: trace_sched_process_exit_def cleanup_tid_state_def map_delete_def Let_def)

lemma thread_end_forgets_witness:
  "target_pids (trace_sched_process_exit (demo_kernel 100 1) demo_state) 100 = None \<and>
   target_pids (trace_sched_process_exit (demo_kernel 101 1) demo_state) 100 = Some 1"
  using thread_end_forgets [of demo_state "demo_kernel 100 1"] thread_end_forgets [of demo_state "demo_kernel 101 1"]
  by (simp add: Let_def)

text \<open>
  A run of any of the three programs, by a thread other than \<open>t\<close>, leaves the call
  in progress, the snapshot and the number of \<open>t\<close> as they are, or drops them when an
  LRU map evicts them; it never puts anything in their place.
\<close>

theorem other_threads_untouched:
  assumes "cur_tid k \<noteq> t"
    and "s' \<in> {trace_sys_enter abi k en s, trace_sys_exit abi k ex s, trace_sched_process_exit k s}"
  shows "untouched (inflight_syscalls s) (inflight_syscalls s') t \<and>
    untouched (execve_snapshots s) (execve_snapshots s') t \<and>
    untouched (tid_sequences s) (tid_sequences s') t"
proof -
  have same: "same_thread t s s' \<Longrightarrow> ?thesis" by (simp add: same_thread_def untouched_def)
  consider (en) "s' = trace_sys_enter abi k en s" | (ex) "s' = trace_sys_exit abi k ex s"
    | (te) "s' = trace_sched_process_exit k s"
    using assms(2) by blast
  then show ?thesis
  proof cases
    case en
    then show ?thesis using enter_other [of t k] assms(1) by simp
  next
    case ex
    then show ?thesis using same elsewhere_exit [OF assms(1)] by simp
  next
    case te
    then show ?thesis using same elsewhere_thread_end [OF assms(1)] by simp
  qed
qed

lemma other_threads_untouched_witness:
  "untouched (inflight_syscalls demo_done)
     (inflight_syscalls (trace_sys_enter demo_abi (demo_kernel 101 1) (demo_enter 0 [0, 0, 0, 0, 0, 0]) demo_done)) 100"
  using other_threads_untouched [of "demo_kernel 101 1" 100
      "trace_sys_enter demo_abi (demo_kernel 101 1) (demo_enter 0 [0, 0, 0, 0, 0, 0]) demo_done"
      demo_abi "demo_enter 0 [0, 0, 0, 0, 0, 0]" demo_done "demo_exit 0"] by simp

end
