(* ===== verification/Decode.thy ===== *)
theory Decode
  imports Types
begin

text \<open>
  The way of an event from the tracer to the consumer: the bytes of a \<open>struct event\<close>
  (\<^verbatim>\<open>internal/bpf/types.h\<close>) in the ring buffer, as the x86-64 ABI lays them out, and
  \<open>DecodeEvent\<close> of \<^verbatim>\<open>internal/decode.go\<close>, which reads them field by field and without
  padding. The two agree: the structure has no padding between its members.
\<close>

section \<open>The layout of a C structure\<close>

text \<open>
  A member is placed at the next multiple of its alignment. The members of
  \<open>struct event\<close> and of \<open>struct var_arg_desc\<close>, as sizes and alignments in order.
\<close>

definition round_up :: "nat \<Rightarrow> nat \<Rightarrow> nat" where
  "round_up al off = (off + al - 1) div al * al"

fun c_offsets :: "nat \<Rightarrow> (nat \<times> nat) list \<Rightarrow> nat list" where
  "c_offsets off [] = []"
| "c_offsets off ((sz, al) # ms) = round_up al off # c_offsets (round_up al off + sz) ms"

fun packed_offsets :: "nat \<Rightarrow> (nat \<times> nat) list \<Rightarrow> nat list" where
  "packed_offsets off [] = []"
| "packed_offsets off ((sz, al) # ms) = off # packed_offsets (off + sz) ms"

definition desc_members :: "(nat \<times> nat) list" where
  "desc_members = [(1, 1), (1, 1), (2, 2), (2, 2), (2, 2)]"

definition event_members :: "(nat \<times> nat) list" where
  "event_members =
     [(8, 8), (8, 8), (8, 8), (8, 8), (6 * 8, 8), (MAX_VAR_ARGS * 8, 2), (MAX_VAR_PAYLOAD, 1),
      (4, 4), (4, 4), (4, 4), (2, 2), (1, 1), (1, 1), (6, 1), (1, 1)]"

definition packed_size :: "(nat \<times> nat) list \<Rightarrow> nat" where
  "packed_size ms = sum_list (map fst ms)"

definition c_sizeof :: "(nat \<times> nat) list \<Rightarrow> nat" where
  "c_sizeof ms =
     round_up (Max (set (map snd ms))) (last (c_offsets 0 ms) + fst (last ms))"

lemma no_padding:
  "c_offsets 0 event_members = packed_offsets 0 event_members"
  "c_offsets 0 desc_members = packed_offsets 0 desc_members"
  by (simp_all add: event_members_def desc_members_def round_up_def)

lemma event_sizes:
  "packed_size event_members = 663" "c_sizeof event_members = 664"
  "packed_size desc_members = 8" "c_sizeof desc_members = 8"
  by code_simp+

section \<open>The bytes of an event\<close>

definition word_bytes :: "nat \<Rightarrow> 'a::len word \<Rightarrow> u8 list" where
  "word_bytes n w = le_bytes n (unat w)"

definition desc_bytes :: "var_arg_desc \<Rightarrow> u8 list" where
  "desc_bytes d =
     word_bytes 1 (vd_arg_index d) @ word_bytes 1 (vd_flags d) @ word_bytes 2 (vd_offset d) @
     word_bytes 2 (vd_length d) @ word_bytes 2 (vd_reserved d)"

definition event_bytes :: "event \<Rightarrow> u8 list" where
  "event_bytes e =
     word_bytes 8 (ev_ts e) @ word_bytes 8 (ev_dur e) @ word_bytes 8 (ev_syscall_id e) @
     word_bytes 8 (ev_ret e) @ concat (map (word_bytes 8) (ev_args e)) @
     concat (map desc_bytes (ev_var_desc e)) @ concat (map (word_bytes 1) (ev_payload e)) @
     word_bytes 4 (ev_pid e) @ word_bytes 4 (ev_tid e) @ word_bytes 4 (ev_seq e) @
     word_bytes 2 (ev_payload_len e) @ word_bytes 1 (ev_arg_count e) @ word_bytes 1 (ev_var_count e) @
     concat (map (word_bytes 1) (ev_arg_types e)) @ word_bytes 1 (ev_event_flags e)"

section \<open>Decoding\<close>

text \<open>
  \<open>binary.Read\<close> with \<open>binary.LittleEndian\<close>: the fields of the structure in order, an
  array element by element, from as many bytes as they take together. It fails when
  there are fewer and ignores what follows them.
\<close>

definition get_word :: "nat \<Rightarrow> u8 list \<Rightarrow> 'a::len word \<times> u8 list" where
  "get_word n bs = (le_word (take n bs), drop n bs)"

fun get_array :: "nat \<Rightarrow> (u8 list \<Rightarrow> 'b \<times> u8 list) \<Rightarrow> u8 list \<Rightarrow> 'b list \<times> u8 list" where
  "get_array 0 get bs = ([], bs)"
| "get_array (Suc n) get bs =
     (let (x, bs) = get bs; (xs, bs) = get_array n get bs in (x # xs, bs))"

definition get_desc :: "u8 list \<Rightarrow> var_arg_desc \<times> u8 list" where
  "get_desc bs =
     (let (arg_index, bs) = get_word 1 bs; (flags, bs) = get_word 1 bs; (off, bs) = get_word 2 bs;
          (len, bs) = get_word 2 bs; (reserved, bs) = get_word 2 bs
      in (\<lparr>vd_arg_index = arg_index, vd_flags = flags, vd_offset = off, vd_length = len,
           vd_reserved = reserved\<rparr>, bs))"

definition get_event :: "u8 list \<Rightarrow> event \<times> u8 list" where
  "get_event bs =
     (let (ts, bs) = get_word 8 bs; (dur, bs) = get_word 8 bs; (syscall_id, bs) = get_word 8 bs;
          (ret, bs) = get_word 8 bs; (args, bs) = get_array 6 (get_word 8) bs;
          (var_desc, bs) = get_array 6 get_desc bs; (payload, bs) = get_array 512 (get_word 1) bs;
          (pid, bs) = get_word 4 bs; (tid, bs) = get_word 4 bs; (seq, bs) = get_word 4 bs;
          (payload_len, bs) = get_word 2 bs; (arg_count, bs) = get_word 1 bs;
          (var_count, bs) = get_word 1 bs; (arg_types, bs) = get_array 6 (get_word 1) bs;
          (event_flags, bs) = get_word 1 bs
      in (\<lparr>ev_ts = ts, ev_dur = dur, ev_syscall_id = syscall_id, ev_ret = ret, ev_args = args,
           ev_var_desc = var_desc, ev_payload = payload, ev_pid = pid, ev_tid = tid, ev_seq = seq,
           ev_payload_len = payload_len, ev_arg_count = arg_count, ev_var_count = var_count,
           ev_arg_types = arg_types, ev_event_flags = event_flags\<rparr>, bs))"

definition DecodeEvent :: "u8 list \<Rightarrow> event option" where
  "DecodeEvent raw = (if length raw < 663 then None else Some (fst (get_event raw)))"

definition eventCreatesProcess :: "event \<Rightarrow> bool" where
  "eventCreatesProcess ev \<longleftrightarrow> ev_event_flags ev AND 1 \<noteq> 0"

section \<open>Round trip\<close>

text \<open>A reader \<open>get\<close> reads back what a writer \<open>put\<close> has written.\<close>

locale wire =
  fixes put :: "'b \<Rightarrow> u8 list" and get :: "u8 list \<Rightarrow> 'b \<times> u8 list"
  assumes get_put: "get (put x @ rest) = (x, rest)"
begin

lemma get_array_put: "get_array (length xs) get (concat (map put xs) @ rest) = (xs, rest)"
  by (induction xs) (simp_all add: get_put)

lemma get_array_back: "length xs = n \<Longrightarrow> get_array n get (concat (map put xs) @ rest) = (xs, rest)"
  using get_array_put by blast

end

lemma get_word_bytes:
  "le_word (word_bytes n w) = w \<Longrightarrow> get_word n (word_bytes n w @ rest) = (w, rest)"
  by (simp add: get_word_def word_bytes_def length_le_bytes)

interpretation wire_u8: wire "word_bytes 1 :: u8 \<Rightarrow> _" "get_word 1"
  by unfold_locales (rule get_word_bytes, simp only: word_bytes_def le_word_u8)

interpretation wire_u16: wire "word_bytes 2 :: u16 \<Rightarrow> _" "get_word 2"
  by unfold_locales (rule get_word_bytes, simp only: word_bytes_def le_word_u16)

interpretation wire_u32: wire "word_bytes 4 :: u32 \<Rightarrow> _" "get_word 4"
  by unfold_locales (rule get_word_bytes, simp only: word_bytes_def le_word_u32)

interpretation wire_u64: wire "word_bytes 8 :: u64 \<Rightarrow> _" "get_word 8"
  by unfold_locales (rule get_word_bytes, simp only: word_bytes_def le_word_u64)

lemmas get_words = wire_u8.get_put wire_u16.get_put wire_u32.get_put wire_u64.get_put

interpretation wire_desc: wire desc_bytes get_desc
  by unfold_locales (simp add: desc_bytes_def get_desc_def get_words del: One_nat_def)

lemmas get_arrays = wire_u8.get_array_back wire_u64.get_array_back wire_desc.get_array_back

lemma get_event_bytes:
  assumes "event_shape e"
  shows "get_event (event_bytes e @ rest) = (e, rest)"
  using assms unfolding event_shape_def
  by (simp add: event_bytes_def get_event_def get_words get_arrays del: One_nat_def)

lemma length_word_bytes [simp]: "length (word_bytes n w) = n"
  by (simp add: word_bytes_def length_le_bytes)

lemma length_concat_const: "(\<And>x. length (f x) = n) \<Longrightarrow> length (concat (map f xs)) = n * length xs"
  by (induction xs) simp_all

lemma length_event_bytes: "event_shape e \<Longrightarrow> length (event_bytes e) = 663"
  by (simp add: event_shape_def event_bytes_def length_concat_const [where n = 8]
      length_concat_const [where n = 1] desc_bytes_def)

lemma decode_event_bytes: "event_shape e \<Longrightarrow> DecodeEvent (event_bytes e @ rest) = Some e"
  by (simp add: DecodeEvent_def length_event_bytes get_event_bytes)

end
