(* ===== verification/Consumer.thy ===== *)
theory Consumer
  imports Decode Event_Args
begin

text \<open>
  What the consumer reads in a decoded event (\<^verbatim>\<open>internal/format_var.go\<close>,
  \<^verbatim>\<open>internal/event_path.go\<close>): the descriptor of an argument, the bytes it names,
  the path a call was given. A Go result of a value and a flag is an option.
\<close>

section \<open>The functions\<close>

fun findVarArgDesc_loop :: "var_arg_desc list \<Rightarrow> int \<Rightarrow> var_arg_desc option" where
  "findVarArgDesc_loop [] idx = None"
| "findVarArgDesc_loop (desc # descs) idx =
     (if int (unat (vd_arg_index desc)) = idx then Some desc else findVarArgDesc_loop descs idx)"

text \<open>The loop runs over the first \<open>VarCount\<close> descriptors, or over all six.\<close>

definition findVarArgDesc :: "event \<Rightarrow> int \<Rightarrow> var_arg_desc option" where
  "findVarArgDesc ev idx = findVarArgDesc_loop (take (unat (ev_var_count ev)) (ev_var_desc ev)) idx"

definition isVarArgEnabled :: "event \<Rightarrow> int \<Rightarrow> bool" where
  "isVarArgEnabled ev idx =
     (if idx < 0 \<or> int (length (ev_arg_types ev)) \<le> idx then False
      else if list_ex (\<lambda>d. int (unat (vd_arg_index d)) = idx) (take (unat (ev_var_count ev)) (ev_var_desc ev))
      then VAR_ARG_STRING \<le> ev_arg_types ev ! nat idx \<and> ev_arg_types ev ! nat idx \<le> VAR_ARG_ARGV
      else False)"

definition varPayloadSlice :: "event \<Rightarrow> var_arg_desc \<Rightarrow> u8 list option" where
  "varPayloadSlice ev desc =
     (let payloadLen = unat (ev_payload_len ev);
          payloadLen = (if length (ev_payload ev) < payloadLen then length (ev_payload ev) else payloadLen);
          start = unat (vd_offset desc); stop = start + unat (vd_length desc)
      in if payloadLen < stop then None else Some (drop start (take stop (ev_payload ev))))"

definition eventTracePathAt :: "event \<Rightarrow> int \<Rightarrow> u8 list option" where
  "eventTracePathAt ev argIndex =
     (case findVarArgDesc ev argIndex of
        None \<Rightarrow> None
      | Some desc \<Rightarrow> if vd_flags desc \<noteq> VAR_FLAG_NONE then None else varPayloadSlice ev desc)"

section \<open>Descriptors of well-formed events\<close>

lemma findVarArgDesc_loop_first:
  assumes "j < length ds" and "int (unat (vd_arg_index (ds ! j))) = idx"
    and "\<And>i. i < j \<Longrightarrow> int (unat (vd_arg_index (ds ! i))) \<noteq> idx"
  shows "findVarArgDesc_loop ds idx = Some (ds ! j)"
  using assms
proof (induction ds arbitrary: j)
  case (Cons d ds)
  show ?case
  proof (cases j)
    case 0
    with Cons.prems show ?thesis by simp
  next
    case (Suc j')
    have "int (unat (vd_arg_index d)) \<noteq> idx" using Cons.prems(3) [of 0] Suc by simp
    moreover have "int (unat (vd_arg_index (ds ! i))) \<noteq> idx" if "i < j'" for i
      using Cons.prems(3) [of "Suc i"] that Suc by simp
    then have "findVarArgDesc_loop ds idx = Some (ds ! j')"
      using Cons.IH [of j'] Cons.prems(1,2) Suc by simp
    ultimately show ?thesis using Suc by simp
  qed
qed simp

lemma findVarArgDesc_loop_set: "findVarArgDesc_loop ds idx = Some d \<Longrightarrow> d \<in> set ds"
  by (induction ds) (auto split: if_splits)

text \<open>Every descriptor in use of a well-formed event can be read, or says why not.\<close>

lemma slice_ok:
  assumes "event_ok e" and "i < unat (ev_var_count e)" and "\<not> desc_error (ev_var_desc e ! i)"
  shows "varPayloadSlice e (ev_var_desc e ! i) = Some (snd (captured e i))"
proof -
  have len: "unat (ev_payload_len e) \<le> 512" "length (ev_payload e) = 512" "length (ev_var_desc e) = 6"
      "unat (ev_var_count e) \<le> 6"
    using assms(1) by (simp_all add: event_ok_def event_shape_def)
  have "desc_ok (unat (ev_payload_len e)) (ev_var_desc e ! i)"
    using assms(1,2) len by (intro descs_okD [of _ "unat (ev_var_count e)"]) (simp_all add: event_ok_def)
  then show ?thesis
    using assms(3) len
    by (simp add: desc_ok_def desc_fits_def varPayloadSlice_def captured_def bslice_def drop_take Let_def)
qed

lemma found_slice:
  assumes "event_ok e" and "findVarArgDesc e idx = Some d" and "\<not> desc_error d"
  shows "\<exists>i < unat (ev_var_count e). d = ev_var_desc e ! i \<and> varPayloadSlice e d = Some (snd (captured e i))"
proof -
  have "length (ev_var_desc e) = 6" "unat (ev_var_count e) \<le> 6"
    using assms(1) by (simp_all add: event_ok_def event_shape_def)
  moreover have "d \<in> set (take (unat (ev_var_count e)) (ev_var_desc e))"
    using assms(2) findVarArgDesc_loop_set by (auto simp: findVarArgDesc_def)
  ultimately obtain i where "i < unat (ev_var_count e)" "d = ev_var_desc e ! i"
    by (auto simp: in_set_conv_nth)
  then show ?thesis using slice_ok [OF assms(1)] assms(3) by blast
qed

section \<open>The paths of an event\<close>

text \<open>
  Which argument each of the first descriptors is about, whatever could be read.
\<close>

context kernel_env
begin

lemma capture_string_index:
  assumes "slots_ok e" and "unat (ev_var_count e) < 2"
  shows "vd_arg_index (fst (captured (capture_string k st i e) (unat (ev_var_count e)))) = of_nat i"
  using assms string_capture [of e "of_nat i" "sd_args st ! i"] slot_capture_count [of e]
  by (auto simp: capture_string_def slots_ok_def event_ok_def captured_def Let_def)

lemma capture_paths_index:
  assumes "slots_ok e" and "unat (ev_var_count e) + length is' \<le> 2" and "j < length is'"
  shows "vd_arg_index (fst (captured (capture_paths k st is' e) (unat (ev_var_count e) + j))) = of_nat (is' ! j)"
  using assms
proof (induction is' arbitrary: e j)
  case (Cons i is')
  let ?e = "capture_string k st i e"
  have room: "unat (ev_var_count e) < 2" using Cons.prems(2) by simp
  have count: "unat (ev_var_count ?e) = Suc (unat (ev_var_count e))"
    by (rule capture_string_count [OF Cons.prems(1) room])
  have ok: "slots_ok ?e" by (rule capture_string_slots [OF Cons.prems(1)])
  show ?case
  proof (cases j)
    case 0
    then show ?thesis
      using capture_paths_keeps [OF ok, of is' st] capture_string_index [OF Cons.prems(1) room] count Cons.prems(2)
      by (simp add: capture_paths_def)
  next
    case (Suc j')
    then show ?thesis
      using Cons.IH [OF ok, of j'] Cons.prems count by (simp add: capture_paths_def)
  qed
qed simp

end

text \<open>The same of the whole event of a call that takes paths.\<close>

lemma build_event_index:
  assumes "helpers_ok k" and "event_shape g" and "length (sd_args st) = 6" and "abi_ok abi"
    and "j < length (path_args (sd_syscall_id st))"
  shows "vd_arg_index (ev_var_desc (build_event abi k st ret lookup g) ! j) = of_nat (path_args (sd_syscall_id st) ! j)"
    and "j < unat (ev_var_count (build_event abi k st ret lookup g))"
proof -
  let ?nr = "sd_syscall_id st" and ?b = "build_event abi k st ret lookup g"
  let ?p = "capture_paths k st (path_args ?nr) (typed_event abi k st ret)"
  note env = helpers_ok_env [OF assms(1)]
  note typed = slots_ok_typed [OF assms(3), of abi k ret]
  have nr: "?nr \<notin> {NR_read, NR_write, NR_execve}"
    by (rule path_args_special) (use assms(5) in auto)
  have keeps: "slots_ok ?p" "unat (ev_var_count ?p) = length (path_args ?nr)"
    using kernel_env.capture_paths_keeps [OF env typed] path_args_bound [of ?nr] by simp_all
  have index: "vd_arg_index (fst (captured ?p j)) = of_nat (path_args ?nr ! j)"
    using kernel_env.capture_paths_index [OF env typed _ assms(5), of st] path_args_bound [of ?nr] by simp
  have "captured ?b j = captured ?p j \<and> unat (ev_var_count ?p) \<le> unat (ev_var_count ?b)"
  proof (cases "(if 0 \<le> sint ret then stat_arg abi ?nr else None)")
    case None
    then show ?thesis
      by (simp only: build_event_table [OF assms(2,3) nr] capture_stat_def option.case order_refl simp_thms)
  next
    case (Some a)
    obtain i sz where a: "a = (i, sz)" by force
    then have "sz \<noteq> 0"
      using Some assms(4) by (auto simp: table_simps abi_ok_def split: if_splits)
    have "captured (capture_bytes k st i sz ?p) j = captured ?p j"
      by (rule kernel_env.capture_bytes_keeps [OF env \<open>sz \<noteq> 0\<close> keeps(1)]) (use keeps(2) assms(5) in simp)
    moreover have "unat (ev_var_count ?p) \<le> unat (ev_var_count (capture_bytes k st i sz ?p))"
      unfolding capture_bytes_def set_arg_type_simps
      by (rule capture_op.op_count_le [OF kernel_env.bytes_op [OF env \<open>sz \<noteq> 0\<close>] keeps(1)])
    ultimately show ?thesis
      using Some a
      by (simp only: build_event_table [OF assms(2,3) nr] capture_stat_def option.case prod.case simp_thms)
  qed
  then show "vd_arg_index (ev_var_desc ?b ! j) = of_nat (path_args ?nr ! j)" "j < unat (ev_var_count ?b)"
    using index keeps(2) assms(5) by (auto simp: captured_def Let_def)
qed

lemma path_args_index:
  assumes "i < length (path_args nr)" and "j < length (path_args nr)"
  shows "(of_nat (path_args nr ! i) :: u8) = of_nat (path_args nr ! j) \<longleftrightarrow> i = j"
proof -
  have "path_args nr ! i < 6" "path_args nr ! j < 6"
    using path_args_bound [of nr] assms by auto
  then have "(of_nat (path_args nr ! i) :: u8) = of_nat (path_args nr ! j) \<longleftrightarrow> path_args nr ! i = path_args nr ! j"
    by (auto simp: word_unat_eq_iff unat_of_nat)
  then show ?thesis
    using path_args_distinct [of nr] assms by (simp add: nth_eq_iff_index_eq)
qed

lemma find_path_desc:
  assumes "helpers_ok k" and "event_shape g" and "length (sd_args st) = 6" and "abi_ok abi"
    and "j < length (path_args (sd_syscall_id st))"
    and "event_ok (build_event abi k st ret lookup g)"
  shows "findVarArgDesc (build_event abi k st ret lookup g) (int (path_args (sd_syscall_id st) ! j)) =
    Some (ev_var_desc (build_event abi k st ret lookup g) ! j)"
proof -
  let ?nr = "sd_syscall_id st" and ?b = "build_event abi k st ret lookup g"
  note index = build_event_index [OF assms(1-4)]
  have "length (ev_var_desc ?b) = 6" "unat (ev_var_count ?b) \<le> 6"
    using assms(6) by (simp_all add: event_ok_def event_shape_def)
  moreover have bound: "path_args ?nr ! j < 6"
    using path_args_bound [of ?nr] assms(5) by auto
  moreover have "vd_arg_index (ev_var_desc ?b ! i) \<noteq> of_nat (path_args ?nr ! j)" if "i < j" for i
    using index(1) [of i ret lookup] that assms(5) path_args_index [of i ?nr j] by simp
  then have "unat (vd_arg_index (ev_var_desc ?b ! i)) \<noteq> path_args ?nr ! j" if "i < j" for i
    using that bound by (auto simp: word_unat_eq_iff unat_of_nat)
  then have "int (unat (vd_arg_index (ev_var_desc ?b ! i))) \<noteq> int (path_args ?nr ! j)" if "i < j" for i
    using that by (simp only: of_nat_eq_iff not_False_eq_True)
  ultimately show ?thesis
    using findVarArgDesc_loop_first [of j "take (unat (ev_var_count ?b)) (ev_var_desc ?b)" "int (path_args ?nr ! j)"]
      index [OF assms(5), of ret lookup]
    by (simp add: findVarArgDesc_def unat_of_nat)
qed

text \<open>The path the consumer takes from the event.\<close>

lemma build_event_trace_path:
  assumes "event_shape g" and "length (sd_args st) = 6" and "abi_ok abi"
    and "j < length (path_args (sd_syscall_id st))" and "i = path_args (sd_syscall_id st) ! j"
    and "cstring_at m (sd_args st ! i) p" and "sd_args st ! i \<noteq> 0"
    and "helpers_ok (with_memory m k)" and "event_ok (build_event abi (with_memory m k) st ret lookup g)"
  shows "eventTracePathAt (build_event abi (with_memory m k) st ret lookup g) (int i) =
    (if length p < 255 then Some p else None)"
proof -
  let ?b = "build_event abi (with_memory m k) st ret lookup g"
  obtain d where d: "captured ?b j = (d, take 255 p)"
      "vd_flags d = (if 255 \<le> length p then VAR_FLAG_TRUNCATED else VAR_FLAG_NONE)"
    using build_event_path [OF assms(1-4) assms(6,7) [unfolded assms(5)]] by blast
  then have desc: "d = ev_var_desc ?b ! j" by (simp add: captured_def Let_def)
  have found: "findVarArgDesc ?b (int i) = Some d"
    unfolding desc assms(5) by (rule find_path_desc [OF assms(8,1,2,3,4,9)])
  show ?thesis
  proof (cases "length p < 255")
    case True
    then have "vd_flags d = VAR_FLAG_NONE" using d(2) by simp
    then have "\<not> desc_error (ev_var_desc ?b ! j)" by (simp add: desc_error_def flip: desc)
    from slice_ok [OF assms(9) build_event_index(2) [OF assms(8,1,2,3,4)] this] d True found
    show ?thesis by (simp add: eventTracePathAt_def desc)
  next
    case False
    then show ?thesis using found d(2) by (simp add: eventTracePathAt_def)
  qed
qed

text \<open>The event of a call that takes paths is well formed, whatever snapshot there is.\<close>

lemma path_event_ok:
  assumes "helpers_ok k" and "event_shape g" and "length (sd_args st) = 6" and "abi_ok abi"
    and "path_args (sd_syscall_id st) \<noteq> []"
  shows "event_ok (build_event abi k st ret lookup g)"
proof -
  note nr = path_args_special [OF assms(5)]
  have "build_event abi k st ret lookup g = build_event abi k st ret None g"
    by (simp add: build_event_table [OF assms(2,3) nr])
  then show ?thesis
    using build_event_ok [OF helpers_ok_env [OF assms(1)] assms(4,2,3), of None] by simp
qed

text \<open>A whole call: the event it ends in, and the path the consumer finds there.\<close>

lemma call_trace_path:
  assumes "completes abi k ctx xs (with_memory m k') s" and "abi_ok abi"
    and "j < length (path_args (en_id ctx))" and "i = path_args (en_id ctx) ! j"
    and "cstring_at m (en_args ctx ! i) p" and "en_args ctx ! i \<noteq> 0"
  obtains e where "events (trace_sys_exit abi (with_memory m k') ctx' (one_call abi k ctx xs s)) =
      events (one_call abi k ctx xs s) @ [e]"
    and "event_shape e" and "ev_syscall_id e = en_id ctx"
    and "eventTracePathAt e (int i) = (if length p < 255 then Some p else None)"
proof -
  let ?st = "enter_data abi k ctx s" and ?k = "with_memory m k'"
  obtain g where g: "event_shape g"
    "events (trace_sys_exit abi ?k ctx' (one_call abi k ctx xs s)) = events (one_call abi k ctx xs s) @
       [build_event abi ?k ?st (ex_ret ctx') (execve_snapshots (trace_sys_enter abi k ctx s) (cur_tid k)) g]"
    by (rule completes_event [OF assms(1)])
  let ?e = "build_event abi ?k ?st (ex_ret ctx') (execve_snapshots (trace_sys_enter abi k ctx s) (cur_tid k)) g"
  have k': "helpers_ok ?k" and args: "length (en_args ctx) = 6" using assms(1) by (simp_all add: completes_def)
  have "path_args (sd_syscall_id ?st) \<noteq> []" using assms(3) by auto
  from path_event_ok [OF k' g(1) _ assms(2) this] have ok: "event_ok ?e" by simp
  moreover have "eventTracePathAt ?e (int i) = (if length p < 255 then Some p else None)"
    by (rule build_event_trace_path [OF g(1) _ assms(2) _ _ _ _ k' ok]) (use assms args in simp_all)
  moreover have "ev_syscall_id ?e = en_id ctx" using g(1) by (simp add: build_event_fields)
  ultimately show thesis using that g(2) by (simp add: event_ok_def)
qed

text \<open>The state after a completed call is reachable, and its events are well formed.\<close>

lemma completed_events_ok:
  assumes "reachable abi s0 s" and "initial_state s0" and "abi_ok abi"
    and "completes abi k ctx xs k' s" and "helpers_ok k" and "list_all allowed xs"
  shows "list_all event_ok (events (trace_sys_exit abi k' ctx' (one_call abi k ctx xs s)))"
proof -
  have args: "length (en_args ctx) = 6" and k': "helpers_ok k'"
    using assms(4) by (simp_all add: completes_def)
  have "reachable abi s0 (trace_sys_enter abi k ctx s)"
    by (rule reachable.step [OF assms(1) tracer_step.sys_enter [OF assms(5) args]])
  then have "reachable abi s0 (one_call abi k ctx xs s)"
    unfolding one_call_def by (rule reachable_run [OF assms(6)])
  then have "reachable abi s0 (trace_sys_exit abi k' ctx' (one_call abi k ctx xs s))"
    by (rule reachable.step) (rule tracer_step.sys_exit [OF k'])
  then have "tracer_ok (trace_sys_exit abi k' ctx' (one_call abi k ctx xs s))"
    using well_formed.inv_reachable tracer_ok_initial [OF assms(2)] assms(3) by blast
  then show ?thesis by (simp add: tracer_ok_def list_all_iff)
qed

end
