(* ===== verification/Go_Path.thy ===== *)
theory Go_Path
  imports Prelude
begin

text \<open>
  The functions of Go's \<^verbatim>\<open>path/filepath\<close> (on Unix) that the path filter uses: \<open>IsAbs\<close>,
  \<open>Clean\<close> and \<open>Join\<close>, on byte strings. \<open>Clean\<close> splits a path at its slashes and goes
  through the elements with a stack, as the package documents it.

  The lemmas relate them to absolute paths as lists of names: \<open>root ns\<close> is the path of
  the names \<open>ns\<close>, and following a path from a directory is the walk \<open>walk\<close>.
\<close>

section \<open>The functions\<close>

type_synonym gostring = "u8 list"

abbreviation (input) Separator :: u8 where "Separator \<equiv> 47"

definition IsAbs :: "gostring \<Rightarrow> bool" where
  "IsAbs p \<longleftrightarrow> p \<noteq> [] \<and> hd p = Separator"

fun split_slash :: "gostring \<Rightarrow> gostring list" where
  "split_slash [] = [[]]"
| "split_slash (c # cs) =
     (if c = Separator then [] # split_slash cs
      else case split_slash cs of [] \<Rightarrow> [[c]] | w # ws \<Rightarrow> (c # w) # ws)"

fun join_slash :: "gostring list \<Rightarrow> gostring" where
  "join_slash [] = []"
| "join_slash [w] = w"
| "join_slash (w # ws) = w @ Separator # join_slash ws"

abbreviation (input) dot :: gostring where "dot \<equiv> [46]"
abbreviation (input) dotdot :: gostring where "dotdot \<equiv> [46, 46]"

text \<open>One element of the path: the stack holds the elements kept so far, last first.\<close>

definition clean_step :: "bool \<Rightarrow> gostring \<Rightarrow> gostring list \<Rightarrow> gostring list" where
  "clean_step rooted e stack =
     (if e = [] \<or> e = dot then stack
      else if e = dotdot
      then (case stack of
              [] \<Rightarrow> if rooted then [] else [e]
            | t # rest \<Rightarrow> if t = dotdot then e # stack else rest)
      else e # stack)"

definition Clean :: "gostring \<Rightarrow> gostring" where
  "Clean p =
     (if p = [] then dot
      else
        let rooted = (hd p = Separator);
            elems = rev (fold (clean_step rooted) (split_slash p) []);
            out = (if rooted then Separator # join_slash elems else join_slash elems)
        in if out = [] then dot else out)"

text \<open>\<open>Join\<close> of two elements: an empty one is left out.\<close>

definition Join2 :: "gostring \<Rightarrow> gostring \<Rightarrow> gostring" where
  "Join2 a b =
     (if a \<noteq> [] then Clean (a @ Separator # b) else if b \<noteq> [] then Clean b else [])"

section \<open>Absolute paths as lists of names\<close>

definition name_ok :: "gostring \<Rightarrow> bool" where
  "name_ok w \<longleftrightarrow> w \<noteq> [] \<and> w \<noteq> dot \<and> w \<noteq> dotdot \<and> Separator \<notin> set w"

definition root :: "gostring list \<Rightarrow> gostring" where
  "root ns = Separator # join_slash ns"

text \<open>Following the elements of a path from a directory, given by its names.\<close>

fun walk :: "gostring list \<Rightarrow> gostring list \<Rightarrow> gostring list" where
  "walk ns [] = ns"
| "walk ns (e # es) =
     (if e = [] \<or> e = dot then walk ns es
      else if e = dotdot then walk (butlast ns) es
      else walk (ns @ [e]) es)"

lemma split_no_slash: "w \<in> set (split_slash p) \<Longrightarrow> Separator \<notin> set w"
  by (induction p arbitrary: w rule: split_slash.induct) (auto split: if_splits list.splits)

lemma split_not_empty [simp]: "split_slash p \<noteq> []"
  by (cases p) (auto split: list.split)

lemma split_word: "Separator \<notin> set w \<Longrightarrow> split_slash w = [w]"
  by (induction w) auto

lemma split_append: "split_slash (p @ Separator # q) = split_slash p @ split_slash q"
  by (induction p rule: split_slash.induct) (auto split: list.split)

lemma split_join:
  "ws \<noteq> [] \<Longrightarrow> (\<And>w. w \<in> set ws \<Longrightarrow> Separator \<notin> set w) \<Longrightarrow> split_slash (join_slash ws) = ws"
  by (induction ws rule: join_slash.induct) (auto simp: split_word split_append)

lemma clean_step_walk:
  assumes "dotdot \<notin> set ns"
  shows "fold (clean_step True) es (rev ns) = rev (walk ns es)"
  using assms
proof (induction es arbitrary: ns)
  case (Cons e es)
  have pop: "clean_step True dotdot (rev ns) = rev (butlast ns)"
    using Cons.prems by (cases ns rule: rev_cases) (auto simp: clean_step_def)
  have sub: "dotdot \<notin> set (butlast ns)" using Cons.prems by (meson in_set_butlastD)
  consider (skip) "e = [] \<or> e = dot" | (up) "e = dotdot" | (down) "e \<noteq> []" "e \<noteq> dot" "e \<noteq> dotdot" by blast
  then show ?case
  proof cases
    case skip
    then show ?thesis using Cons by (auto simp: clean_step_def)
  next
    case up
    then show ?thesis using Cons.IH [OF sub] pop by simp
  next
    case down
    then show ?thesis using Cons.IH [of "ns @ [e]"] Cons.prems by (simp add: clean_step_def)
  qed
qed simp

lemma walk_names:
  "list_all name_ok ns \<Longrightarrow> (\<And>e. e \<in> set es \<Longrightarrow> Separator \<notin> set e) \<Longrightarrow> list_all name_ok (walk ns es)"
proof (induction ns es rule: walk.induct)
  case (2 ns e es)
  have "list_all name_ok (butlast ns)" using 2(4) by (auto simp: list_all_iff dest: in_set_butlastD)
  moreover have "name_ok e" if "e \<noteq> []" "e \<noteq> dot" "e \<noteq> dotdot"
    using 2(5) [of e] that by (simp add: name_ok_def)
  ultimately show ?case using 2 by simp
qed simp

lemma walk_append: "walk ns (es @ fs) = walk (walk ns es) fs"
  by (induction ns es rule: walk.induct) auto

lemma walk_down: "list_all name_ok es \<Longrightarrow> walk ns es = ns @ es"
  by (induction ns es rule: walk.induct) (auto simp: name_ok_def)

lemma names_no_dotdot: "list_all name_ok ns \<Longrightarrow> dotdot \<notin> set ns"
  by (auto simp: list_all_iff name_ok_def)

lemma split_root: "list_all name_ok ns \<Longrightarrow> walk [] (split_slash (root ns)) = ns"
  using split_join [of ns] walk_down [of ns "[]"]
  by (cases "ns = []") (auto simp: root_def list_all_iff name_ok_def)

lemma Clean_abs: "IsAbs p \<Longrightarrow> Clean p = root (walk [] (split_slash p))"
  using clean_step_walk [of "[]" "split_slash p"] by (auto simp: Clean_def IsAbs_def root_def Let_def)

lemma Clean_root: "list_all name_ok ns \<Longrightarrow> Clean (root ns) = root ns"
  using Clean_abs [of "root ns"] split_root [of ns] by (simp add: IsAbs_def root_def)

lemma Clean_abs_names: "IsAbs p \<Longrightarrow> \<exists>ns. Clean p = root ns \<and> list_all name_ok ns"
  using Clean_abs walk_names [of "[]" "split_slash p"] split_no_slash by auto

text \<open>A relative path from a directory.\<close>

lemma Join2_root:
  assumes "list_all name_ok ns"
  shows "Join2 (root ns) p = root (walk ns (split_slash p))"
proof -
  have "Join2 (root ns) p = Clean (root ns @ Separator # p)"
    by (simp add: Join2_def root_def)
  also have "\<dots> = root (walk [] (split_slash (root ns @ Separator # p)))"
    by (rule Clean_abs) (simp add: IsAbs_def root_def)
  finally show ?thesis by (simp only: split_append walk_append split_root [OF assms])
qed

lemma Clean_Join_root:
  assumes "list_all name_ok ns"
  shows "Clean (Join2 (root ns) p) = root (walk ns (split_slash p))"
proof -
  have "list_all name_ok (walk ns (split_slash p))"
    using walk_names [OF assms] split_no_slash by blast
  then show ?thesis by (simp add: Join2_root [OF assms] Clean_root)
qed

lemma join_inj:
  assumes "list_all name_ok ns" and "list_all name_ok ms" and "join_slash ns = join_slash ms"
  shows "ns = ms"
proof -
  have "walk [] (split_slash (root ns)) = walk [] (split_slash (root ms))"
    using assms(3) by (simp add: root_def)
  then show ?thesis using split_root assms(1,2) by simp
qed

lemma root_eq_iff: "list_all name_ok ns \<Longrightarrow> list_all name_ok ms \<Longrightarrow> root ns = root ms \<longleftrightarrow> ns = ms"
  using join_inj by (auto simp: root_def)

section \<open>Prefixes of paths\<close>

lemma join_append:
  "ns \<noteq> [] \<Longrightarrow> ms \<noteq> [] \<Longrightarrow> join_slash (ns @ ms) = join_slash ns @ Separator # join_slash ms"
proof (induction ns rule: join_slash.induct)
  case (2 w)
  then show ?case by (cases ms) auto
next
  case (3 w v ws)
  then show ?case by simp
qed simp

text \<open>A path begins with another path and a slash exactly when its names begin with its names.\<close>

lemma root_prefix:
  assumes "list_all name_ok ns" and "list_all name_ok ms" and "ms \<noteq> []"
  shows "(\<exists>rest. root ns = root ms @ Separator # rest) \<longleftrightarrow> (\<exists>r. r \<noteq> [] \<and> ns = ms @ r)"
proof
  assume "\<exists>rest. root ns = root ms @ Separator # rest"
  then obtain rest where "join_slash ns = join_slash ms @ Separator # rest" by (auto simp: root_def)
  moreover have "ns \<noteq> []" using calculation by auto
  ultimately have "ns = ms @ split_slash rest"
    using split_join [of ns] split_join [of ms] assms
    by (metis list_all_iff name_ok_def split_append)
  then show "\<exists>r. r \<noteq> [] \<and> ns = ms @ r" using split_not_empty by blast
next
  assume "\<exists>r. r \<noteq> [] \<and> ns = ms @ r"
  then show "\<exists>rest. root ns = root ms @ Separator # rest"
    using join_append [OF assms(3)] by (auto simp: root_def)
qed

end
