(* ===== verification/Path_Filter.thy ===== *)
theory Path_Filter
  imports Consumer Go_Path "HOL-Library.AList"
begin

text \<open>
  \<^verbatim>\<open>internal/path_filter.go\<close>: the consumer's filter by path. For every process it keeps
  the working directory, the paths of the open descriptors and which of them are open
  on a requested path, learns them from the events it sees, and lets an event pass when
  it is about a requested path or about a descriptor that is open on one.

  A method on \<open>*pathFilter\<close> is a function that takes the filter last and returns it when
  it changes it. A nil Go map and an empty one are the same here, as they are to the
  code. \<open>fdPaths\<close>, over which the code iterates, is an association list in the order of
  the iteration. The target of \<open>/proc/<pid>/cwd\<close> is the parameter \<open>rl\<close>.
\<close>

section \<open>State\<close>

record processPathState =
  cwd :: gostring
  trackedFDs :: "u64 set"
  fdPaths :: "(u64 \<times> gostring) list"

record pathFilter =
  paths :: "gostring set"
  stateByPID :: "u32 \<rightharpoonup> processPathState"
  userTraceIDs :: "s64 set"
  userTraceAll :: bool
  pathFilterMode :: bool

record Config =
  ProgramName :: gostring
  ProgramPath :: gostring
  ProgramArgs :: "gostring list"
  AttachPIDs :: "int list"
  FollowForks :: bool
  SummaryOnly :: bool
  TraceSyscallIDs :: "s64 set"
  TracePaths :: "gostring list"

type_synonym proc_links = "u32 \<Rightarrow> gostring option"

abbreviation (input) AT_FDCWD :: int where "AT_FDCWD \<equiv> -100"
abbreviation (input) F_DUPFD :: int where "F_DUPFD \<equiv> 0"
abbreviation (input) F_DUPFD_CLOEXEC :: int where "F_DUPFD_CLOEXEC \<equiv> 1030"

definition newPathFilter :: "Config \<Rightarrow> pathFilter" where
  "newPathFilter cfg =
     \<lparr>paths = set (TracePaths cfg), stateByPID = Map.empty, userTraceIDs = TraceSyscallIDs cfg,
      userTraceAll = (TraceSyscallIDs cfg = {}), pathFilterMode = (TracePaths cfg \<noteq> [])\<rparr>"

definition pathFilterSupportSyscallIDs :: "s64 list" where
  "pathFilterSupportSyscallIDs =
     [NR_open, NR_openat, NR_close, NR_dup, NR_dup2, NR_dup3, NR_fcntl, NR_chdir, NR_fchdir,
      NR_rename, NR_renameat, NR_renameat2, NR_unlink, NR_unlinkat, NR_access, NR_newstat,
      NR_newlstat, NR_newfstatat, NR_faccessat, NR_statx, NR_openat2, NR_faccessat2]"

definition pathFilterForkSupportSyscallIDs :: "s64 list" where
  "pathFilterForkSupportSyscallIDs = [NR_fork, NR_vfork, NR_clone, NR_clone3]"

definition handleTraceSyscallIDs :: "Config \<Rightarrow> s64 set" where
  "handleTraceSyscallIDs cfg =
     (if TracePaths cfg = [] \<or> TraceSyscallIDs cfg = {} then TraceSyscallIDs cfg
      else TraceSyscallIDs cfg \<union> set pathFilterSupportSyscallIDs \<union>
           (if FollowForks cfg then set pathFilterForkSupportSyscallIDs else {}))"

definition normalizeTrackedFD :: "u64 \<Rightarrow> u64" where
  "normalizeTrackedFD raw = ucast (ucast raw :: u32)"

section \<open>The state of a process\<close>

definition empty_state :: processPathState where
  "empty_state = \<lparr>cwd = [], trackedFDs = {}, fdPaths = []\<rparr>"

text \<open>\<open>stateForPID\<close> followed by an assignment through the pointer it returns.\<close>

definition stateForPID_update :: "u32 \<Rightarrow> (processPathState \<Rightarrow> processPathState) \<Rightarrow> pathFilter \<Rightarrow> pathFilter" where
  "stateForPID_update pid g f =
     f\<lparr>stateByPID := (stateByPID f)(pid \<mapsto>
         g (case stateByPID f pid of None \<Rightarrow> empty_state | Some state \<Rightarrow> state))\<rparr>"

definition cloneProcessPathState :: "processPathState option \<Rightarrow> processPathState option" where
  "cloneProcessPathState src =
     (case src of
        None \<Rightarrow> None
      | Some s \<Rightarrow> if cwd s = [] \<and> trackedFDs s = {} \<and> fdPaths s = [] then None else Some s)"

definition observeForkChild :: "u32 \<Rightarrow> u32 \<Rightarrow> pathFilter \<Rightarrow> pathFilter" where
  "observeForkChild parentPID childPID f =
     f\<lparr>stateByPID := (stateByPID f)(childPID := cloneProcessPathState (stateByPID f parentPID))\<rparr>"

definition maybeDropPIDState :: "u32 \<Rightarrow> pathFilter \<Rightarrow> pathFilter" where
  "maybeDropPIDState pid f =
     (case stateByPID f pid of
        None \<Rightarrow> f
      | Some s \<Rightarrow>
          if cwd s \<noteq> [] \<or> trackedFDs s \<noteq> {} \<or> fdPaths s \<noteq> [] then f
          else f\<lparr>stateByPID := (stateByPID f)(pid := None)\<rparr>)"

definition trackFD :: "u32 \<Rightarrow> u64 \<Rightarrow> pathFilter \<Rightarrow> pathFilter" where
  "trackFD pid fd = stateForPID_update pid (\<lambda>s. s\<lparr>trackedFDs := insert fd (trackedFDs s)\<rparr>)"

definition untrackFD :: "u32 \<Rightarrow> u64 \<Rightarrow> pathFilter \<Rightarrow> pathFilter" where
  "untrackFD pid fd f =
     (case stateByPID f pid of
        None \<Rightarrow> f
      | Some s \<Rightarrow>
          if trackedFDs s = {} then f
          else maybeDropPIDState pid
                 (f\<lparr>stateByPID := (stateByPID f)(pid \<mapsto> s\<lparr>trackedFDs := trackedFDs s - {fd}\<rparr>)\<rparr>))"

definition fdTracked :: "u32 \<Rightarrow> u64 \<Rightarrow> pathFilter \<Rightarrow> bool" where
  "fdTracked pid fd f =
     (case stateByPID f pid of None \<Rightarrow> False | Some s \<Rightarrow> fd \<in> trackedFDs s)"

definition setFDPath :: "u32 \<Rightarrow> u64 \<Rightarrow> gostring \<Rightarrow> pathFilter \<Rightarrow> pathFilter" where
  "setFDPath pid fd path =
     stateForPID_update pid (\<lambda>s. s\<lparr>fdPaths := AList.update fd path (fdPaths s)\<rparr>)"

definition syncTrackedFD :: "u32 \<Rightarrow> u64 \<Rightarrow> gostring \<Rightarrow> pathFilter \<Rightarrow> pathFilter" where
  "syncTrackedFD pid fd path f = (if path \<in> paths f then trackFD pid fd f else untrackFD pid fd f)"

definition unsetFDPath :: "u32 \<Rightarrow> u64 \<Rightarrow> pathFilter \<Rightarrow> pathFilter" where
  "unsetFDPath pid fd f =
     (case stateByPID f pid of
        None \<Rightarrow> f
      | Some s \<Rightarrow>
          if fdPaths s = [] then f
          else maybeDropPIDState pid
                 (f\<lparr>stateByPID := (stateByPID f)(pid \<mapsto> s\<lparr>fdPaths := AList.delete fd (fdPaths s)\<rparr>)\<rparr>))"

definition fdPath :: "u32 \<Rightarrow> u64 \<Rightarrow> pathFilter \<Rightarrow> gostring option" where
  "fdPath pid fd f =
     (case stateByPID f pid of None \<Rightarrow> None | Some s \<Rightarrow> map_of (fdPaths s) fd)"

definition cwdForPID :: "proc_links \<Rightarrow> u32 \<Rightarrow> pathFilter \<Rightarrow> gostring option \<times> pathFilter" where
  "cwdForPID rl pid f =
     (case stateByPID f pid of
        Some s \<Rightarrow> if cwd s \<noteq> [] then (Some (cwd s), f)
          else (case rl pid of
                  None \<Rightarrow> (None, f)
                | Some link \<Rightarrow>
                    (Some (Clean link), stateForPID_update pid (\<lambda>s. s\<lparr>cwd := Clean link\<rparr>) f))
      | None \<Rightarrow>
          (case rl pid of
             None \<Rightarrow> (None, f)
           | Some link \<Rightarrow>
               (Some (Clean link), stateForPID_update pid (\<lambda>s. s\<lparr>cwd := Clean link\<rparr>) f)))"

definition rewritePathPrefix :: "gostring \<Rightarrow> gostring \<Rightarrow> gostring \<Rightarrow> gostring \<times> bool" where
  "rewritePathPrefix path oldBase newBase =
     (let path = Clean path; oldBase = Clean oldBase; newBase = Clean newBase in
      if path = oldBase then (newBase, True)
      else
        let pre = oldBase @ [Separator] in
        if length path \<le> length pre \<or> take (length pre) path \<noteq> pre then (path, False)
        else (Join2 newBase (drop (length pre) path), True))"

fun rewrite_loop :: "u32 \<Rightarrow> gostring \<Rightarrow> gostring \<Rightarrow> (u64 \<times> gostring) list \<Rightarrow> pathFilter \<Rightarrow> pathFilter" where
  "rewrite_loop pid oldPath newPath [] f = f"
| "rewrite_loop pid oldPath newPath ((fd, path) # entries) f =
     (let (rewritten, changed) = rewritePathPrefix path oldPath newPath in
      rewrite_loop pid oldPath newPath entries
        (if changed then syncTrackedFD pid fd rewritten (setFDPath pid fd rewritten f) else f))"

definition rewritePIDPaths :: "u32 \<Rightarrow> gostring \<Rightarrow> gostring \<Rightarrow> pathFilter \<Rightarrow> pathFilter" where
  "rewritePIDPaths pid oldPath newPath f =
     (case stateByPID f pid of
        None \<Rightarrow> f
      | Some s \<Rightarrow>
          let f = (if cwd s \<noteq> []
                   then (let (rewritten, changed) = rewritePathPrefix (cwd s) oldPath newPath
                         in if changed then stateForPID_update pid (\<lambda>s. s\<lparr>cwd := rewritten\<rparr>) f else f)
                   else f)
          in rewrite_loop pid oldPath newPath (fdPaths s) f)"

fun drop_loop :: "u32 \<Rightarrow> gostring \<Rightarrow> (u64 \<times> gostring) list \<Rightarrow> pathFilter \<Rightarrow> pathFilter" where
  "drop_loop pid target [] f = f"
| "drop_loop pid target ((fd, path) # entries) f =
     (if path \<noteq> target then drop_loop pid target entries f
      else drop_loop pid target entries
             (stateForPID_update pid (\<lambda>s. s\<lparr>fdPaths := AList.delete fd (fdPaths s)\<rparr>)
               (untrackFD pid fd f)))"

definition dropPIDPaths :: "u32 \<Rightarrow> gostring \<Rightarrow> pathFilter \<Rightarrow> pathFilter" where
  "dropPIDPaths pid target f =
     (case stateByPID f pid of
        None \<Rightarrow> f
      | Some s \<Rightarrow> if fdPaths s = [] then f
                  else maybeDropPIDState pid (drop_loop pid target (fdPaths s) f))"

section \<open>Resolving the paths of an event\<close>

definition pathBaseFDArgIndex :: "s64 \<Rightarrow> nat \<Rightarrow> int option" where
  "pathBaseFDArgIndex syscallID argIndex =
     (if syscallID \<in> {NR_openat, NR_openat2, NR_unlinkat, NR_newfstatat, NR_faccessat, NR_statx, NR_faccessat2}
      then if argIndex = 1 then Some 0 else None
      else if syscallID \<in> {NR_renameat, NR_renameat2}
      then if argIndex = 1 then Some 0 else if argIndex = 3 then Some 2 else None
      else if syscallID \<in> {NR_open, NR_access, NR_newstat, NR_newlstat, NR_chdir, NR_unlink, NR_rename}
      then Some (-1)
      else None)"

definition resolvePathBase :: "proc_links \<Rightarrow> event \<Rightarrow> nat \<Rightarrow> pathFilter \<Rightarrow> gostring option \<times> pathFilter" where
  "resolvePathBase rl ev argIndex f =
     (case pathBaseFDArgIndex (ev_syscall_id ev) argIndex of
        None \<Rightarrow> cwdForPID rl (ev_pid ev) f
      | Some dirfdArgIndex \<Rightarrow>
          if dirfdArgIndex < 0 then cwdForPID rl (ev_pid ev) f
          else if int (unat (ev_arg_count ev)) \<le> dirfdArgIndex then (None, f)
          else
            let arg = ev_args ev ! nat dirfdArgIndex in
            if sint (ucast arg :: u32) = AT_FDCWD then cwdForPID rl (ev_pid ev) f
            else (fdPath (ev_pid ev) (normalizeTrackedFD arg) f, f))"

definition resolvePath ::
  "proc_links \<Rightarrow> event \<Rightarrow> nat \<Rightarrow> gostring \<Rightarrow> pathFilter \<Rightarrow> gostring option \<times> pathFilter" where
  "resolvePath rl ev argIndex path f =
     (if path = [] then (None, f)
      else if IsAbs path then (Some (Clean path), f)
      else
        case resolvePathBase rl ev argIndex f of
          (None, f) \<Rightarrow> (None, f)
        | (Some base, f) \<Rightarrow> (Some (Clean (Join2 base path)), f))"

definition resolvePathAt :: "proc_links \<Rightarrow> event \<Rightarrow> nat \<Rightarrow> pathFilter \<Rightarrow> gostring option \<times> pathFilter" where
  "resolvePathAt rl ev argIndex f =
     (case eventTracePathAt ev (int argIndex) of
        None \<Rightarrow> (None, f)
      | Some path \<Rightarrow> resolvePath rl ev argIndex path f)"

section \<open>What an event lets through\<close>

definition matchesPathAt :: "proc_links \<Rightarrow> event \<Rightarrow> nat \<Rightarrow> pathFilter \<Rightarrow> bool \<times> pathFilter" where
  "matchesPathAt rl ev argIndex f =
     (case resolvePathAt rl ev argIndex f of
        (None, f) \<Rightarrow> (False, f)
      | (Some path, f) \<Rightarrow> (path \<in> paths f, f))"

text \<open>\<open>a || b\<close>: the second is not evaluated when the first holds.\<close>

definition matches_either :: "proc_links \<Rightarrow> event \<Rightarrow> nat \<Rightarrow> nat \<Rightarrow> pathFilter \<Rightarrow> bool \<times> pathFilter" where
  "matches_either rl ev i j f =
     (case matchesPathAt rl ev i f of
        (True, f) \<Rightarrow> (True, f)
      | (False, f) \<Rightarrow> matchesPathAt rl ev j f)"

definition matchesPath :: "proc_links \<Rightarrow> event \<Rightarrow> pathFilter \<Rightarrow> bool \<times> pathFilter" where
  "matchesPath rl ev f =
     (let nr = ev_syscall_id ev in
      if nr = NR_open then matchesPathAt rl ev 0 f
      else if nr \<in> {NR_openat, NR_openat2, NR_newfstatat, NR_faccessat, NR_statx, NR_faccessat2}
      then matchesPathAt rl ev 1 f
      else if nr \<in> {NR_access, NR_newstat, NR_newlstat, NR_chdir, NR_unlink} then matchesPathAt rl ev 0 f
      else if nr = NR_rename then matches_either rl ev 0 1 f
      else if nr = NR_unlinkat then matchesPathAt rl ev 1 f
      else if nr \<in> {NR_renameat, NR_renameat2} then matches_either rl ev 1 3 f
      else (False, f))"

definition hasTrackedFDArg :: "event \<Rightarrow> pathFilter \<Rightarrow> bool" where
  "hasTrackedFDArg ev f =
     list_ex (\<lambda>i. ev_arg_types ev ! i = ARG_FD \<and> fdTracked (ev_pid ev) (normalizeTrackedFD (ev_args ev ! i)) f)
       [0..<min (unat (ev_arg_count ev)) (length (ev_arg_types ev))]"

definition argTracked :: "event \<Rightarrow> nat \<Rightarrow> pathFilter \<Rightarrow> bool" where
  "argTracked ev idx f =
     (if unat (ev_arg_count ev) \<le> idx \<or> length (ev_arg_types ev) \<le> idx then False
      else if ev_arg_types ev ! idx \<noteq> ARG_FD then False
      else fdTracked (ev_pid ev) (normalizeTrackedFD (ev_args ev ! idx)) f)"

definition userAllows :: "s64 \<Rightarrow> pathFilter \<Rightarrow> bool" where
  "userAllows syscallID f = (if userTraceAll f then True else syscallID \<in> userTraceIDs f)"

definition shouldPrint :: "proc_links \<Rightarrow> event \<Rightarrow> pathFilter \<Rightarrow> bool \<times> pathFilter" where
  "shouldPrint rl ev f =
     (if \<not> userAllows (ev_syscall_id ev) f then (False, f)
      else
        case matchesPath rl ev f of
          (True, f) \<Rightarrow> (True, f)
        | (False, f) \<Rightarrow> (hasTrackedFDArg ev f, f))"

section \<open>What an event teaches\<close>

definition processCloneChildPID :: "event \<Rightarrow> u32 option" where
  "processCloneChildPID ev =
     (if sint (ev_ret ev) \<le> 0 \<or> \<not> eventCreatesProcess ev then None else Some (ucast (ev_ret ev)))"

definition observeProcessClone :: "event \<Rightarrow> pathFilter \<Rightarrow> pathFilter" where
  "observeProcessClone ev f =
     (case processCloneChildPID ev of
        None \<Rightarrow> f
      | Some childPID \<Rightarrow> observeForkChild (ev_pid ev) childPID f)"

definition observeOpen :: "proc_links \<Rightarrow> event \<Rightarrow> nat \<Rightarrow> pathFilter \<Rightarrow> pathFilter" where
  "observeOpen rl ev pathArgIndex f =
     (if sint (ev_ret ev) < 0 then f
      else
        case resolvePathAt rl ev pathArgIndex f of
          (None, f) \<Rightarrow> f
        | (Some path, f) \<Rightarrow>
            syncTrackedFD (ev_pid ev) (ev_ret ev) path (setFDPath (ev_pid ev) (ev_ret ev) path f))"

definition observeDupRet :: "event \<Rightarrow> nat \<Rightarrow> pathFilter \<Rightarrow> pathFilter" where
  "observeDupRet ev srcIndex f =
     (if sint (ev_ret ev) < 0 \<or> unat (ev_arg_count ev) \<le> srcIndex then f
      else
        let srcFD = normalizeTrackedFD (ev_args ev ! srcIndex);
            f = (case fdPath (ev_pid ev) srcFD f of
                   None \<Rightarrow> f
                 | Some path \<Rightarrow>
                     syncTrackedFD (ev_pid ev) (ev_ret ev) path (setFDPath (ev_pid ev) (ev_ret ev) path f))
        in if \<not> argTracked ev srcIndex f then f else trackFD (ev_pid ev) (ev_ret ev) f)"

definition observeDupPair :: "event \<Rightarrow> pathFilter \<Rightarrow> pathFilter" where
  "observeDupPair ev f =
     (if ev_arg_count ev < 2 \<or> sint (ev_ret ev) < 0 then f
      else
        let pid = ev_pid ev;
            oldfd = normalizeTrackedFD (ev_args ev ! 0);
            newfd = normalizeTrackedFD (ev_args ev ! 1);
            f = (case fdPath pid oldfd f of
                   Some path \<Rightarrow> syncTrackedFD pid newfd path (setFDPath pid newfd path f)
                 | None \<Rightarrow> untrackFD pid newfd (unsetFDPath pid newfd f))
        in if fdTracked pid oldfd f then trackFD pid newfd f else untrackFD pid newfd f)"

definition observeFcntl :: "event \<Rightarrow> pathFilter \<Rightarrow> pathFilter" where
  "observeFcntl ev f =
     (if ev_arg_count ev < 2 \<or> sint (ev_ret ev) < 0 \<or> \<not> argTracked ev 0 f then f
      else
        let cmd = sint (ev_args ev ! 1) in
        if cmd \<noteq> F_DUPFD \<and> cmd \<noteq> F_DUPFD_CLOEXEC then f
        else
          let pid = ev_pid ev;
              f = (case fdPath pid (normalizeTrackedFD (ev_args ev ! 0)) f of
                     None \<Rightarrow> f
                   | Some path \<Rightarrow> syncTrackedFD pid (ev_ret ev) path (setFDPath pid (ev_ret ev) path f))
          in trackFD pid (ev_ret ev) f)"

definition observeClose :: "event \<Rightarrow> pathFilter \<Rightarrow> pathFilter" where
  "observeClose ev f =
     (if sint (ev_ret ev) < 0 \<or> ev_arg_count ev < 1 then f
      else
        let fd = normalizeTrackedFD (ev_args ev ! 0)
        in unsetFDPath (ev_pid ev) fd (untrackFD (ev_pid ev) fd f))"

definition observeChdir :: "proc_links \<Rightarrow> event \<Rightarrow> pathFilter \<Rightarrow> pathFilter" where
  "observeChdir rl ev f =
     (if sint (ev_ret ev) < 0 then f
      else
        case resolvePathAt rl ev 0 f of
          (None, f) \<Rightarrow> f
        | (Some path, f) \<Rightarrow> stateForPID_update (ev_pid ev) (\<lambda>s. s\<lparr>cwd := path\<rparr>) f)"

definition observeFchdir :: "event \<Rightarrow> pathFilter \<Rightarrow> pathFilter" where
  "observeFchdir ev f =
     (if sint (ev_ret ev) < 0 \<or> ev_arg_count ev < 1 then f
      else
        case fdPath (ev_pid ev) (normalizeTrackedFD (ev_args ev ! 0)) f of
          None \<Rightarrow> f
        | Some path \<Rightarrow> stateForPID_update (ev_pid ev) (\<lambda>s. s\<lparr>cwd := path\<rparr>) f)"

definition observeRename :: "proc_links \<Rightarrow> event \<Rightarrow> nat \<Rightarrow> nat \<Rightarrow> pathFilter \<Rightarrow> pathFilter" where
  "observeRename rl ev oldIndex newIndex f =
     (if sint (ev_ret ev) < 0 then f
      else
        case resolvePathAt rl ev oldIndex f of
          (None, f) \<Rightarrow> f
        | (Some oldPath, f) \<Rightarrow>
            (case resolvePathAt rl ev newIndex f of
               (None, f) \<Rightarrow> f
             | (Some newPath, f) \<Rightarrow> rewritePIDPaths (ev_pid ev) oldPath newPath f))"

definition observeUnlink :: "proc_links \<Rightarrow> event \<Rightarrow> nat \<Rightarrow> pathFilter \<Rightarrow> pathFilter" where
  "observeUnlink rl ev pathIndex f =
     (if sint (ev_ret ev) < 0 then f
      else
        case resolvePathAt rl ev pathIndex f of
          (None, f) \<Rightarrow> f
        | (Some path, f) \<Rightarrow> dropPIDPaths (ev_pid ev) path f)"

definition observe :: "proc_links \<Rightarrow> event \<Rightarrow> pathFilter \<Rightarrow> pathFilter" where
  "observe rl ev f =
     (let f = observeProcessClone ev f; nr = ev_syscall_id ev in
      if nr = NR_open then observeOpen rl ev 0 f
      else if nr = NR_openat then observeOpen rl ev 1 f
      else if nr = NR_openat2 then observeOpen rl ev 1 f
      else if nr = NR_dup then observeDupRet ev 0 f
      else if nr = NR_dup2 \<or> nr = NR_dup3 then observeDupPair ev f
      else if nr = NR_fcntl then observeFcntl ev f
      else if nr = NR_close then observeClose ev f
      else if nr = NR_chdir then observeChdir rl ev f
      else if nr = NR_fchdir then observeFchdir ev f
      else if nr = NR_rename then observeRename rl ev 0 1 f
      else if nr = NR_renameat \<or> nr = NR_renameat2 then observeRename rl ev 1 3 f
      else if nr = NR_unlink then observeUnlink rl ev 0 f
      else if nr = NR_unlinkat then observeUnlink rl ev 1 f
      else f)"

definition shouldOutput :: "proc_links \<Rightarrow> event \<Rightarrow> pathFilter \<Rightarrow> bool \<times> pathFilter" where
  "shouldOutput rl ev f =
     (if \<not> pathFilterMode f then (True, f)
      else
        case shouldPrint rl ev f of (printed, f) \<Rightarrow> (printed, observe rl ev f))"

end
