(* ===== verification/Path_State.thy ===== *)
theory Path_State
  imports Path_Filter
begin

text \<open>
  The path filter's state, seen through \<open>state\<close>: a process without an entry is one
  with an empty state, so creating and dropping entries does not show. Every method's
  effect on this view, and the invariant: the tracked descriptors of a process are
  exactly those whose path is requested, and all paths are clean and absolute.
\<close>

section \<open>The view\<close>

definition state :: "pathFilter \<Rightarrow> u32 \<Rightarrow> processPathState" where
  "state f pid = (case stateByPID f pid of None \<Rightarrow> empty_state | Some s \<Rightarrow> s)"

lemma empty_state_simps [simp]:
  "cwd empty_state = []" "trackedFDs empty_state = {}" "fdPaths empty_state = []"
  by (simp_all add: empty_state_def)

lemma empty_stateI: "cwd s = [] \<Longrightarrow> trackedFDs s = {} \<Longrightarrow> fdPaths s = [] \<Longrightarrow> s = empty_state"
  by (simp add: empty_state_def)

lemma state_update: "state (stateForPID_update pid g f) = (state f)(pid := g (state f pid))"
  by (auto simp: state_def stateForPID_update_def fun_eq_iff)

lemma state_drop: "state (maybeDropPIDState pid f) = state f"
  by (auto simp: state_def maybeDropPIDState_def fun_eq_iff empty_stateI split: option.split)

lemma state_track:
  "state (trackFD pid fd f) =
     (state f)(pid := (state f pid)\<lparr>trackedFDs := insert fd (trackedFDs (state f pid))\<rparr>)"
  by (simp add: trackFD_def state_update)

lemma state_untrack:
  "state (untrackFD pid fd f) =
     (state f)(pid := (state f pid)\<lparr>trackedFDs := trackedFDs (state f pid) - {fd}\<rparr>)"
  unfolding untrackFD_def
  by (auto simp: state_drop split: option.split) (auto simp: state_def fun_eq_iff split: option.split)

lemma state_set_path:
  "state (setFDPath pid fd path f) =
     (state f)(pid := (state f pid)\<lparr>fdPaths := AList.update fd path (fdPaths (state f pid))\<rparr>)"
  by (simp add: setFDPath_def state_update)

lemma state_unset_path:
  "state (unsetFDPath pid fd f) =
     (state f)(pid := (state f pid)\<lparr>fdPaths := AList.delete fd (fdPaths (state f pid))\<rparr>)"
  unfolding unsetFDPath_def
  by (auto simp: state_drop split: option.split) (auto simp: state_def fun_eq_iff split: option.split)

lemma state_fork: "state (observeForkChild p c f) = (state f)(c := state f p)"
  by (auto simp: observeForkChild_def cloneProcessPathState_def state_def fun_eq_iff empty_stateI
      split: option.split)

lemma fdTracked_state: "fdTracked pid fd f \<longleftrightarrow> fd \<in> trackedFDs (state f pid)"
  by (simp add: fdTracked_def state_def split: option.split)

lemma fdPath_state: "fdPath pid fd f = map_of (fdPaths (state f pid)) fd"
  by (simp add: fdPath_def state_def split: option.split)

lemma cwdForPID_state:
  "cwdForPID rl pid f =
     (if cwd (state f pid) \<noteq> [] then (Some (cwd (state f pid)), f)
      else case rl pid of
             None \<Rightarrow> (None, f)
           | Some link \<Rightarrow> (Some (Clean link), stateForPID_update pid (\<lambda>s. s\<lparr>cwd := Clean link\<rparr>) f))"
  by (auto simp: cwdForPID_def state_def split: option.split)

lemmas state_simps =
  state_update state_drop state_track state_untrack state_set_path state_unset_path state_fork
  fdTracked_state fdPath_state

text \<open>What no method changes.\<close>

definition config :: "pathFilter \<Rightarrow> gostring set \<times> s64 set \<times> bool \<times> bool" where
  "config f = (paths f, userTraceIDs f, userTraceAll f, pathFilterMode f)"

lemma config_simps [simp]:
  "config (stateForPID_update pid g f) = config f" "config (maybeDropPIDState pid f) = config f"
  "config (trackFD pid fd f) = config f" "config (untrackFD pid fd f) = config f"
  "config (setFDPath pid fd path f) = config f" "config (unsetFDPath pid fd f) = config f"
  "config (observeForkChild p c f) = config f" "config (syncTrackedFD pid fd path f) = config f"
  by (simp_all add: config_def stateForPID_update_def maybeDropPIDState_def trackFD_def untrackFD_def
      setFDPath_def unsetFDPath_def observeForkChild_def syncTrackedFD_def split: option.split)

lemma config_paths: "config f' = config f \<Longrightarrow> paths f' = paths f"
  by (simp add: config_def)

section \<open>The invariant\<close>

definition clean_path :: "gostring \<Rightarrow> bool" where
  "clean_path p \<longleftrightarrow> (\<exists>ns. p = root ns \<and> list_all name_ok ns)"

definition proc_ok :: "gostring set \<Rightarrow> processPathState \<Rightarrow> bool" where
  "proc_ok P s \<longleftrightarrow>
     (cwd s = [] \<or> clean_path (cwd s)) \<and> distinct (map fst (fdPaths s)) \<and>
     (\<forall>fd p. map_of (fdPaths s) fd = Some p \<longrightarrow> clean_path p) \<and>
     (\<forall>fd. fd \<in> trackedFDs s \<longleftrightarrow> (\<exists>p. map_of (fdPaths s) fd = Some p \<and> p \<in> P))"

definition filter_ok :: "pathFilter \<Rightarrow> bool" where
  "filter_ok f \<longleftrightarrow> (\<forall>p \<in> paths f. clean_path p) \<and> (\<forall>pid. proc_ok (paths f) (state f pid))"

lemma filter_okD: "filter_ok f \<Longrightarrow> proc_ok (paths f) (state f pid)"
  by (simp add: filter_ok_def)

lemma filter_ok_update:
  assumes "filter_ok f" and "config f' = config f" and "state f' = (state f)(pid := s)" and "proc_ok (paths f) s"
  shows "filter_ok f'"
  using assms config_paths [OF assms(2)] by (simp add: filter_ok_def)

lemma proc_ok_assign:
  assumes "proc_ok P s" and "clean_path p"
  shows "proc_ok P (s\<lparr>fdPaths := AList.update fd p (fdPaths s),
    trackedFDs := (if p \<in> P then insert fd (trackedFDs s) else trackedFDs s - {fd})\<rparr>)"
  using assms by (auto simp: proc_ok_def AList.update_conv' distinct_update)

lemma proc_ok_forget:
  assumes "proc_ok P s"
  shows "proc_ok P (s\<lparr>fdPaths := AList.delete fd (fdPaths s), trackedFDs := trackedFDs s - {fd}\<rparr>)"
  using assms by (auto simp: proc_ok_def AList.delete_conv' distinct_delete split: if_splits)

lemma proc_ok_cwd: "proc_ok P s \<Longrightarrow> clean_path p \<Longrightarrow> proc_ok P (s\<lparr>cwd := p\<rparr>)"
  by (simp add: proc_ok_def)

text \<open>An assignment of a path to a descriptor, with its tracking; a descriptor forgotten.\<close>

definition assign :: "u32 \<Rightarrow> u64 \<Rightarrow> gostring \<Rightarrow> pathFilter \<Rightarrow> pathFilter" where
  "assign pid fd p f = syncTrackedFD pid fd p (setFDPath pid fd p f)"

lemma assign_config [simp]: "config (assign pid fd p f) = config f"
  by (simp add: assign_def)

lemma state_assign:
  "state (assign pid fd p f) = (state f)(pid := (state f pid)
     \<lparr>fdPaths := AList.update fd p (fdPaths (state f pid)),
      trackedFDs := (if p \<in> paths f then insert fd (trackedFDs (state f pid))
                     else trackedFDs (state f pid) - {fd})\<rparr>)"
  using config_paths [of "setFDPath pid fd p f" f]
  by (simp add: assign_def syncTrackedFD_def state_simps)

lemma filter_ok_assign: "filter_ok f \<Longrightarrow> clean_path p \<Longrightarrow> filter_ok (assign pid fd p f)"
  by (rule filter_ok_update [OF _ assign_config state_assign proc_ok_assign]) (simp_all add: filter_okD)

section \<open>Clean paths\<close>

lemma clean_path_root: "list_all name_ok ns \<Longrightarrow> clean_path (root ns)"
  by (auto simp: clean_path_def)

lemma clean_path_Clean [simp]: "clean_path p \<Longrightarrow> Clean p = p"
  by (auto simp: clean_path_def Clean_root)

lemma clean_path_not_empty: "clean_path p \<Longrightarrow> p \<noteq> []"
  by (auto simp: clean_path_def root_def)

definition names_of :: "gostring \<Rightarrow> gostring list" where
  "names_of p = walk [] (split_slash p)"

lemma names_of_root [simp]: "list_all name_ok ns \<Longrightarrow> names_of (root ns) = ns"
  by (simp add: names_of_def split_root)

lemma clean_path_names: "clean_path p \<Longrightarrow> root (names_of p) = p \<and> list_all name_ok (names_of p)"
  by (auto simp: clean_path_def)

lemma names_of_inj: "clean_path p \<Longrightarrow> clean_path q \<Longrightarrow> names_of p = names_of q \<longleftrightarrow> p = q"
  using clean_path_names by metis

lemma clean_path_walk: "list_all name_ok ns \<Longrightarrow> clean_path (root (walk ns (split_slash p)))"
  using walk_names [of ns "split_slash p"] split_no_slash clean_path_root by blast

lemma clean_path_abs: "IsAbs p \<Longrightarrow> clean_path (Clean p)"
  using Clean_abs_names by (auto simp: clean_path_def)

text \<open>A rename, on names.\<close>

definition relocate :: "gostring list \<Rightarrow> gostring list \<Rightarrow> gostring list \<Rightarrow> gostring list" where
  "relocate old new p =
     (if p = old then new
      else if old \<noteq> [] \<and> take (length old) p = old then new @ drop (length old) p
      else p)"

lemma relocate_ok:
  "list_all name_ok new \<Longrightarrow> list_all name_ok p \<Longrightarrow> list_all name_ok (relocate old new p)"
  by (auto simp: relocate_def list_all_iff dest: in_set_dropD)

lemma join_not_slash: "list_all name_ok ns \<Longrightarrow> ns \<noteq> [] \<Longrightarrow> join_slash ns \<noteq> [] \<and> hd (join_slash ns) \<noteq> Separator"
  by (cases ns rule: join_slash.cases) (auto simp: name_ok_def neq_Nil_conv)

lemma root_no_prefix:
  assumes "list_all name_ok p" and "list_all name_ok old" and "p \<noteq> old"
    and "\<not> (old \<noteq> [] \<and> take (length old) p = old)"
  shows "root p \<noteq> root old @ Separator # rest"
proof (cases "old = []")
  case True
  then have "p \<noteq> []" using assms(3) by simp
  from join_not_slash [OF assms(1) this] show ?thesis by (auto simp: root_def True)
next
  case False
  then show ?thesis using root_prefix [OF assms(1,2) False] assms(4) by auto
qed

lemma rewrite_names:
  assumes "list_all name_ok p" and "list_all name_ok old" and "list_all name_ok new"
  shows "rewritePathPrefix (root p) (root old) (root new) =
    (root (relocate old new p), p = old \<or> old \<noteq> [] \<and> take (length old) p = old)"
proof -
  let ?pre = "root old @ [Separator]"
  have unf: "rewritePathPrefix (root p) (root old) (root new) =
      (if root p = root old then (root new, True)
       else if length (root p) \<le> length ?pre \<or> take (length ?pre) (root p) \<noteq> ?pre then (root p, False)
       else (Join2 (root new) (drop (length ?pre) (root p)), True))"
    by (simp add: rewritePathPrefix_def Clean_root [OF assms(1)] Clean_root [OF assms(2)]
        Clean_root [OF assms(3)] Let_def)
  have split: "path = pre @ drop (length pre) path" if "take (length pre) path = pre" for pre path :: gostring
    using that by (metis append_take_drop_id)
  consider (same) "p = old" | (inside) "p \<noteq> old" "old \<noteq> []" "take (length old) p = old"
    | (outside) "p \<noteq> old" "\<not> (old \<noteq> [] \<and> take (length old) p = old)" by blast
  then show ?thesis
  proof cases
    case same
    with unf show ?thesis by (simp add: relocate_def)
  next
    case inside
    define r where "r = drop (length old) p"
    have p: "p = old @ r" using inside(3) by (metis append_take_drop_id r_def)
    then have r: "r \<noteq> []" "list_all name_ok r" using inside(1) assms(1) by auto
    have path: "root p = (root old @ [Separator]) @ join_slash r"
      using join_append [OF inside(2) r(1)] by (simp add: p root_def)
    have "walk new (split_slash (join_slash r)) = new @ r"
      using split_join [OF r(1)] walk_down [OF r(2), of new] r(2) by (auto simp: list_all_iff name_ok_def)
    then have "Join2 (root new) (join_slash r) = root (new @ r)" by (simp add: Join2_root [OF assms(3)])
    moreover have "root p \<noteq> root old" using root_eq_iff [OF assms(1,2)] inside(1) by simp
    moreover have "relocate old new p = new @ r" using inside by (simp add: relocate_def r_def)
    ultimately show ?thesis
      using inside join_not_slash [OF r(2,1)] by (subst unf) (simp add: path)
  next
    case outside
    have "take (length (root old @ [Separator])) (root p) \<noteq> root old @ [Separator]"
      using split [of "root old @ [Separator]" "root p"] root_no_prefix [OF assms(1,2) outside]
      by (metis append.assoc append_Cons append_Nil)
    moreover have "root p \<noteq> root old" using root_eq_iff [OF assms(1,2)] outside(1) by simp
    ultimately show ?thesis
      using outside by (auto simp: unf relocate_def)
  qed
qed

section \<open>The loops\<close>

text \<open>A rename over all descriptors, in the order of the list; the order does not show in the paths.\<close>

lemma rewrite_clean:
  assumes "clean_path p" and "clean_path old" and "clean_path new"
  obtains "rewritePathPrefix p old new = (root (relocate (names_of old) (names_of new) (names_of p)), True)"
  | "rewritePathPrefix p old new = (p, False)" and "relocate (names_of old) (names_of new) (names_of p) = names_of p"
proof -
  note names = clean_path_names [OF assms(1)] clean_path_names [OF assms(2)] clean_path_names [OF assms(3)]
  have "rewritePathPrefix p old new = (root (relocate (names_of old) (names_of new) (names_of p)),
      names_of p = names_of old \<or> names_of old \<noteq> [] \<and> take (length (names_of old)) (names_of p) = names_of old)"
    using rewrite_names [of "names_of p" "names_of old" "names_of new"] names by simp
  moreover have "relocate (names_of old) (names_of new) (names_of p) = names_of p"
    if "\<not> (names_of p = names_of old \<or> names_of old \<noteq> [] \<and> take (length (names_of old)) (names_of p) = names_of old)"
    using that by (auto simp: relocate_def)
  ultimately show thesis using that names by (smt (verit, best))
qed

definition moved :: "gostring \<Rightarrow> gostring \<Rightarrow> gostring \<Rightarrow> gostring" where
  "moved old new p = root (relocate (names_of old) (names_of new) (names_of p))"

lemma moved_clean: "clean_path new \<Longrightarrow> clean_path p \<Longrightarrow> clean_path (moved old new p)"
  using clean_path_names relocate_ok clean_path_root by (simp add: moved_def)

lemma rewrite_loop_step:
  assumes "clean_path p" and "clean_path old" and "clean_path new"
  shows "rewrite_loop pid old new ((fd, p) # es) f =
    rewrite_loop pid old new es f \<and> moved old new p = p \<or>
    rewrite_loop pid old new ((fd, p) # es) f =
    rewrite_loop pid old new es (assign pid fd (moved old new p) f)"
  using rewrite_clean [OF assms] clean_path_names [OF assms(1)]
  by (cases rule: rewrite_clean [OF assms]) (auto simp: assign_def moved_def)

lemma rewrite_loop_result:
  assumes "filter_ok f" and "clean_path old" and "clean_path new"
    and "distinct (map fst es)" and "\<And>fd p. (fd, p) \<in> set es \<Longrightarrow> map_of (fdPaths (state f pid)) fd = Some p"
  shows "filter_ok (rewrite_loop pid old new es f) \<and> config (rewrite_loop pid old new es f) = config f \<and>
    (\<forall>q. q \<noteq> pid \<longrightarrow> state (rewrite_loop pid old new es f) q = state f q) \<and>
    cwd (state (rewrite_loop pid old new es f) pid) = cwd (state f pid) \<and>
    map_of (fdPaths (state (rewrite_loop pid old new es f) pid)) =
      (\<lambda>fd. if fd \<in> fst ` set es then map_option (moved old new) (map_of (fdPaths (state f pid)) fd)
            else map_of (fdPaths (state f pid)) fd)"
  using assms
proof (induction es arbitrary: f)
  case (Cons e es)
  obtain fd p where e [simp]: "e = (fd, p)" by force
  have cur: "map_of (fdPaths (state f pid)) fd = Some p" by (rule Cons.prems(5)) simp
  then have p: "clean_path p"
    using filter_okD [OF Cons.prems(1), of pid] by (auto simp: proc_ok_def)
  have fresh: "fd \<notin> fst ` set es" "distinct (map fst es)" using Cons.prems(4) by auto
  have rest: "map_of (fdPaths (state f pid)) fd' = Some p'" if "(fd', p') \<in> set es" for fd' p'
    using Cons.prems(5) [of fd' p'] that by simp
  from rewrite_loop_step [OF p Cons.prems(2,3), of pid fd es f] show ?case
  proof (elim disjE conjE)
    assume same: "rewrite_loop pid old new ((fd, p) # es) f = rewrite_loop pid old new es f" "moved old new p = p"
    show ?thesis
      using Cons.IH [OF Cons.prems(1-3) fresh(2) rest] same cur fresh(1) by (auto simp: fun_eq_iff)
  next
    let ?f = "assign pid fd (moved old new p) f"
    assume step: "rewrite_loop pid old new ((fd, p) # es) f = rewrite_loop pid old new es ?f"
    have ok: "filter_ok ?f" by (rule filter_ok_assign [OF Cons.prems(1) moved_clean [OF Cons.prems(3) p]])
    have map: "map_of (fdPaths (state ?f pid)) = (map_of (fdPaths (state f pid)))(fd \<mapsto> moved old new p)"
      by (simp add: state_assign AList.update_conv')
    have rest': "map_of (fdPaths (state ?f pid)) fd' = Some p'" if "(fd', p') \<in> set es" for fd' p'
      using rest [OF that] that fresh(1) by (auto simp: map) (metis fst_conv image_eqI)
    show ?thesis
      using Cons.IH [OF ok Cons.prems(2,3) fresh(2) rest'] step cur fresh(1)
      by (auto simp: fun_eq_iff map) (auto simp: state_assign)
  qed
qed simp

text \<open>An unlink over all descriptors.\<close>

definition forget :: "u32 \<Rightarrow> u64 \<Rightarrow> pathFilter \<Rightarrow> pathFilter" where
  "forget pid fd f =
     stateForPID_update pid (\<lambda>s. s\<lparr>fdPaths := AList.delete fd (fdPaths s)\<rparr>) (untrackFD pid fd f)"

lemma forget_config [simp]: "config (forget pid fd f) = config f"
  by (simp add: forget_def)

lemma state_forget:
  "state (forget pid fd f) = (state f)(pid := (state f pid)
     \<lparr>fdPaths := AList.delete fd (fdPaths (state f pid)), trackedFDs := trackedFDs (state f pid) - {fd}\<rparr>)"
  by (cases "state f pid") (simp add: forget_def state_simps)

lemma filter_ok_forget: "filter_ok f \<Longrightarrow> filter_ok (forget pid fd f)"
  by (rule filter_ok_update [OF _ forget_config state_forget proc_ok_forget]) (simp_all add: filter_okD)

lemma drop_loop_result:
  assumes "filter_ok f" and "distinct (map fst es)"
    and "\<And>fd p. (fd, p) \<in> set es \<Longrightarrow> map_of (fdPaths (state f pid)) fd = Some p"
  shows "filter_ok (drop_loop pid target es f) \<and> config (drop_loop pid target es f) = config f \<and>
    (\<forall>q. q \<noteq> pid \<longrightarrow> state (drop_loop pid target es f) q = state f q) \<and>
    cwd (state (drop_loop pid target es f) pid) = cwd (state f pid) \<and>
    map_of (fdPaths (state (drop_loop pid target es f) pid)) =
      (\<lambda>fd. if fd \<in> fst ` set es \<and> map_of (fdPaths (state f pid)) fd = Some target then None
            else map_of (fdPaths (state f pid)) fd)"
  using assms
proof (induction es arbitrary: f)
  case (Cons e es)
  obtain fd p where e [simp]: "e = (fd, p)" by force
  have cur: "map_of (fdPaths (state f pid)) fd = Some p" by (rule Cons.prems(3)) simp
  have fresh: "fd \<notin> fst ` set es" "distinct (map fst es)" using Cons.prems(2) by auto
  have rest: "map_of (fdPaths (state f pid)) fd' = Some p'" if "(fd', p') \<in> set es" for fd' p'
    using Cons.prems(3) [of fd' p'] that by simp
  show ?case
  proof (cases "p = target")
    case False
    then show ?thesis
      using Cons.IH [OF Cons.prems(1) fresh(2) rest] cur fresh(1) by (auto simp: fun_eq_iff)
  next
    case True
    have map: "map_of (fdPaths (state (forget pid fd f) pid)) = (map_of (fdPaths (state f pid)))(fd := None)"
      by (simp add: state_forget AList.delete_conv')
    have rest': "map_of (fdPaths (state (forget pid fd f) pid)) fd' = Some p'" if "(fd', p') \<in> set es" for fd' p'
      using rest [OF that] that fresh(1) by (auto simp: map) (metis fst_conv image_eqI)
    have step: "drop_loop pid target ((fd, p) # es) f = drop_loop pid target es (forget pid fd f)"
      using True by (simp add: forget_def)
    show ?thesis
      using Cons.IH [OF filter_ok_forget [OF Cons.prems(1)] fresh(2) rest'] step cur True fresh(1)
      by (auto simp: fun_eq_iff map) (auto simp: state_forget)
  qed
qed simp

text \<open>The two loops run over the whole list of the process's descriptors.\<close>

lemma whole_list:
  assumes "filter_ok f"
  shows "distinct (map fst (fdPaths (state f pid)))"
    and "(fd, p) \<in> set (fdPaths (state f pid)) \<Longrightarrow> map_of (fdPaths (state f pid)) fd = Some p"
    and "fd \<in> fst ` set (fdPaths (state f pid)) \<longleftrightarrow> map_of (fdPaths (state f pid)) fd \<noteq> None"
  using filter_okD [OF assms, of pid] by (auto simp: proc_ok_def dom_map_of_conv_image_fst [symmetric])

lemma dropPIDPaths_result:
  assumes "filter_ok f"
  shows "filter_ok (dropPIDPaths pid target f) \<and> config (dropPIDPaths pid target f) = config f \<and>
    (\<forall>q. q \<noteq> pid \<longrightarrow> state (dropPIDPaths pid target f) q = state f q) \<and>
    cwd (state (dropPIDPaths pid target f) pid) = cwd (state f pid) \<and>
    map_of (fdPaths (state (dropPIDPaths pid target f) pid)) =
      (\<lambda>fd. if map_of (fdPaths (state f pid)) fd = Some target then None
            else map_of (fdPaths (state f pid)) fd)"
proof (cases "fdPaths (state f pid) = []")
  case True
  then have "dropPIDPaths pid target f = f"
    by (auto simp: dropPIDPaths_def state_def split: option.splits)
  then show ?thesis using assms True by simp
next
  case False
  then have eq: "dropPIDPaths pid target f = maybeDropPIDState pid (drop_loop pid target (fdPaths (state f pid)) f)"
    by (auto simp: dropPIDPaths_def state_def split: option.splits)
  have ok: "filter_ok (maybeDropPIDState pid g)" if "filter_ok g" for g
    using that config_paths [of "maybeDropPIDState pid g" g] by (simp add: filter_ok_def state_drop)
  have all: "(fd \<in> fst ` set (fdPaths (state f pid)) \<and> map_of (fdPaths (state f pid)) fd = Some target) \<longleftrightarrow>
      map_of (fdPaths (state f pid)) fd = Some target" for fd
    using whole_list(3) [OF assms, of fd pid] by auto
  note loop = drop_loop_result [OF assms whole_list(1) [OF assms, of pid], of pid target, unfolded all]
  have "(fd, p) \<in> set (fdPaths (state f pid)) \<Longrightarrow> map_of (fdPaths (state f pid)) fd = Some p" for fd p
    by (rule whole_list(2) [OF assms])
  from loop [OF this] show ?thesis unfolding eq by (simp add: ok state_drop)
qed

text \<open>A rename, on the working directory and on the descriptors.\<close>

lemma rename_cwd:
  assumes "filter_ok f" and "clean_path old" and "clean_path new"
    and "f' = (if cwd (state f pid) \<noteq> []
               then (let (rewritten, changed) = rewritePathPrefix (cwd (state f pid)) old new
                     in if changed then stateForPID_update pid (\<lambda>s. s\<lparr>cwd := rewritten\<rparr>) f else f)
               else f)"
  shows "filter_ok f' \<and> config f' = config f \<and> state f' = (state f)(pid := (state f pid)
    \<lparr>cwd := (if cwd (state f pid) = [] then [] else moved old new (cwd (state f pid)))\<rparr>)"
proof (cases "cwd (state f pid) = []")
  case True
  then show ?thesis using assms(1,4) by (auto simp: fun_eq_iff)
next
  case False
  then have c: "clean_path (cwd (state f pid))"
    using filter_okD [OF assms(1), of pid] by (simp add: proc_ok_def)
  show ?thesis
  proof (cases rule: rewrite_clean [OF c assms(2,3)])
    case 1
    then have f': "f' = stateForPID_update pid (\<lambda>s. s\<lparr>cwd := moved old new (cwd (state f pid))\<rparr>) f"
      using False assms(4) by (simp add: moved_def)
    have "filter_ok f'"
      unfolding f'
      by (rule filter_ok_update [OF assms(1) _ state_update])
        (simp_all add: proc_ok_cwd [OF filter_okD [OF assms(1)] moved_clean [OF assms(3) c]])
    then show ?thesis using False f' by (simp add: state_update)
  next
    case 2
    then have "f' = f" "moved old new (cwd (state f pid)) = cwd (state f pid)"
      using False assms(4) clean_path_names [OF c] by (simp_all add: moved_def)
    then show ?thesis using False assms(1) by (simp add: fun_eq_iff)
  qed
qed

lemma rewritePIDPaths_result:
  assumes "filter_ok f" and "clean_path old" and "clean_path new"
  shows "filter_ok (rewritePIDPaths pid old new f) \<and> config (rewritePIDPaths pid old new f) = config f \<and>
    (\<forall>q. q \<noteq> pid \<longrightarrow> state (rewritePIDPaths pid old new f) q = state f q) \<and>
    cwd (state (rewritePIDPaths pid old new f) pid) =
      (if cwd (state f pid) = [] then [] else moved old new (cwd (state f pid))) \<and>
    map_of (fdPaths (state (rewritePIDPaths pid old new f) pid)) =
      map_option (moved old new) \<circ> map_of (fdPaths (state f pid))"
proof (cases "stateByPID f pid")
  case None
  then have "state f pid = empty_state" "rewritePIDPaths pid old new f = f"
    by (simp_all add: state_def rewritePIDPaths_def)
  then show ?thesis using assms(1) by (simp add: comp_def)
next
  case (Some s)
  then have s: "s = state f pid" by (simp add: state_def)
  define f' where "f' = (if cwd (state f pid) \<noteq> []
    then (let (rewritten, changed) = rewritePathPrefix (cwd (state f pid)) old new
          in if changed then stateForPID_update pid (\<lambda>s. s\<lparr>cwd := rewritten\<rparr>) f else f) else f)"
  note cwd' = rename_cwd [OF assms f'_def]
  have eq: "rewritePIDPaths pid old new f = rewrite_loop pid old new (fdPaths (state f' pid)) f'"
    using Some cwd' by (simp add: rewritePIDPaths_def f'_def s Let_def)
  have ok: "filter_ok f'" using cwd' by blast
  have "(fd, p) \<in> set (fdPaths (state f' pid)) \<Longrightarrow> map_of (fdPaths (state f' pid)) fd = Some p" for fd p
    by (rule whole_list(2) [OF ok])
  note loop = rewrite_loop_result [OF ok assms(2,3) whole_list(1) [OF ok, of pid] this]
  have "(\<lambda>fd. if fd \<in> fst ` set (fdPaths (state f' pid)) then map_option (moved old new) (map_of (fdPaths (state f' pid)) fd)
      else map_of (fdPaths (state f' pid)) fd) = map_option (moved old new) \<circ> map_of (fdPaths (state f' pid))"
    using whole_list(3) [OF ok, of _ pid] by (auto simp: fun_eq_iff)
  with loop cwd' show ?thesis unfolding eq by simp
qed

end
