(* ===== verification/Path_Spec.thy ===== *)
theory Path_Spec
  imports Path_State
begin

text \<open>
  The abstract path filter: for every process, its working directory when it is known
  and the file each descriptor is open on, both as lists of names. There are no
  tracked descriptors, no strings to clean, no entries to create and drop and no
  iteration over maps. The methods of theory Path_Filter refine its operations.
\<close>

section \<open>The abstract filter\<close>

record proc =
  p_cwd :: "gostring list option"
  p_files :: "u64 \<rightharpoonup> gostring list"

type_synonym procs = "u32 \<Rightarrow> proc"

definition set_file :: "u32 \<Rightarrow> u64 \<Rightarrow> gostring list option \<Rightarrow> procs \<Rightarrow> procs" where
  "set_file pid fd p a = a(pid := (a pid)\<lparr>p_files := (p_files (a pid))(fd := p)\<rparr>)"

definition set_cwd :: "u32 \<Rightarrow> gostring list \<Rightarrow> procs \<Rightarrow> procs" where
  "set_cwd pid p a = a(pid := (a pid)\<lparr>p_cwd := Some p\<rparr>)"

definition spec_cwd :: "proc_links \<Rightarrow> u32 \<Rightarrow> procs \<Rightarrow> gostring list option \<times> procs" where
  "spec_cwd rl pid a =
     (case p_cwd (a pid) of
        Some p \<Rightarrow> (Some p, a)
      | None \<Rightarrow> (case rl pid of
                   None \<Rightarrow> (None, a)
                 | Some link \<Rightarrow> (Some (names_of link), set_cwd pid (names_of link) a)))"

text \<open>The file argument \<open>i\<close> is relative to: the working directory or a descriptor's file.\<close>

definition spec_base :: "proc_links \<Rightarrow> event \<Rightarrow> nat \<Rightarrow> procs \<Rightarrow> gostring list option \<times> procs" where
  "spec_base rl ev i a =
     (case pathBaseFDArgIndex (ev_syscall_id ev) i of
        None \<Rightarrow> spec_cwd rl (ev_pid ev) a
      | Some d \<Rightarrow>
          if d < 0 then spec_cwd rl (ev_pid ev) a
          else if int (unat (ev_arg_count ev)) \<le> d then (None, a)
          else
            let arg = ev_args ev ! nat d in
            if sint (ucast arg :: u32) = AT_FDCWD then spec_cwd rl (ev_pid ev) a
            else (p_files (a (ev_pid ev)) (normalizeTrackedFD arg), a))"

definition spec_resolve :: "proc_links \<Rightarrow> event \<Rightarrow> nat \<Rightarrow> procs \<Rightarrow> gostring list option \<times> procs" where
  "spec_resolve rl ev i a =
     (case eventTracePathAt ev (int i) of
        None \<Rightarrow> (None, a)
      | Some p \<Rightarrow>
          if p = [] then (None, a)
          else if IsAbs p then (Some (walk [] (split_slash p)), a)
          else case spec_base rl ev i a of
                 (None, a) \<Rightarrow> (None, a)
               | (Some base, a) \<Rightarrow> (Some (walk base (split_slash p)), a))"

text \<open>Whether one of the arguments \<open>is\<close> is a requested path, tried in turn.\<close>

fun spec_matches :: "proc_links \<Rightarrow> gostring list set \<Rightarrow> event \<Rightarrow> nat list \<Rightarrow> procs \<Rightarrow> bool \<times> procs" where
  "spec_matches rl R ev [] a = (False, a)"
| "spec_matches rl R ev (i # is') a =
     (case spec_resolve rl ev i a of
        (None, a) \<Rightarrow> spec_matches rl R ev is' a
      | (Some p, a) \<Rightarrow> if p \<in> R then (True, a) else spec_matches rl R ev is' a)"

definition spec_open_on :: "gostring list set \<Rightarrow> event \<Rightarrow> nat \<Rightarrow> procs \<Rightarrow> bool" where
  "spec_open_on R ev i a \<longleftrightarrow>
     i < unat (ev_arg_count ev) \<and> i < length (ev_arg_types ev) \<and> ev_arg_types ev ! i = ARG_FD \<and>
     (\<exists>p \<in> R. p_files (a (ev_pid ev)) (normalizeTrackedFD (ev_args ev ! i)) = Some p)"

text \<open>
  Whether the event is let through. The arguments looked at are exactly those the
  tracer captures as paths, \<open>path_args\<close>.
\<close>

definition spec_print ::
  "proc_links \<Rightarrow> gostring list set \<Rightarrow> (s64 \<Rightarrow> bool) \<Rightarrow> event \<Rightarrow> procs \<Rightarrow> bool \<times> procs" where
  "spec_print rl R allows ev a =
     (if \<not> allows (ev_syscall_id ev) then (False, a)
      else case spec_matches rl R ev (path_args (ev_syscall_id ev)) a of
             (True, a) \<Rightarrow> (True, a)
           | (False, a) \<Rightarrow> (\<exists>i. spec_open_on R ev i a, a))"

definition spec_opened :: "proc_links \<Rightarrow> event \<Rightarrow> nat \<Rightarrow> procs \<Rightarrow> procs" where
  "spec_opened rl ev i a =
     (case spec_resolve rl ev i a of
        (None, a) \<Rightarrow> a
      | (Some p, a) \<Rightarrow> set_file (ev_pid ev) (ev_ret ev) (Some p) a)"

definition spec_rename :: "proc_links \<Rightarrow> event \<Rightarrow> nat \<Rightarrow> nat \<Rightarrow> procs \<Rightarrow> procs" where
  "spec_rename rl ev i j a =
     (case spec_resolve rl ev i a of
        (None, a) \<Rightarrow> a
      | (Some old, a) \<Rightarrow>
          (case spec_resolve rl ev j a of
             (None, a) \<Rightarrow> a
           | (Some new, a) \<Rightarrow>
               a(ev_pid ev :=
                   \<lparr>p_cwd = map_option (relocate old new) (p_cwd (a (ev_pid ev))),
                    p_files = map_option (relocate old new) \<circ> p_files (a (ev_pid ev))\<rparr>)))"

definition spec_unlink :: "proc_links \<Rightarrow> event \<Rightarrow> nat \<Rightarrow> procs \<Rightarrow> procs" where
  "spec_unlink rl ev i a =
     (case spec_resolve rl ev i a of
        (None, a) \<Rightarrow> a
      | (Some p, a) \<Rightarrow>
          a(ev_pid ev := (a (ev_pid ev))
              \<lparr>p_files := (\<lambda>fd. if p_files (a (ev_pid ev)) fd = Some p then None
                               else p_files (a (ev_pid ev)) fd)\<rparr>))"

definition spec_chdir :: "proc_links \<Rightarrow> event \<Rightarrow> procs \<Rightarrow> procs" where
  "spec_chdir rl ev a =
     (case spec_resolve rl ev 0 a of (None, a) \<Rightarrow> a | (Some p, a) \<Rightarrow> set_cwd (ev_pid ev) p a)"

text \<open>The descriptor in argument \<open>i\<close>, and its file.\<close>

definition arg_fd :: "event \<Rightarrow> nat \<Rightarrow> u64" where
  "arg_fd ev i = normalizeTrackedFD (ev_args ev ! i)"

definition arg_file :: "event \<Rightarrow> nat \<Rightarrow> procs \<Rightarrow> gostring list option" where
  "arg_file ev i a = p_files (a (ev_pid ev)) (arg_fd ev i)"

definition spec_fork :: "event \<Rightarrow> procs \<Rightarrow> procs" where
  "spec_fork ev a =
     (if 0 < sint (ev_ret ev) \<and> eventCreatesProcess ev then a(ucast (ev_ret ev) := a (ev_pid ev)) else a)"

definition spec_observe :: "proc_links \<Rightarrow> gostring list set \<Rightarrow> event \<Rightarrow> procs \<Rightarrow> procs" where
  "spec_observe rl R ev a =
     (let a = spec_fork ev a; nr = ev_syscall_id ev; pid = ev_pid ev; argc = unat (ev_arg_count ev) in
      if sint (ev_ret ev) < 0 then a
      else if nr = NR_open then spec_opened rl ev 0 a
      else if nr = NR_openat \<or> nr = NR_openat2 then spec_opened rl ev 1 a
      else if nr = NR_dup
      then (if 1 \<le> argc \<and> arg_file ev 0 a \<noteq> None then set_file pid (ev_ret ev) (arg_file ev 0 a) a else a)
      else if nr = NR_dup2 \<or> nr = NR_dup3
      then (if 2 \<le> argc then set_file pid (arg_fd ev 1) (arg_file ev 0 a) a else a)
      else if nr = NR_fcntl
      then (if 2 \<le> argc \<and> spec_open_on R ev 0 a \<and> sint (ev_args ev ! 1) \<in> {F_DUPFD, F_DUPFD_CLOEXEC}
            then set_file pid (ev_ret ev) (arg_file ev 0 a) a else a)
      else if nr = NR_close then (if 1 \<le> argc then set_file pid (arg_fd ev 0) None a else a)
      else if nr = NR_chdir then spec_chdir rl ev a
      else if nr = NR_fchdir
      then (if 1 \<le> argc then (case arg_file ev 0 a of None \<Rightarrow> a | Some p \<Rightarrow> set_cwd pid p a) else a)
      else if nr = NR_rename then spec_rename rl ev 0 1 a
      else if nr = NR_renameat \<or> nr = NR_renameat2 then spec_rename rl ev 1 3 a
      else if nr = NR_unlink then spec_unlink rl ev 0 a
      else if nr = NR_unlinkat then spec_unlink rl ev 1 a
      else a)"

section \<open>The abstraction\<close>

definition abs_proc :: "processPathState \<Rightarrow> proc" where
  "abs_proc s =
     \<lparr>p_cwd = (if cwd s = [] then None else Some (names_of (cwd s))),
      p_files = map_option names_of \<circ> map_of (fdPaths s)\<rparr>"

definition abs_filter :: "pathFilter \<Rightarrow> procs" where
  "abs_filter f = abs_proc \<circ> state f"

definition requested :: "pathFilter \<Rightarrow> gostring list set" where
  "requested f = names_of ` paths f"

text \<open>The kernel's links to working directories are absolute.\<close>

definition links_ok :: "proc_links \<Rightarrow> bool" where
  "links_ok rl \<longleftrightarrow> (\<forall>pid link. rl pid = Some link \<longrightarrow> IsAbs link)"

lemma config_requested: "config f' = config f \<Longrightarrow> requested f' = requested f"
  using config_paths [of f' f] by (simp add: requested_def)

section \<open>Single entries\<close>

lemma abs_update:
  "state f' = (state f)(pid := s) \<Longrightarrow> abs_filter f' = (abs_filter f)(pid := abs_proc s)"
  by (auto simp: abs_filter_def fun_eq_iff)

lemma abs_filter_at: "abs_filter f pid = abs_proc (state f pid)"
  by (simp add: abs_filter_def)

lemma abs_proc_files:
  "map_of xs = (map_of (fdPaths s))(fd := q) \<Longrightarrow>
   abs_proc (s\<lparr>fdPaths := xs, trackedFDs := t\<rparr>) =
     (abs_proc s)\<lparr>p_files := (p_files (abs_proc s))(fd := map_option names_of q)\<rparr>"
  by (auto simp: abs_proc_def fun_eq_iff)

lemma abs_proc_cwd:
  "p \<noteq> [] \<Longrightarrow> abs_proc (s\<lparr>cwd := p\<rparr>) = (abs_proc s)\<lparr>p_cwd := Some (names_of p)\<rparr>"
  by (auto simp: abs_proc_def)

lemma abs_assign: "abs_filter (assign pid fd p f) = set_file pid fd (Some (names_of p)) (abs_filter f)"
  by (simp add: abs_update [OF state_assign] set_file_def abs_filter_at
      abs_proc_files [where q = "Some p"] AList.update_conv')

lemma abs_forget: "abs_filter (forget pid fd f) = set_file pid fd None (abs_filter f)"
  by (simp add: abs_update [OF state_forget] set_file_def abs_filter_at
      abs_proc_files [where q = None] AList.delete_conv')

lemma abs_cwd:
  "p \<noteq> [] \<Longrightarrow> abs_filter (stateForPID_update pid (\<lambda>s. s\<lparr>cwd := p\<rparr>) f) = set_cwd pid (names_of p) (abs_filter f)"
  by (simp add: abs_update [OF state_update] set_cwd_def abs_filter_at abs_proc_cwd)

lemma abs_fork: "abs_filter (observeForkChild p c f) = (abs_filter f)(c := abs_filter f p)"
  by (simp add: abs_update [OF state_fork] abs_filter_at)

lemma cwd_update_ok: "filter_ok f \<Longrightarrow> clean_path p \<Longrightarrow> filter_ok (stateForPID_update pid (\<lambda>s. s\<lparr>cwd := p\<rparr>) f)"
  by (rule filter_ok_update [OF _ _ state_update]) (simp_all add: proc_ok_cwd filter_okD)

lemma fork_ok:
  assumes "filter_ok f"
  shows "filter_ok (observeForkChild p c f)"
  by (rule filter_ok_update [OF assms _ state_fork]) (simp_all add: filter_okD assms)

end
