(* ===== verification/Path_Refine.thy ===== *)
theory Path_Refine
  imports Path_Spec
begin

text \<open>
  The methods of the path filter refine the operations of the abstract filter: from an
  invariant state they keep the invariant and the configuration, and commute with the
  abstraction. The contract is the locale \<open>simulation\<close>; \<open>path_query\<close> is that of the methods
  that find a path on the way; \<open>path_stream\<close> that of a whole sequence of events.
\<close>

section \<open>The contracts\<close>

text \<open>A method that changes the filter, under the condition \<open>valid\<close> on its arguments.\<close>

locale simulation =
  fixes op :: "pathFilter \<Rightarrow> pathFilter"
    and spec :: "gostring list set \<Rightarrow> procs \<Rightarrow> procs"
    and valid :: bool
  assumes sim_ok: "valid \<Longrightarrow> filter_ok f \<Longrightarrow> filter_ok (op f)"
    and sim_config: "valid \<Longrightarrow> filter_ok f \<Longrightarrow> config (op f) = config f"
    and sim_abs: "valid \<Longrightarrow> filter_ok f \<Longrightarrow> abs_filter (op f) = spec (requested f) (abs_filter f)"
begin

lemma sim_requested: "valid \<Longrightarrow> filter_ok f \<Longrightarrow> requested (op f) = requested f"
  using sim_config config_requested by blast

lemma sim_then:
  assumes "simulation op2 spec2 valid"
  shows "simulation (\<lambda>f. op2 (op f)) (\<lambda>R a. spec2 R (spec R a)) valid"
proof
  fix f
  assume v: "valid" and f: "filter_ok f"
  note two = simulation.sim_ok [OF assms v sim_ok [OF v f]]
    simulation.sim_config [OF assms v sim_ok [OF v f]] simulation.sim_abs [OF assms v sim_ok [OF v f]]
  show "filter_ok (op2 (op f))" "config (op2 (op f)) = config f"
    "abs_filter (op2 (op f)) = spec2 (requested f) (spec (requested f) (abs_filter f))"
    using two sim_config [OF v f] sim_abs [OF v f] sim_requested [OF v f] by simp_all
qed

end

text \<open>A method that finds a path, which is clean and absolute, and may note a working directory.\<close>

locale path_query =
  fixes op :: "pathFilter \<Rightarrow> gostring option \<times> pathFilter"
    and spec :: "procs \<Rightarrow> gostring list option \<times> procs"
    and valid :: bool
  assumes query_ok: "valid \<Longrightarrow> filter_ok f \<Longrightarrow> filter_ok (snd (op f))"
    and query_config: "valid \<Longrightarrow> filter_ok f \<Longrightarrow> config (snd (op f)) = config f"
    and query_abs: "valid \<Longrightarrow> filter_ok f \<Longrightarrow>
      spec (abs_filter f) = map_prod (map_option names_of) abs_filter (op f)"
    and query_clean: "valid \<Longrightarrow> filter_ok f \<Longrightarrow> fst (op f) = Some p \<Longrightarrow> clean_path p"

sublocale path_query \<subseteq> look: simulation "\<lambda>f. snd (op f)" "\<lambda>R a. snd (spec a)" valid
  by unfold_locales (simp_all add: query_ok query_config query_abs)

context path_query
begin

text \<open>A change that follows when there is a path.\<close>

lemma then_update:
  assumes "\<And>p. simulation (upd p) (\<lambda>R. uspec R (names_of p)) (clean_path p)"
  shows "simulation (\<lambda>f. case op f of (None, f) \<Rightarrow> f | (Some p, f) \<Rightarrow> upd p f)
    (\<lambda>R a. case spec a of (None, a) \<Rightarrow> a | (Some n, a) \<Rightarrow> uspec R n a) valid"
proof
  fix f
  assume v: "valid" and f: "filter_ok f"
  obtain r g where op: "op f = (r, g)" by force
  note one = query_ok [OF v f] query_config [OF v f] query_abs [OF v f]
  note u = simulation.sim_ok [OF assms] simulation.sim_config [OF assms] simulation.sim_abs [OF assms]
  have R: "requested g = requested f" using look.sim_requested [OF v f] op by simp
  show "filter_ok (case op f of (None, f) \<Rightarrow> f | (Some p, f) \<Rightarrow> upd p f)"
    "config (case op f of (None, f) \<Rightarrow> f | (Some p, f) \<Rightarrow> upd p f) = config f"
    "abs_filter (case op f of (None, f) \<Rightarrow> f | (Some p, f) \<Rightarrow> upd p f) =
      (case spec (abs_filter f) of (None, a) \<Rightarrow> a | (Some n, a) \<Rightarrow> uspec (requested f) n a)"
    using one u query_clean [OF v f] op R by (auto split: option.split)
qed

end

lemma simulationI:
  assumes "valid \<Longrightarrow> simulation op spec True"
  shows "simulation op spec valid"
  using assms by (simp add: simulation_def)

lemma simulation_skip: "simulation (\<lambda>f. f) (\<lambda>R a. a) valid"
  by unfold_locales simp_all

lemma simulation_if:
  assumes "b \<Longrightarrow> simulation op1 spec1 valid" and "\<not> b \<Longrightarrow> simulation op2 spec2 valid"
  shows "simulation (\<lambda>f. if b then op1 f else op2 f) (\<lambda>R a. if b then spec1 R a else spec2 R a) valid"
  using assms by (cases b) simp_all

section \<open>Single entries\<close>

interpretation assign_sim: simulation "assign pid fd p" "\<lambda>R. set_file pid fd (Some (names_of p))"
    "clean_path p" for pid fd p
  by unfold_locales (simp_all add: filter_ok_assign abs_assign)

interpretation forget_sim: simulation "forget pid fd" "\<lambda>R. set_file pid fd None" True for pid fd
  by unfold_locales (simp_all add: filter_ok_forget abs_forget)

interpretation chdir_sim: simulation "stateForPID_update pid (\<lambda>s. s\<lparr>cwd := p\<rparr>)"
    "\<lambda>R. set_cwd pid (names_of p)" "clean_path p" for pid p
  by unfold_locales (simp_all add: cwd_update_ok abs_cwd clean_path_not_empty)

interpretation fork_sim: simulation "observeProcessClone ev" "\<lambda>R. spec_fork ev" True for ev
  by unfold_locales
    (auto simp: observeProcessClone_def processCloneChildPID_def spec_fork_def fork_ok abs_fork)

section \<open>Whole processes\<close>

lemma names_of_moved:
  "clean_path new \<Longrightarrow> clean_path p \<Longrightarrow>
   names_of (moved old new p) = relocate (names_of old) (names_of new) (names_of p)"
  unfolding moved_def by (rule names_of_root) (simp add: relocate_ok clean_path_names)

lemma rename_sim:
  assumes "clean_path old"
  shows "simulation (rewritePIDPaths pid old new)
    (\<lambda>R a. a(pid := \<lparr>p_cwd = map_option (relocate (names_of old) (names_of new)) (p_cwd (a pid)),
       p_files = map_option (relocate (names_of old) (names_of new)) \<circ> p_files (a pid)\<rparr>)) (clean_path new)"
proof
  fix f
  assume new: "clean_path new" and f: "filter_ok f"
  let ?f = "rewritePIDPaths pid old new f"
  note res = rewritePIDPaths_result [OF f assms new, of pid]
  show "filter_ok ?f" "config ?f = config f" using res by simp_all
  have ok: "proc_ok (paths f) (state f pid)" by (rule filter_okD [OF f])
  have "cwd (state f pid) \<noteq> [] \<Longrightarrow> clean_path (cwd (state f pid))" using ok by (simp add: proc_ok_def)
  then have "p_cwd (abs_proc (state ?f pid)) =
      map_option (relocate (names_of old) (names_of new)) (p_cwd (abs_proc (state f pid)))"
    using res names_of_moved [OF new] clean_path_not_empty [OF moved_clean [OF new]]
    by (auto simp: abs_proc_def)
  moreover have "map_option names_of (map_option (moved old new) (map_of (fdPaths (state f pid)) fd)) =
      map_option (relocate (names_of old) (names_of new)) (map_option names_of (map_of (fdPaths (state f pid)) fd))" for fd
    using ok names_of_moved [OF new]
    by (cases "map_of (fdPaths (state f pid)) fd") (auto simp: proc_ok_def)
  then have "p_files (abs_proc (state ?f pid)) =
      map_option (relocate (names_of old) (names_of new)) \<circ> p_files (abs_proc (state f pid))"
    using res by (auto simp: abs_proc_def fun_eq_iff)
  ultimately show "abs_filter ?f = (abs_filter f)(pid :=
      \<lparr>p_cwd = map_option (relocate (names_of old) (names_of new)) (p_cwd (abs_filter f pid)),
       p_files = map_option (relocate (names_of old) (names_of new)) \<circ> p_files (abs_filter f pid)\<rparr>)"
    using res by (auto simp: abs_filter_def fun_eq_iff)
qed

interpretation unlink_sim: simulation "dropPIDPaths pid target"
    "\<lambda>R a. a(pid := (a pid)\<lparr>p_files := (\<lambda>fd. if p_files (a pid) fd = Some (names_of target) then None
                                        else p_files (a pid) fd)\<rparr>)" "clean_path target" for pid target
proof
  fix f
  assume t: "clean_path target" and f: "filter_ok f"
  let ?f = "dropPIDPaths pid target f"
  note res = dropPIDPaths_result [OF f, of pid target]
  show "filter_ok ?f" "config ?f = config f" using res by simp_all
  have "clean_path p" if "map_of (fdPaths (state f pid)) fd = Some p" for fd p
    using filter_okD [OF f, of pid] that by (auto simp: proc_ok_def)
  then have "p_files (abs_proc (state ?f pid)) fd =
      (if p_files (abs_proc (state f pid)) fd = Some (names_of target) then None
       else p_files (abs_proc (state f pid)) fd)" for fd
    using res names_of_inj [OF _ t] by (cases "map_of (fdPaths (state f pid)) fd") (auto simp: abs_proc_def)
  then show "abs_filter ?f = (abs_filter f)(pid := (abs_filter f pid)
      \<lparr>p_files := (\<lambda>fd. if p_files (abs_filter f pid) fd = Some (names_of target) then None
                      else p_files (abs_filter f pid) fd)\<rparr>)"
    using res by (auto simp: abs_filter_def fun_eq_iff abs_proc_def)
qed

section \<open>Resolving paths\<close>

lemma names_of_Clean: "IsAbs p \<Longrightarrow> names_of (Clean p) = names_of p"
  using walk_names [of "[]" "split_slash p"] split_no_slash
  by (simp add: Clean_abs) (auto simp: names_of_def)

interpretation cwd_query: path_query "cwdForPID rl pid" "spec_cwd rl pid" "links_ok rl" for rl pid
proof
  fix f p
  assume rl: "links_ok rl" and f: "filter_ok f"
  have link: "IsAbs l" if "rl pid = Some l" for l using rl that by (simp add: links_ok_def)
  have c: "cwd (state f pid) \<noteq> [] \<Longrightarrow> clean_path (cwd (state f pid))"
    using filter_okD [OF f, of pid] by (simp add: proc_ok_def)
  show "filter_ok (snd (cwdForPID rl pid f))" "config (snd (cwdForPID rl pid f)) = config f"
    using f link by (auto simp: cwdForPID_state cwd_update_ok clean_path_abs split: option.split)
  show "clean_path p" if "fst (cwdForPID rl pid f) = Some p"
    using that c link clean_path_abs by (auto simp: cwdForPID_state split: if_splits option.splits)
  show "spec_cwd rl pid (abs_filter f) = map_prod (map_option names_of) abs_filter (cwdForPID rl pid f)"
    using link
    by (auto simp: cwdForPID_state spec_cwd_def abs_filter_at abs_proc_def abs_cwd names_of_Clean
        clean_path_not_empty clean_path_abs split: option.split)
qed

text \<open>The base directory of an argument.\<close>

interpretation base_query: path_query "resolvePathBase rl ev i" "spec_base rl ev i" "links_ok rl" for rl ev i
proof
  fix f p
  assume rl: "links_ok rl" and f: "filter_ok f"
  note q = cwd_query.query_ok [OF rl f] cwd_query.query_config [OF rl f]
    cwd_query.query_abs [OF rl f] cwd_query.query_clean [OF rl f]
  have fp: "clean_path p" if "map_of (fdPaths (state f (ev_pid ev))) fd = Some p" for fd
    using filter_okD [OF f, of "ev_pid ev"] that by (auto simp: proc_ok_def)
  show "filter_ok (snd (resolvePathBase rl ev i f))" "config (snd (resolvePathBase rl ev i f)) = config f"
    using q(1,2) [of "ev_pid ev"] f by (auto simp: resolvePathBase_def Let_def split: option.split)
  show "clean_path p" if "fst (resolvePathBase rl ev i f) = Some p"
    using that q(4) fp
    by (auto simp: resolvePathBase_def Let_def fdPath_state split: option.splits if_splits)
  show "spec_base rl ev i (abs_filter f) = map_prod (map_option names_of) abs_filter (resolvePathBase rl ev i f)"
    using q(3)
    by (auto simp: resolvePathBase_def spec_base_def Let_def fdPath_state abs_filter_at abs_proc_def
        split: option.split)
qed

interpretation resolve_query: path_query "resolvePathAt rl ev i" "spec_resolve rl ev i" "links_ok rl" for rl ev i
proof
  fix f p
  assume rl: "links_ok rl" and f: "filter_ok f"
  note q = base_query.query_ok [OF rl f, of ev i] base_query.query_config [OF rl f, of ev i]
    base_query.query_abs [OF rl f, of ev i] base_query.query_clean [OF rl f, of ev i]
  obtain r g where base: "resolvePathBase rl ev i f = (r, g)" by force
  have join: "Clean (Join2 b t) = root (walk (names_of b) (split_slash t)) \<and>
      list_all name_ok (walk (names_of b) (split_slash t))" if "r = Some b" for b t
  proof -
    have "root (names_of b) = b" "list_all name_ok (names_of b)"
      using q(4) [of b] base that clean_path_names by simp_all
    then show ?thesis
      using Clean_Join_root [of "names_of b" t] walk_names [of "names_of b" "split_slash t"] split_no_slash
      by auto
  qed
  show "filter_ok (snd (resolvePathAt rl ev i f))" "config (snd (resolvePathAt rl ev i f)) = config f"
    using q(1,2) f base by (auto simp: resolvePathAt_def resolvePath_def split: option.split)
  show "clean_path p" if "fst (resolvePathAt rl ev i f) = Some p"
    using that base join clean_path_abs clean_path_root
    by (auto simp: resolvePathAt_def resolvePath_def split: option.splits if_splits)
  show "spec_resolve rl ev i (abs_filter f) = map_prod (map_option names_of) abs_filter (resolvePathAt rl ev i f)"
    using q(3) base join
    by (auto simp: resolvePathAt_def resolvePath_def spec_resolve_def names_of_Clean
        split: option.split) (simp_all add: names_of_def)
qed

section \<open>What an event lets through\<close>

lemma requested_iff: "filter_ok f \<Longrightarrow> clean_path p \<Longrightarrow> names_of p \<in> requested f \<longleftrightarrow> p \<in> paths f"
  using names_of_inj by (auto simp: requested_def filter_ok_def)

fun match_list :: "proc_links \<Rightarrow> event \<Rightarrow> nat list \<Rightarrow> pathFilter \<Rightarrow> bool \<times> pathFilter" where
  "match_list rl ev [] f = (False, f)"
| "match_list rl ev (i # is') f =
     (case matchesPathAt rl ev i f of (True, f) \<Rightarrow> (True, f) | (False, f) \<Rightarrow> match_list rl ev is' f)"

text \<open>The code tries exactly the arguments the tracer captures as paths.\<close>

lemma matchesPath_list: "matchesPath rl ev f = match_list rl ev (path_args (ev_syscall_id ev)) f"
  by (auto simp: matchesPath_def path_args_def matches_either_def Let_def split: prod.split bool.split)

lemma match_list_refines:
  assumes "links_ok rl" and "filter_ok f"
  shows "filter_ok (snd (match_list rl ev is' f)) \<and> config (snd (match_list rl ev is' f)) = config f \<and>
    spec_matches rl (requested f) ev is' (abs_filter f) =
      map_prod (\<lambda>b. b) abs_filter (match_list rl ev is' f)"
  using assms(2)
proof (induction is' arbitrary: f)
  case (Cons i is')
  obtain r g where res: "resolvePathAt rl ev i f = (r, g)" by force
  note q = resolve_query.query_ok [OF assms(1) Cons.prems, of ev i]
    resolve_query.query_config [OF assms(1) Cons.prems, of ev i]
    resolve_query.query_abs [OF assms(1) Cons.prems, of ev i]
    resolve_query.query_clean [OF assms(1) Cons.prems, of ev i]
  have g: "filter_ok g" "config g = config f" using q(1,2) res by simp_all
  have R: "requested g = requested f" using config_requested [OF g(2)] .
  show ?case
    using Cons.IH [OF g(1)] g q(3,4) res R requested_iff [OF g(1)]
    by (auto simp: matchesPathAt_def split: option.split)
qed simp

lemma tracked_iff:
  assumes "filter_ok f"
  shows "fdTracked pid fd f \<longleftrightarrow> (\<exists>n \<in> requested f. p_files (abs_filter f pid) fd = Some n)"
proof -
  have ok: "proc_ok (paths f) (state f pid)" by (rule filter_okD [OF assms])
  then have "fdTracked pid fd f \<longleftrightarrow> (\<exists>p. map_of (fdPaths (state f pid)) fd = Some p \<and> p \<in> paths f)"
    by (simp add: fdTracked_state proc_ok_def)
  also have "\<dots> \<longleftrightarrow> (\<exists>p. map_of (fdPaths (state f pid)) fd = Some p \<and> names_of p \<in> requested f)"
    using ok requested_iff [OF assms] by (auto simp: proc_ok_def)
  finally show ?thesis by (auto simp: abs_filter_at abs_proc_def)
qed

lemma argTracked_iff: "filter_ok f \<Longrightarrow> argTracked ev i f \<longleftrightarrow> spec_open_on (requested f) ev i (abs_filter f)"
  by (auto simp: argTracked_def spec_open_on_def tracked_iff)

lemma hasTrackedFDArg_iff:
  "filter_ok f \<Longrightarrow> hasTrackedFDArg ev f \<longleftrightarrow> (\<exists>i. spec_open_on (requested f) ev i (abs_filter f))"
  by (auto simp: hasTrackedFDArg_def list_ex_iff spec_open_on_def tracked_iff)

lemma shouldPrint_refines:
  assumes "links_ok rl" and "filter_ok f"
  shows "filter_ok (snd (shouldPrint rl ev f)) \<and> config (snd (shouldPrint rl ev f)) = config f \<and>
    spec_print rl (requested f) (\<lambda>nr. userAllows nr f) ev (abs_filter f) =
      map_prod (\<lambda>b. b) abs_filter (shouldPrint rl ev f)"
proof -
  obtain b g where m: "match_list rl ev (path_args (ev_syscall_id ev)) f = (b, g)" by force
  note res = match_list_refines [OF assms, of ev "path_args (ev_syscall_id ev)"]
  have g: "filter_ok g" "config g = config f" using res m by simp_all
  show ?thesis
    using assms(2) res g m hasTrackedFDArg_iff [OF g(1), of ev] config_requested [OF g(2)]
    by (auto simp: shouldPrint_def spec_print_def matchesPath_list split: bool.split)
qed

section \<open>What an event teaches\<close>

lemma simulation_cong:
  assumes "simulation op spec valid" and "\<And>f. op' f = op f" and "\<And>R a. spec' R a = spec R a"
  shows "simulation op' spec' valid"
proof -
  have "op' = op" "spec' = spec" by (intro ext assms(2,3))+
  then show ?thesis using assms(1) by simp
qed

lemma resolve_then:
  assumes "\<And>p. simulation (upd p) (\<lambda>R. uspec R (names_of p)) (clean_path p)"
  shows "simulation
    (\<lambda>f. if sint (ev_ret ev) < 0 then f
         else case resolvePathAt rl ev i f of (None, f) \<Rightarrow> f | (Some p, f) \<Rightarrow> upd p f)
    (\<lambda>R a. if sint (ev_ret ev) < 0 then a
         else case spec_resolve rl ev i a of (None, a) \<Rightarrow> a | (Some n, a) \<Rightarrow> uspec R n a) (links_ok rl)"
  by (rule simulation_if [OF simulation_skip resolve_query.then_update [OF assms]])

interpretation open_sim: simulation "observeOpen rl ev i"
    "\<lambda>R a. if sint (ev_ret ev) < 0 then a else spec_opened rl ev i a" "links_ok rl" for rl ev i
  using resolve_then [of "assign (ev_pid ev) (ev_ret ev)" "\<lambda>R n. set_file (ev_pid ev) (ev_ret ev) (Some n)" ev rl i,
      OF assign_sim.simulation_axioms]
  by (rule simulation_cong) (auto simp: observeOpen_def spec_opened_def assign_def split: prod.split option.split)

interpretation chdir_event_sim: simulation "observeChdir rl ev"
    "\<lambda>R a. if sint (ev_ret ev) < 0 then a else spec_chdir rl ev a" "links_ok rl" for rl ev
  using resolve_then [of "\<lambda>p. stateForPID_update (ev_pid ev) (\<lambda>s. s\<lparr>cwd := p\<rparr>)" "\<lambda>R. set_cwd (ev_pid ev)" ev rl 0,
      OF chdir_sim.simulation_axioms]
  by (rule simulation_cong) (auto simp: observeChdir_def spec_chdir_def split: prod.split option.split)

interpretation unlink_event_sim: simulation "observeUnlink rl ev i"
    "\<lambda>R a. if sint (ev_ret ev) < 0 then a else spec_unlink rl ev i a" "links_ok rl" for rl ev i
  using resolve_then [of "dropPIDPaths (ev_pid ev)"
      "\<lambda>R n a. a(ev_pid ev := (a (ev_pid ev))\<lparr>p_files := (\<lambda>fd.
         if p_files (a (ev_pid ev)) fd = Some n then None else p_files (a (ev_pid ev)) fd)\<rparr>)" ev rl i,
      OF unlink_sim.simulation_axioms]
  by (rule simulation_cong) (auto simp: observeUnlink_def spec_unlink_def split: prod.split option.split)

text \<open>A rename resolves two paths, the second in the state the first has left.\<close>

definition spec_move :: "u32 \<Rightarrow> gostring list \<Rightarrow> gostring list \<Rightarrow> procs \<Rightarrow> procs" where
  "spec_move pid old new a =
     a(pid := \<lparr>p_cwd = map_option (relocate old new) (p_cwd (a pid)),
               p_files = map_option (relocate old new) \<circ> p_files (a pid)\<rparr>)"

lemma move_sim:
  "clean_path old \<Longrightarrow>
   simulation (rewritePIDPaths pid old new) (\<lambda>R. spec_move pid (names_of old) (names_of new)) (clean_path new)"
  by (rule simulation_cong [OF rename_sim]) (simp_all add: spec_move_def)

interpretation rename_event_sim: simulation "observeRename rl ev i j"
    "\<lambda>R a. if sint (ev_ret ev) < 0 then a else spec_rename rl ev i j a" "links_ok rl" for rl ev i j
proof (rule simulationI)
  assume rl: "links_ok rl"
  let ?upd = "\<lambda>old f. case resolvePathAt rl ev j f of (None, f) \<Rightarrow> f
      | (Some new, f) \<Rightarrow> rewritePIDPaths (ev_pid ev) old new f"
  let ?uspec = "\<lambda>R old a. case spec_resolve rl ev j a of (None, a) \<Rightarrow> a
      | (Some new, a) \<Rightarrow> spec_move (ev_pid ev) old new a"
  have "simulation (?upd old) (\<lambda>R. ?uspec R (names_of old)) (clean_path old)" for old
  proof (rule simulationI)
    assume "clean_path old"
    from resolve_query.then_update [of "rewritePIDPaths (ev_pid ev) old" "\<lambda>R. spec_move (ev_pid ev) (names_of old)",
        OF move_sim [OF this]]
    have "simulation (?upd old) (\<lambda>R. ?uspec R (names_of old)) (links_ok rl)" .
    then show "simulation (?upd old) (\<lambda>R. ?uspec R (names_of old)) True" using rl by simp
  qed
  from resolve_then [of ?upd ?uspec ev rl i, OF this]
  have "simulation (observeRename rl ev i j)
      (\<lambda>R a. if sint (ev_ret ev) < 0 then a else spec_rename rl ev i j a) (links_ok rl)"
    by (rule simulation_cong)
      (auto simp: observeRename_def spec_rename_def spec_move_def split: prod.split option.split)
  then show "simulation (observeRename rl ev i j)
      (\<lambda>R a. if sint (ev_ret ev) < 0 then a else spec_rename rl ev i j a) True"
    using rl by simp
qed

text \<open>
  The calls that duplicate, close or enter a descriptor. Once a descriptor's path is
  assigned, its tracking is right, so tracking it again or not changes nothing.
\<close>

lemma fd_file: "filter_ok f \<Longrightarrow> fdPath pid fd f = Some p \<Longrightarrow> clean_path p"
  using filter_okD [of f pid] by (auto simp: fdPath_state proc_ok_def)

lemma fd_file_abs: "p_files (abs_filter f pid) fd = map_option names_of (fdPath pid fd f)"
  by (simp add: fdPath_state abs_filter_at abs_proc_def)

text \<open>Two filters that look alike.\<close>

definition same_filter :: "pathFilter \<Rightarrow> pathFilter \<Rightarrow> bool" where
  "same_filter f g \<longleftrightarrow> config f = config g \<and> state f = state g"

lemma same_filterD:
  assumes "same_filter f g"
  shows "config f = config g" "state f = state g" "filter_ok f \<longleftrightarrow> filter_ok g" "abs_filter f = abs_filter g"
  using assms config_paths [of f g] by (simp_all add: same_filter_def filter_ok_def abs_filter_def)

lemma same_track: "fdTracked pid fd f \<Longrightarrow> same_filter (trackFD pid fd f) f"
  by (auto simp: same_filter_def state_track fdTracked_state fun_eq_iff insert_absorb)

lemma same_untrack: "\<not> fdTracked pid fd f \<Longrightarrow> same_filter (untrackFD pid fd f) f"
  by (auto simp: same_filter_def state_untrack fdTracked_state fun_eq_iff)

lemma tracked_path: "filter_ok f \<Longrightarrow> fdTracked pid fd f \<longleftrightarrow> (\<exists>p. fdPath pid fd f = Some p \<and> p \<in> paths f)"
  using filter_okD [of f pid] by (simp add: proc_ok_def fdTracked_state fdPath_state)

lemma fdPath_assign: "fdPath pid fd' (assign pid fd p f) = (if fd' = fd then Some p else fdPath pid fd' f)"
  by (simp add: fdPath_state state_assign AList.update_conv')

lemma assign_sync: "syncTrackedFD pid fd p (setFDPath pid fd p f) = assign pid fd p f"
  by (simp add: assign_def)

lemma assign_paths [simp]: "paths (assign pid fd p f) = paths f"
  using config_paths [OF assign_config] by simp

lemma observeDupRet_same:
  assumes "filter_ok f"
  shows "same_filter (observeDupRet ev i f)
    (if sint (ev_ret ev) < 0 \<or> unat (ev_arg_count ev) \<le> i then f
     else case fdPath (ev_pid ev) (normalizeTrackedFD (ev_args ev ! i)) f of
            None \<Rightarrow> f
          | Some p \<Rightarrow> assign (ev_pid ev) (ev_ret ev) p f)"
proof (cases "sint (ev_ret ev) < 0 \<or> unat (ev_arg_count ev) \<le> i")
  case False
  let ?pid = "ev_pid ev" and ?src = "normalizeTrackedFD (ev_args ev ! i)"
  show ?thesis
  proof (cases "fdPath ?pid ?src f")
    case None
    then have "\<not> argTracked ev i f" using tracked_path [OF assms] by (simp add: argTracked_def)
    with False None show ?thesis by (simp add: observeDupRet_def same_filter_def)
  next
    case (Some p)
    let ?f = "assign ?pid (ev_ret ev) p f"
    have ok: "filter_ok ?f" by (rule filter_ok_assign [OF assms fd_file [OF assms Some]])
    have "fdTracked ?pid (ev_ret ev) ?f" if "argTracked ev i ?f"
      using that tracked_path [OF ok] Some by (auto simp: argTracked_def fdPath_assign split: if_splits)
    with False Some show ?thesis
      by (auto simp: observeDupRet_def assign_sync Let_def same_track) (simp add: same_filter_def)
  qed
qed (auto simp: observeDupRet_def same_filter_def)

lemma observeDupPair_same:
  assumes "filter_ok f"
  shows "same_filter (observeDupPair ev f)
    (if ev_arg_count ev < 2 \<or> sint (ev_ret ev) < 0 then f
     else case fdPath (ev_pid ev) (normalizeTrackedFD (ev_args ev ! 0)) f of
            None \<Rightarrow> forget (ev_pid ev) (normalizeTrackedFD (ev_args ev ! 1)) f
          | Some p \<Rightarrow> assign (ev_pid ev) (normalizeTrackedFD (ev_args ev ! 1)) p f)"
proof (cases "ev_arg_count ev < 2 \<or> sint (ev_ret ev) < 0")
  case False
  let ?pid = "ev_pid ev" and ?old = "normalizeTrackedFD (ev_args ev ! 0)"
    and ?new = "normalizeTrackedFD (ev_args ev ! 1)"
  show ?thesis
  proof (cases "fdPath ?pid ?old f")
    case None
    let ?f = "untrackFD ?pid ?new (unsetFDPath ?pid ?new f)"
    have same: "same_filter ?f (forget ?pid ?new f)"
      by (simp add: same_filter_def state_forget state_untrack state_unset_path)
    have "\<not> fdTracked ?pid ?old f" using tracked_path [OF assms] None by simp
    then have "\<not> fdTracked ?pid ?old ?f" "\<not> fdTracked ?pid ?new ?f"
      by (auto simp: fdTracked_state state_untrack state_unset_path)
    then show ?thesis
      using False None same same_untrack [of ?pid ?new ?f]
      by (simp add: observeDupPair_def Let_def same_filter_def)
  next
    case (Some p)
    let ?f = "assign ?pid ?new p f"
    have ok: "filter_ok ?f" by (rule filter_ok_assign [OF assms fd_file [OF assms Some]])
    have "fdTracked ?pid ?old ?f \<longleftrightarrow> fdTracked ?pid ?new ?f"
      using Some by (auto simp: tracked_path [OF ok] fdPath_assign simp del: One_nat_def)
    then show ?thesis
      using False Some same_track [of ?pid ?new ?f] same_untrack [of ?pid ?new ?f]
      by (simp add: observeDupPair_def assign_sync Let_def)
  qed
qed (auto simp: observeDupPair_def same_filter_def)

lemma observeFcntl_same:
  assumes "filter_ok f"
  shows "same_filter (observeFcntl ev f)
    (if ev_arg_count ev < 2 \<or> sint (ev_ret ev) < 0 \<or> \<not> argTracked ev 0 f \<or>
        sint (ev_args ev ! 1) \<notin> {F_DUPFD, F_DUPFD_CLOEXEC} then f
     else case fdPath (ev_pid ev) (normalizeTrackedFD (ev_args ev ! 0)) f of
            None \<Rightarrow> f
          | Some p \<Rightarrow> assign (ev_pid ev) (ev_ret ev) p f)"
proof (cases "ev_arg_count ev < 2 \<or> sint (ev_ret ev) < 0 \<or> \<not> argTracked ev 0 f \<or>
    sint (ev_args ev ! 1) \<notin> {F_DUPFD, F_DUPFD_CLOEXEC}")
  case False
  let ?pid = "ev_pid ev"
  obtain p where p: "fdPath ?pid (normalizeTrackedFD (ev_args ev ! 0)) f = Some p" "p \<in> paths f"
    using False tracked_path [OF assms] by (auto simp: argTracked_def split: if_splits)
  let ?f = "assign ?pid (ev_ret ev) p f"
  have "filter_ok ?f" by (rule filter_ok_assign [OF assms fd_file [OF assms p(1)]])
  then have "fdTracked ?pid (ev_ret ev) ?f" using p(2) by (simp add: tracked_path fdPath_assign)
  then show ?thesis
    using False p(1) same_track by (auto simp: observeFcntl_def Let_def assign_sync)
qed (auto simp: observeFcntl_def same_filter_def)

lemma observeClose_same:
  "same_filter (observeClose ev f)
    (if sint (ev_ret ev) < 0 \<or> ev_arg_count ev < 1 then f
     else forget (ev_pid ev) (normalizeTrackedFD (ev_args ev ! 0)) f)"
  by (cases "state f (ev_pid ev)")
    (simp add: observeClose_def Let_def same_filter_def state_forget state_untrack state_unset_path)

text \<open>So each of them is a simulation when the function it looks like is one.\<close>

lemma simulation_same:
  assumes "\<And>f. filter_ok f \<Longrightarrow> same_filter (op f) (g f)"
    and "\<And>f. filter_ok f \<Longrightarrow> filter_ok (g f) \<and> config (g f) = config f \<and>
      abs_filter (g f) = spec (requested f) (abs_filter f)"
  shows "simulation op spec valid"
  by unfold_locales (use assms same_filterD in metis)+

lemma arg_count_less: "ev_arg_count ev < 2 \<longleftrightarrow> unat (ev_arg_count ev) < 2" "ev_arg_count ev = 0 \<longleftrightarrow> unat (ev_arg_count ev) = 0"
  by (simp_all add: word_less_nat_alt unat_eq_zero)

lemma arg_file_path: "arg_file ev i (abs_filter f) = map_option names_of (fdPath (ev_pid ev) (arg_fd ev i) f)"
  by (simp add: arg_file_def fd_file_abs)

interpretation dup_sim: simulation "observeDupRet ev 0"
    "\<lambda>R a. if sint (ev_ret ev) < 0 then a
       else if 1 \<le> unat (ev_arg_count ev) \<and> arg_file ev 0 a \<noteq> None
       then set_file (ev_pid ev) (ev_ret ev) (arg_file ev 0 a) a else a" True for ev
  by (rule simulation_same [OF observeDupRet_same])
    (auto simp: arg_file_path arg_fd_def filter_ok_assign fd_file abs_assign not_le split: option.split)

interpretation dup_pair_sim: simulation "observeDupPair ev"
    "\<lambda>R a. if sint (ev_ret ev) < 0 \<or> unat (ev_arg_count ev) < 2 then a
       else set_file (ev_pid ev) (arg_fd ev 1) (arg_file ev 0 a) a" True for ev
  by (rule simulation_same [OF observeDupPair_same])
    (auto simp: arg_file_path arg_fd_def filter_ok_assign filter_ok_forget fd_file abs_assign abs_forget
      arg_count_less split: option.split)

interpretation fcntl_sim: simulation "observeFcntl ev"
    "\<lambda>R a. if sint (ev_ret ev) < 0 \<or> unat (ev_arg_count ev) < 2 then a
       else if spec_open_on R ev 0 a \<and> sint (ev_args ev ! 1) \<in> {F_DUPFD, F_DUPFD_CLOEXEC}
       then set_file (ev_pid ev) (ev_ret ev) (arg_file ev 0 a) a else a" True for ev
proof (rule simulation_same [OF observeFcntl_same])
  fix f
  assume f: "filter_ok f"
  let ?p = "fdPath (ev_pid ev) (normalizeTrackedFD (ev_args ev ! 0)) f"
  have some: "?p \<noteq> None" if "argTracked ev 0 f"
    using that tracked_path [OF f] by (auto simp: argTracked_def split: if_splits)
  show "filter_ok (if ev_arg_count ev < 2 \<or> sint (ev_ret ev) < 0 \<or> \<not> argTracked ev 0 f \<or>
      sint (ev_args ev ! 1) \<notin> {F_DUPFD, F_DUPFD_CLOEXEC} then f
    else case ?p of None \<Rightarrow> f | Some p \<Rightarrow> assign (ev_pid ev) (ev_ret ev) p f) \<and>
    config (if ev_arg_count ev < 2 \<or> sint (ev_ret ev) < 0 \<or> \<not> argTracked ev 0 f \<or>
      sint (ev_args ev ! 1) \<notin> {F_DUPFD, F_DUPFD_CLOEXEC} then f
    else case ?p of None \<Rightarrow> f | Some p \<Rightarrow> assign (ev_pid ev) (ev_ret ev) p f) = config f \<and>
    abs_filter (if ev_arg_count ev < 2 \<or> sint (ev_ret ev) < 0 \<or> \<not> argTracked ev 0 f \<or>
      sint (ev_args ev ! 1) \<notin> {F_DUPFD, F_DUPFD_CLOEXEC} then f
    else case ?p of None \<Rightarrow> f | Some p \<Rightarrow> assign (ev_pid ev) (ev_ret ev) p f) =
    (if sint (ev_ret ev) < 0 \<or> unat (ev_arg_count ev) < 2 then abs_filter f
     else if spec_open_on (requested f) ev 0 (abs_filter f) \<and> sint (ev_args ev ! 1) \<in> {F_DUPFD, F_DUPFD_CLOEXEC}
     then set_file (ev_pid ev) (ev_ret ev) (arg_file ev 0 (abs_filter f)) (abs_filter f) else abs_filter f)"
    using f some
    by (auto simp: arg_count_less filter_ok_assign fd_file abs_assign arg_file_path arg_fd_def argTracked_iff)
qed

interpretation close_sim: simulation "observeClose ev"
    "\<lambda>R a. if sint (ev_ret ev) < 0 \<or> unat (ev_arg_count ev) < 1 then a
       else set_file (ev_pid ev) (arg_fd ev 0) None a" True for ev
  by (rule simulation_same [OF observeClose_same])
    (auto simp: arg_fd_def filter_ok_forget abs_forget arg_count_less)

interpretation fchdir_sim: simulation "observeFchdir ev"
    "\<lambda>R a. if sint (ev_ret ev) < 0 \<or> unat (ev_arg_count ev) < 1 then a
       else case arg_file ev 0 a of None \<Rightarrow> a | Some p \<Rightarrow> set_cwd (ev_pid ev) p a" True for ev
  by unfold_locales
    (auto simp: observeFchdir_def arg_file_path arg_fd_def arg_count_less cwd_update_ok fd_file abs_cwd
      clean_path_not_empty split: option.split)

section \<open>A whole event\<close>

interpretation observe_sim: simulation "observe rl ev" "\<lambda>R. spec_observe rl R ev" "links_ok rl" for rl ev
proof
  fix f
  assume rl: "links_ok rl" and f: "filter_ok f"
  define g where "g = observeProcessClone ev f"
  have g: "filter_ok g" "config g = config f" "abs_filter g = spec_fork ev (abs_filter f)"
    "requested g = requested f"
    using fork_sim.sim_ok [OF _ f] fork_sim.sim_config [OF _ f] fork_sim.sim_abs [OF _ f]
      fork_sim.sim_requested [OF _ f] by (simp_all add: g_def)
  note oks = open_sim.sim_ok [OF rl g(1)] chdir_event_sim.sim_ok [OF rl g(1)] unlink_event_sim.sim_ok [OF rl g(1)]
    rename_event_sim.sim_ok [OF rl g(1)] dup_sim.sim_ok [OF TrueI g(1)] dup_pair_sim.sim_ok [OF TrueI g(1)]
    fcntl_sim.sim_ok [OF TrueI g(1)] close_sim.sim_ok [OF TrueI g(1)] fchdir_sim.sim_ok [OF TrueI g(1)]
  note configs = open_sim.sim_config [OF rl g(1)] chdir_event_sim.sim_config [OF rl g(1)]
    unlink_event_sim.sim_config [OF rl g(1)] rename_event_sim.sim_config [OF rl g(1)]
    dup_sim.sim_config [OF TrueI g(1)] dup_pair_sim.sim_config [OF TrueI g(1)]
    fcntl_sim.sim_config [OF TrueI g(1)] close_sim.sim_config [OF TrueI g(1)] fchdir_sim.sim_config [OF TrueI g(1)]
  note abss = open_sim.sim_abs [OF rl g(1)] chdir_event_sim.sim_abs [OF rl g(1)]
    unlink_event_sim.sim_abs [OF rl g(1)] rename_event_sim.sim_abs [OF rl g(1)]
    dup_sim.sim_abs [OF TrueI g(1)] dup_pair_sim.sim_abs [OF TrueI g(1)]
    fcntl_sim.sim_abs [OF TrueI g(1)] close_sim.sim_abs [OF TrueI g(1)] fchdir_sim.sim_abs [OF TrueI g(1)]
  show "filter_ok (observe rl ev f)"
    using oks g(1) by (simp add: observe_def Let_def flip: g_def)
  show "config (observe rl ev f) = config f"
    using configs g(2) by (simp add: observe_def Let_def flip: g_def)
  show "abs_filter (observe rl ev f) = spec_observe rl (requested f) ev (abs_filter f)"
    using abss by (simp add: observe_def spec_observe_def Let_def g(4) not_le not_less flip: g_def g(3))
qed

end
