(* ===== verification/Path_Runs.thy ===== *)
theory Path_Runs
  imports Path_Refine
begin

text \<open>
  The path filter over a sequence of events, each with the links in /proc at the time it
  is read, and its start: \<open>newPathFilter\<close> on the paths that \<open>parseTracePaths\<close> of
  \<^verbatim>\<open>internal/cli/parse.go\<close> has accepted.
\<close>

section \<open>The requested paths\<close>

text \<open>
  \<open>filepath.Abs\<close> needs the working directory of litrace itself, which may be unknown; an
  error is the message's kind.
\<close>

datatype path_error = Empty_path | No_working_directory

definition Abs_path :: "gostring option \<Rightarrow> gostring \<Rightarrow> path_error + gostring" where
  "Abs_path wd path =
     (if IsAbs path then Inr (Clean path)
      else case wd of None \<Rightarrow> Inl No_working_directory | Some wd \<Rightarrow> Inr (Join2 wd path))"

fun parse_paths_loop :: "gostring option \<Rightarrow> gostring list \<Rightarrow> gostring list \<Rightarrow> path_error + gostring list" where
  "parse_paths_loop wd [] normalized = Inr normalized"
| "parse_paths_loop wd (path # ps) normalized =
     (if path = [] then Inl Empty_path
      else case Abs_path wd path of
             Inl err \<Rightarrow> Inl err
           | Inr a \<Rightarrow> parse_paths_loop wd ps (normalized @ [Clean a]))"

definition parseTracePaths :: "gostring option \<Rightarrow> gostring list \<Rightarrow> path_error + gostring list" where
  "parseTracePaths wd ps = (if ps = [] then Inr [] else parse_paths_loop wd ps [])"

text \<open>The file a path argument names, as names.\<close>

definition path_names :: "gostring option \<Rightarrow> gostring \<Rightarrow> gostring list" where
  "path_names wd path = (if IsAbs path then names_of path else walk (names_of (the wd)) (split_slash path))"

lemma Abs_path_clean:
  assumes "pred_option IsAbs wd" and "Abs_path wd path = Inr a"
  shows "clean_path (Clean a) \<and> names_of (Clean a) = path_names wd path"
proof (cases "IsAbs path")
  case True
  then have "Clean a = Clean path"
    using assms(2) clean_path_abs clean_path_Clean by (auto simp: Abs_path_def)
  then show ?thesis using True clean_path_abs names_of_Clean by (simp add: path_names_def)
next
  case False
  then obtain d where d: "wd = Some d" "a = Join2 d path"
    using assms(2) by (auto simp: Abs_path_def split: option.splits)
  then have abs: "IsAbs d" using assms(1) by simp
  then obtain c cs where "d = Separator # cs" by (cases d) (auto simp: IsAbs_def)
  then have "a = Clean (d @ Separator # path)" "IsAbs (d @ Separator # path)"
    by (simp_all add: d Join2_def IsAbs_def)
  moreover have "names_of (d @ Separator # path) = walk (names_of d) (split_slash path)"
    by (simp add: names_of_def split_append walk_append)
  ultimately show ?thesis
    using False d clean_path_abs names_of_Clean clean_path_Clean by (simp add: path_names_def)
qed

lemma parse_paths_loop_result:
  assumes "pred_option IsAbs wd" and "parse_paths_loop wd ps acc = Inr qs"
  shows "\<exists>rs. qs = acc @ rs \<and> list_all clean_path rs \<and> map names_of rs = map (path_names wd) ps"
  using assms(2)
proof (induction ps arbitrary: acc)
  case (Cons p ps)
  then obtain a where a: "Abs_path wd p = Inr a" "parse_paths_loop wd ps (acc @ [Clean a]) = Inr qs"
    by (auto split: if_splits sum.splits)
  from Cons.IH [OF a(2)] obtain rs where "qs = (acc @ [Clean a]) @ rs" "list_all clean_path rs"
    "map names_of rs = map (path_names wd) ps" by blast
  then show ?case
    using Abs_path_clean [OF assms(1) a(1)] by (intro exI [of _ "Clean a # rs"]) simp
qed simp

lemma parse_paths_result:
  assumes "pred_option IsAbs wd" and "parseTracePaths wd ps = Inr qs"
  shows "list_all clean_path qs" and "map names_of qs = map (path_names wd) ps"
  using parse_paths_loop_result [OF assms(1), of ps "[]" qs] assms(2)
  by (auto simp: parseTracePaths_def split: if_splits)

section \<open>Sequences of events\<close>

fun run_filter :: "('e \<Rightarrow> 's \<Rightarrow> bool \<times> 's) \<Rightarrow> 'e list \<Rightarrow> 's \<Rightarrow> bool list \<times> 's" where
  "run_filter step [] s = ([], s)"
| "run_filter step (e # es) s =
     (case step e s of (b, s) \<Rightarrow> case run_filter step es s of (bs, s) \<Rightarrow> (b # bs, s))"

lemma run_filter_append:
  "run_filter step (es @ fs) s =
     (case run_filter step es s of (bs, s) \<Rightarrow> case run_filter step fs s of (cs, s) \<Rightarrow> (bs @ cs, s))"
  by (induction es arbitrary: s) (auto split: prod.split)

text \<open>What the abstract filter is told of the configuration.\<close>

record filter_config =
  c_paths :: "gostring list set"
  c_allows :: "s64 \<Rightarrow> bool"
  c_active :: bool

definition spec_output :: "filter_config \<Rightarrow> proc_links \<times> event \<Rightarrow> procs \<Rightarrow> bool \<times> procs" where
  "spec_output c re a =
     (if \<not> c_active c then (True, a)
      else case spec_print (fst re) (c_paths c) (c_allows c) (snd re) a of
             (b, a) \<Rightarrow> (b, spec_observe (fst re) (c_paths c) (snd re) a))"

definition config_of :: "pathFilter \<Rightarrow> filter_config" where
  "config_of f = \<lparr>c_paths = requested f, c_allows = (\<lambda>nr. userAllows nr f), c_active = pathFilterMode f\<rparr>"

definition filter_step :: "proc_links \<times> event \<Rightarrow> pathFilter \<Rightarrow> bool \<times> pathFilter" where
  "filter_step re f = shouldOutput (fst re) (snd re) f"

lemma config_config_of: "config f' = config f \<Longrightarrow> config_of f' = config_of f"
  by (simp add: config_def config_of_def requested_def userAllows_def)

text \<open>A filter that judges events one by one.\<close>

locale path_stream =
  fixes step :: "'e \<Rightarrow> pathFilter \<Rightarrow> bool \<times> pathFilter"
    and spec :: "filter_config \<Rightarrow> 'e \<Rightarrow> procs \<Rightarrow> bool \<times> procs"
    and valid :: "'e \<Rightarrow> bool"
  assumes step_ok: "valid e \<Longrightarrow> filter_ok f \<Longrightarrow> filter_ok (snd (step e f))"
    and step_config: "valid e \<Longrightarrow> filter_ok f \<Longrightarrow> config (snd (step e f)) = config f"
    and step_abs: "valid e \<Longrightarrow> filter_ok f \<Longrightarrow>
      spec (config_of f) e (abs_filter f) = map_prod (\<lambda>b. b) abs_filter (step e f)"
begin

lemma run_refines:
  assumes "list_all valid es" and "filter_ok f"
  shows "filter_ok (snd (run_filter step es f)) \<and> config (snd (run_filter step es f)) = config f \<and>
    run_filter (spec (config_of f)) es (abs_filter f) =
      map_prod (\<lambda>bs. bs) abs_filter (run_filter step es f)"
  using assms
proof (induction es arbitrary: f)
  case (Cons e es)
  obtain b g where res: "step e f = (b, g)" by force
  have v: "valid e" "list_all valid es" using Cons.prems(1) by simp_all
  have g: "filter_ok g" "config g = config f" "spec (config_of f) e (abs_filter f) = (b, abs_filter g)"
    using step_ok [OF v(1) Cons.prems(2)] step_config [OF v(1) Cons.prems(2)]
      step_abs [OF v(1) Cons.prems(2)] res by simp_all
  show ?case
    using Cons.IH [OF v(2) g(1)] g res config_config_of [OF g(2)] by (auto split: prod.split)
qed simp

end

interpretation output_stream: path_stream filter_step spec_output "\<lambda>re. links_ok (fst re)"
proof
  fix re :: "proc_links \<times> event" and f
  assume rl: "links_ok (fst re)" and f: "filter_ok f"
  obtain b g where res: "shouldPrint (fst re) (snd re) f = (b, g)" by force
  note print = shouldPrint_refines [OF rl f, of "snd re", unfolded res, simplified]
  then have g: "filter_ok g" "config g = config f" by simp_all
  note obs = observe_sim.sim_ok [OF rl g(1), of "snd re"] observe_sim.sim_config [OF rl g(1), of "snd re"]
    observe_sim.sim_abs [OF rl g(1), of "snd re"]
  show "filter_ok (snd (filter_step re f))" "config (snd (filter_step re f)) = config f"
    using f obs g(2) res by (simp_all add: filter_step_def shouldOutput_def)
  show "spec_output (config_of f) re (abs_filter f) = map_prod (\<lambda>b. b) abs_filter (filter_step re f)"
    using print obs res config_requested [OF g(2)]
    by (simp add: filter_step_def shouldOutput_def spec_output_def config_of_def)
qed

section \<open>The start\<close>

definition no_procs :: procs where
  "no_procs pid = \<lparr>p_cwd = None, p_files = Map.empty\<rparr>"

lemma newPathFilter_simps [simp]:
  "paths (newPathFilter cfg) = set (TracePaths cfg)" "state (newPathFilter cfg) pid = empty_state"
  "pathFilterMode (newPathFilter cfg) \<longleftrightarrow> TracePaths cfg \<noteq> []"
  "userAllows nr (newPathFilter cfg) \<longleftrightarrow> TraceSyscallIDs cfg = {} \<or> nr \<in> TraceSyscallIDs cfg"
  by (simp_all add: newPathFilter_def state_def userAllows_def)

lemma newPathFilter_ok: "list_all clean_path (TracePaths cfg) \<Longrightarrow> filter_ok (newPathFilter cfg)"
  by (simp add: filter_ok_def proc_ok_def list_all_iff)

lemma newPathFilter_abs: "abs_filter (newPathFilter cfg) = no_procs"
  by (auto simp: abs_filter_def abs_proc_def no_procs_def fun_eq_iff)

text \<open>The configuration that the command line asks for.\<close>

definition asked :: "gostring option \<Rightarrow> gostring list \<Rightarrow> s64 set \<Rightarrow> filter_config" where
  "asked wd ps ids =
     \<lparr>c_paths = path_names wd ` set ps, c_allows = (\<lambda>nr. ids = {} \<or> nr \<in> ids), c_active = (ps \<noteq> [])\<rparr>"

lemma newPathFilter_asked:
  assumes "pred_option IsAbs wd" and "parseTracePaths wd ps = Inr (TracePaths cfg)"
  shows "config_of (newPathFilter cfg) = asked wd ps (TraceSyscallIDs cfg)"
    and "filter_ok (newPathFilter cfg)"
proof -
  note res = parse_paths_result [OF assms]
  show "filter_ok (newPathFilter cfg)" by (rule newPathFilter_ok [OF res(1)])
  have "names_of ` set (TracePaths cfg) = path_names wd ` set ps"
    using arg_cong [OF res(2), of set] by simp
  moreover have "TracePaths cfg = [] \<longleftrightarrow> ps = []"
    using arg_cong [OF res(2), of length] by (metis length_0_conv length_map)
  ultimately show "config_of (newPathFilter cfg) = asked wd ps (TraceSyscallIDs cfg)"
    by (simp add: config_of_def asked_def requested_def)
qed

lemma filter_run_refines:
  assumes "pred_option IsAbs wd" and "parseTracePaths wd ps = Inr (TracePaths cfg)"
    and "list_all (\<lambda>re. links_ok (fst re)) es"
  shows "filter_ok (snd (run_filter filter_step es (newPathFilter cfg))) \<and>
    run_filter (spec_output (asked wd ps (TraceSyscallIDs cfg))) es no_procs =
      map_prod (\<lambda>bs. bs) abs_filter (run_filter filter_step es (newPathFilter cfg))"
  using output_stream.run_refines [OF assms(3) newPathFilter_asked(2) [OF assms(1,2)]]
  by (simp add: newPathFilter_asked(1) [OF assms(1,2)] newPathFilter_abs)

end
