(* ===== verification/Path_Facts.thy ===== *)
theory Path_Facts
  imports Path_Runs
begin

text \<open>
  What a run of the path filter leaves alone: lemmas on the abstract filter, which the
  refinement carries over to the filter of the code.
\<close>

section \<open>Looking up a path\<close>

text \<open>Looking for a path changes at most the working directory of the event's process.\<close>

lemma spec_cwd_other: "q \<noteq> pid \<Longrightarrow> snd (spec_cwd rl pid a) q = a q"
  by (simp add: spec_cwd_def set_cwd_def split: option.split)

lemma spec_cwd_files: "p_files (snd (spec_cwd rl pid a) q) = p_files (a q)"
  by (simp add: spec_cwd_def set_cwd_def split: option.split)

lemma spec_base_other: "q \<noteq> ev_pid ev \<Longrightarrow> snd (spec_base rl ev i a) q = a q"
  by (auto simp: spec_base_def spec_cwd_other Let_def split: option.split)

lemma spec_base_files: "p_files (snd (spec_base rl ev i a) q) = p_files (a q)"
  by (auto simp: spec_base_def spec_cwd_files Let_def split: option.split)

lemma spec_resolve_base:
  "snd (spec_resolve rl ev i a) = a \<or> snd (spec_resolve rl ev i a) = snd (spec_base rl ev i a)"
  by (auto simp: spec_resolve_def split: option.split prod.split)

lemma spec_resolve_other: "q \<noteq> ev_pid ev \<Longrightarrow> snd (spec_resolve rl ev i a) q = a q"
  using spec_resolve_base [of rl ev i a] spec_base_other [of q ev rl i a] by metis

lemma spec_resolve_files: "p_files (snd (spec_resolve rl ev i a) q) = p_files (a q)"
  using spec_resolve_base [of rl ev i a] spec_base_files [of rl ev i a q] by metis

lemma spec_matches_keeps:
  "(q \<noteq> ev_pid ev \<longrightarrow> snd (spec_matches rl R ev is' a) q = a q) \<and>
   p_files (snd (spec_matches rl R ev is' a) q) = p_files (a q)"
proof (induction is' arbitrary: a)
  case (Cons i is')
  obtain r b where res: "spec_resolve rl ev i a = (r, b)" by force
  have "q \<noteq> ev_pid ev \<longrightarrow> b q = a q" "p_files (b q) = p_files (a q)"
    using spec_resolve_other [of q ev rl i a] spec_resolve_files [of rl ev i a q] res by simp_all
  then show ?case using Cons.IH [of b] res by (auto split: option.split)
qed simp

lemma spec_print_keeps:
  "(q \<noteq> ev_pid ev \<longrightarrow> snd (spec_print rl R allows ev a) q = a q) \<and>
   p_files (snd (spec_print rl R allows ev a) q) = p_files (a q)"
  using spec_matches_keeps [of q ev rl R "path_args (ev_syscall_id ev)" a]
  by (auto simp: spec_print_def split: prod.split bool.split)

lemma spec_resolve_pair:
  assumes "spec_resolve rl ev i a = (r, b)"
  shows "q \<noteq> ev_pid ev \<Longrightarrow> b q = a q" and "p_files (b q) = p_files (a q)"
  using assms spec_resolve_other [of q ev rl i a] spec_resolve_files [of rl ev i a q] by auto

section \<open>Other processes\<close>

lemma spec_parts_other:
  assumes "q \<noteq> ev_pid ev"
  shows "spec_opened rl ev i a q = a q" and "spec_rename rl ev i j a q = a q"
    and "spec_unlink rl ev i a q = a q" and "spec_chdir rl ev a q = a q"
    and "set_file (ev_pid ev) fd p a q = a q" and "set_cwd (ev_pid ev) n a q = a q"
  using assms
  by (auto simp: spec_opened_def spec_rename_def spec_unlink_def spec_chdir_def set_file_def set_cwd_def
      spec_resolve_pair split: option.split prod.split)

lemma spec_fork_at:
  "spec_fork ev a q = (if processCloneChildPID ev = Some q then a (ev_pid ev) else a q)"
  by (auto simp: spec_fork_def processCloneChildPID_def)

lemma spec_observe_other:
  "q \<noteq> ev_pid ev \<Longrightarrow> spec_observe rl R ev a q = spec_fork ev a q"
  by (auto simp: spec_observe_def Let_def spec_parts_other split: option.split)

lemma spec_output_other:
  assumes "q \<noteq> ev_pid (snd re)" and "processCloneChildPID (snd re) \<noteq> Some q"
  shows "snd (spec_output c re a) q = a q"
  using spec_observe_other [OF assms(1)] spec_fork_at [of "snd re" _ q] assms
    spec_print_keeps [of q "snd re" "fst re" "c_paths c" "c_allows c" a]
  by (auto simp: spec_output_def split: prod.split)

section \<open>A descriptor that stays open\<close>

text \<open>
  The events that do not change which file descriptor \<open>fd\<close> of process \<open>pid\<close> is open on:
  no call of the process opens, replaces or closes it or renames or removes a file,
  and no process is created under its number.
\<close>

definition leaves_fd :: "u32 \<Rightarrow> u64 \<Rightarrow> event \<Rightarrow> bool" where
  "leaves_fd pid fd ev \<longleftrightarrow>
     processCloneChildPID ev \<noteq> Some pid \<and>
     (ev_pid ev \<noteq> pid \<or> sint (ev_ret ev) < 0 \<or>
      (if ev_syscall_id ev \<in> {NR_open, NR_openat, NR_openat2, NR_dup, NR_fcntl} then ev_ret ev \<noteq> fd
       else if ev_syscall_id ev \<in> {NR_dup2, NR_dup3} then arg_fd ev 1 \<noteq> fd
       else if ev_syscall_id ev = NR_close then arg_fd ev 0 \<noteq> fd
       else ev_syscall_id ev \<notin> {NR_rename, NR_renameat, NR_renameat2, NR_unlink, NR_unlinkat}))"

lemma spec_parts_files:
  "ev_ret ev \<noteq> fd \<Longrightarrow> p_files (spec_opened rl ev i a q) fd = p_files (a q) fd"
  "p_files (spec_chdir rl ev a q) = p_files (a q)"
  "fd' \<noteq> fd \<Longrightarrow> p_files (set_file pid fd' p a q) fd = p_files (a q) fd"
  "p_files (set_cwd pid n a q) = p_files (a q)"
proof -
  have files: "fd' \<noteq> fd \<Longrightarrow> p_files (set_file pid fd' p a q) fd = p_files (a q) fd" for pid fd' p a
    by (simp add: set_file_def)
  have wd: "p_files (set_cwd pid n a q) = p_files (a q)" for pid n a
    by (simp add: set_cwd_def)
  show "ev_ret ev \<noteq> fd \<Longrightarrow> p_files (spec_opened rl ev i a q) fd = p_files (a q) fd"
    "p_files (spec_chdir rl ev a q) = p_files (a q)"
    by (auto simp: spec_opened_def spec_chdir_def files wd spec_resolve_pair(2) split: option.split prod.split)
qed (simp_all add: set_file_def set_cwd_def)

lemma spec_observe_leaves:
  assumes "leaves_fd pid fd ev"
  shows "p_files (spec_observe rl R ev a pid) fd = p_files (a pid) fd"
proof (cases "ev_pid ev = pid")
  case False
  then show ?thesis using spec_observe_other [of pid ev rl R a] assms by (simp add: leaves_fd_def spec_fork_at)
next
  case True
  have fork: "spec_fork ev a pid = a pid" using assms by (simp add: leaves_fd_def spec_fork_at)
  show ?thesis
  proof (cases "sint (ev_ret ev) < 0")
    case True
    then show ?thesis by (simp add: spec_observe_def fork)
  next
    case False
    with True assms show ?thesis
      by (auto simp: leaves_fd_def spec_observe_def Let_def spec_parts_files spec_fork_at split: option.split)
  qed
qed

lemma spec_output_leaves:
  assumes "leaves_fd pid fd (snd re)"
  shows "p_files (snd (spec_output c re a) pid) fd = p_files (a pid) fd"
  using spec_observe_leaves [OF assms] spec_print_keeps [of pid "snd re" "fst re" "c_paths c" "c_allows c" a]
  by (auto simp: spec_output_def split: prod.split)

lemma spec_run_leaves:
  assumes "list_all (\<lambda>re. leaves_fd pid fd (snd re)) es"
  shows "p_files (snd (run_filter (spec_output c) es a) pid) fd = p_files (a pid) fd"
  using assms
proof (induction es arbitrary: a)
  case (Cons re es)
  then show ?case
    using spec_output_leaves [of pid fd re c a] by (auto split: prod.split) (metis snd_conv)
qed simp

section \<open>Back to the code\<close>

text \<open>What the filter holds for a process is determined by the abstract process.\<close>

lemma files_view:
  assumes "filter_ok f" and "filter_ok g" and "config g = config f"
    and "p_files (abs_filter g q) = p_files (abs_filter f p)"
  shows "fdPath q fd g = fdPath p fd f" and "fdTracked q fd g = fdTracked p fd f"
proof -
  have same: "r = s" if "map_option names_of r = map_option names_of s" "pred_option clean_path r"
    "pred_option clean_path s" for r s
    using that names_of_inj by (cases r; cases s) auto
  have clean: "pred_option clean_path (fdPath x fd h)" if "filter_ok h" for x h
    using fd_file [OF that] by (cases "fdPath x fd h") auto
  show "fdPath q fd g = fdPath p fd f"
    using assms(4) clean [OF assms(1)] clean [OF assms(2)] by (intro same) (simp_all flip: fd_file_abs)
  show "fdTracked q fd g = fdTracked p fd f"
    using assms(4) config_requested [OF assms(3)] by (simp add: tracked_iff [OF assms(1)] tracked_iff [OF assms(2)])
qed

lemma cwd_view:
  assumes "filter_ok f" and "filter_ok g" and "p_cwd (abs_filter g q) = p_cwd (abs_filter f p)"
  shows "cwd (state g q) = cwd (state f p)"
proof -
  have c: "cwd (state h x) \<noteq> [] \<Longrightarrow> clean_path (cwd (state h x))" if "filter_ok h" for x h
    using filter_okD [OF that, of x] by (simp add: proc_ok_def)
  show ?thesis
    using assms(3) c [OF assms(1), of p] c [OF assms(2), of q] names_of_inj
    by (auto simp: abs_filter_at abs_proc_def split: if_splits)
qed

text \<open>One event in a run.\<close>

lemma filter_step_refines:
  assumes "links_ok (fst re)" and "filter_ok f"
  shows "filter_ok (snd (filter_step re f))" and "config (snd (filter_step re f)) = config f"
    and "fst (filter_step re f) = fst (spec_output (config_of f) re (abs_filter f))"
    and "abs_filter (snd (filter_step re f)) = snd (spec_output (config_of f) re (abs_filter f))"
  using output_stream.step_ok [OF assms] output_stream.step_config [OF assms] output_stream.step_abs [OF assms]
  by simp_all

text \<open>The filter after a run of accepted events.\<close>

lemma run_state:
  assumes "pred_option IsAbs wd" and "parseTracePaths wd ps = Inr (TracePaths cfg)"
    and "list_all (\<lambda>re. links_ok (fst re)) es"
    and "f = snd (run_filter filter_step es (newPathFilter cfg))"
  shows "filter_ok f" and "config f = config (newPathFilter cfg)"
    and "config_of f = asked wd ps (TraceSyscallIDs cfg)"
    and "abs_filter f = snd (run_filter (spec_output (asked wd ps (TraceSyscallIDs cfg))) es no_procs)"
proof -
  note ok = newPathFilter_asked [OF assms(1,2)]
  note run = output_stream.run_refines [OF assms(3) ok(2)]
  show "filter_ok f" "config f = config (newPathFilter cfg)"
    "abs_filter f = snd (run_filter (spec_output (asked wd ps (TraceSyscallIDs cfg))) es no_procs)"
    using run by (simp_all add: assms(4) ok(1) newPathFilter_abs)
  then show "config_of f = asked wd ps (TraceSyscallIDs cfg)"
    using config_config_of [of f "newPathFilter cfg"] ok(1) by simp
qed

section \<open>Events that are let through\<close>

text \<open>An absolute path is looked for under its own names, whatever is known.\<close>

lemma spec_resolve_absolute:
  "eventTracePathAt ev (int i) = Some p \<Longrightarrow> IsAbs p \<Longrightarrow> spec_resolve rl ev i a = (Some (names_of p), a)"
  by (auto simp: spec_resolve_def names_of_def IsAbs_def)

lemma spec_matches_member:
  assumes "i \<in> set is'" and "\<And>a. fst (spec_resolve rl ev i a) = Some n" and "n \<in> R"
  shows "fst (spec_matches rl R ev is' a)"
  using assms(1)
proof (induction is' arbitrary: a)
  case (Cons j is')
  obtain r b where res: "spec_resolve rl ev j a = (r, b)" by force
  show ?case
  proof (cases "j = i")
    case True
    then have "r = Some n" using assms(2) [of a] res by simp
    then show ?thesis using res assms(3) by simp
  next
    case False
    then show ?thesis using Cons res by (auto split: option.split)
  qed
qed simp

text \<open>The verdict, from the search of the paths.\<close>

lemma spec_output_verdict:
  assumes "spec_matches (fst re) (c_paths c) (snd re) (path_args (ev_syscall_id (snd re))) a = (b, a')"
    and "c_allows c (ev_syscall_id (snd re))"
  shows "fst (spec_output c re a) \<longleftrightarrow> c_active c \<longrightarrow> b \<or> (\<exists>i. spec_open_on (c_paths c) (snd re) i a')"
  using assms by (cases b) (simp_all add: spec_output_def spec_print_def)

lemma spec_output_path:
  assumes "i \<in> set (path_args (ev_syscall_id (snd re)))" and "eventTracePathAt (snd re) (int i) = Some p"
    and "IsAbs p" and "names_of p \<in> c_paths c" and "c_allows c (ev_syscall_id (snd re))"
  shows "fst (spec_output c re a)"
proof -
  obtain b a' where m: "spec_matches (fst re) (c_paths c) (snd re) (path_args (ev_syscall_id (snd re))) a = (b, a')"
    by force
  have "fst (spec_matches (fst re) (c_paths c) (snd re) (path_args (ev_syscall_id (snd re))) a)"
    by (rule spec_matches_member [OF assms(1) _ assms(4)]) (simp add: spec_resolve_absolute [OF assms(2,3)])
  then show ?thesis using spec_output_verdict [OF m assms(5)] m by simp
qed

lemma spec_output_descriptor:
  assumes "spec_open_on (c_paths c) (snd re) i a" and "c_allows c (ev_syscall_id (snd re))"
  shows "fst (spec_output c re a)"
proof -
  obtain b a' where m: "spec_matches (fst re) (c_paths c) (snd re) (path_args (ev_syscall_id (snd re))) a = (b, a')"
    by force
  then have "p_files (a' (ev_pid (snd re))) = p_files (a (ev_pid (snd re)))"
    using spec_matches_keeps [of "ev_pid (snd re)" "snd re" "fst re" "c_paths c"] by (metis snd_conv)
  then have "spec_open_on (c_paths c) (snd re) i a'" using assms(1) by (simp add: spec_open_on_def)
  then show ?thesis using spec_output_verdict [OF m assms(2)] by blast
qed

text \<open>The call that opens a path.\<close>

definition opens :: "event \<Rightarrow> nat \<Rightarrow> bool" where
  "opens ev i \<longleftrightarrow>
     ev_syscall_id ev = NR_open \<and> i = 0 \<or> ev_syscall_id ev \<in> {NR_openat, NR_openat2} \<and> i = 1"

lemma spec_observe_opens:
  assumes "opens ev i" and "0 \<le> sint (ev_ret ev)"
  shows "spec_observe rl R ev a = spec_opened rl ev i (spec_fork ev a)"
proof -
  consider "ev_syscall_id ev = NR_open" "i = 0" | "ev_syscall_id ev = NR_openat" "i = 1"
    | "ev_syscall_id ev = NR_openat2" "i = 1"
    using assms(1) by (auto simp: opens_def)
  then show ?thesis using assms(2) by cases (simp_all add: spec_observe_def)
qed

lemma spec_output_opens:
  assumes "opens (snd re) i" and "0 \<le> sint (ev_ret (snd re))"
    and "eventTracePathAt (snd re) (int i) = Some p" and "IsAbs p" and "c_active c"
  shows "p_files (snd (spec_output c re a) (ev_pid (snd re))) (ev_ret (snd re)) = Some (names_of p)"
proof -
  have "snd (spec_output c re a) = spec_opened (fst re) (snd re) i
      (spec_fork (snd re) (snd (spec_print (fst re) (c_paths c) (c_allows c) (snd re) a)))"
    using assms(5) by (simp add: spec_output_def spec_observe_opens [OF assms(1,2)] split: prod.split)
  then show ?thesis
    by (simp add: spec_opened_def spec_resolve_absolute [OF assms(3,4)] set_file_def)
qed

section \<open>Events that the loader leaves out\<close>

definition wanted :: "Config \<Rightarrow> s64 \<Rightarrow> bool" where
  "wanted cfg nr \<longleftrightarrow> handleTraceSyscallIDs cfg = {} \<or> nr \<in> handleTraceSyscallIDs cfg"

definition loaded :: "Config \<Rightarrow> event \<Rightarrow> bool" where
  "loaded cfg ev \<longleftrightarrow> wanted cfg (ev_syscall_id ev)"

lemma observe_unsupported:
  assumes "ev_syscall_id ev \<notin> set pathFilterSupportSyscallIDs"
  shows "observe rl ev f = observeProcessClone ev f"
  using assms by (simp add: observe_def pathFilterSupportSyscallIDs_def Let_def)

lemma unloaded_step:
  assumes "\<not> loaded cfg (snd re)" and "TracePaths cfg \<noteq> []" and "config f = config (newPathFilter cfg)"
  shows "filter_step re f = (False, observeProcessClone (snd re) f)"
proof -
  have conf: "pathFilterMode f" "userTraceIDs f = TraceSyscallIDs cfg" "userTraceAll f \<longleftrightarrow> TraceSyscallIDs cfg = {}"
    using assms(2,3) by (simp_all add: config_def newPathFilter_def)
  have ids: "TraceSyscallIDs cfg \<noteq> {}" "ev_syscall_id (snd re) \<notin> TraceSyscallIDs cfg"
    "ev_syscall_id (snd re) \<notin> set pathFilterSupportSyscallIDs"
    using assms(1,2) by (auto simp: loaded_def wanted_def handleTraceSyscallIDs_def split: if_splits)
  then show ?thesis
    using conf observe_unsupported [OF ids(3)]
    by (simp add: filter_step_def shouldOutput_def shouldPrint_def userAllows_def)
qed

text \<open>The events of a run that are let through.\<close>

fun printed :: "('e \<Rightarrow> 's \<Rightarrow> bool \<times> 's) \<Rightarrow> 'e list \<Rightarrow> 's \<Rightarrow> 'e list" where
  "printed step [] s = []"
| "printed step (e # es) s =
     (case step e s of (b, s) \<Rightarrow> if b then e # printed step es s else printed step es s)"

section \<open>Processes without events\<close>

text \<open>
  What the abstract filter answers to an event, and what it holds for the event's process
  afterwards, depends on what it holds for this process only.
\<close>

definition same_at :: "u32 \<Rightarrow> 'r \<times> procs \<Rightarrow> 'r \<times> procs \<Rightarrow> bool" where
  "same_at p x y \<longleftrightarrow> fst x = fst y \<and> snd x p = snd y p"

lemma cwd_local: "a p = b p \<Longrightarrow> same_at p (spec_cwd rl p a) (spec_cwd rl p b)"
  by (auto simp: same_at_def spec_cwd_def set_cwd_def split: option.split)

lemma base_local: "a (ev_pid ev) = b (ev_pid ev) \<Longrightarrow> same_at (ev_pid ev) (spec_base rl ev i a) (spec_base rl ev i b)"
  using cwd_local [of a "ev_pid ev" b rl]
  by (auto simp: spec_base_def Let_def same_at_def split: option.split)

lemma resolve_local:
  assumes "a (ev_pid ev) = b (ev_pid ev)"
  shows "same_at (ev_pid ev) (spec_resolve rl ev i a) (spec_resolve rl ev i b)"
proof -
  obtain r a' s b' where res: "spec_base rl ev i a = (r, a')" "spec_base rl ev i b = (s, b')" by fastforce
  then have "r = s" "a' (ev_pid ev) = b' (ev_pid ev)"
    using base_local [of a ev b rl i, OF assms] by (simp_all add: same_at_def)
  then show ?thesis using assms res by (auto simp: spec_resolve_def same_at_def split: option.split)
qed

lemma matches_local:
  "a (ev_pid ev) = b (ev_pid ev) \<Longrightarrow>
   same_at (ev_pid ev) (spec_matches rl R ev is' a) (spec_matches rl R ev is' b)"
proof (induction is' arbitrary: a b)
  case (Cons i is')
  obtain r a' s b' where res: "spec_resolve rl ev i a = (r, a')" "spec_resolve rl ev i b = (s, b')" by fastforce
  then have same: "r = s" "a' (ev_pid ev) = b' (ev_pid ev)"
    using resolve_local [of a ev b rl i, OF Cons.prems] by (simp_all add: same_at_def)
  then show ?case using Cons.IH [of a' b', OF same(2)] res by (auto simp: same_at_def split: option.split)
qed (simp add: same_at_def)

lemma print_local:
  assumes "a (ev_pid ev) = b (ev_pid ev)"
  shows "same_at (ev_pid ev) (spec_print rl R allows ev a) (spec_print rl R allows ev b)"
proof -
  let ?is = "path_args (ev_syscall_id ev)"
  obtain r a' s b' where res: "spec_matches rl R ev ?is a = (r, a')" "spec_matches rl R ev ?is b = (s, b')" by fastforce
  then have "r = s" "a' (ev_pid ev) = b' (ev_pid ev)"
    using matches_local [of a ev b rl R ?is, OF assms] by (simp_all add: same_at_def)
  then show ?thesis using assms res by (cases r) (simp_all add: spec_print_def same_at_def spec_open_on_def)
qed

lemma parts_local:
  assumes "a (ev_pid ev) = b (ev_pid ev)"
  shows "spec_opened rl ev i a (ev_pid ev) = spec_opened rl ev i b (ev_pid ev)"
    and "spec_rename rl ev i j a (ev_pid ev) = spec_rename rl ev i j b (ev_pid ev)"
    and "spec_unlink rl ev i a (ev_pid ev) = spec_unlink rl ev i b (ev_pid ev)"
    and "spec_chdir rl ev a (ev_pid ev) = spec_chdir rl ev b (ev_pid ev)"
proof -
  have res: "\<exists>r a' b'. spec_resolve rl ev i c = (r, a') \<and> spec_resolve rl ev i d = (r, b') \<and> a' (ev_pid ev) = b' (ev_pid ev)"
    if "c (ev_pid ev) = d (ev_pid ev)" for i c d
    using resolve_local [of c ev d rl i, OF that] by (auto simp: same_at_def prod_eq_iff)
  obtain r a' b' where i: "spec_resolve rl ev i a = (r, a')" "spec_resolve rl ev i b = (r, b')"
    and ab: "a' (ev_pid ev) = b' (ev_pid ev)" using res [of a b i, OF assms] by blast
  then show "spec_opened rl ev i a (ev_pid ev) = spec_opened rl ev i b (ev_pid ev)"
    "spec_unlink rl ev i a (ev_pid ev) = spec_unlink rl ev i b (ev_pid ev)"
    by (auto simp: spec_opened_def spec_unlink_def set_file_def split: option.split cong: if_cong)
  obtain r' a'' b'' where "spec_resolve rl ev j a' = (r', a'')" "spec_resolve rl ev j b' = (r', b'')"
    "a'' (ev_pid ev) = b'' (ev_pid ev)" using res [of a' b' j, OF ab] by blast
  then show "spec_rename rl ev i j a (ev_pid ev) = spec_rename rl ev i j b (ev_pid ev)"
    using i ab by (auto simp: spec_rename_def split: option.split)
  obtain r0 a0 b0 where "spec_resolve rl ev 0 a = (r0, a0)" "spec_resolve rl ev 0 b = (r0, b0)"
    "a0 (ev_pid ev) = b0 (ev_pid ev)" using res [of a b 0, OF assms] by blast
  then show "spec_chdir rl ev a (ev_pid ev) = spec_chdir rl ev b (ev_pid ev)"
    by (auto simp: spec_chdir_def set_cwd_def split: option.split)
qed

lemma observe_local:
  assumes "a (ev_pid ev) = b (ev_pid ev)"
  shows "spec_observe rl R ev a (ev_pid ev) = spec_observe rl R ev b (ev_pid ev)"
proof -
  define c where "c = spec_fork ev a"
  define d where "d = spec_fork ev b"
  have at: "c (ev_pid ev) = d (ev_pid ev)" using assms by (simp add: c_def d_def spec_fork_at)
  have arg: "arg_file ev i c = arg_file ev i d" "spec_open_on R ev i c = spec_open_on R ev i d" for i
    by (simp_all add: arg_file_def spec_open_on_def at)
  have ifs: "(if b then f else g) (ev_pid ev) = (if b then f (ev_pid ev) else g (ev_pid ev))" for b and f g :: procs
    by simp
  have sets: "set_file (ev_pid ev) fd p c (ev_pid ev) = set_file (ev_pid ev) fd p d (ev_pid ev)"
    "(case q of None \<Rightarrow> c | Some n \<Rightarrow> set_cwd (ev_pid ev) n c) (ev_pid ev) =
     (case q of None \<Rightarrow> d | Some n \<Rightarrow> set_cwd (ev_pid ev) n d) (ev_pid ev)" for fd p q
    by (simp_all add: set_file_def set_cwd_def at split: option.split)
  show ?thesis
    unfolding spec_observe_def Let_def c_def [symmetric] d_def [symmetric] arg
    by (simp only: ifs parts_local [of c ev d, OF at] sets at)
qed

text \<open>Two abstract filters that agree on a set of processes, over an event of one of them.\<close>

definition agree :: "u32 set \<Rightarrow> procs \<Rightarrow> procs \<Rightarrow> bool" where
  "agree P a b \<longleftrightarrow> (\<forall>p \<in> P. a p = b p)"

lemma output_agree:
  assumes "agree P a b" and "ev_pid (snd re) \<in> P"
  shows "fst (spec_output c re a) = fst (spec_output c re b)"
    and "agree P (snd (spec_output c re a)) (snd (spec_output c re b))"
proof -
  let ?ev = "snd re" and ?p = "ev_pid (snd re)"
  obtain r a' s b' where pr: "spec_print (fst re) (c_paths c) (c_allows c) ?ev a = (r, a')"
    "spec_print (fst re) (c_paths c) (c_allows c) ?ev b = (s, b')" by fastforce
  have at: "a ?p = b ?p" using assms by (simp add: agree_def)
  note same = print_local [of a "snd re" b "fst re" "c_paths c" "c_allows c", OF at, unfolded pr same_at_def fst_conv snd_conv]
  then show "fst (spec_output c re a) = fst (spec_output c re b)" using pr by (simp add: spec_output_def)
  have keep: "a' q = a q" "b' q = b q" if "q \<noteq> ?p" for q
    using spec_print_keeps [of q ?ev "fst re" "c_paths c" "c_allows c"] that pr by (metis snd_conv)+
  have "spec_observe (fst re) (c_paths c) ?ev a' q = spec_observe (fst re) (c_paths c) ?ev b' q" if "q \<in> P" for q
  proof (cases "q = ?p")
    case True
    then show ?thesis using observe_local same by blast
  next
    case False
    then show ?thesis
      using keep [OF False] same assms(1) that by (simp add: spec_observe_other spec_fork_at agree_def)
  qed
  then show "agree P (snd (spec_output c re a)) (snd (spec_output c re b))"
    using pr assms(1) by (auto simp: spec_output_def agree_def)
qed

text \<open>
  A run over all events and one over those that the loader selects: they answer alike
  and hold the same for every process with an event, when no such process is created
  by an event the loader leaves out.
\<close>

definition no_events :: "u32 \<Rightarrow> (proc_links \<times> event) list \<Rightarrow> bool" where
  "no_events c es \<longleftrightarrow> list_all (\<lambda>re. ev_pid (snd re) \<noteq> c) es"

lemma unloaded_abs:
  assumes "pred_option (\<lambda>c. c \<notin> P) (processCloneChildPID ev)" and "agree P (abs_filter f) b"
  shows "agree P (abs_filter (observeProcessClone ev f)) b"
  using assms by (auto simp: observeProcessClone_def abs_fork agree_def split: option.splits)

lemma loaded_runs:
  assumes "TracePaths cfg \<noteq> []" and "list_all (\<lambda>re. links_ok (fst re)) es"
    and "list_all (\<lambda>re. ev_pid (snd re) \<in> P) es"
    and "list_all (\<lambda>re. loaded cfg (snd re) \<or> pred_option (\<lambda>c. c \<notin> P) (processCloneChildPID (snd re))) es"
    and "filter_ok f" and "config f = config (newPathFilter cfg)"
    and "filter_ok g" and "config g = config (newPathFilter cfg)" and "agree P (abs_filter f) (abs_filter g)"
  shows "printed filter_step es f = printed filter_step (filter (\<lambda>re. loaded cfg (snd re)) es) g \<and>
    filter_ok (snd (run_filter filter_step es f)) \<and>
    filter_ok (snd (run_filter filter_step (filter (\<lambda>re. loaded cfg (snd re)) es) g)) \<and>
    config (snd (run_filter filter_step es f)) = config (newPathFilter cfg) \<and>
    config (snd (run_filter filter_step (filter (\<lambda>re. loaded cfg (snd re)) es) g)) = config (newPathFilter cfg) \<and>
    agree P (abs_filter (snd (run_filter filter_step es f)))
      (abs_filter (snd (run_filter filter_step (filter (\<lambda>re. loaded cfg (snd re)) es) g)))"
  using assms(2-)
proof (induction es arbitrary: f g)
  case (Cons re es)
  have links: "links_ok (fst re)" and pid: "ev_pid (snd re) \<in> P" using Cons.prems(1,2) by simp_all
  note f = filter_step_refines [OF links Cons.prems(4)] and g = filter_step_refines [OF links Cons.prems(6)]
  obtain x f' y g' where step: "filter_step re f = (x, f')" "filter_step re g = (y, g')" by fastforce
  have f': "filter_ok f'" "config f' = config (newPathFilter cfg)" using f(1,2) step Cons.prems(5) by simp_all
  have g': "filter_ok g'" "config g' = config (newPathFilter cfg)" using g(1,2) step Cons.prems(7) by simp_all
  note IH = Cons.IH [OF _ _ _ f']
  show ?case
  proof (cases "loaded cfg (snd re)")
    case True
    have conf: "config_of g = config_of f" using config_config_of [of g f] Cons.prems(5,7) by simp
    note out = output_agree [OF Cons.prems(8) pid, of "config_of f"]
    have "x = y" "agree P (abs_filter f') (abs_filter g')"
      using out f(3,4) g(3,4) step conf by simp_all
    then show ?thesis using True step IH [OF _ _ _ g'] Cons.prems(1-3) by (simp add: case_prod_beta)
  next
    case False
    then have "x = False" "f' = observeProcessClone (snd re) f"
      using unloaded_step [OF _ assms(1) Cons.prems(5)] step by simp_all
    moreover have "agree P (abs_filter f') (abs_filter g)"
      unfolding calculation(2) using False Cons.prems(3,8) by (intro unloaded_abs) simp_all
    ultimately show ?thesis
      using False step IH [OF _ _ _ Cons.prems(6,7)] Cons.prems(1-3) by (simp add: case_prod_beta)
  qed
qed simp

lemma loaded_runs_equal:
  assumes "TracePaths cfg \<noteq> []" and "list_all (\<lambda>re. links_ok (fst re)) es"
    and "list_all (\<lambda>re. loaded cfg (snd re) \<or> processCloneChildPID (snd re) = None) es"
    and "filter_ok f" and "config f = config (newPathFilter cfg)"
  shows "snd (run_filter filter_step es f) = snd (run_filter filter_step (filter (\<lambda>re. loaded cfg (snd re)) es) f)"
  using assms(2-)
proof (induction es arbitrary: f)
  case (Cons re es)
  obtain b f' where step: "filter_step re f = (b, f')" by force
  then have f': "filter_ok f'" "config f' = config (newPathFilter cfg)"
    using filter_step_refines [of re f] Cons.prems by simp_all
  show ?case
  proof (cases "loaded cfg (snd re)")
    case True
    then show ?thesis using step Cons.IH [OF _ _ f'] Cons.prems(1,2) by (simp add: case_prod_beta)
  next
    case False
    then have "f' = f"
      using unloaded_step [OF False assms(1) Cons.prems(4)] step Cons.prems(2) by (simp add: observeProcessClone_def)
    then show ?thesis using False step Cons.IH [OF _ _ f'] Cons.prems(1,2) by (simp add: case_prod_beta)
  qed
qed simp

end
