(* ===== verification/Path_Properties.thy ===== *)
theory Path_Properties
  imports Path_Facts Examples
begin

text \<open>
  The properties of the path filter: the refinement of the abstract filter, the
  invariant of its state, what it lets through, and what it leaves alone. Each is
  followed by a witness on the events of the first section.
\<close>

section \<open>Events for the witnesses\<close>

text \<open>Process 100 opens \<open>/a\<close> as descriptor 3, reads from it, and forks process 200.\<close>

definition demo_event :: "s64 \<Rightarrow> s64 \<Rightarrow> u64 list \<Rightarrow> u8 list \<Rightarrow> event" where
  "demo_event nr ret as types = stale_event
     \<lparr>ev_pid := 100, ev_syscall_id := nr, ev_ret := ret, ev_args := as, ev_arg_types := types,
      ev_arg_count := of_nat (length as), ev_var_count := 0, ev_event_flags := 0\<rparr>"

definition demo_open :: event where
  "demo_open = (demo_event NR_open 3 [16, 0, 0, 0, 0, 0] [1, 1, 1, 1, 1, 1])
     \<lparr>ev_var_count := 1, ev_payload_len := 2, ev_payload := [47, 97] @ replicate 510 0,
      ev_var_desc := replicate 6 \<lparr>vd_arg_index = 0, vd_flags = 0, vd_offset = 0, vd_length = 2, vd_reserved = 0\<rparr>\<rparr>"

definition demo_read :: event where
  "demo_read = demo_event NR_read 5 [3, 0, 5] [ARG_FD, 6, 2, 0, 0, 0]"

definition demo_getpid :: event where
  "demo_getpid = demo_event NR_getpid 100 [] [0, 0, 0, 0, 0, 0]"

definition demo_fork :: event where
  "demo_fork = (demo_event NR_fork 200 [] [0, 0, 0, 0, 0, 0])\<lparr>ev_event_flags := 1\<rparr>"

definition no_links :: proc_links where
  "no_links pid = None"

definition attach_config :: "bool \<Rightarrow> s64 set \<Rightarrow> gostring list \<Rightarrow> Config" where
  "attach_config forks ids ps =
     \<lparr>ProgramName = [], ProgramPath = [], ProgramArgs = [], AttachPIDs = [100], FollowForks = forks,
      SummaryOnly = False, TraceSyscallIDs = ids, TracePaths = ps\<rparr>"

definition demo_config :: "s64 set \<Rightarrow> Config" where
  "demo_config ids = attach_config True ids [[47, 97]]"

lemmas demo_events = demo_open_def demo_read_def demo_getpid_def demo_fork_def demo_event_def stale_event_def

lemma attach_config_simps [simp]:
  "FollowForks (attach_config forks ids ps) \<longleftrightarrow> forks" "\<not> SummaryOnly (attach_config forks ids ps)"
  "TraceSyscallIDs (attach_config forks ids ps) = ids" "TracePaths (attach_config forks ids ps) = ps"
  by (simp_all add: attach_config_def)

lemma demo_config_simps [simp]:
  "FollowForks (demo_config ids)" "TraceSyscallIDs (demo_config ids) = ids" "TracePaths (demo_config ids) = [[47, 97]]"
  by (simp_all add: demo_config_def)

lemma demo_parse: "parseTracePaths None [[47, 97]] = Inr (TracePaths (demo_config ids))"
  by (simp add: parseTracePaths_def Abs_path_def IsAbs_def Clean_def clean_step_def Let_def)

lemma no_links_ok [simp]: "links_ok no_links"
  by (simp add: links_ok_def no_links_def)

lemma no_wd: "pred_option IsAbs None"
  by simp

lemma demo_names: "names_of [47, 97] = [[97]]" "path_names None [47, 97] = [[97]]" "IsAbs [47, 97]"
  by (simp_all add: names_of_def path_names_def IsAbs_def)

lemma demo_open_path: "eventTracePathAt demo_open 0 = Some [47, 97]"
  by (simp add: eventTracePathAt_def findVarArgDesc_def varPayloadSlice_def demo_events)

section \<open>Refinement and invariant\<close>

text \<open>
  C6. Over any sequence of decoded events, each read with any state of the links in
  /proc, the path filter gives the same verdicts as the abstract filter, which knows
  for every process only a working directory and the file of each descriptor, as lists
  of names; and it ends in the same state. So the tracked descriptors, the cleaning
  of strings and the creation and removal of entries never show.
\<close>

theorem path_filter_refines_spec:
  assumes "pred_option IsAbs wd" and "parseTracePaths wd ps = Inr (TracePaths cfg)"
    and "list_all (\<lambda>re. links_ok (fst re)) es"
  shows "fst (run_filter filter_step es (newPathFilter cfg)) =
      fst (run_filter (spec_output (asked wd ps (TraceSyscallIDs cfg))) es no_procs) \<and>
    abs_filter (snd (run_filter filter_step es (newPathFilter cfg))) =
      snd (run_filter (spec_output (asked wd ps (TraceSyscallIDs cfg))) es no_procs)"
  using filter_run_refines [OF assms] by simp

lemma path_filter_refines_spec_witness:
  "fst (run_filter filter_step [(no_links, demo_open), (no_links, demo_read)] (newPathFilter (demo_config {}))) =
    fst (run_filter (spec_output (asked None [[47, 97]] {})) [(no_links, demo_open), (no_links, demo_read)] no_procs)"
  using path_filter_refines_spec [OF no_wd demo_parse [of "{}"],
      of "[(no_links, demo_open), (no_links, demo_read)]"] by simp

text \<open>
  C19. After any sequence of events, a descriptor of a process is tracked exactly when
  the path recorded for it is one of the requested paths; and every path the filter
  holds, of a descriptor or a working directory, is absolute and clean.
\<close>

theorem tracked_iff_requested:
  assumes "pred_option IsAbs wd" and "parseTracePaths wd ps = Inr (TracePaths cfg)"
    and "list_all (\<lambda>re. links_ok (fst re)) es"
    and "f = snd (run_filter filter_step es (newPathFilter cfg))"
  shows "(fdTracked pid fd f \<longleftrightarrow> (\<exists>p. fdPath pid fd f = Some p \<and> p \<in> set (TracePaths cfg))) \<and>
    pred_option (\<lambda>p. IsAbs p \<and> Clean p = p) (fdPath pid fd f) \<and>
    (cwd (state f pid) = [] \<or> IsAbs (cwd (state f pid)) \<and> Clean (cwd (state f pid)) = cwd (state f pid))"
proof -
  note run = run_state [OF assms]
  have paths: "paths f = set (TracePaths cfg)" using config_paths [OF run(2)] by simp
  have clean: "IsAbs p \<and> Clean p = p" if "clean_path p" for p
    using that by (auto simp: clean_path_def Clean_root) (simp add: root_def IsAbs_def)
  show ?thesis
    using tracked_path [OF run(1)] paths fd_file [OF run(1)] filter_okD [OF run(1), of pid] clean
    by (cases "fdPath pid fd f") (auto simp: proc_ok_def)
qed

lemma demo_opened:
  "fdPath 100 3 (snd (run_filter filter_step [(no_links, demo_open)] (newPathFilter (demo_config ids)))) = Some [47, 97]"
proof -
  let ?f = "snd (run_filter filter_step [(no_links, demo_open)] (newPathFilter (demo_config ids)))"
  have valid: "list_all (\<lambda>re. links_ok (fst re)) [(no_links, demo_open)]" by simp
  note run = run_state [OF no_wd demo_parse valid refl, of ids]
  have c: "c_active (asked None [[47, 97]] ids)" by (simp add: asked_def)
  have "p_files (snd (spec_output (asked None [[47, 97]] ids) (no_links, demo_open) no_procs) 100) 3 = Some [[97]]"
    using spec_output_opens [of "(no_links, demo_open)" 0 "[47, 97]", OF _ _ _ _ c] demo_open_path demo_names
    by (simp add: opens_def demo_open_def demo_event_def)
  then have "map_option names_of (fdPath 100 3 ?f) = Some [[97]]"
    using run(4) by (simp add: fd_file_abs [symmetric] case_prod_beta)
  then obtain p where "fdPath 100 3 ?f = Some p" "names_of p = [[97]]" by auto
  moreover have "root (names_of p) = p" using clean_path_names fd_file [OF run(1) calculation(1)] by simp
  ultimately show ?thesis by (simp add: root_def)
qed

lemma tracked_iff_requested_witness:
  "fdTracked 100 3 (snd (run_filter filter_step [(no_links, demo_open)] (newPathFilter (demo_config {}))))"
  using tracked_iff_requested [OF no_wd demo_parse [of "{}"] _ refl, of "[(no_links, demo_open)]" 100 3]
    demo_opened [of "{}"] by simp

section \<open>What is let through\<close>

text \<open>
  C20. A call on a descriptor that is open on a requested file is let through, however
  long ago the file was opened: once a process has opened an absolute path that names
  a requested file, and until one of its events closes or replaces the descriptor or
  renames or removes a file, or a process is created under its number, every call of it
  that the user selects and that has the descriptor as an argument is let through,
  whatever other events come in between.
\<close>

theorem descriptor_followed:
  assumes "pred_option IsAbs wd" and "parseTracePaths wd ps = Inr (TracePaths cfg)"
    and "list_all (\<lambda>re. links_ok (fst re)) (es @ (rl, op) # es' @ [(rl', ev)])"
    and "opens op i" and "0 \<le> sint (ev_ret op)"
    and "eventTracePathAt op (int i) = Some p" and "IsAbs p" and "names_of p \<in> path_names wd ` set ps"
    and "list_all (\<lambda>re. leaves_fd (ev_pid op) (ev_ret op) (snd re)) es'"
    and "ev_pid ev = ev_pid op" and "TraceSyscallIDs cfg = {} \<or> ev_syscall_id ev \<in> TraceSyscallIDs cfg"
    and "j < unat (ev_arg_count ev)" and "j < length (ev_arg_types ev)" and "ev_arg_types ev ! j = ARG_FD"
    and "normalizeTrackedFD (ev_args ev ! j) = ev_ret op"
  shows "last (fst (run_filter filter_step (es @ (rl, op) # es' @ [(rl', ev)]) (newPathFilter cfg)))"
proof -
  let ?c = "asked wd ps (TraceSyscallIDs cfg)"
  define a where "a = snd (run_filter (spec_output ?c) es no_procs)"
  define b where "b = snd (spec_output ?c (rl, op) a)"
  define d where "d = snd (run_filter (spec_output ?c) es' b)"
  have "p_files (b (ev_pid op)) (ev_ret op) = Some (names_of p)"
    using assms(4-7) unfolding b_def
    by (intro spec_output_opens [of "(rl, op)" i, simplified]) (use assms(8) in \<open>auto simp: asked_def\<close>)
  then have "spec_open_on (c_paths ?c) ev j d"
    using spec_run_leaves [OF assms(9), of ?c b] assms(8,10,12-15) by (auto simp: d_def spec_open_on_def asked_def)
  then have "fst (spec_output ?c (rl', ev) d)"
    by (rule spec_output_descriptor [where re = "(rl', ev)", simplified]) (use assms(11) in \<open>simp add: asked_def\<close>)
  moreover have "fst (run_filter filter_step (es @ (rl, op) # es' @ [(rl', ev)]) (newPathFilter cfg)) =
      fst (run_filter (spec_output ?c) (es @ (rl, op) # es' @ [(rl', ev)]) no_procs)"
    using filter_run_refines [OF assms(1-3)] by simp
  ultimately show ?thesis
    by (simp add: run_filter_append case_prod_beta d_def b_def a_def)
qed

lemma descriptor_followed_witness:
  "last (fst (run_filter filter_step [(no_links, demo_open), (no_links, demo_fork), (no_links, demo_read)]
     (newPathFilter (demo_config {}))))"
proof -
  have leaves: "list_all (\<lambda>re. leaves_fd (ev_pid demo_open) (ev_ret demo_open) (snd re)) [(no_links, demo_fork)]"
    by (simp add: leaves_fd_def processCloneChildPID_def eventCreatesProcess_def demo_events)
  show ?thesis
    using descriptor_followed [OF no_wd demo_parse [of "{}"], of "[]" no_links demo_open "[(no_links, demo_fork)]"
        no_links demo_read 0 "[47, 97]" 0] leaves demo_open_path demo_names
    by (simp add: opens_def normalizeTrackedFD_def demo_read_def demo_open_def demo_event_def stale_event_def)
qed



text \<open>
  C21. The loader has the kernel drop the calls that neither the user nor the path
  filter asks for. Nothing is lost with them: on all events and on those the loader
  selects, the path filter prints the same events, and it holds the same descriptors,
  tracked descriptors and working directory for every process that has an event. This
  is so with forks followed or not, as long as no process that has an event is created
  by an event the loader leaves out: without \<open>-f\<close>, the children of traced processes have
  no events, and what the filter would hold for them is all that differs. When no event
  that is left out creates a process, the two final states are equal.
\<close>

theorem unselected_events_irrelevant:
  assumes "pred_option IsAbs wd" and "parseTracePaths wd ps = Inr (TracePaths cfg)" and "ps \<noteq> []"
    and "list_all (\<lambda>re. links_ok (fst re)) es"
    and "list_all (\<lambda>re. loaded cfg (snd re) \<or> pred_option (\<lambda>c. no_events c es) (processCloneChildPID (snd re))) es"
    and "es' = filter (\<lambda>re. loaded cfg (snd re)) es"
    and "f = snd (run_filter filter_step es (newPathFilter cfg))"
    and "f' = snd (run_filter filter_step es' (newPathFilter cfg))"
  shows "printed filter_step es (newPathFilter cfg) = printed filter_step es' (newPathFilter cfg) \<and>
    (\<not> no_events pid es \<longrightarrow>
      fdPath pid fd f = fdPath pid fd f' \<and> fdTracked pid fd f = fdTracked pid fd f' \<and>
      cwd (state f pid) = cwd (state f' pid)) \<and>
    (list_all (\<lambda>re. loaded cfg (snd re) \<or> processCloneChildPID (snd re) = None) es \<longrightarrow> f = f')"
proof -
  define P where "P = (\<lambda>re. ev_pid (snd re)) ` set es"
  have P: "c \<in> P \<longleftrightarrow> \<not> no_events c es" for c by (auto simp: P_def no_events_def list_all_iff)
  have paths: "TracePaths cfg \<noteq> []"
    using assms(3) parse_paths_result(2) [OF assms(1,2)] by (metis list.map_disc_iff)
  have start: "filter_ok (newPathFilter cfg)" using newPathFilter_asked(2) [OF assms(1,2)] .
  have pids: "list_all (\<lambda>re. ev_pid (snd re) \<in> P) es" by (simp add: P_def list_all_iff)
  have children: "list_all (\<lambda>re. loaded cfg (snd re) \<or> pred_option (\<lambda>c. c \<notin> P) (processCloneChildPID (snd re))) es"
    using assms(5) by (simp add: P)
  have "agree P (abs_filter (newPathFilter cfg)) (abs_filter (newPathFilter cfg))" by (simp add: agree_def)
  note runs = loaded_runs [OF paths assms(4) pids children start refl start refl this, folded assms(6), folded assms(7,8)]
  have "fdPath pid fd f = fdPath pid fd f' \<and> fdTracked pid fd f = fdTracked pid fd f' \<and>
      cwd (state f pid) = cwd (state f' pid)" if "\<not> no_events pid es"
  proof -
    have "abs_filter f pid = abs_filter f' pid" using runs that by (simp add: agree_def P)
    then show ?thesis using files_view [of f' f pid pid fd] cwd_view [of f' f pid pid] runs by simp
  qed
  moreover have "f = f'" if "list_all (\<lambda>re. loaded cfg (snd re) \<or> processCloneChildPID (snd re) = None) es"
    using loaded_runs_equal [OF paths assms(4) that start refl] assms(6-8) by simp
  ultimately show ?thesis using runs by blast
qed

text \<open>
  Without following forks and with only read selected: the fork of process 200, which
  has no event, is left out with the getpid.
\<close>

lemma unselected_events_irrelevant_witness:
  "printed filter_step [(no_links, demo_getpid), (no_links, demo_open), (no_links, demo_fork), (no_links, demo_read)]
      (newPathFilter (attach_config False {NR_read} [[47, 97]])) =
    printed filter_step [(no_links, demo_open), (no_links, demo_read)] (newPathFilter (attach_config False {NR_read} [[47, 97]]))"
proof -
  let ?cfg = "attach_config False {NR_read} [[47, 97]]"
  let ?es = "[(no_links, demo_getpid), (no_links, demo_open), (no_links, demo_fork), (no_links, demo_read)]"
  have parse: "parseTracePaths None [[47, 97]] = Inr (TracePaths ?cfg)" using demo_parse by simp
  have ids: "ev_syscall_id demo_getpid = NR_getpid" "ev_syscall_id demo_open = NR_open" "ev_syscall_id demo_fork = NR_fork"
    "ev_syscall_id demo_read = NR_read" "processCloneChildPID demo_getpid = None" "processCloneChildPID demo_fork = Some 200"
    by (simp_all add: processCloneChildPID_def eventCreatesProcess_def demo_events)
  have pids: "no_events 200 ?es" by (simp add: no_events_def demo_events)
  have sel: "loaded ?cfg demo_open" "loaded ?cfg demo_read" "\<not> loaded ?cfg demo_getpid" "\<not> loaded ?cfg demo_fork"
    by (simp_all add: loaded_def wanted_def handleTraceSyscallIDs_def pathFilterSupportSyscallIDs_def ids)
  show ?thesis
    using unselected_events_irrelevant [OF no_wd parse _ _ _ refl refl refl, of ?es] sel ids pids by simp
qed

section \<open>What changes and what does not\<close>

text \<open>
  C22. A rename moves the names of the process's open descriptors: each path at or
  below the old one, name by name, is put at the same place below the new one, all
  others stay, in whatever order the code goes through the descriptors; a descriptor is
  tracked afterwards exactly when its new path is requested; other processes' are as
  they were.
\<close>

theorem rename_moves_files:
  assumes "pred_option IsAbs wd" and "parseTracePaths wd ps = Inr (TracePaths cfg)"
    and "list_all (\<lambda>re. links_ok (fst re)) es"
    and "f = snd (run_filter filter_step es (newPathFilter cfg))"
    and "list_all name_ok old" and "list_all name_ok new"
  shows "fdPath pid fd (rewritePIDPaths pid (root old) (root new) f) =
      map_option (\<lambda>p. root (relocate old new (names_of p))) (fdPath pid fd f) \<and>
    (fdTracked pid fd (rewritePIDPaths pid (root old) (root new) f) \<longleftrightarrow>
      (\<exists>p. fdPath pid fd f = Some p \<and> root (relocate old new (names_of p)) \<in> set (TracePaths cfg))) \<and>
    (q \<noteq> pid \<longrightarrow> fdPath q fd (rewritePIDPaths pid (root old) (root new) f) = fdPath q fd f)"
proof -
  let ?f = "rewritePIDPaths pid (root old) (root new) f"
  note run = run_state [OF assms(1-4)]
  note res = rewritePIDPaths_result [OF run(1) clean_path_root [OF assms(5)] clean_path_root [OF assms(6)], of pid]
  have ok: "filter_ok ?f" and paths: "paths ?f = set (TracePaths cfg)"
    using res config_paths [of ?f "newPathFilter cfg"] run(2) by simp_all
  have "moved (root old) (root new) = (\<lambda>p. root (relocate old new (names_of p)))"
    by (simp add: moved_def fun_eq_iff names_of_root [OF assms(5)] names_of_root [OF assms(6)])
  then show ?thesis
    using res paths by (auto simp: tracked_path [OF ok] fdPath_state)
qed

lemma rename_moves_files_witness:
  "fdPath 100 3 (rewritePIDPaths 100 [47, 97] [47, 98]
     (snd (run_filter filter_step [(no_links, demo_open)] (newPathFilter (demo_config {}))))) = Some [47, 98]"
  using rename_moves_files [OF no_wd demo_parse [of "{}"] _ refl, of "[(no_links, demo_open)]" "[[97]]" "[[98]]" 100 3]
    demo_opened [of "{}"] demo_names
  by (simp add: name_ok_def root_def relocate_def)

text \<open>
  C23. What the filter holds for one process never depends on another: an event leaves
  the paths, the tracked descriptors and the working directory of every process other
  than its own, and the one it creates, as they are; and a created process starts with
  the descriptors its parent had, and from then on has its own.
\<close>

theorem processes_independent:
  assumes "pred_option IsAbs wd" and "parseTracePaths wd ps = Inr (TracePaths cfg)" and "ps \<noteq> []"
    and "list_all (\<lambda>re. links_ok (fst re)) es" and "links_ok rl"
    and "f = snd (run_filter filter_step es (newPathFilter cfg))" and "f' = snd (filter_step (rl, ev) f)"
    and "q \<noteq> ev_pid ev"
  shows "(processCloneChildPID ev \<noteq> Some q \<longrightarrow>
      fdPath q fd f' = fdPath q fd f \<and> fdTracked q fd f' = fdTracked q fd f \<and> cwd (state f' q) = cwd (state f q)) \<and>
    (processCloneChildPID ev = Some q \<longrightarrow>
      fdPath q fd f' = fdPath (ev_pid ev) fd f \<and> fdTracked q fd f' = fdTracked (ev_pid ev) fd f)"
proof -
  note run = run_state [OF assms(1,2,4,6)]
  have valid: "links_ok (fst (rl, ev))" using assms(5) by simp
  note step = filter_step_refines [OF valid run(1), folded assms(7)]
  have "p_files (abs_filter f' q) = p_files (abs_filter f (ev_pid ev))" if "processCloneChildPID ev = Some q"
    using step(4) that assms(3) spec_observe_other [OF assms(8)]
      spec_print_keeps [of "ev_pid ev" ev rl "c_paths (config_of f)" "c_allows (config_of f)" "abs_filter f"]
    by (simp add: spec_output_def run(3) asked_def spec_fork_at case_prod_beta)
  moreover have "abs_filter f' q = abs_filter f q" if "processCloneChildPID ev \<noteq> Some q"
    using step(4) spec_output_other [of q "(rl, ev)"] that assms(8) by simp
  ultimately show ?thesis
    using files_view [OF run(1) step(1,2)] cwd_view [OF run(1) step(1)] by auto
qed

lemma processes_independent_witness:
  "fdPath 200 3 (snd (filter_step (no_links, demo_fork)
     (snd (run_filter filter_step [(no_links, demo_open)] (newPathFilter (demo_config {})))))) = Some [47, 97]"
  using processes_independent [OF no_wd demo_parse [of "{}"] _ _ no_links_ok refl refl, of "[(no_links, demo_open)]" 200 demo_fork 3]
    demo_opened [of "{}"]
  by (simp add: processCloneChildPID_def eventCreatesProcess_def demo_fork_def demo_event_def stale_event_def)

end
