(* ===== verification/Loader.thy ===== *)
theory Loader
  imports Path_Facts Tracer_Safety
begin

text \<open>
  \<open>applyConfig\<close> of \<^verbatim>\<open>internal/bpf/handle.go\<close>: the loading of the programs with their
  constants, and the filling of the filter map and the target map. What the library
  that loads eBPF programs answers is the parameter \<open>collection\<close>: whether the object
  file can be read, has a constant, lets it be set and can be loaded, and whether a map
  takes an entry. The calls a Go map of numbers selects come in the order of its
  iteration, as a list.
\<close>

section \<open>Loading\<close>

record HandleConfig =
  hc_FollowForks :: bool
  hc_TraceSyscallIDs :: "s64 list"

record collection =
  c_reads :: bool
  c_has :: "string \<Rightarrow> bool"
  c_sets :: "string \<Rightarrow> bool"
  c_assigns :: bool
  c_puts_filter :: "u32 \<Rightarrow> bool"
  c_puts_pid :: "u32 \<Rightarrow> bool"

datatype load_error =
    Load_failed
  | Missing_constant string
  | Set_failed string
  | Assign_failed
  | Filter_failed
  | Pid_failed

fun put_all :: "(u32 \<Rightarrow> bool) \<Rightarrow> u32 list \<Rightarrow> (u32 \<rightharpoonup> u8) \<Rightarrow> (u32 \<rightharpoonup> u8) option" where
  "put_all puts [] m = Some m"
| "put_all puts (x # xs) m = (if puts x then put_all puts xs (m(x \<mapsto> 1)) else None)"

definition applyConfig ::
  "collection \<Rightarrow> tracer_abi \<Rightarrow> u32 list \<Rightarrow> HandleConfig \<Rightarrow> load_error + tracer_abi \<times> tracer" where
  "applyConfig col abi targetTGIDs cfg =
     (let followForks = (if hc_FollowForks cfg then 1 else 0);
          traceFilterEnabled = (if hc_TraceSyscallIDs cfg \<noteq> [] then 1 else 0)
      in if \<not> c_reads col then Inl Load_failed
         else if \<not> c_has col ''follow_forks'' then Inl (Missing_constant ''follow_forks'')
         else if \<not> c_sets col ''follow_forks'' then Inl (Set_failed ''follow_forks'')
         else if \<not> c_has col ''trace_filter_enabled'' then Inl (Missing_constant ''trace_filter_enabled'')
         else if \<not> c_sets col ''trace_filter_enabled'' then Inl (Set_failed ''trace_filter_enabled'')
         else if \<not> c_assigns col then Inl Assign_failed
         else case (if traceFilterEnabled \<noteq> 0
                    then put_all (c_puts_filter col) (map ucast (hc_TraceSyscallIDs cfg)) Map.empty
                    else Some Map.empty) of
                None \<Rightarrow> Inl Filter_failed
              | Some flt \<Rightarrow>
                  (case put_all (c_puts_pid col) targetTGIDs Map.empty of
                     None \<Rightarrow> Inl Pid_failed
                   | Some pids \<Rightarrow>
                       Inr (abi\<lparr>follow_forks := followForks, trace_filter_enabled := traceFilterEnabled\<rparr>,
                            \<lparr>target_pids = pids, trace_syscall_filter = flt, events = [],
                             inflight_syscalls = Map.empty, execve_snapshots = Map.empty,
                             tid_sequences = Map.empty\<rparr>)))"

section \<open>What is loaded\<close>

lemma put_all_result: "put_all puts xs m = Some m' \<Longrightarrow> m' = (\<lambda>x. if x \<in> set xs then Some 1 else m x)"
  by (induction xs arbitrary: m) (fastforce split: if_splits)+

lemma applyConfig_result:
  assumes "applyConfig col abi0 tgids hc = Inr (abi, s)"
  shows "initial_state s" and "target_pids s = (\<lambda>x. if x \<in> set tgids then Some 1 else None)"
    and "follow_forks abi = (if hc_FollowForks hc then 1 else 0)"
    and "trace_filter_enabled abi = (if hc_TraceSyscallIDs hc \<noteq> [] then 1 else 0)"
    and "trace_syscall_filter s = (\<lambda>x. if x \<in> ucast ` set (hc_TraceSyscallIDs hc) then Some 1 else None)"
    and "abi_ok abi0 \<Longrightarrow> abi_ok abi"
  using assms
  by (auto simp: applyConfig_def Let_def initial_state_def abi_ok_def dest!: put_all_result
      split: if_splits option.splits)

text \<open>Numbers that the filter map can tell apart.\<close>

definition small_id :: "s64 \<Rightarrow> bool" where
  "small_id nr \<longleftrightarrow> unat nr < 2 ^ 32"

lemma small_id_eq:
  assumes "small_id m" and "small_id n"
  shows "(ucast m :: u32) = ucast n \<longleftrightarrow> m = n"
proof
  assume "(ucast m :: u32) = ucast n"
  then have "unat (ucast m :: u32) = unat (ucast n :: u32)" by simp
  then show "m = n" using assms by (simp add: small_id_def unsigned_ucast_eq take_bit_nat_eq_self word_unat_eq_iff)
qed simp

lemma loaded_passes:
  assumes "applyConfig col abi0 tgids \<lparr>hc_FollowForks = FollowForks cfg, hc_TraceSyscallIDs = ids\<rparr> = Inr (abi, s)"
    and "set ids = handleTraceSyscallIDs cfg" and "list_all small_id ids" and "small_id nr"
  shows "passes abi (trace_syscall_filter s) nr \<longleftrightarrow> wanted cfg nr"
  using applyConfig_result(4,5) [OF assms(1)] assms(2-4) small_id_eq
  by (auto simp: passes_def wanted_def list_all_iff)

end
