(* ===== verification/Run_Loop.thy ===== *)
theory Run_Loop
  imports Path_Facts
begin

text \<open>
  The event loop of \<open>Run\<close> in \<^verbatim>\<open>internal/run.go\<close> and the counters of
  \<^verbatim>\<open>internal/summary.go\<close>: read a sample from the ring buffer, decode it, ask the path
  filter, and print the event's line or count it. What the reader returns is the input,
  each result with the links in /proc at that time. A printed line is the event it is
  rendered from; a message to the user about a failure is its kind.
\<close>

section \<open>The counters\<close>

record syscallSummary =
  Calls :: u64
  Errors :: u64
  TotalNs :: u64

text \<open>Reading a missing entry of a Go map gives the zero value.\<close>

definition addSummaryEvent :: "event \<Rightarrow> (s64 \<rightharpoonup> syscallSummary) \<Rightarrow> (s64 \<rightharpoonup> syscallSummary)" where
  "addSummaryEvent ev summary =
     (let stats = (case summary (ev_syscall_id ev) of
                     None \<Rightarrow> \<lparr>Calls = 0, Errors = 0, TotalNs = 0\<rparr>
                   | Some stats \<Rightarrow> stats);
          stats = stats\<lparr>Calls := Calls stats + 1\<rparr>;
          stats = (if sint (ev_ret ev) < 0 then stats\<lparr>Errors := Errors stats + 1\<rparr> else stats);
          stats = stats\<lparr>TotalNs := TotalNs stats + ev_dur ev\<rparr>
      in summary(ev_syscall_id ev \<mapsto> stats))"

section \<open>The loop\<close>

datatype read_result = Record "u8 list" | Read_error | Reader_closed

datatype message = Reading_event | Decoding_event

record run_state =
  rs_filter :: pathFilter
  rs_summary :: "s64 \<rightharpoonup> syscallSummary"
  rs_lines :: "event list"
  rs_messages :: "message list"

definition start_loop :: "Config \<Rightarrow> run_state" where
  "start_loop cfg =
     \<lparr>rs_filter = newPathFilter cfg, rs_summary = Map.empty, rs_lines = [], rs_messages = []\<rparr>"

fun run_loop :: "Config \<Rightarrow> (proc_links \<times> read_result) list \<Rightarrow> run_state \<Rightarrow> run_state" where
  "run_loop cfg [] st = st"
| "run_loop cfg ((rl, Reader_closed) # rs) st = st"
| "run_loop cfg ((rl, Read_error) # rs) st =
     run_loop cfg rs (st\<lparr>rs_messages := rs_messages st @ [Reading_event]\<rparr>)"
| "run_loop cfg ((rl, Record rawEvent) # rs) st =
     (case DecodeEvent rawEvent of
        None \<Rightarrow> run_loop cfg rs (st\<lparr>rs_messages := rs_messages st @ [Decoding_event]\<rparr>)
      | Some ev \<Rightarrow>
          (case shouldOutput rl ev (rs_filter st) of
             (False, f) \<Rightarrow> run_loop cfg rs (st\<lparr>rs_filter := f\<rparr>)
           | (True, f) \<Rightarrow>
               if SummaryOnly cfg
               then run_loop cfg rs (st\<lparr>rs_filter := f, rs_summary := addSummaryEvent ev (rs_summary st)\<rparr>)
               else run_loop cfg rs (st\<lparr>rs_filter := f, rs_lines := rs_lines st @ [ev]\<rparr>)))"

section \<open>The loop as a whole\<close>

text \<open>The events that are decoded before the reader is closed, and what is counted of a list of events.\<close>

fun decoded :: "(proc_links \<times> read_result) list \<Rightarrow> (proc_links \<times> event) list" where
  "decoded [] = []"
| "decoded ((rl, Reader_closed) # rs) = []"
| "decoded ((rl, Read_error) # rs) = decoded rs"
| "decoded ((rl, Record rawEvent) # rs) =
     (case DecodeEvent rawEvent of None \<Rightarrow> decoded rs | Some ev \<Rightarrow> (rl, ev) # decoded rs)"

definition tally :: "event list \<Rightarrow> (s64 \<rightharpoonup> syscallSummary)" where
  "tally evs nr =
     (let es = filter (\<lambda>e. ev_syscall_id e = nr) evs in
      if es = [] then None
      else Some \<lparr>Calls = of_nat (length es), Errors = of_nat (length (filter (\<lambda>e. sint (ev_ret e) < 0) es)),
                 TotalNs = sum_list (map ev_dur es)\<rparr>)"

lemma tally_empty: "tally [] = Map.empty"
  by (simp add: tally_def fun_eq_iff)

lemma tally_snoc: "tally (evs @ [ev]) = addSummaryEvent ev (tally evs)"
  by (auto simp: tally_def addSummaryEvent_def Let_def fun_eq_iff)

lemma tally_other: "ev_syscall_id ev \<noteq> nr \<Longrightarrow> tally (evs @ [ev]) nr = tally evs nr"
  by (simp add: tally_def)

text \<open>The loop prints, or counts, exactly the decoded events that the path filter lets through.\<close>

lemma run_loop_result:
  assumes "rs_summary st = tally evs"
  shows "rs_filter (run_loop cfg rs st) = snd (run_filter filter_step (decoded rs) (rs_filter st)) \<and>
    rs_lines (run_loop cfg rs st) = rs_lines st @
      (if SummaryOnly cfg then [] else map snd (printed filter_step (decoded rs) (rs_filter st))) \<and>
    rs_summary (run_loop cfg rs st) =
      (if SummaryOnly cfg then tally (evs @ map snd (printed filter_step (decoded rs) (rs_filter st)))
       else tally evs)"
  using assms
proof (induction cfg rs st arbitrary: evs rule: run_loop.induct)
  case (4 cfg rl rawEvent rs st)
  show ?case
  proof (cases "DecodeEvent rawEvent")
    case None
    then show ?thesis using 4(1) [OF None, of evs] 4(5) by simp
  next
    case (Some ev)
    obtain b f where out: "shouldOutput rl ev (rs_filter st) = (b, f)" by force
    then have step: "filter_step (rl, ev) (rs_filter st) = (b, f)" by (simp add: filter_step_def)
    show ?thesis
    proof (cases b)
      case False
      then show ?thesis using 4(4) [OF Some out [symmetric], of evs] 4(5) Some out step by (simp add: case_prod_beta)
    next
      case True
      note t = True
      show ?thesis
      proof (cases "SummaryOnly cfg")
        case True
        then show ?thesis
          using 4(2) [OF Some out [symmetric] _ True, of "evs @ [ev]"] 4(5) Some out step t
          by (simp add: case_prod_beta tally_snoc)
      next
        case False
        then show ?thesis
          using 4(3) [OF Some out [symmetric] _ False, of evs] 4(5) Some out step t
          by (simp add: case_prod_beta)
      qed
    qed
  qed
qed simp_all

lemma run_loop_start:
  "rs_lines (run_loop cfg rs (start_loop cfg)) =
     (if SummaryOnly cfg then [] else map snd (printed filter_step (decoded rs) (newPathFilter cfg)))"
  "rs_summary (run_loop cfg rs (start_loop cfg)) =
     (if SummaryOnly cfg then tally (map snd (printed filter_step (decoded rs) (newPathFilter cfg)))
      else Map.empty)"
  using run_loop_result [of "start_loop cfg" "[]" cfg rs] by (auto simp: start_loop_def tally_empty)

text \<open>Without requested paths everything is let through.\<close>

lemma printed_inactive: "\<not> pathFilterMode f \<Longrightarrow> printed filter_step es f = es"
  by (induction es) (simp_all add: filter_step_def shouldOutput_def)

text \<open>What the reader returns when the ring buffer holds the bytes of given events, and some reads fail.\<close>

fun samples_of :: "(proc_links \<times> read_result) list \<Rightarrow> u8 list list" where
  "samples_of [] = []"
| "samples_of ((rl, Record b) # rs) = b # samples_of rs"
| "samples_of ((rl, r) # rs) = samples_of rs"

lemma decoded_samples:
  assumes "list_all (\<lambda>r. snd r \<noteq> Reader_closed) rs"
    and "samples_of rs = map (\<lambda>e. event_bytes e @ pad e) es" and "list_all event_shape es"
  shows "map snd (decoded rs) = es"
  using assms
proof (induction rs arbitrary: es rule: decoded.induct)
  case (4 rl raw rs)
  then obtain e es' where "es = e # es'" "raw = event_bytes e @ pad e" by auto
  with 4 show ?case by (simp add: decode_event_bytes)
qed auto

end
