(* ===== verification/Go_Quote.thy ===== *)
theory Go_Quote
  imports Go_Path "HOL-Library.Char_ord"
begin

text \<open>
  \<open>strconv.QuoteToASCII\<close> of Go's standard library, with the UTF-8 decoder of
  \<^verbatim>\<open>unicode/utf8\<close> it runs on, as the packages document and define them: a rune is a
  number, an invalid byte is escaped by itself. The lemmas show that the result is
  printable ASCII, and that reading the escapes back gives the quoted bytes.
\<close>

section \<open>UTF-8\<close>

abbreviation (input) RuneSelf :: nat where "RuneSelf \<equiv> 0x80"
abbreviation (input) RuneError :: nat where "RuneError \<equiv> 0xFFFD"

text \<open>Size and accepted range of the second byte, by the first byte; size 0 for one that starts nothing.\<close>

definition first_byte :: "nat \<Rightarrow> nat \<times> nat \<times> nat" where
  "first_byte b =
     (if 0xC2 \<le> b \<and> b \<le> 0xDF then (2, 0x80, 0xBF)
      else if b = 0xE0 then (3, 0xA0, 0xBF)
      else if b = 0xED then (3, 0x80, 0x9F)
      else if 0xE1 \<le> b \<and> b \<le> 0xEF then (3, 0x80, 0xBF)
      else if b = 0xF0 then (4, 0x90, 0xBF)
      else if 0xF1 \<le> b \<and> b \<le> 0xF3 then (4, 0x80, 0xBF)
      else if b = 0xF4 then (4, 0x80, 0x8F)
      else (0, 0, 0))"

text \<open>\<open>DecodeRuneInString\<close>: the rune at the start of the bytes and its width.\<close>

definition DecodeRune :: "nat list \<Rightarrow> nat \<times> nat" where
  "DecodeRune bs =
     (case bs of
        [] \<Rightarrow> (RuneError, 0)
      | b0 # rest \<Rightarrow>
          if b0 < RuneSelf then (b0, 1)
          else
            let (sz, lo, hi) = first_byte b0 in
            if sz = 0 \<or> length bs < sz then (RuneError, 1)
            else
              let b1 = bs ! 1 in
              if b1 < lo \<or> hi < b1 then (RuneError, 1)
              else if sz = 2 then ((b0 mod 0x20) * 0x40 + b1 mod 0x40, 2)
              else
                let b2 = bs ! 2 in
                if b2 < 0x80 \<or> 0xBF < b2 then (RuneError, 1)
                else if sz = 3 then ((b0 mod 0x10) * 0x1000 + (b1 mod 0x40) * 0x40 + b2 mod 0x40, 3)
                else
                  let b3 = bs ! 3 in
                  if b3 < 0x80 \<or> 0xBF < b3 then (RuneError, 1)
                  else ((b0 mod 8) * 0x40000 + (b1 mod 0x40) * 0x1000 + (b2 mod 0x40) * 0x40 + b3 mod 0x40, 4))"

lemma DecodeRune_width:
  "bs \<noteq> [] \<Longrightarrow> 1 \<le> snd (DecodeRune bs) \<and> snd (DecodeRune bs) \<le> length bs"
  by (auto simp: DecodeRune_def first_byte_def Let_def Suc_le_eq split: list.split)

section \<open>Quoting\<close>

definition ascii :: "string \<Rightarrow> nat list" where
  "ascii s = map of_char s"

text \<open>A hexadecimal digit, and the digits of a number, a given number of them.\<close>

definition lowerhex :: "nat \<Rightarrow> nat" where
  "lowerhex d = (if d < 10 then 48 + d else 87 + d)"

fun hex_digits :: "nat \<Rightarrow> nat \<Rightarrow> nat list" where
  "hex_digits 0 r = []"
| "hex_digits (Suc n) r = hex_digits n (r div 16) @ [lowerhex (r mod 16)]"

abbreviation (input) backslash :: nat where "backslash \<equiv> 92"
abbreviation (input) quotation :: nat where "quotation \<equiv> 34"

text \<open>\<open>appendEscapedRune\<close> with the double quote, for ASCII only.\<close>

definition ValidRune :: "nat \<Rightarrow> bool" where
  "ValidRune r \<longleftrightarrow> r < 0xD800 \<or> 0xDFFF < r \<and> r \<le> 0x10FFFF"

definition escape_rune :: "nat \<Rightarrow> nat list" where
  "escape_rune r =
     (if r = quotation \<or> r = backslash then [backslash, r]
      else if r < RuneSelf \<and> 0x20 \<le> r \<and> r \<noteq> 0x7F then [r]
      else if r = 7 then [backslash, 97]
      else if r = 8 then [backslash, 98]
      else if r = 12 then [backslash, 102]
      else if r = 10 then [backslash, 110]
      else if r = 13 then [backslash, 114]
      else if r = 9 then [backslash, 116]
      else if r = 11 then [backslash, 118]
      else if r < 0x20 \<or> r = 0x7F then [backslash, 120] @ hex_digits 2 r
      else if \<not> ValidRune r then [backslash, 117] @ hex_digits 4 RuneError
      else if r < 0x10000 then [backslash, 117] @ hex_digits 4 r
      else [backslash, 85] @ hex_digits 8 r)"

text \<open>One turn of the loop: the text of the first rune, and what is left.\<close>

definition quote_turn :: "nat list \<Rightarrow> nat list \<times> nat list" where
  "quote_turn s =
     (let (r, width) = (if hd s < RuneSelf then (hd s, 1) else DecodeRune s) in
      (if width = 1 \<and> r = RuneError then [backslash, 120] @ hex_digits 2 (hd s) else escape_rune r,
       drop width s))"

function quote_loop :: "nat list \<Rightarrow> nat list \<Rightarrow> nat list" where
  "quote_loop s buf =
     (if s = [] then buf
      else let (tx, rest) = quote_turn s in quote_loop rest (buf @ tx))"
  by auto

lemma quote_turn_rest: "s \<noteq> [] \<Longrightarrow> \<exists>w. 1 \<le> w \<and> w \<le> length s \<and> snd (quote_turn s) = drop w s"
  using DecodeRune_width [of s] by (cases s) (auto simp: quote_turn_def split: prod.split)

lemma quote_turn_less:
  assumes "s \<noteq> []" and "(tx, rest) = quote_turn s"
  shows "length rest < length s"
proof -
  obtain w where "1 \<le> w" "w \<le> length s" "snd (quote_turn s) = drop w s"
    using quote_turn_rest [OF assms(1)] by blast
  then show ?thesis using arg_cong [OF assms(2), of snd] by simp
qed

termination quote_loop
  by (relation "measure (\<lambda>(s, buf). length s)") (simp_all add: quote_turn_less)

declare quote_loop.simps [simp del]

text \<open>Bytes in, bytes out.\<close>

definition QuoteToASCII :: "gostring \<Rightarrow> gostring" where
  "QuoteToASCII s = map of_nat ([quotation] @ quote_loop (map unat s) [] @ [quotation])"

section \<open>The text is printable\<close>

definition printable :: "nat \<Rightarrow> bool" where
  "printable c \<longleftrightarrow> 0x20 \<le> c \<and> c < 0x7F"

lemma lowerhex_printable: "d < 16 \<Longrightarrow> printable (lowerhex d)"
  by (simp add: printable_def lowerhex_def)

lemma hex_digits_printable: "list_all printable (hex_digits n r)"
  by (induction n r rule: hex_digits.induct) (simp_all add: lowerhex_printable)

lemma escape_rune_printable: "list_all printable (escape_rune r)"
  using hex_digits_printable [of 2 r] hex_digits_printable [of 4 r] hex_digits_printable [of 8 r]
    hex_digits_printable [of 4 RuneError]
  by (simp add: escape_rune_def) (simp add: printable_def)

lemma quote_turn_printable: "list_all printable (fst (quote_turn s))"
  using escape_rune_printable hex_digits_printable [of 2 "hd s"]
  by (simp add: quote_turn_def split: prod.split) (simp add: printable_def)

lemma quote_loop_printable: "list_all printable buf \<Longrightarrow> list_all printable (quote_loop s buf)"
proof (induction s buf rule: quote_loop.induct)
  case (1 s buf)
  obtain tx rest where turn: "quote_turn s = (tx, rest)" by force
  then have "list_all printable tx" using quote_turn_printable [of s] by simp
  then show ?case
    using 1 turn by (subst quote_loop.simps) auto
qed

lemma quote_loop_turn:
  assumes "s \<noteq> []" and "quote_turn s = (tx, rest)"
  shows "quote_loop s buf = buf @ tx @ quote_loop rest []"
  using assms
proof (induction "length s" arbitrary: s buf tx rest rule: less_induct)
  case less
  have less': "length rest < length s" using quote_turn_less [OF less.prems(1)] less.prems(2) by simp
  have "quote_loop s buf = quote_loop rest (buf @ tx)"
    using less.prems by (subst quote_loop.simps) simp
  also have "\<dots> = buf @ tx @ quote_loop rest []"
  proof (cases "rest = []")
    case True
    then show ?thesis by (simp add: quote_loop.simps)
  next
    case False
    obtain t r where turn: "quote_turn rest = (t, r)" by force
    show ?thesis
      using less.hyps [OF less' False turn, of "buf @ tx"] less.hyps [OF less' False turn, of "[]"] by simp
  qed
  finally show ?case .
qed

section \<open>Reading it back\<close>

fun unhex :: "nat list \<Rightarrow> nat" where
  "unhex ds = foldl (\<lambda>n d. 16 * n + (if d < 58 then d - 48 else d - 87)) 0 ds"

text \<open>The bytes of a rune in UTF-8.\<close>

definition utf8 :: "nat \<Rightarrow> nat list" where
  "utf8 r =
     (if r < 0x80 then [r]
      else if r < 0x800 then [0xC0 + r div 0x40, 0x80 + r mod 0x40]
      else if r < 0x10000 then [0xE0 + r div 0x1000, 0x80 + r div 0x40 mod 0x40, 0x80 + r mod 0x40]
      else [0xF0 + r div 0x40000, 0x80 + r div 0x1000 mod 0x40, 0x80 + r div 0x40 mod 0x40, 0x80 + r mod 0x40])"

definition unescape :: "nat \<Rightarrow> nat" where
  "unescape e =
     (if e = 97 then 7 else if e = 98 then 8 else if e = 102 then 12 else if e = 110 then 10
      else if e = 114 then 13 else if e = 116 then 9 else if e = 118 then 11 else e)"

fun unquote :: "nat list \<Rightarrow> nat list" where
  "unquote [] = []"
| "unquote (c # cs) =
     (if c \<noteq> backslash then c # unquote cs
      else case cs of
             [] \<Rightarrow> []
           | e # es \<Rightarrow>
               if e = 120 then unhex (take 2 es) # unquote (drop 2 es)
               else if e = 117 then utf8 (unhex (take 4 es)) @ unquote (drop 4 es)
               else if e = 85 then utf8 (unhex (take 8 es)) @ unquote (drop 8 es)
               else unescape e # unquote es)"

lemma length_hex_digits [simp]: "length (hex_digits n r) = n"
  by (induction n r rule: hex_digits.induct) simp_all

lemma unhex_digits: "unhex (hex_digits n r) = r mod 16 ^ n"
proof (induction n r rule: hex_digits.induct)
  case (2 n r)
  have "r mod 16 ^ Suc n = 16 * (r div 16 mod 16 ^ n) + r mod 16"
    using mod_mult2_eq [of r 16 "16 ^ n"] by simp
  then show ?case using 2 by (auto simp: lowerhex_def)
qed simp

declare unhex.simps [simp del]

lemma unquote_hex:
  "unquote (backslash # 120 # hex_digits 2 r @ u) = r mod 256 # unquote u"
  "unquote (backslash # 117 # hex_digits 4 r @ u) = utf8 (r mod 65536) @ unquote u"
  "unquote (backslash # 85 # hex_digits 8 r @ u) = utf8 (r mod 4294967296) @ unquote u"
  using unhex_digits [of 2 r] unhex_digits [of 4 r] unhex_digits [of 8 r] by simp_all

lemma unquote_escape:
  assumes "ValidRune r"
  shows "unquote (escape_rune r @ u) = utf8 r @ unquote u"
proof -
  have "r < 0x110000" using assms by (auto simp: ValidRune_def)
  then show ?thesis
    using assms unquote_hex [of r u]
    by (simp add: escape_rune_def unescape_def utf8_def [of 7] utf8_def [of 8] utf8_def [of 9]
        utf8_def [of 10] utf8_def [of 11] utf8_def [of 12] utf8_def [of 13] del: hex_digits.simps)
      (auto simp: utf8_def)
qed

text \<open>A rune that is decoded from more than one byte is valid, and its bytes are those decoded.\<close>

lemma low_digit: "z < (64 :: nat) \<Longrightarrow> (a * 64 + z) div 64 = a" "z < (64 :: nat) \<Longrightarrow> (a * 64 + z) mod 64 = z"
  by simp_all

lemma utf8_2:
  assumes "2 \<le> x" and "x < 32" and "y < (64 :: nat)"
  shows "utf8 (x * 64 + y) = [0xC0 + x, 0x80 + y]" and "ValidRune (x * 64 + y)"
  using assms by (simp_all add: utf8_def ValidRune_def)

lemma utf8_3:
  assumes "x < 16" and "y < 64" and "z < (64 :: nat)" and "x = 0 \<longrightarrow> 32 \<le> y" and "x = 13 \<longrightarrow> y < 32"
  shows "utf8 (x * 4096 + y * 64 + z) = [0xE0 + x, 0x80 + y, 0x80 + z]" and "ValidRune (x * 4096 + y * 64 + z)"
proof -
  define r where "r = x * 4096 + y * 64 + z"
  have d: "r div 64 = x * 64 + y" "r mod 64 = z"
    using low_digit [OF assms(3), of "x * 64 + y"] by (simp_all add: r_def algebra_simps)
  have "r div 4096 = x" "r div 64 mod 64 = y"
    using div_mult2_eq [of r 64 64] d(1) low_digit [OF assms(2), of x] by simp_all
  moreover have "0x800 \<le> r" "r < 0x10000" using assms by (auto simp: r_def)
  ultimately show "utf8 (x * 4096 + y * 64 + z) = [0xE0 + x, 0x80 + y, 0x80 + z]"
    using d(2) by (simp add: utf8_def flip: r_def)
  consider "x < 13" | "x = 13" "y < 32" | "13 < x" using assms(5) by linarith
  then show "ValidRune (x * 4096 + y * 64 + z)"
    by cases (use assms in \<open>simp_all add: ValidRune_def\<close>)
qed

lemma utf8_4:
  assumes "x < 5" and "y < 64" and "z < 64" and "w < (64 :: nat)" and "x = 0 \<longrightarrow> 16 \<le> y" and "x = 4 \<longrightarrow> y < 16"
  shows "utf8 (x * 262144 + y * 4096 + z * 64 + w) = [0xF0 + x, 0x80 + y, 0x80 + z, 0x80 + w]"
    and "ValidRune (x * 262144 + y * 4096 + z * 64 + w)"
proof -
  define r where "r = x * 262144 + y * 4096 + z * 64 + w"
  have d: "r div 64 = (x * 64 + y) * 64 + z" "r mod 64 = w"
    using low_digit [OF assms(4), of "(x * 64 + y) * 64 + z"] by (simp_all add: r_def algebra_simps)
  have e: "r div 4096 = x * 64 + y" "r div 64 mod 64 = z"
    using div_mult2_eq [of r 64 64] d(1) low_digit [OF assms(3), of "x * 64 + y"] by simp_all
  have "r div 262144 = x" "r div 4096 mod 64 = y"
    using div_mult2_eq [of r 4096 64] e(1) low_digit [OF assms(2), of x] by simp_all
  moreover have "0x10000 \<le> r" "r < 0x110000" using assms by (auto simp: r_def)
  ultimately show "utf8 (x * 262144 + y * 4096 + z * 64 + w) = [0xF0 + x, 0x80 + y, 0x80 + z, 0x80 + w]"
    using d(2) e(2) by (simp add: utf8_def flip: r_def)
  show "ValidRune (x * 262144 + y * 4096 + z * 64 + w)" using assms by (auto simp: ValidRune_def)
qed

text \<open>The bytes a rune of several bytes can have.\<close>

lemma block_mod:
  assumes "k * m \<le> b" and "b < k * m + (m :: nat)"
  shows "b = k * m + b mod m" and "b mod m < m"
proof -
  obtain n where n: "b = k * m + n" using assms(1) le_Suc_ex by blast
  then have "n < m" using assms(2) by simp
  then show "b = k * m + b mod m" "b mod m < m" using n by simp_all
qed

lemma continuation: "0x80 \<le> b \<Longrightarrow> b \<le> 0xBF \<Longrightarrow> b = 0x80 + b mod 64 \<and> b mod 64 < 64" for b :: nat
  using block_mod [of 2 64 b] by simp

lemma lead_2: "0xC2 \<le> b \<Longrightarrow> b \<le> 0xDF \<Longrightarrow> b = 0xC0 + b mod 32 \<and> 2 \<le> b mod 32 \<and> b mod 32 < 32" for b :: nat
  using block_mod [of 6 32 b] by linarith

lemma lead_3: "0xE0 \<le> b \<Longrightarrow> b \<le> 0xEF \<Longrightarrow> b = 0xE0 + b mod 16 \<and> b mod 16 < 16" for b :: nat
  using block_mod [of 14 16 b] by simp

lemma lead_4: "0xF0 \<le> b \<Longrightarrow> b \<le> 0xF4 \<Longrightarrow> b = 0xF0 + b mod 8 \<and> b mod 8 < 5" for b :: nat
  using block_mod [of 30 8 b] by linarith

text \<open>The decoder, when it takes more than one byte.\<close>

lemma DecodeRune_cases:
  assumes "DecodeRune bs = (r, w)" and "2 \<le> w"
  obtains (two) b0 b1 rest where "bs = b0 # b1 # rest" and "w = 2" and "r = (b0 mod 32) * 64 + b1 mod 64"
      and "0xC2 \<le> b0" and "b0 \<le> 0xDF" and "0x80 \<le> b1" and "b1 \<le> 0xBF"
    | (three) b0 b1 b2 rest where "bs = b0 # b1 # b2 # rest" and "w = 3"
      and "r = (b0 mod 16) * 4096 + (b1 mod 64) * 64 + b2 mod 64"
      and "0xE0 \<le> b0" and "b0 \<le> 0xEF" and "0x80 \<le> b1" and "b1 \<le> 0xBF" and "0x80 \<le> b2" and "b2 \<le> 0xBF"
      and "b0 = 0xE0 \<longrightarrow> 0xA0 \<le> b1" and "b0 = 0xED \<longrightarrow> b1 \<le> 0x9F"
    | (four) b0 b1 b2 b3 rest where "bs = b0 # b1 # b2 # b3 # rest" and "w = 4"
      and "r = (b0 mod 8) * 262144 + (b1 mod 64) * 4096 + (b2 mod 64) * 64 + b3 mod 64"
      and "0xF0 \<le> b0" and "b0 \<le> 0xF4" and "0x80 \<le> b1" and "b1 \<le> 0xBF" and "0x80 \<le> b2" and "b2 \<le> 0xBF"
      and "0x80 \<le> b3" and "b3 \<le> 0xBF" and "b0 = 0xF0 \<longrightarrow> 0x90 \<le> b1" and "b0 = 0xF4 \<longrightarrow> b1 \<le> 0x8F"
proof -
  obtain b0 bs1 where bs: "bs = b0 # bs1" using assms by (cases bs) (auto simp: DecodeRune_def)
  obtain sz lo hi where fb: "first_byte b0 = (sz, lo, hi)" by (metis prod_cases3)
  have multi: "\<not> b0 < 128" "sz \<noteq> 0" "sz \<le> length bs"
    using assms by (auto simp: DecodeRune_def bs fb Let_def split: if_splits)
  consider (2) "sz = 2" "0xC2 \<le> b0" "b0 \<le> 0xDF" "lo = 0x80" "hi = 0xBF"
    | (3) "sz = 3" "0xE0 \<le> b0" "b0 \<le> 0xEF" "0x80 \<le> lo" "hi \<le> 0xBF" "b0 = 0xE0 \<longrightarrow> 0xA0 \<le> lo" "b0 = 0xED \<longrightarrow> hi \<le> 0x9F"
    | (4) "sz = 4" "0xF0 \<le> b0" "b0 \<le> 0xF4" "0x80 \<le> lo" "hi \<le> 0xBF" "b0 = 0xF0 \<longrightarrow> 0x90 \<le> lo" "b0 = 0xF4 \<longrightarrow> hi \<le> 0x8F"
    using fb multi(2) by (auto simp: first_byte_def split: if_splits)
  then show thesis
  proof cases
    case 2
    then obtain b1 rest where "bs1 = b1 # rest" using multi(3) bs by (cases bs1) auto
    then show thesis
      using assms 2 multi bs fb two [of b0 b1 rest] by (auto simp: DecodeRune_def Let_def split: if_splits)
  next
    case 3
    then obtain b1 b2 rest where "bs1 = b1 # b2 # rest"
      using multi(3) bs by (cases bs1; cases "tl bs1") auto
    then show thesis
      using assms 3 multi bs fb three [of b0 b1 b2 rest] by (auto simp: DecodeRune_def Let_def split: if_splits)
  next
    case 4
    then obtain b1 b2 b3 rest where "bs1 = b1 # b2 # b3 # rest"
      using multi(3) bs by (cases bs1; cases "tl bs1"; cases "tl (tl bs1)") auto
    then show thesis
      using assms 4 multi bs fb four [of b0 b1 b2 b3 rest]
      by (auto simp: DecodeRune_def Let_def numeral_3_eq_3 split: if_splits)
  qed
qed

lemma DecodeRune_utf8:
  assumes "DecodeRune bs = (r, w)" and "2 \<le> w"
  shows "ValidRune r \<and> utf8 r = take w bs"
  using assms
proof (cases rule: DecodeRune_cases)
  case (two b0 b1 rest)
  show ?thesis
    using utf8_2 [of "b0 mod 32" "b1 mod 64"] lead_2 [OF two(4,5)] continuation [OF two(6,7)] two(1-3) by simp
next
  case (three b0 b1 b2 rest)
  note l = lead_3 [OF three(4,5)] and c = continuation [OF three(6,7)] and c' = continuation [OF three(8,9)]
  have "b0 mod 16 = 0 \<longrightarrow> 32 \<le> b1 mod 64" "b0 mod 16 = 13 \<longrightarrow> b1 mod 64 < 32"
    using l c three(10,11) by linarith+
  then show ?thesis
    using utf8_3 [of "b0 mod 16" "b1 mod 64" "b2 mod 64"] l c c' three(1-3) by simp
next
  case (four b0 b1 b2 b3 rest)
  note l = lead_4 [OF four(4,5)] and c = continuation [OF four(6,7)] and c' = continuation [OF four(8,9)]
    and c'' = continuation [OF four(10,11)]
  have "b0 mod 8 = 0 \<longrightarrow> 16 \<le> b1 mod 64" "b0 mod 8 = 4 \<longrightarrow> b1 mod 64 < 16"
    using l c four(12,13) by linarith+
  then show ?thesis
    using utf8_4 [of "b0 mod 8" "b1 mod 64" "b2 mod 64" "b3 mod 64"] l c c' c'' four(1-3) by simp
qed

lemma DecodeRune_invalid:
  assumes "DecodeRune bs = (r, w)" and "bs \<noteq> []" and "\<not> hd bs < 0x80" and "\<not> 2 \<le> w"
  shows "r = RuneError \<and> w = 1"
  using assms by (cases bs) (auto simp: DecodeRune_def Let_def split: if_splits prod.splits)

text \<open>So every turn of the quoting loop is undone.\<close>

lemma quote_turn_unquote:
  assumes "s \<noteq> []" and "list_all (\<lambda>b. b < 256) s" and "quote_turn s = (tx, rest)"
  shows "\<exists>w. rest = drop w s \<and> unquote (tx @ u) = take w s @ unquote u"
proof (cases "hd s < 0x80")
  case True
  then have "tx = escape_rune (hd s)" "rest = drop 1 s" using assms(3) by (auto simp: quote_turn_def)
  moreover have "ValidRune (hd s)" "utf8 (hd s) = take 1 s"
    using True assms(1) by (auto simp: ValidRune_def utf8_def neq_Nil_conv)
  ultimately show ?thesis using unquote_escape [of "hd s" u] by (intro exI [of _ 1]) (simp only: simp_thms)
next
  case False
  obtain r w where dec: "DecodeRune s = (r, w)" by force
  show ?thesis
  proof (cases "2 \<le> w")
    case True
    then have "tx = escape_rune r" "rest = drop w s" using assms(3) False dec by (auto simp: quote_turn_def)
    then show ?thesis using DecodeRune_utf8 [OF dec True] unquote_escape [of r u] by metis
  next
    case short: False
    then have "tx = backslash # 120 # hex_digits 2 (hd s)" "rest = drop 1 s"
      using DecodeRune_invalid [OF dec assms(1) False] assms(3) False dec by (auto simp: quote_turn_def)
    moreover have "hd s mod 256 = hd s" using assms(1,2) by (cases s) auto
    ultimately show ?thesis
      using unquote_hex(1) [of "hd s" u] assms(1) by (intro exI [of _ 1]) (cases s; simp del: unquote.simps)
  qed
qed

lemma unquote_loop: "list_all (\<lambda>b. b < 256) s \<Longrightarrow> unquote (quote_loop s [] @ u) = s @ unquote u"
proof (induction "length s" arbitrary: s rule: less_induct)
  case less
  show ?case
  proof (cases "s = []")
    case True
    then show ?thesis by (simp add: quote_loop.simps)
  next
    case False
    obtain tx rest where turn: "quote_turn s = (tx, rest)" by force
    then obtain w where w: "rest = drop w s"
      "unquote (tx @ quote_loop rest [] @ u) = take w s @ unquote (quote_loop rest [] @ u)"
      using quote_turn_unquote [OF False less.prems turn] by blast
    have "list_all (\<lambda>b. b < 256) rest" using less.prems w(1) by (auto simp: list_all_iff dest: in_set_dropD)
    then have "unquote (quote_loop rest [] @ u) = rest @ unquote u"
      using less.hyps [of rest] quote_turn_less [OF False] turn by simp
    then have "unquote (quote_loop s [] @ u) = take w s @ rest @ unquote u"
      using w(2) by (simp add: quote_loop_turn [OF False turn])
    then show ?thesis by (simp add: w(1) flip: append_assoc)
  qed
qed

section \<open>Byte strings\<close>

definition printable_text :: "gostring \<Rightarrow> bool" where
  "printable_text s \<longleftrightarrow> list_all (\<lambda>c. printable (unat c)) s"

lemma printable_text_append [simp]: "printable_text (s @ t) \<longleftrightarrow> printable_text s \<and> printable_text t"
  by (simp add: printable_text_def)

text \<open>What stands between the quotation marks, read back.\<close>

definition unquote_text :: "gostring \<Rightarrow> gostring" where
  "unquote_text q = map of_nat (unquote (map unat (butlast (tl q))))"

lemma unat_less_u8: "unat (c :: u8) < 256"
  using unsigned_less [of c] by simp

lemma quoted_bytes: "list_all printable cs \<Longrightarrow> map unat (map of_nat cs :: gostring) = cs"
  by (induction cs) (simp_all add: printable_def unat_of_nat)

lemma QuoteToASCII_text:
  "printable_text (QuoteToASCII s) \<and> unquote_text (QuoteToASCII s) = s"
proof
  let ?q = "quote_loop (map unat s) []"
  have q: "list_all printable ?q" by (rule quote_loop_printable) simp
  have "map unat (QuoteToASCII s) = [quotation] @ ?q @ [quotation]"
    using quoted_bytes [of "[quotation] @ ?q @ [quotation]"] q by (simp add: QuoteToASCII_def printable_def)
  then have "list_all printable (map unat (QuoteToASCII s))" using q by (simp add: printable_def)
  then show "printable_text (QuoteToASCII s)" by (simp add: printable_text_def list.pred_map comp_def)
  have "list_all (\<lambda>b. b < 256) (map unat s)"
    using unat_less_u8 by (simp add: list_all_iff)
  from unquote_loop [OF this, of "[]"] have "unquote ?q = map unat s" by simp
  moreover have "map unat (butlast (tl (QuoteToASCII s))) = ?q"
    using quoted_bytes [OF q] by (simp add: QuoteToASCII_def)
  ultimately show "unquote_text (QuoteToASCII s) = s"
    by (simp add: unquote_text_def map_idI)
qed

lemma QuoteToASCII_inj: "QuoteToASCII s = QuoteToASCII t \<longleftrightarrow> s = t"
  using QuoteToASCII_text by metis

end
