(* ===== verification/Format_Var.thy ===== *)
theory Format_Var
  imports Consumer Go_Quote
begin

text \<open>
  The rendering of captured arguments in \<^verbatim>\<open>internal/format_var.go\<close>: strings, byte
  buffers and argument lists. The loop of \<open>formatVarArgv\<close> takes the payload apart at
  its NULs and is a partial function, so that it returns is proved and not assumed.
\<close>

section \<open>The functions\<close>

definition go_text :: "string \<Rightarrow> gostring" where
  "go_text s = map of_nat (ascii s)"

fun IndexByte :: "gostring \<Rightarrow> u8 \<Rightarrow> nat option" where
  "IndexByte [] c = None"
| "IndexByte (b # bs) c = (if b = c then Some 0 else map_option Suc (IndexByte bs c))"

fun Join :: "gostring list \<Rightarrow> gostring \<Rightarrow> gostring" where
  "Join [] sep = []"
| "Join [p] sep = p"
| "Join (p # ps) sep = p @ sep @ Join ps sep"

definition formatVarString :: "event \<Rightarrow> var_arg_desc \<Rightarrow> gostring" where
  "formatVarString ev desc =
     (if vd_flags desc AND VAR_FLAG_NULL_POINTER \<noteq> 0 then go_text ''NULL''
      else if vd_flags desc AND VAR_FLAG_READ_ERROR \<noteq> 0 then go_text ''<?>''
      else case varPayloadSlice ev desc of
             None \<Rightarrow> go_text ''<?>''
           | Some payload \<Rightarrow>
               if vd_flags desc AND VAR_FLAG_TRUNCATED \<noteq> 0
               then QuoteToASCII payload @ go_text ''...''
               else QuoteToASCII payload)"

definition formatVarBytes :: "event \<Rightarrow> var_arg_desc \<Rightarrow> gostring" where
  "formatVarBytes ev desc =
     (if vd_flags desc AND VAR_FLAG_NULL_POINTER \<noteq> 0 then go_text ''NULL''
      else if vd_flags desc AND VAR_FLAG_READ_ERROR \<noteq> 0 then go_text ''<?>''
      else case varPayloadSlice ev desc of
             None \<Rightarrow> go_text ''<?>''
           | Some payload \<Rightarrow>
               if vd_flags desc AND VAR_FLAG_TRUNCATED \<noteq> 0
               then QuoteToASCII payload @ go_text ''...''
               else QuoteToASCII payload)"

partial_function (option) split_loop :: "gostring \<Rightarrow> gostring list \<Rightarrow> gostring list option" where
  "split_loop payload parts =
     (if payload = [] then Some parts
      else case IndexByte payload 0 of
             None \<Rightarrow> Some (parts @ [QuoteToASCII payload])
           | Some idx \<Rightarrow> split_loop (drop (idx + 1) payload) (parts @ [QuoteToASCII (take idx payload)]))"

text \<open>\<open>None\<close> would be a call that does not return.\<close>

definition formatVarArgv :: "event \<Rightarrow> var_arg_desc \<Rightarrow> gostring option" where
  "formatVarArgv ev desc =
     (if vd_flags desc AND VAR_FLAG_NULL_POINTER \<noteq> 0 then Some (go_text ''NULL'')
      else case varPayloadSlice ev desc of
             None \<Rightarrow> Some (go_text ''<?>'')
           | Some payload \<Rightarrow>
               (case split_loop payload [] of
                  None \<Rightarrow> None
                | Some parts \<Rightarrow>
                    let parts = (if vd_flags desc AND VAR_FLAG_READ_ERROR \<noteq> 0 then parts @ [go_text ''<?>''] else parts);
                        rendered = go_text ''['' @ Join parts (go_text '', '') @ go_text '']''
                    in Some (if vd_flags desc AND VAR_FLAG_TRUNCATED \<noteq> 0 then rendered @ go_text ''...'' else rendered)))"

text \<open>The outer option is the return, the inner one the flag of the Go function.\<close>

definition formatVarArg :: "event \<Rightarrow> int \<Rightarrow> gostring option option" where
  "formatVarArg ev idx =
     (if \<not> isVarArgEnabled ev idx then Some None
      else case findVarArgDesc ev idx of
             None \<Rightarrow> Some None
           | Some desc \<Rightarrow>
               let typ = ev_arg_types ev ! nat idx in
               if typ = VAR_ARG_STRING then Some (Some (formatVarString ev desc))
               else if typ = VAR_ARG_BYTES then Some (Some (formatVarBytes ev desc))
               else if typ = VAR_ARG_ARGV then map_option Some (formatVarArgv ev desc)
               else Some (Some (go_text ''<?>'')))"

section \<open>The loop over an argument list\<close>

text \<open>The parts of a payload: what stands before each NUL, and what is left after the last one.\<close>

fun add_byte :: "u8 \<Rightarrow> gostring list \<Rightarrow> gostring list" where
  "add_byte b [] = [[b]]"
| "add_byte b (p # ps) = (b # p) # ps"

fun nul_parts :: "gostring \<Rightarrow> gostring list" where
  "nul_parts [] = []"
| "nul_parts (b # bs) = (if b = 0 then [] # nul_parts bs else add_byte b (nul_parts bs))"

lemma IndexByte_some:
  "IndexByte s c = Some i \<Longrightarrow> i < length s \<and> s ! i = c \<and> c \<notin> set (take i s)"
  by (induction s arbitrary: i) (auto split: if_splits)

lemma IndexByte_none: "IndexByte s c = None \<longleftrightarrow> c \<notin> set s"
  by (induction s) auto

lemma nul_parts_none: "0 \<notin> set s \<Longrightarrow> s \<noteq> [] \<Longrightarrow> nul_parts s = [s]"
proof (induction s)
  case (Cons b s)
  then show ?case by (cases "s = []") auto
qed simp

lemma nul_parts_some: "0 \<notin> set s \<Longrightarrow> nul_parts (s @ 0 # t) = s # nul_parts t"
  by (induction s) auto

lemma split_loop_returns: "split_loop s parts = Some (parts @ map QuoteToASCII (nul_parts s))"
proof (induction "length s" arbitrary: s parts rule: less_induct)
  case less
  show ?case
  proof (cases "s = []")
    case True
    then show ?thesis by (simp add: split_loop.simps)
  next
    case False
    note nonempty = False
    show ?thesis
    proof (cases "IndexByte s 0")
      case None
      then show ?thesis
        using nonempty nul_parts_none [of s] IndexByte_none [of s 0] by (simp add: split_loop.simps [of s])
    next
      case (Some i)
      note i = IndexByte_some [OF Some]
      have "s = take i s @ 0 # drop (Suc i) s" using i id_take_nth_drop [of i s] by simp
      then have "nul_parts s = take i s # nul_parts (drop (Suc i) s)"
        using nul_parts_some [of "take i s" "drop (Suc i) s"] i by simp
      moreover have "length (drop (Suc i) s) < length s" using i by auto
      ultimately show ?thesis
        using less [of "drop (Suc i) s" "parts @ [QuoteToASCII (take i s)]"] Some nonempty
        by (simp add: split_loop.simps [of s])
    qed
  qed
qed

text \<open>A list of arguments, each with its NUL.\<close>

lemma nul_parts_list:
  "list_all (\<lambda>a. 0 \<notin> set a) as \<Longrightarrow> nul_parts (concat (map (\<lambda>a. a @ [0]) as)) = as"
  by (induction as) (simp_all add: nul_parts_some)

text \<open>What the capture of an argument list holds when nothing is cut.\<close>

lemma argv_spec_whole:
  "argv_spec n room as = (bs, False) \<Longrightarrow> bs = concat (map (\<lambda>a. a @ [0]) as)"
  by (induction n room as arbitrary: bs rule: argv_spec.induct)
    (auto split: if_splits prod.splits simp: Let_def)

section \<open>Printable text\<close>

lemma printable_go_text:
  "printable_text (go_text ''NULL'')" "printable_text (go_text ''<?>'')" "printable_text (go_text ''...'')"
  "printable_text (go_text ''['')" "printable_text (go_text '']'')" "printable_text (go_text '', '')"
  by (simp_all add: go_text_def ascii_def printable_text_def printable_def)

lemma printable_Join: "list_all printable_text ps \<Longrightarrow> printable_text sep \<Longrightarrow> printable_text (Join ps sep)"
  by (induction ps sep rule: Join.induct) (auto simp: printable_text_def [of "[]"])

lemma formatVarString_printable: "printable_text (formatVarString ev desc)"
  using QuoteToASCII_text printable_go_text by (simp add: formatVarString_def split: option.split)

lemma formatVarBytes_printable: "printable_text (formatVarBytes ev desc)"
  using QuoteToASCII_text printable_go_text by (simp add: formatVarBytes_def split: option.split)

lemma formatVarArgv_printable: "\<exists>s. formatVarArgv ev desc = Some s \<and> printable_text s"
proof (cases "varPayloadSlice ev desc")
  case (Some payload)
  have "list_all printable_text (map QuoteToASCII (nul_parts payload))"
    using QuoteToASCII_text by (simp add: list_all_iff)
  then show ?thesis
    using Some printable_go_text
    by (simp add: formatVarArgv_def split_loop_returns Let_def printable_Join)
qed (use printable_go_text in \<open>simp add: formatVarArgv_def\<close>)

lemma formatVarArg_printable: "\<exists>r. formatVarArg ev idx = Some r \<and> pred_option printable_text r"
proof (cases "findVarArgDesc ev idx")
  case (Some desc)
  obtain s where "formatVarArgv ev desc = Some s" "printable_text s"
    using formatVarArgv_printable by blast
  then show ?thesis
    using Some formatVarString_printable formatVarBytes_printable printable_go_text
    by (simp add: formatVarArg_def Let_def)
qed (simp add: formatVarArg_def)

end
