(* ===== verification/Consumer_Properties.thy ===== *)
theory Consumer_Properties
  imports Path_Properties Loader Run_Loop Format_Var
begin

text \<open>
  The properties of the consumer around the path filter: what the loader makes the
  tracer select, what the event loop prints and counts, and how it renders what the
  tracer has captured.
\<close>

section \<open>The loader\<close>

text \<open>
  When the loader has configured the tracer for the calls that \<open>handleTraceSyscallIDs\<close>
  computes, the tracer starts in an initial state whose targets are the given processes
  and follows forks when asked to; from then on it selects a call exactly when the user
  or the path filter wants it, and every event in the ring buffer is about such a call.
  Numbers that do not fit in 32 bits are left aside: the filter map cannot tell them apart.
\<close>

theorem loader_selects:
  assumes "applyConfig col abi0 tgids \<lparr>hc_FollowForks = FollowForks cfg, hc_TraceSyscallIDs = ids\<rparr> = Inr (abi, s0)"
    and "set ids = handleTraceSyscallIDs cfg" and "list_all small_id ids"
    and "reachable abi s0 s"
  shows "initial_state s0 \<and> dom (target_pids s0) = set tgids \<and>
    (follow_forks abi \<noteq> 0 \<longleftrightarrow> FollowForks cfg) \<and>
    (small_id (en_id ctx) \<longrightarrow> (enter_selected abi ctx s \<longleftrightarrow> wanted cfg (en_id ctx))) \<and>
    list_all (\<lambda>e. small_id (ev_syscall_id e) \<longrightarrow> wanted cfg (ev_syscall_id e)) (events s)"
proof -
  note res = applyConfig_result [OF assms(1)]
  note pass = loaded_passes [OF assms(1-3)]
  have inv: "filter_inv abi (trace_syscall_filter s0) s"
    by (rule filtered.inv_reachable [OF assms(4) initial_filter_inv [OF res(1)]])
  then have "enter_selected abi ctx s \<longleftrightarrow> passes abi (trace_syscall_filter s0) (en_id ctx)"
    by (simp add: enter_selected_def passes_def filter_inv_def)
  then show ?thesis
    using res(1-3) pass inv by (auto simp: filter_inv_def list_all_iff dom_def split: if_splits)
qed

definition demo_collection :: collection where
  "demo_collection = \<lparr>c_reads = True, c_has = \<lambda>_. True, c_sets = \<lambda>_. True, c_assigns = True,
     c_puts_filter = \<lambda>_. True, c_puts_pid = \<lambda>_. True\<rparr>"

definition demo_loaded :: "load_error + tracer_abi \<times> tracer" where
  "demo_loaded = applyConfig demo_collection demo_abi [100] \<lparr>hc_FollowForks = False, hc_TraceSyscallIDs = [NR_read]\<rparr>"

lemma loader_selects_witness:
  "\<exists>abi s. demo_loaded = Inr (abi, s) \<and> initial_state s \<and> dom (target_pids s) = {100} \<and>
     enter_selected abi (demo_enter NR_read [3, 0, 0, 0, 0, 0]) s \<and>
     \<not> enter_selected abi (demo_enter NR_write [3, 0, 0, 0, 0, 0]) s"
proof -
  let ?cfg = "attach_config False {NR_read} []"
  have ids: "set [NR_read] = handleTraceSyscallIDs ?cfg" "list_all small_id [NR_read]"
    by (simp_all add: handleTraceSyscallIDs_def small_id_def)
  obtain abi s where load: "demo_loaded = Inr (abi, s)"
    by (simp add: demo_loaded_def applyConfig_def demo_collection_def)
  then have "applyConfig demo_collection demo_abi [100]
      \<lparr>hc_FollowForks = FollowForks ?cfg, hc_TraceSyscallIDs = [NR_read]\<rparr> = Inr (abi, s)"
    by (simp add: demo_loaded_def)
  note sel = loader_selects [OF this ids reachable.start]
  show ?thesis
    using load sel [of "demo_enter NR_read [3, 0, 0, 0, 0, 0]"] sel [of "demo_enter NR_write [3, 0, 0, 0, 0, 0]"]
    by (intro exI [of _ abi] exI [of _ s]) (simp add: small_id_def wanted_def handleTraceSyscallIDs_def)
qed

section \<open>The event loop\<close>

text \<open>
  C17. When the consumer has read everything in the ring buffer, with any failed reads
  in between, it has decoded one event for each, in order, the last that of the call
  that has just completed, with its process, number, arguments and result. What it has
  printed then is a line for each of those that the path filter lets through, in order,
  and without requested paths these are all of them; with a summary asked for it has
  printed no line, and its counters are those of the same events.
\<close>

theorem completed_call_printed:
  assumes "reachable abi s0 s" and "initial_state s0" and "abi_ok abi"
    and "completes abi k ctx xs k' s" and "helpers_ok k" and "list_all allowed xs"
    and "s' = trace_sys_exit abi k' ctx' (one_call abi k ctx xs s)"
    and "list_all (\<lambda>r. snd r \<noteq> Reader_closed) rs"
    and "samples_of rs = map (\<lambda>e. event_bytes e @ pad e) (events s')"
    and "out = map snd (printed filter_step (decoded rs) (newPathFilter cfg))"
  shows "map snd (decoded rs) = events s' \<and>
    (\<exists>e. events s' = events (one_call abi k ctx xs s) @ [e] \<and> ev_pid e = cur_tgid k \<and>
      ev_syscall_id e = en_id ctx \<and> ev_args e = en_args ctx \<and> ev_ret e = ex_ret ctx') \<and>
    (TracePaths cfg = [] \<longrightarrow> out = events s') \<and>
    rs_lines (run_loop cfg rs (start_loop cfg)) = (if SummaryOnly cfg then [] else out) \<and>
    rs_summary (run_loop cfg rs (start_loop cfg)) = (if SummaryOnly cfg then tally out else Map.empty)"
proof -
  have "list_all event_shape (events s')"
    using completed_events_ok [OF assms(1-6), of ctx'] assms(7) by (auto simp: list_all_iff event_ok_def)
  from decoded_samples [OF assms(8,9) this] have all: "map snd (decoded rs) = events s'" .
  moreover have "out = events s'" if "TracePaths cfg = []"
    using that all assms(10) by (simp add: printed_inactive)
  moreover obtain g where "event_shape g"
    "events s' = events (one_call abi k ctx xs s) @
       [build_event abi k' (enter_data abi k ctx s) (ex_ret ctx')
          (execve_snapshots (trace_sys_enter abi k ctx s) (cur_tid k)) g]"
    unfolding assms(7) by (rule completes_event [OF assms(4)])
  moreover have "cur_tgid k' = cur_tgid k" "length (en_args ctx) = 6"
    using assms(4) by (simp_all add: completes_def cur_tgid_def)
  ultimately show ?thesis using assms(10) by (simp add: run_loop_start build_event_fields six_nths)
qed

lemma completed_call_printed_witness:
  "\<exists>e. rs_lines (run_loop (attach_config True {} [])
      ((no_links, Read_error) # map (\<lambda>e. (no_links, Record (event_bytes e @ [0]))) (events demo_done))
      (start_loop (attach_config True {} []))) =
      events (one_call demo_abi (demo_kernel 100 2) (demo_enter NR_open [16, 0, 0, 0, 0, 0]) demo_between demo_state)
        @ [e] \<and> ev_syscall_id e = NR_open"
proof -
  let ?cfg = "attach_config True {} []"
  let ?rs = "(no_links, Read_error) # map (\<lambda>e. (no_links, Record (event_bytes e @ [0]))) (events demo_done)"
  have samples: "samples_of (map (\<lambda>e. (no_links, Record (event_bytes e @ [0]))) es) = map (\<lambda>e. event_bytes e @ [0]) es" for es
    by (induction es) simp_all
  have c: "completes demo_abi (demo_kernel 100 2) (demo_enter NR_open [16, 0, 0, 0, 0, 0]) demo_between
      (demo_kernel 100 9) demo_state"
    by (rule demo_completes) simp
  have "list_all allowed demo_between" by (simp add: demo_between_def)
  from completed_call_printed [OF reachable.start demo_initial demo_abi_ok c demo_helpers this demo_done_def,
      of ?rs "\<lambda>_. [0]" _ ?cfg, OF _ _ refl]
  show ?thesis using samples by (auto simp: list_all_iff)
qed

text \<open>
  With a summary asked for, the counters are those of the lines that would have
  been printed without it: for every system call the number of its lines, of those with
  a negative result, and the sum of their durations, the numbers as 64-bit words; a call
  without lines has no entry.
\<close>

theorem summary_counts_lines:
  "rs_summary (run_loop (cfg\<lparr>SummaryOnly := True\<rparr>) rs (start_loop cfg)) nr =
    (let es = filter (\<lambda>e. ev_syscall_id e = nr)
       (rs_lines (run_loop (cfg\<lparr>SummaryOnly := False\<rparr>) rs (start_loop cfg)))
     in if es = [] then None
        else Some \<lparr>Calls = of_nat (length es), Errors = of_nat (length (filter (\<lambda>e. sint (ev_ret e) < 0) es)),
                   TotalNs = sum_list (map ev_dur es)\<rparr>)"
proof -
  have "newPathFilter (cfg\<lparr>SummaryOnly := b\<rparr>) = newPathFilter cfg" for b by (simp add: newPathFilter_def)
  then have "start_loop (cfg\<lparr>SummaryOnly := b\<rparr>) = start_loop cfg" for b by (simp add: start_loop_def)
  then show ?thesis
    using run_loop_start [of "cfg\<lparr>SummaryOnly := True\<rparr>" rs] run_loop_start [of "cfg\<lparr>SummaryOnly := False\<rparr>" rs]
    by (simp add: tally_def newPathFilter_def)
qed

section \<open>Rendering\<close>

lemma argv_at_no_nul: "argv_at m a args \<Longrightarrow> list_all (\<lambda>s. 0 \<notin> set s) (map snd args)"
  by (induction args arbitrary: a) (auto simp: cstring_no_nul)

text \<open>
  The argument list of an execve comes back out of the printed text: when memory
  holds a path and an argument list at the entry of the call, and the tracer has room
  for the whole list, then in the event the consumer decodes it finds the list's
  descriptor, the loop that takes the payload apart ends, its parts are the quoted
  arguments, which unquoted are those in memory, and the text is their list in brackets.
\<close>

theorem argument_list_rendered:
  assumes "completes abi (with_memory m k) ctx xs k' s" and "abi_ok abi" and "en_id ctx = NR_execve"
    and "k_accepts k Execve_snapshots"
    and "cstring_at m (en_args ctx ! 0) path" and "en_args ctx ! 0 \<noteq> 0"
    and "argv_at m (en_args ctx ! 1) args" and "en_args ctx ! 1 \<noteq> 0"
    and "argv_spec 8 (256 - min (length path) 127) (map snd args) = (bs, False)"
  shows "\<exists>e ev d parts. events (trace_sys_exit abi k' ctx' (one_call abi (with_memory m k) ctx xs s)) =
      events (one_call abi (with_memory m k) ctx xs s) @ [e] \<and>
    DecodeEvent (event_bytes e @ pad) = Some ev \<and> findVarArgDesc ev 1 = Some d \<and>
    split_loop bs [] = Some parts \<and> map unquote_text parts = map snd args \<and>
    formatVarArgv ev d = Some (go_text ''['' @ Join parts (go_text '', '') @ go_text '']'')"
proof -
  obtain e where e: "events (trace_sys_exit abi k' ctx' (one_call abi (with_memory m k) ctx xs s)) =
      events (one_call abi (with_memory m k) ctx xs s) @ [e]"
    and e0: "\<exists>d. captured e 0 = (d, take 127 path) \<and> vd_arg_index d = 0 \<and>
      vd_flags d = (if 127 \<le> length path then VAR_FLAG_TRUNCATED else VAR_FLAG_NONE)"
    and e1: "\<exists>d. captured e 1 = (d, bs) \<and> vd_arg_index d = 1 \<and>
      vd_flags d = (if False then VAR_FLAG_TRUNCATED else VAR_FLAG_NONE)"
    and count: "unat (ev_var_count e) = 2" and ok': "abi_ok abi \<longrightarrow> event_ok e"
    by (rule execve_call_event [OF assms(1,3-9), where ctx' = ctx'])
  have ok: "event_ok e" using ok' assms(2) by simp
  let ?d = "ev_var_desc e ! 1"
  have d: "vd_arg_index ?d = 1" "vd_flags ?d = VAR_FLAG_NONE" "snd (captured e 1) = bs"
    "vd_arg_index (ev_var_desc e ! 0) = 0"
    using e0 e1 by (auto simp: captured_def Let_def)
  have "length (ev_var_desc e) = 6" using ok by (simp add: event_ok_def event_shape_def)
  then have found: "findVarArgDesc e 1 = Some ?d"
    using findVarArgDesc_loop_first [of 1 "take 2 (ev_var_desc e)" 1] d(1,4) count
    by (simp add: findVarArgDesc_def less_Suc_eq)
  have slice: "varPayloadSlice e ?d = Some bs"
    using slice_ok [OF ok, of 1] d(2,3) count by (simp add: desc_error_def)
  have parts: "split_loop bs [] = Some (map QuoteToASCII (map snd args))"
    using argv_spec_whole [OF assms(9)] nul_parts_list [OF argv_at_no_nul [OF assms(7)]] by (simp add: split_loop_returns)
  then have "formatVarArgv e ?d =
      Some (go_text ''['' @ Join (map QuoteToASCII (map snd args)) (go_text '', '') @ go_text '']'')"
    using slice d(2) by (simp add: formatVarArgv_def Let_def)
  moreover have "DecodeEvent (event_bytes e @ pad) = Some e"
    using ok by (intro decode_event_bytes) (simp add: event_ok_def)
  moreover have "map unquote_text (map QuoteToASCII (map snd args)) = map snd args"
    using QuoteToASCII_text by (simp add: comp_def)
  ultimately show ?thesis using e found parts by blast
qed

lemma argument_list_rendered_witness:
  "\<exists>e ev d. events (trace_sys_exit demo_abi (demo_kernel 100 9) (demo_exit 0)
        (one_call demo_abi (demo_kernel 100 2) (demo_enter NR_execve [16, 32, 0, 0, 0, 0]) demo_between demo_state)) =
      events (one_call demo_abi (demo_kernel 100 2) (demo_enter NR_execve [16, 32, 0, 0, 0, 0]) demo_between demo_state)
        @ [e] \<and>
    DecodeEvent (event_bytes e @ [0]) = Some ev \<and> findVarArgDesc ev 1 = Some d \<and>
    formatVarArgv ev d = Some (go_text ''[\"/a\"]'')"
proof -
  have spec: "argv_spec 8 (256 - min (length [47, 97 :: u8]) 127) (map snd [(16 :: u64, [47, 97])]) =
      ([47, 97, 0], False)"
    by (simp add: numeral_eq_Suc)
  have c: "completes demo_abi (with_memory demo_memory (demo_kernel 100 2)) (demo_enter NR_execve [16, 32, 0, 0, 0, 0])
      demo_between (demo_kernel 100 9) demo_state"
    using demo_completes [of "[16, 32, 0, 0, 0, 0]"] by simp
  have whole: "parts = [QuoteToASCII [47, 97]]" if "split_loop [47, 97, 0] [] = Some parts" for parts
    using that by (simp add: split_loop_returns)
  have "go_text ''['' @ Join [QuoteToASCII [47, 97]] (go_text '', '') @ go_text '']'' = go_text ''[\"/a\"]''"
    by (simp add: QuoteToASCII_def quote_loop.simps quote_turn_def escape_rune_def go_text_def ascii_def)
  then show ?thesis
    using argument_list_rendered [OF c demo_abi_ok _ _ _ _ _ _ spec, of "demo_exit 0" "[0]"] demo_path demo_argv whole
    by (auto simp del: argv_at.simps cstring_at.simps)
qed

text \<open>
  The rendering of a captured argument ends for every event and every argument, and
  what it prints is printable ASCII: no byte of traced memory can put a control
  character into the trace.
\<close>

theorem rendering_printable:
  "case formatVarArg ev idx of None \<Rightarrow> False | Some None \<Rightarrow> True | Some (Some s) \<Rightarrow> printable_text s"
  using formatVarArg_printable [of ev idx] by (auto split: option.split)

end
