(* ===== verification/Go_Format.thy ===== *)
theory Go_Format
  imports Format_Var
begin

text \<open>
  Numbers as text: the verbs \<open>%d\<close>, \<open>%x\<close> and \<open>%o\<close> of Go's \<^verbatim>\<open>fmt\<close>, \<open>strconv.Atoi\<close>, and
  \<open>strings.Split\<close>, \<open>HasPrefix\<close> and \<open>Contains\<close>, as the packages document them. Numbers
  are printed without leading zeros, so what is printed reads back.
\<close>

section \<open>Digits\<close>

text \<open>The digits of a number to a base from 2 to 16.\<close>

function digits :: "nat \<Rightarrow> nat \<Rightarrow> nat list" where
  "digits b n = (if b < 2 \<or> n < b then [lowerhex n] else digits b (n div b) @ [lowerhex (n mod b)])"
  by auto

termination digits
  by (relation "measure snd") simp_all

declare digits.simps [simp del]

lemma digits_small: "n < b \<Longrightarrow> digits b n = [lowerhex n]"
  by (simp add: digits.simps)

lemma digits_more: "2 \<le> b \<Longrightarrow> b \<le> n \<Longrightarrow> digits b n = digits b (n div b) @ [lowerhex (n mod b)]"
  by (subst digits.simps) simp

lemma digits_cases [consumes 1, case_names small more]:
  assumes "2 \<le> b"
    and "n < b \<Longrightarrow> digits b n = [lowerhex n] \<Longrightarrow> P"
    and "b \<le> n \<Longrightarrow> digits b n = digits b (n div b) @ [lowerhex (n mod b)] \<Longrightarrow> n div b < n \<Longrightarrow> P"
  shows P
proof (cases "n < b")
  case False
  then show P using assms(1,3) digits_more [of b n] by simp
qed (use assms(2) digits_small in blast)

text \<open>The value of a digit, and of a list of digits.\<close>

definition digit_value :: "nat \<Rightarrow> nat" where
  "digit_value c = (if c < 58 then c - 48 else c - 87)"

definition digits_value :: "nat \<Rightarrow> nat list \<Rightarrow> nat" where
  "digits_value b cs = foldl (\<lambda>n c. n * b + digit_value c) 0 cs"

definition is_digit :: "nat \<Rightarrow> nat \<Rightarrow> bool" where
  "is_digit b c \<longleftrightarrow> (48 \<le> c \<and> c < 58 \<or> 97 \<le> c \<and> c < 103) \<and> digit_value c < b"

lemma digit_value_lowerhex [simp]: "d < 16 \<Longrightarrow> digit_value (lowerhex d) = d"
  by (simp add: digit_value_def lowerhex_def)

lemma is_digit_lowerhex: "d < b \<Longrightarrow> b \<le> 16 \<Longrightarrow> is_digit b (lowerhex d)"
  by (simp add: is_digit_def digit_value_def lowerhex_def)

lemma is_digit_printable: "is_digit b c \<Longrightarrow> printable c"
  by (auto simp: is_digit_def printable_def)

lemma digits_value_snoc: "digits_value b (cs @ [c]) = digits_value b cs * b + digit_value c"
  by (simp add: digits_value_def)

lemma digits_value_digits: "2 \<le> b \<Longrightarrow> b \<le> 16 \<Longrightarrow> digits_value b (digits b n) = n"
proof (induction n rule: less_induct)
  case (less n)
  from less.prems(1) show ?case
  proof (cases rule: digits_cases [of b n])
    case small
    then show ?thesis using less.prems by (simp add: digits_value_def)
  next
    case more
    have "n mod b < 16" using less.prems mod_less_divisor [of b n] by linarith
    then show ?thesis using less more by (simp add: digits_value_snoc)
  qed
qed

lemma digits_digits: "2 \<le> b \<Longrightarrow> b \<le> 16 \<Longrightarrow> list_all (is_digit b) (digits b n)"
proof (induction n rule: less_induct)
  case (less n)
  from less.prems(1) show ?case
    by (cases rule: digits_cases [of b n]) (use less is_digit_lowerhex in auto)
qed

lemma digits_nonempty [simp]: "digits b n \<noteq> []"
  by (subst digits.simps) simp

lemma digits_inj: "2 \<le> b \<Longrightarrow> b \<le> 16 \<Longrightarrow> digits b m = digits b n \<longleftrightarrow> m = n"
  using digits_value_digits by metis

text \<open>No leading zero.\<close>

lemma hd_digits: "2 \<le> b \<Longrightarrow> b \<le> 16 \<Longrightarrow> n \<noteq> 0 \<Longrightarrow> hd (digits b n) \<noteq> 48"
proof (induction n rule: less_induct)
  case (less n)
  from less.prems(1) show ?case
  proof (cases rule: digits_cases [of b n])
    case small
    then show ?thesis using less.prems by (simp add: lowerhex_def)
  next
    case more
    have "n div b \<noteq> 0" using more(1) less.prems(1) by (simp add: div_eq_0_iff)
    then show ?thesis using less more by (simp add: hd_append)
  qed
qed

section \<open>The verbs\<close>

definition byte_text :: "nat list \<Rightarrow> gostring" where
  "byte_text cs = map of_nat cs"

definition fmt_u :: "nat \<Rightarrow> gostring" where
  "fmt_u n = byte_text (digits 10 n)"

text \<open>\<open>%d\<close> and \<open>%x\<close> of a signed number.\<close>

definition fmt_d :: "int \<Rightarrow> gostring" where
  "fmt_d i = (if i < 0 then go_text ''-'' @ fmt_u (nat (- i)) else fmt_u (nat i))"

definition fmt_x :: "nat \<Rightarrow> gostring" where
  "fmt_x n = byte_text (digits 16 n)"

definition fmt_xd :: "int \<Rightarrow> gostring" where
  "fmt_xd i = (if i < 0 then go_text ''-'' @ fmt_x (nat (- i)) else fmt_x (nat i))"

text \<open>
  \<open>%#0wo\<close>: zeros on the left up to the width, then the sign of an octal number, a
  leading zero, unless there is one already.
\<close>

definition fmt_o :: "nat \<Rightarrow> nat \<Rightarrow> gostring" where
  "fmt_o width n =
     (let ds = digits 8 n; ds = replicate (width - length ds) 48 @ ds
      in byte_text (if hd ds \<noteq> 48 then 48 # ds else ds))"

definition text_bytes :: "gostring \<Rightarrow> nat list" where
  "text_bytes s = map unat s"

lemma byte_text_back: "list_all (\<lambda>c. c < 256) cs \<Longrightarrow> text_bytes (byte_text cs) = cs"
  by (induction cs) (simp_all add: text_bytes_def byte_text_def unat_of_nat)

lemma is_digit_less: "is_digit b c \<Longrightarrow> c < 256"
  by (auto simp: is_digit_def)

lemma text_bytes_digits:
  "2 \<le> b \<Longrightarrow> b \<le> 16 \<Longrightarrow> text_bytes (byte_text (digits b n)) = digits b n"
  by (rule byte_text_back) (use digits_digits [of b n] is_digit_less [of b] in \<open>auto simp: list_all_iff\<close>)

lemma printable_byte_text: "list_all printable cs \<Longrightarrow> printable_text (byte_text cs)"
  by (induction cs) (simp_all add: printable_text_def byte_text_def unat_of_nat printable_def)

lemma printable_digits: "2 \<le> b \<Longrightarrow> b \<le> 16 \<Longrightarrow> printable_text (byte_text (digits b n))"
  by (rule printable_byte_text) (use digits_digits [of b n] is_digit_printable [of b] in \<open>auto simp: list_all_iff\<close>)

lemma go_text_printable: "list_all (\<lambda>c. printable (of_char c)) s \<Longrightarrow> printable_text (go_text s)"
  using printable_byte_text [of "ascii s"] by (simp add: go_text_def byte_text_def ascii_def list.pred_map comp_def)

lemma printable_fmt_u: "printable_text (fmt_u n)"
  by (simp add: fmt_u_def printable_digits)

lemma printable_fmt_d: "printable_text (fmt_d i)"
  by (simp add: fmt_d_def printable_fmt_u go_text_printable printable_def)

lemma printable_fmt_x: "printable_text (fmt_x n)"
  by (simp add: fmt_x_def printable_digits)

lemma printable_fmt_xd: "printable_text (fmt_xd i)"
  by (simp add: fmt_xd_def printable_fmt_x go_text_printable printable_def)

lemma printable_fmt_o: "printable_text (fmt_o w n)"
proof -
  have "list_all printable (digits 8 n)"
    using digits_digits [of 8 n] is_digit_printable by (auto simp: list_all_iff)
  moreover have "printable 48" by (simp add: printable_def)
  ultimately have "list_all printable (replicate (w - length (digits 8 n)) 48 @ digits 8 n)"
    by (auto simp: list_all_iff)
  then show ?thesis using \<open>printable 48\<close> by (simp add: fmt_o_def Let_def printable_byte_text)
qed

lemmas printable_verbs [simp] =
  printable_fmt_u printable_fmt_d printable_fmt_x printable_fmt_xd printable_fmt_o

lemma byte_text_digits_free:
  assumes "b = 10 \<or> b = 16" and "\<not> is_digit 16 (unat c)"
  shows "c \<notin> set (byte_text (digits b n))"
proof
  assume "c \<in> set (byte_text (digits b n))"
  then have "unat c \<in> set (text_bytes (byte_text (digits b n)))" by (simp add: text_bytes_def)
  then have "unat c \<in> set (digits b n)" using assms(1) text_bytes_digits [of b n] by auto
  then have "is_digit b (unat c)" using assms(1) digits_digits [of b n] by (auto simp: list_all_iff)
  then show False using assms by (auto simp: is_digit_def)
qed

lemma fmt_xd_inj: "fmt_xd i = fmt_xd j \<longleftrightarrow> i = j"
proof
  assume same: "fmt_xd i = fmt_xd j"
  have head: "hd (byte_text (digits 16 n)) \<noteq> 45" for n
    using byte_text_digits_free [of 16 45 n] by (cases "byte_text (digits 16 n)") (auto simp: is_digit_def byte_text_def)
  have val: "digits_value 16 (text_bytes (byte_text (digits 16 n))) = n" for n
    by (simp add: text_bytes_digits digits_value_digits)
  have inj: "byte_text (digits 16 m) = byte_text (digits 16 n) \<longleftrightarrow> m = n" for m n
    using val [of m] val [of n] by metis
  have minus: "45 # byte_text (digits 16 m) \<noteq> byte_text (digits 16 n)" for m n
    using head [of n] by (metis list.sel(1))
  have shown: "fmt_xd k = (if k < 0 then 45 # byte_text (digits 16 (nat (- k))) else byte_text (digits 16 (nat k)))" for k
    by (simp add: fmt_xd_def fmt_x_def) (simp add: go_text_def ascii_def)
  show "i = j"
  proof (cases "i < 0")
    case True
    then have "j < 0" using same minus [of "nat (- i)" "nat j"] by (simp add: shown split: if_splits)
    then show ?thesis using same True by (simp add: shown inj)
  next
    case False
    then have "\<not> j < 0" using same minus [of "nat (- j)" "nat i"] by (auto simp: shown dest: sym)
    then show ?thesis using same False by (simp add: shown inj)
  qed
qed simp

section \<open>Reading numbers\<close>

text \<open>\<open>strconv.Atoi\<close>: decimal digits after an optional sign, within 64 bits.\<close>

definition Atoi :: "gostring \<Rightarrow> int option" where
  "Atoi s =
     (let cs = text_bytes s;
          neg = (cs \<noteq> [] \<and> hd cs = 45);
          ds = (if cs \<noteq> [] \<and> (hd cs = 45 \<or> hd cs = 43) then tl cs else cs)
      in if ds = [] \<or> \<not> list_all (is_digit 10) ds then None
         else let v = (if neg then - int (digits_value 10 ds) else int (digits_value 10 ds))
              in if v < - (2 ^ 63) \<or> 2 ^ 63 \<le> v then None else Some v)"

lemma hd_decimal: "hd (digits 10 n) \<noteq> 45 \<and> hd (digits 10 n) \<noteq> 43"
  using digits_digits [of 10 n] by (cases "digits 10 n") (auto simp: is_digit_def)

lemma Atoi_fmt_d:
  assumes "- (2 ^ 63) \<le> i" and "i < 2 ^ 63"
  shows "Atoi (fmt_d i) = Some i"
proof -
  note dig = digits_digits [of 10] digits_value_digits [of 10] text_bytes_digits [of 10]
  have minus: "text_bytes (go_text ''-'' @ s) = 45 # text_bytes s" for s
    by (simp add: text_bytes_def go_text_def ascii_def)
  show ?thesis
  proof (cases "i < 0")
    case True
    then show ?thesis using assms dig by (simp add: Atoi_def fmt_d_def fmt_u_def Let_def minus)
  next
    case False
    then show ?thesis using assms dig hd_decimal [of "nat i"] by (simp add: Atoi_def fmt_d_def fmt_u_def Let_def)
  qed
qed

lemma fmt_d_inj: "fmt_d i = fmt_d j \<longleftrightarrow> i = j" if "- (2 ^ 63) \<le> i" "i < 2 ^ 63" "- (2 ^ 63) \<le> j" "j < 2 ^ 63"
  using Atoi_fmt_d [OF that(1,2)] Atoi_fmt_d [OF that(3,4)] option.inject by metis

section \<open>Taking strings apart\<close>

text \<open>\<open>strings.Split\<close> at a single byte.\<close>

fun Split :: "gostring \<Rightarrow> u8 \<Rightarrow> gostring list" where
  "Split [] c = [[]]"
| "Split (b # bs) c = (if b = c then [] # Split bs c
     else case Split bs c of [] \<Rightarrow> [[b]] | w # ws \<Rightarrow> (b # w) # ws)"

definition HasPrefix :: "gostring \<Rightarrow> gostring \<Rightarrow> bool" where
  "HasPrefix s p \<longleftrightarrow> take (length p) s = p"

definition TrimPrefix :: "gostring \<Rightarrow> gostring \<Rightarrow> gostring" where
  "TrimPrefix s p = (if HasPrefix s p then drop (length p) s else s)"

lemma Split_nonempty [simp]: "Split s c \<noteq> []"
  by (cases s) (auto split: list.split)

lemma Split_plain: "c \<notin> set s \<Longrightarrow> Split s c = [s]"
  by (induction s) auto

lemma Split_append: "c \<notin> set s \<Longrightarrow> Split (s @ c # t) c = s # Split t c"
  by (induction s) auto

lemma Split_Join: "ps \<noteq> [] \<Longrightarrow> list_all (\<lambda>p. c \<notin> set p) ps \<Longrightarrow> Split (Join ps [c]) c = ps"
proof (induction ps)
  case (Cons p ps)
  then show ?case by (cases ps) (simp_all add: Split_plain Split_append)
qed simp

lemma Join_Split: "Join (Split s c) [c] = s"
proof (induction s)
  case (Cons b s)
  obtain w ws where "Split s c = w # ws" by (cases "Split s c") auto
  with Cons show ?case by (cases ws) auto
qed simp

lemma Split_free: "list_all (\<lambda>w. c \<notin> set w) (Split s c)"
proof (induction s)
  case (Cons b s)
  then show ?case by (cases "Split s c") auto
qed simp

end
