(* ===== verification/Syscall_Names.thy ===== *)
theory Syscall_Names
  imports Go_Format Schema_Table
begin

text \<open>
  The table of names of \<^verbatim>\<open>internal/syscalls/x86_64.go\<close>, row by row in blocks of forty-two,
  and the two maps its \<open>init\<close> builds. The consumer names a call by \<open>Name\<close>, the command
  line finds one by \<open>ID\<close>.
\<close>

section \<open>The table\<close>

record Entry =
  entry_ID :: s64
  entry_Name :: string

abbreviation (input) row :: "s64 \<Rightarrow> string \<Rightarrow> Entry" where
  "row n s \<equiv> \<lparr>entry_ID = n, entry_Name = s\<rparr>"

definition entries_00 :: "Entry list" where
  "entries_00 =
   [row 0 ''read'',
    row 1 ''write'',
    row 2 ''open'',
    row 3 ''close'',
    row 4 ''stat'',
    row 5 ''fstat'',
    row 6 ''lstat'',
    row 7 ''poll'',
    row 8 ''lseek'',
    row 9 ''mmap'',
    row 10 ''mprotect'',
    row 11 ''munmap'',
    row 12 ''brk'',
    row 13 ''rt_sigaction'',
    row 14 ''rt_sigprocmask'',
    row 15 ''rt_sigreturn'',
    row 16 ''ioctl'',
    row 17 ''pread64'',
    row 18 ''pwrite64'',
    row 19 ''readv'',
    row 20 ''writev'',
    row 21 ''access'',
    row 22 ''pipe'',
    row 23 ''select'',
    row 24 ''sched_yield'',
    row 25 ''mremap'',
    row 26 ''msync'',
    row 27 ''mincore'',
    row 28 ''madvise'',
    row 29 ''shmget'',
    row 30 ''shmat'',
    row 31 ''shmctl'',
    row 32 ''dup'',
    row 33 ''dup2'',
    row 34 ''pause'',
    row 35 ''nanosleep'',
    row 36 ''getitimer'',
    row 37 ''alarm'',
    row 38 ''setitimer'',
    row 39 ''getpid'',
    row 40 ''sendfile'',
    row 41 ''socket'']"

definition entries_01 :: "Entry list" where
  "entries_01 =
   [row 42 ''connect'',
    row 43 ''accept'',
    row 44 ''sendto'',
    row 45 ''recvfrom'',
    row 46 ''sendmsg'',
    row 47 ''recvmsg'',
    row 48 ''shutdown'',
    row 49 ''bind'',
    row 50 ''listen'',
    row 51 ''getsockname'',
    row 52 ''getpeername'',
    row 53 ''socketpair'',
    row 54 ''setsockopt'',
    row 55 ''getsockopt'',
    row 56 ''clone'',
    row 57 ''fork'',
    row 58 ''vfork'',
    row 59 ''execve'',
    row 60 ''exit'',
    row 61 ''wait4'',
    row 62 ''kill'',
    row 63 ''uname'',
    row 64 ''semget'',
    row 65 ''semop'',
    row 66 ''semctl'',
    row 67 ''shmdt'',
    row 68 ''msgget'',
    row 69 ''msgsnd'',
    row 70 ''msgrcv'',
    row 71 ''msgctl'',
    row 72 ''fcntl'',
    row 73 ''flock'',
    row 74 ''fsync'',
    row 75 ''fdatasync'',
    row 76 ''truncate'',
    row 77 ''ftruncate'',
    row 78 ''getdents'',
    row 79 ''getcwd'',
    row 80 ''chdir'',
    row 81 ''fchdir'',
    row 82 ''rename'',
    row 83 ''mkdir'']"

definition entries_02 :: "Entry list" where
  "entries_02 =
   [row 84 ''rmdir'',
    row 85 ''creat'',
    row 86 ''link'',
    row 87 ''unlink'',
    row 88 ''symlink'',
    row 89 ''readlink'',
    row 90 ''chmod'',
    row 91 ''fchmod'',
    row 92 ''chown'',
    row 93 ''fchown'',
    row 94 ''lchown'',
    row 95 ''umask'',
    row 96 ''gettimeofday'',
    row 97 ''getrlimit'',
    row 98 ''getrusage'',
    row 99 ''sysinfo'',
    row 100 ''times'',
    row 101 ''ptrace'',
    row 102 ''getuid'',
    row 103 ''syslog'',
    row 104 ''getgid'',
    row 105 ''setuid'',
    row 106 ''setgid'',
    row 107 ''geteuid'',
    row 108 ''getegid'',
    row 109 ''setpgid'',
    row 110 ''getppid'',
    row 111 ''getpgrp'',
    row 112 ''setsid'',
    row 113 ''setreuid'',
    row 114 ''setregid'',
    row 115 ''getgroups'',
    row 116 ''setgroups'',
    row 117 ''setresuid'',
    row 118 ''getresuid'',
    row 119 ''setresgid'',
    row 120 ''getresgid'',
    row 121 ''getpgid'',
    row 122 ''setfsuid'',
    row 123 ''setfsgid'',
    row 124 ''getsid'',
    row 125 ''capget'']"

definition entries_03 :: "Entry list" where
  "entries_03 =
   [row 126 ''capset'',
    row 127 ''rt_sigpending'',
    row 128 ''rt_sigtimedwait'',
    row 129 ''rt_sigqueueinfo'',
    row 130 ''rt_sigsuspend'',
    row 131 ''sigaltstack'',
    row 132 ''utime'',
    row 133 ''mknod'',
    row 134 ''uselib'',
    row 135 ''personality'',
    row 136 ''ustat'',
    row 137 ''statfs'',
    row 138 ''fstatfs'',
    row 139 ''sysfs'',
    row 140 ''getpriority'',
    row 141 ''setpriority'',
    row 142 ''sched_setparam'',
    row 143 ''sched_getparam'',
    row 144 ''sched_setscheduler'',
    row 145 ''sched_getscheduler'',
    row 146 ''sched_get_priority_max'',
    row 147 ''sched_get_priority_min'',
    row 148 ''sched_rr_get_interval'',
    row 149 ''mlock'',
    row 150 ''munlock'',
    row 151 ''mlockall'',
    row 152 ''munlockall'',
    row 153 ''vhangup'',
    row 154 ''modify_ldt'',
    row 155 ''pivot_root'',
    row 156 ''_sysctl'',
    row 157 ''prctl'',
    row 158 ''arch_prctl'',
    row 159 ''adjtimex'',
    row 160 ''setrlimit'',
    row 161 ''chroot'',
    row 162 ''sync'',
    row 163 ''acct'',
    row 164 ''settimeofday'',
    row 165 ''mount'',
    row 166 ''umount2'',
    row 167 ''swapon'']"

definition entries_04 :: "Entry list" where
  "entries_04 =
   [row 168 ''swapoff'',
    row 169 ''reboot'',
    row 170 ''sethostname'',
    row 171 ''setdomainname'',
    row 172 ''iopl'',
    row 173 ''ioperm'',
    row 174 ''create_module'',
    row 175 ''init_module'',
    row 176 ''delete_module'',
    row 177 ''get_kernel_syms'',
    row 178 ''query_module'',
    row 179 ''quotactl'',
    row 180 ''nfsservctl'',
    row 181 ''getpmsg'',
    row 182 ''putpmsg'',
    row 183 ''afs_syscall'',
    row 184 ''tuxcall'',
    row 185 ''security'',
    row 186 ''gettid'',
    row 187 ''readahead'',
    row 188 ''setxattr'',
    row 189 ''lsetxattr'',
    row 190 ''fsetxattr'',
    row 191 ''getxattr'',
    row 192 ''lgetxattr'',
    row 193 ''fgetxattr'',
    row 194 ''listxattr'',
    row 195 ''llistxattr'',
    row 196 ''flistxattr'',
    row 197 ''removexattr'',
    row 198 ''lremovexattr'',
    row 199 ''fremovexattr'',
    row 200 ''tkill'',
    row 201 ''time'',
    row 202 ''futex'',
    row 203 ''sched_setaffinity'',
    row 204 ''sched_getaffinity'',
    row 205 ''set_thread_area'',
    row 206 ''io_setup'',
    row 207 ''io_destroy'',
    row 208 ''io_getevents'',
    row 209 ''io_submit'']"

definition entries_05 :: "Entry list" where
  "entries_05 =
   [row 210 ''io_cancel'',
    row 211 ''get_thread_area'',
    row 212 ''lookup_dcookie'',
    row 213 ''epoll_create'',
    row 214 ''epoll_ctl_old'',
    row 215 ''epoll_wait_old'',
    row 216 ''remap_file_pages'',
    row 217 ''getdents64'',
    row 218 ''set_tid_address'',
    row 219 ''restart_syscall'',
    row 220 ''semtimedop'',
    row 221 ''fadvise64'',
    row 222 ''timer_create'',
    row 223 ''timer_settime'',
    row 224 ''timer_gettime'',
    row 225 ''timer_getoverrun'',
    row 226 ''timer_delete'',
    row 227 ''clock_settime'',
    row 228 ''clock_gettime'',
    row 229 ''clock_getres'',
    row 230 ''clock_nanosleep'',
    row 231 ''exit_group'',
    row 232 ''epoll_wait'',
    row 233 ''epoll_ctl'',
    row 234 ''tgkill'',
    row 235 ''utimes'',
    row 236 ''vserver'',
    row 237 ''mbind'',
    row 238 ''set_mempolicy'',
    row 239 ''get_mempolicy'',
    row 240 ''mq_open'',
    row 241 ''mq_unlink'',
    row 242 ''mq_timedsend'',
    row 243 ''mq_timedreceive'',
    row 244 ''mq_notify'',
    row 245 ''mq_getsetattr'',
    row 246 ''kexec_load'',
    row 247 ''waitid'',
    row 248 ''add_key'',
    row 249 ''request_key'',
    row 250 ''keyctl'',
    row 251 ''ioprio_set'']"

definition entries_06 :: "Entry list" where
  "entries_06 =
   [row 252 ''ioprio_get'',
    row 253 ''inotify_init'',
    row 254 ''inotify_add_watch'',
    row 255 ''inotify_rm_watch'',
    row 256 ''migrate_pages'',
    row 257 ''openat'',
    row 258 ''mkdirat'',
    row 259 ''mknodat'',
    row 260 ''fchownat'',
    row 261 ''futimesat'',
    row 262 ''newfstatat'',
    row 263 ''unlinkat'',
    row 264 ''renameat'',
    row 265 ''linkat'',
    row 266 ''symlinkat'',
    row 267 ''readlinkat'',
    row 268 ''fchmodat'',
    row 269 ''faccessat'',
    row 270 ''pselect6'',
    row 271 ''ppoll'',
    row 272 ''unshare'',
    row 273 ''set_robust_list'',
    row 274 ''get_robust_list'',
    row 275 ''splice'',
    row 276 ''tee'',
    row 277 ''sync_file_range'',
    row 278 ''vmsplice'',
    row 279 ''move_pages'',
    row 280 ''utimensat'',
    row 281 ''epoll_pwait'',
    row 282 ''signalfd'',
    row 283 ''timerfd_create'',
    row 284 ''eventfd'',
    row 285 ''fallocate'',
    row 286 ''timerfd_settime'',
    row 287 ''timerfd_gettime'',
    row 288 ''accept4'',
    row 289 ''signalfd4'',
    row 290 ''eventfd2'',
    row 291 ''epoll_create1'',
    row 292 ''dup3'',
    row 293 ''pipe2'']"

definition entries_07 :: "Entry list" where
  "entries_07 =
   [row 294 ''inotify_init1'',
    row 295 ''preadv'',
    row 296 ''pwritev'',
    row 297 ''rt_tgsigqueueinfo'',
    row 298 ''perf_event_open'',
    row 299 ''recvmmsg'',
    row 300 ''fanotify_init'',
    row 301 ''fanotify_mark'',
    row 302 ''prlimit64'',
    row 303 ''name_to_handle_at'',
    row 304 ''open_by_handle_at'',
    row 305 ''clock_adjtime'',
    row 306 ''syncfs'',
    row 307 ''sendmmsg'',
    row 308 ''setns'',
    row 309 ''getcpu'',
    row 310 ''process_vm_readv'',
    row 311 ''process_vm_writev'',
    row 312 ''kcmp'',
    row 313 ''finit_module'',
    row 314 ''sched_setattr'',
    row 315 ''sched_getattr'',
    row 316 ''renameat2'',
    row 317 ''seccomp'',
    row 318 ''getrandom'',
    row 319 ''memfd_create'',
    row 320 ''kexec_file_load'',
    row 321 ''bpf'',
    row 322 ''execveat'',
    row 323 ''userfaultfd'',
    row 324 ''membarrier'',
    row 325 ''mlock2'',
    row 326 ''copy_file_range'',
    row 327 ''preadv2'',
    row 328 ''pwritev2'',
    row 329 ''pkey_mprotect'',
    row 330 ''pkey_alloc'',
    row 331 ''pkey_free'',
    row 332 ''statx'',
    row 333 ''io_pgetevents'',
    row 334 ''rseq'',
    row 335 ''uretprobe'']"

definition entries_08 :: "Entry list" where
  "entries_08 =
   [row 424 ''pidfd_send_signal'',
    row 425 ''io_uring_setup'',
    row 426 ''io_uring_enter'',
    row 427 ''io_uring_register'',
    row 428 ''open_tree'',
    row 429 ''move_mount'',
    row 430 ''fsopen'',
    row 431 ''fsconfig'',
    row 432 ''fsmount'',
    row 433 ''fspick'',
    row 434 ''pidfd_open'',
    row 435 ''clone3'',
    row 436 ''close_range'',
    row 437 ''openat2'',
    row 438 ''pidfd_getfd'',
    row 439 ''faccessat2'',
    row 440 ''process_madvise'',
    row 441 ''epoll_pwait2'',
    row 442 ''mount_setattr'',
    row 443 ''quotactl_fd'',
    row 444 ''landlock_create_ruleset'',
    row 445 ''landlock_add_rule'',
    row 446 ''landlock_restrict_self'',
    row 447 ''memfd_secret'',
    row 448 ''process_mrelease'',
    row 449 ''futex_waitv'',
    row 450 ''set_mempolicy_home_node'',
    row 451 ''cachestat'',
    row 452 ''fchmodat2'',
    row 453 ''map_shadow_stack'',
    row 454 ''futex_wake'',
    row 455 ''futex_wait'',
    row 456 ''futex_requeue'',
    row 457 ''statmount'',
    row 458 ''listmount'',
    row 459 ''lsm_get_self_attr'',
    row 460 ''lsm_set_self_attr'',
    row 461 ''lsm_list_modules'',
    row 462 ''mseal'',
    row 463 ''setxattrat'',
    row 464 ''getxattrat'',
    row 465 ''listxattrat'']"

definition entries_09 :: "Entry list" where
  "entries_09 =
   [row 466 ''removexattrat'',
    row 467 ''open_tree_attr'',
    row 468 ''file_getattr'',
    row 469 ''file_setattr'']"

definition entries :: "Entry list" where
  "entries =
    entries_00 @ entries_01 @ entries_02 @ entries_03 @ entries_04 @
    entries_05 @ entries_06 @ entries_07 @ entries_08 @ entries_09"

lemmas entry_blocks =
  entries_00_def
  entries_01_def
  entries_02_def
  entries_03_def
  entries_04_def
  entries_05_def
  entries_06_def
  entries_07_def
  entries_08_def
  entries_09_def

section \<open>The maps\<close>

definition idToName :: "s64 \<rightharpoonup> gostring" where
  "idToName = fold (\<lambda>e m. m(entry_ID e \<mapsto> go_text (entry_Name e))) entries Map.empty"

definition nameToID :: "gostring \<rightharpoonup> s64" where
  "nameToID = fold (\<lambda>e m. m(go_text (entry_Name e) \<mapsto> entry_ID e)) entries Map.empty"

definition Name :: "s64 \<Rightarrow> gostring" where
  "Name i = (case idToName i of Some name \<Rightarrow> name | None \<Rightarrow> go_text ''syscall_0x'' @ fmt_xd (sint i))"

definition ID :: "gostring \<Rightarrow> s64 option" where
  "ID name = nameToID name"

section \<open>No number and no name comes twice\<close>

text \<open>The numbers count up within each block, and a small hash tells the names apart.\<close>

fun counts :: "nat \<Rightarrow> Entry list \<Rightarrow> bool" where
  "counts lo [] = True"
| "counts lo (e # es) = (unat (entry_ID e) = lo \<and> counts (lo + 1) es)"

lemma block_counts:
  "counts 0 entries_00" "counts 42 entries_01" "counts 84 entries_02" "counts 126 entries_03"
  "counts 168 entries_04" "counts 210 entries_05" "counts 252 entries_06" "counts 294 entries_07"
  "counts 424 entries_08" "counts 466 entries_09"
  by (simp_all add: entry_blocks)

lemma block_lengths:
  "length entries_00 = 42" "length entries_01 = 42" "length entries_02 = 42" "length entries_03 = 42"
  "length entries_04 = 42" "length entries_05 = 42" "length entries_06 = 42" "length entries_07 = 42"
  "length entries_08 = 42" "length entries_09 = 4"
  by (simp_all add: entry_blocks)

lemma counts_upt: "counts lo es \<Longrightarrow> map (\<lambda>e. unat (entry_ID e)) es = [lo..<lo + length es]"
  by (induction lo es rule: counts.induct) (simp_all add: upt_conv_Cons del: upt_Suc)

lemma upt_meet: "i \<le> j \<Longrightarrow> j \<le> k \<Longrightarrow> [i..<j] @ [j..<k] @ xs = [i..<k] @ xs"
  using upt_add_eq_append [of i j "k - j"] by simp

lemma entry_numbers: "map (\<lambda>e. unat (entry_ID e)) entries = [0..<336] @ [424..<470]"
proof -
  note blocks = block_counts [THEN counts_upt, unfolded block_lengths]
  show ?thesis
    by (simp only: entries_def map_append blocks append_assoc)
      (simp add: upt_meet upt_meet [of _ _ _ "[]", simplified] del: upt_Suc upt_rec_numeral)
qed

lemma entry_ids_distinct: "distinct (map entry_ID entries)"
proof -
  have "distinct (map unat (map entry_ID entries))"
    unfolding map_map comp_def entry_numbers by auto
  then show ?thesis by (simp only: distinct_map)
qed

definition name_key :: "string \<Rightarrow> nat" where
  "name_key s = foldl (\<lambda>n c. n * 3 + of_char c) 0 s"

lemma block_keys:
  "map (\<lambda>e. name_key (entry_Name e)) entries_00 =
    [4378, 14111, 4418, 12380, 4556, 12818, 13304, 4455, 13172, 4327, 361178, 40318, 1331,
     30009674, 270129386, 30014084, 12849, 121264, 372157, 13252, 42451, 35632, 4406, 40364,
     9752437, 39832, 13452, 118001, 115709, 40658, 13511, 40659, 1363, 4139, 13190, 1054567,
     1020378, 12097, 1099110, 37765, 364088, 40991]"
  "map (\<lambda>e. name_key (entry_Name e)) entries_01 =
    [112346, 35624, 40455, 360784, 121417, 120283, 369314, 4021, 39311, 9200525, 9187727,
     3324597, 3303065, 3066869, 12365, 4202, 13760, 38336, 4238, 13603, 4266, 13748, 40415,
     13468, 40416, 13520, 39929, 40048, 40024, 39930, 12381, 12581, 12885, 999303, 378134,
     1047356, 339358, 37690, 12156, 36942, 40154, 13047]"
  "map (\<lambda>e. name_key (entry_Name e)) entries_02 =
    [13506, 12413, 4298, 41639, 126365, 358916, 12241, 37027, 12293, 37079, 38537, 13745,
     27601090, 1021931, 1022801, 126795, 13630, 40961, 37810, 42259, 37684, 40726, 40600,
     113221, 113095, 122140, 113473, 113431, 40708, 366751, 366625, 1019998, 1098730, 1100422,
     1021690, 1100296, 1021564, 113392, 366157, 366031, 37792, 36284]"
  "map (\<lambda>e. name_key (entry_Name e)) entries_03 =
    [36392, 90039871, 810393560, 810397983, 90046636, 9865916, 13982, 13141, 41858, 9720766,
     14033, 41425, 115783, 14038, 9198154, 9906742, 263305075, 263278831, 21327732633,
     21325606869, 1727366571294, 1727366571308, 575851762461, 13148, 121121, 356301, 3271572,
     123511, 3207503, 3272795, 111453, 13497, 2986116, 324432, 1100663, 37007, 4623, 3923,
     29726854, 13325, 125318, 41654]"
  "map (\<lambda>e. name_key (entry_Name e)) entries_04 =
    [125040, 39977, 9889673, 88901609, 4278, 38890, 81771491, 9416783, 80492096, 741555505,
     30035819, 372759, 3208002, 113479, 123928, 8824230, 126693, 363160, 37801, 1075819, 367167,
     1075755, 1036389, 340923, 1049511, 1010145, 1064091, 3189855, 3071757, 9801885, 28933761,
     27870879, 13662, 4505, 12888, 7109207038, 7108498450, 799516489, 347188, 3114121, 28044274,
     1042397]"
  "map (\<lambda>e. name_key (entry_Name e)) entries_05 =
    [1037103, 742120861, 260514227, 27741527, 83225656, 249707548, 2372678887, 3054436,
     799432003, 797016843, 3287569, 995668, 29913218, 89749913, 89741165, 2423012159, 29912633,
     81279662, 81270914, 27090247, 731471014, 3125470, 3082760, 1027428, 40797, 42061, 126705,
     12850, 88783114, 82405822, 119033, 1073174, 28958704, 781884815, 1071760, 86619936,
     3140869, 41068, 107065, 9831763, 38796, 3161561]"
  "map (\<lambda>e. name_key (entry_Name e)) entries_06 =
    [3161453, 28387061, 6897986420, 2299372772, 85853272, 40169, 117830, 118676, 334118,
     1048178, 3203813, 375158, 361793, 39089, 1137692, 3230651, 333650, 990317, 366090, 13527,
     125462, 799483475, 742087847, 41276, 1448, 827602970, 378803, 3241534, 1136954, 9248318,
     365986, 269254124, 114904, 999323, 807772631, 807763883, 106924, 1098010, 344762, 83224630,
     4140, 13268]"
  "map (\<lambda>e. name_key (entry_Name e)) entries_07 =
    [85161232, 40468, 124099, 7295572506, 784085633, 360934, 81176867, 81176876, 1101319,
     6889825514, 7121592839, 81265487, 42028, 364336, 13531, 37686, 2409861748, 7229587939,
     4219, 27485777, 87768111, 87759363, 1085429, 120508, 1021105, 28412936, 763198942, 1320,
     345431, 10196029, 3155178, 39494, 740092352, 121454, 372347, 87806186, 3250881, 1083752,
     13788, 84298288, 4529, 1132316]"
  "map (\<lambda>e. name_key (entry_Name e)) entries_08 =
    [7048587801, 253416622, 253415685, 6842244018, 1085831, 3241823, 38519, 344263, 115628,
     38474, 3222872, 37146, 9061358, 120557, 9667882, 2971001, 803278337, 27745004, 87754989,
     10065754, 4966253760632, 6812404499, 1655424786954, 28415840, 2409846710, 9432106,
     5242557009641, 971858, 1001000, 2286474596, 3143987, 3143996, 84887255, 1120433, 1063571,
     7054415058, 7060792350, 2352674983, 13242, 3304910, 3068714, 9577226]"
  "map (\<lambda>e. name_key (entry_Name e)) entries_09 =
    [88217372, 263868753, 27378480, 27387228]"
  by (simp_all add: entry_blocks name_key_def)

definition key_class :: "nat \<Rightarrow> nat list" where
  "key_class h = filter (\<lambda>k. k mod 16 = h) (map (\<lambda>e. name_key (entry_Name e)) entries)"

lemma key_classes:
  "distinct (key_class 0)" "distinct (key_class 1)" "distinct (key_class 2)" "distinct (key_class 3)"
  "distinct (key_class 4)" "distinct (key_class 5)" "distinct (key_class 6)" "distinct (key_class 7)"
  "distinct (key_class 8)" "distinct (key_class 9)" "distinct (key_class 10)" "distinct (key_class 11)"
  "distinct (key_class 12)" "distinct (key_class 13)" "distinct (key_class 14)" "distinct (key_class 15)"
  by (simp_all only: key_class_def entries_def map_append filter_append block_keys) simp_all

lemma distinct_filters: "(\<And>h. distinct (filter (\<lambda>k. f k = h) ks)) \<Longrightarrow> distinct ks"
proof (induction ks)
  case (Cons k ks)
  have "distinct (filter (\<lambda>k. f k = h) ks)" for h using Cons.prems [of h] by (simp split: if_splits)
  moreover have "k \<notin> set ks" using Cons.prems [of "f k"] by simp
  ultimately show ?case using Cons.IH by simp
qed simp

lemma entry_names_distinct: "distinct (map entry_Name entries)"
proof -
  have "distinct (key_class h)" for h
  proof (cases "h < 16")
    case True
    then have "h = 0 \<or> h = 1 \<or> h = 2 \<or> h = 3 \<or> h = 4 \<or> h = 5 \<or> h = 6 \<or> h = 7 \<or>
      h = 8 \<or> h = 9 \<or> h = 10 \<or> h = 11 \<or> h = 12 \<or> h = 13 \<or> h = 14 \<or> h = 15"
      by arith
    then show ?thesis using key_classes by metis
  next
    case False
    then have "k mod 16 \<noteq> h" for k :: nat by auto
    then show ?thesis by (simp add: key_class_def)
  qed
  then have "distinct (map (\<lambda>e. name_key (entry_Name e)) entries)"
    unfolding key_class_def by (rule distinct_filters)
  then have "distinct (map name_key (map entry_Name entries))" by (simp add: comp_def)
  then show ?thesis by (simp only: distinct_map)
qed

lemma go_text_inj: "go_text s = go_text t \<longleftrightarrow> s = t"
proof
  assume same: "go_text s = go_text t"
  have bytes: "text_bytes (go_text s) = ascii s" for s :: string
    using byte_text_back [of "ascii s"] by (simp add: go_text_def byte_text_def ascii_def list_all_iff)
  have "ascii s = ascii t" using bytes [of s] bytes [of t] same by simp
  then have "map char_of (ascii s) = (map char_of (ascii t) :: string)" by simp
  then show "s = t" by (simp add: ascii_def comp_def)
qed simp

section \<open>Names and numbers\<close>

text \<open>A map filled from a list with distinct keys holds what the list holds.\<close>

lemma fold_update_miss: "k \<notin> f ` set es \<Longrightarrow> fold (\<lambda>e m. m(f e \<mapsto> g e)) es m k = m k"
  by (induction es arbitrary: m) auto

lemma fold_update_hit:
  "distinct (map f es) \<Longrightarrow> e \<in> set es \<Longrightarrow> fold (\<lambda>e m. m(f e \<mapsto> g e)) es m (f e) = Some (g e)"
proof (induction es arbitrary: m)
  case (Cons a es)
  show ?case
  proof (cases "e = a")
    case True
    then have "f e \<notin> f ` set es" using Cons.prems(1) by simp
    then have "fold (\<lambda>e m. m(f e \<mapsto> g e)) es m' (f e) = m' (f e)" for m' by (rule fold_update_miss)
    from this [of "m(f e \<mapsto> g e)"] show ?thesis using True by (simp del: fun_upd_apply add: fun_upd_same)
  next
    case False
    then show ?thesis using Cons by simp
  qed
qed simp

lemma idToName_entry: "e \<in> set entries \<Longrightarrow> idToName (entry_ID e) = Some (go_text (entry_Name e))"
  unfolding idToName_def by (rule fold_update_hit [OF entry_ids_distinct])

lemma idToName_none: "i \<notin> entry_ID ` set entries \<Longrightarrow> idToName i = None"
  unfolding idToName_def by (simp add: fold_update_miss)

lemma ID_entry: "e \<in> set entries \<Longrightarrow> ID (go_text (entry_Name e)) = Some (entry_ID e)"
proof -
  have "distinct (map (\<lambda>e. go_text (entry_Name e)) entries)"
    using entry_names_distinct by (simp add: distinct_map inj_on_def go_text_inj)
  then show "e \<in> set entries \<Longrightarrow> ID (go_text (entry_Name e)) = Some (entry_ID e)"
    unfolding ID_def nameToID_def by (rule fold_update_hit)
qed

lemma ID_none: "name \<notin> (\<lambda>e. go_text (entry_Name e)) ` set entries \<Longrightarrow> ID name = None"
  unfolding ID_def nameToID_def by (simp add: fold_update_miss)

lemma ID_some: "ID name = Some i \<longleftrightarrow> (\<exists>e \<in> set entries. name = go_text (entry_Name e) \<and> i = entry_ID e)"
proof
  assume id: "ID name = Some i"
  then obtain e where "e \<in> set entries" "name = go_text (entry_Name e)"
    using ID_none [of name] by (cases "name \<in> (\<lambda>e. go_text (entry_Name e)) ` set entries") auto
  then show "\<exists>e \<in> set entries. name = go_text (entry_Name e) \<and> i = entry_ID e"
    using id ID_entry by force
qed (use ID_entry in blast)

lemma Name_entry: "e \<in> set entries \<Longrightarrow> Name (entry_ID e) = go_text (entry_Name e)"
  by (simp add: Name_def idToName_entry)

text \<open>The calls that the table knows are the ones that have a name of their own.\<close>

definition known_call :: "s64 \<Rightarrow> bool" where
  "known_call i \<longleftrightarrow> i \<in> entry_ID ` set entries"

lemma ID_Name: "known_call i \<Longrightarrow> ID (Name i) = Some i"
  by (auto simp: known_call_def Name_entry ID_entry)

lemma Name_ID: "ID name = Some i \<Longrightarrow> Name i = name \<and> known_call i"
  by (auto simp: ID_some Name_entry known_call_def)

lemma Name_unknown: "\<not> known_call i \<Longrightarrow> Name i = go_text ''syscall_0x'' @ fmt_xd (sint i)"
  by (simp add: Name_def known_call_def idToName_none)

lemma known_call_iff: "known_call i \<longleftrightarrow> unat i < 336 \<or> 424 \<le> unat i \<and> unat i < 470"
proof -
  have "known_call i \<longleftrightarrow> unat i \<in> set (map (\<lambda>e. unat (entry_ID e)) entries)"
    by (auto simp: known_call_def word_unat_eq_iff)
  then show ?thesis unfolding entry_numbers set_append set_upt by auto
qed

text \<open>Every call with a row in the schema table is known.\<close>

definition known_number :: "nat \<Rightarrow> bool" where
  "known_number n \<longleftrightarrow> n < 336 \<or> 424 \<le> n \<and> n < 470"

lemma blocks_known:
  "list_all (\<lambda>sc. known_number (unat (sc_syscall_id sc))) syscall_schemas_00"
  "list_all (\<lambda>sc. known_number (unat (sc_syscall_id sc))) syscall_schemas_01"
  "list_all (\<lambda>sc. known_number (unat (sc_syscall_id sc))) syscall_schemas_02"
  "list_all (\<lambda>sc. known_number (unat (sc_syscall_id sc))) syscall_schemas_03"
  "list_all (\<lambda>sc. known_number (unat (sc_syscall_id sc))) syscall_schemas_04"
  "list_all (\<lambda>sc. known_number (unat (sc_syscall_id sc))) syscall_schemas_05"
  "list_all (\<lambda>sc. known_number (unat (sc_syscall_id sc))) syscall_schemas_06"
  "list_all (\<lambda>sc. known_number (unat (sc_syscall_id sc))) syscall_schemas_07"
  "list_all (\<lambda>sc. known_number (unat (sc_syscall_id sc))) syscall_schemas_08"
  "list_all (\<lambda>sc. known_number (unat (sc_syscall_id sc))) syscall_schemas_09"
  "list_all (\<lambda>sc. known_number (unat (sc_syscall_id sc))) syscall_schemas_10"
  "list_all (\<lambda>sc. known_number (unat (sc_syscall_id sc))) syscall_schemas_11"
  "list_all (\<lambda>sc. known_number (unat (sc_syscall_id sc))) syscall_schemas_12"
  by (simp_all add: schema_blocks known_number_def)

lemma schemas_known: "list_all (\<lambda>sc. known_number (unat (sc_syscall_id sc))) syscall_schemas"
  by (simp add: syscall_schemas_def blocks_known)

lemma schema_call_known: "sc \<in> set syscall_schemas \<Longrightarrow> known_call (sc_syscall_id sc)"
  using schemas_known by (auto simp: known_call_iff known_number_def list_all_iff)

section \<open>The names are plain words\<close>

definition name_byte :: "nat \<Rightarrow> bool" where
  "name_byte c \<longleftrightarrow> 48 \<le> c \<and> c < 58 \<or> c = 95 \<or> 97 \<le> c \<and> c < 123"

definition name_text :: "gostring \<Rightarrow> bool" where
  "name_text s \<longleftrightarrow> s \<noteq> [] \<and> list_all (\<lambda>b. name_byte (unat b)) s"

lemma name_text_go_text: "name_text (go_text s) \<longleftrightarrow> s \<noteq> [] \<and> list_all (\<lambda>c. name_byte (of_char c)) s"
  by (simp add: name_text_def go_text_def ascii_def list.pred_map comp_def unat_of_nat)

lemma blocks_plain:
  "list_all (\<lambda>e. name_text (go_text (entry_Name e))) entries_00"
  "list_all (\<lambda>e. name_text (go_text (entry_Name e))) entries_01"
  "list_all (\<lambda>e. name_text (go_text (entry_Name e))) entries_02"
  "list_all (\<lambda>e. name_text (go_text (entry_Name e))) entries_03"
  "list_all (\<lambda>e. name_text (go_text (entry_Name e))) entries_04"
  "list_all (\<lambda>e. name_text (go_text (entry_Name e))) entries_05"
  "list_all (\<lambda>e. name_text (go_text (entry_Name e))) entries_06"
  "list_all (\<lambda>e. name_text (go_text (entry_Name e))) entries_07"
  "list_all (\<lambda>e. name_text (go_text (entry_Name e))) entries_08"
  "list_all (\<lambda>e. name_text (go_text (entry_Name e))) entries_09"
  by (simp_all add: entry_blocks name_text_go_text name_byte_def)

lemma entry_names_plain: "list_all (\<lambda>e. name_text (go_text (entry_Name e))) entries"
  by (simp add: entries_def blocks_plain)

section \<open>Different calls have different names\<close>

text \<open>The ones without a name of their own included.\<close>

lemma entry_not_numbered:
  "list_all (\<lambda>e. take 10 (entry_Name e) \<noteq> ''syscall_0x'') entries_00"
  "list_all (\<lambda>e. take 10 (entry_Name e) \<noteq> ''syscall_0x'') entries_01"
  "list_all (\<lambda>e. take 10 (entry_Name e) \<noteq> ''syscall_0x'') entries_02"
  "list_all (\<lambda>e. take 10 (entry_Name e) \<noteq> ''syscall_0x'') entries_03"
  "list_all (\<lambda>e. take 10 (entry_Name e) \<noteq> ''syscall_0x'') entries_04"
  "list_all (\<lambda>e. take 10 (entry_Name e) \<noteq> ''syscall_0x'') entries_05"
  "list_all (\<lambda>e. take 10 (entry_Name e) \<noteq> ''syscall_0x'') entries_06"
  "list_all (\<lambda>e. take 10 (entry_Name e) \<noteq> ''syscall_0x'') entries_07"
  "list_all (\<lambda>e. take 10 (entry_Name e) \<noteq> ''syscall_0x'') entries_08"
  "list_all (\<lambda>e. take 10 (entry_Name e) \<noteq> ''syscall_0x'') entries_09"
  by (simp_all add: entry_blocks)

lemma known_name_differs:
  assumes "known_call m" and "\<not> known_call n"
  shows "Name m \<noteq> Name n"
proof
  assume same: "Name m = Name n"
  obtain e where e: "e \<in> set entries" "m = entry_ID e" using assms(1) by (auto simp: known_call_def)
  have "take 10 (Name n) = go_text ''syscall_0x''"
    by (simp add: Name_unknown [OF assms(2)]) (simp add: go_text_def ascii_def)
  moreover have "take 10 (Name m) = go_text (take 10 (entry_Name e))"
    unfolding e(2) Name_entry [OF e(1)] by (simp add: go_text_def ascii_def take_map)
  ultimately have "go_text (take 10 (entry_Name e)) = go_text ''syscall_0x''" using same by simp
  then have "take 10 (entry_Name e) = ''syscall_0x''" by (simp only: go_text_inj)
  moreover have "list_all (\<lambda>e. take 10 (entry_Name e) \<noteq> ''syscall_0x'') entries"
    by (simp add: entries_def entry_not_numbered)
  ultimately show False using e(1) by (simp add: list_all_iff)
qed

lemma Name_inj: "Name i = Name j \<longleftrightarrow> i = j"
proof
  assume same: "Name i = Name j"
  have both: "known_call i \<longleftrightarrow> known_call j"
    using known_name_differs [of i j] known_name_differs [of j i] same by metis
  show "i = j"
  proof (cases "known_call i")
    case True
    then have "ID (Name i) = Some i" "ID (Name i) = Some j"
      using both ID_Name [of i] ID_Name [of j] same by metis+
    then show ?thesis by simp
  next
    case False
    then have "Name i = go_text ''syscall_0x'' @ fmt_xd (sint i)" "Name j = go_text ''syscall_0x'' @ fmt_xd (sint j)"
      using both Name_unknown by blast+
    then have "sint i = sint j" using same fmt_xd_inj by simp
    then show ?thesis by (rule signed_word_eqI)
  qed
qed simp

end
