(* ===== verification/Format_Args.thy ===== *)
theory Format_Args
  imports Syscall_Names Path_Filter
begin

text \<open>
  The rendering of an event: the tables of \<^verbatim>\<open>internal/format.go\<close>, the arguments
  (\<^verbatim>\<open>internal/format_args.go\<close>, and the stat structures of \<^verbatim>\<open>internal/format_var.go\<close>) and
  the result (\<^verbatim>\<open>internal/format_ret.go\<close>). The constants of package \<^verbatim>\<open>unix\<close> are the ones
  of Linux on x86-64. The names and messages of error numbers come from the library:
  \<open>errno_names\<close> is a parameter. \<open>None\<close> would be a function that does not return.
\<close>

section \<open>Constants\<close>

abbreviation (input) O_RDONLY :: u64 where "O_RDONLY \<equiv> 0"
abbreviation (input) O_WRONLY :: u64 where "O_WRONLY \<equiv> 1"
abbreviation (input) O_RDWR :: u64 where "O_RDWR \<equiv> 2"
abbreviation (input) O_ACCMODE :: u64 where "O_ACCMODE \<equiv> 3"
abbreviation (input) O_APPEND :: u64 where "O_APPEND \<equiv> 0x400"
abbreviation (input) O_ASYNC :: u64 where "O_ASYNC \<equiv> 0x2000"
abbreviation (input) O_CLOEXEC :: u64 where "O_CLOEXEC \<equiv> 0x80000"
abbreviation (input) O_CREAT :: u64 where "O_CREAT \<equiv> 0x40"
abbreviation (input) O_DIRECT :: u64 where "O_DIRECT \<equiv> 0x4000"
abbreviation (input) O_EXCL :: u64 where "O_EXCL \<equiv> 0x80"
abbreviation (input) O_NOATIME :: u64 where "O_NOATIME \<equiv> 0x40000"
abbreviation (input) O_NOCTTY :: u64 where "O_NOCTTY \<equiv> 0x100"
abbreviation (input) O_NOFOLLOW :: u64 where "O_NOFOLLOW \<equiv> 0x20000"
abbreviation (input) O_NONBLOCK :: u64 where "O_NONBLOCK \<equiv> 0x800"
abbreviation (input) O_PATH :: u64 where "O_PATH \<equiv> 0x200000"
abbreviation (input) O_SYNC :: u64 where "O_SYNC \<equiv> 0x101000"
abbreviation (input) O_TMPFILE :: u64 where "O_TMPFILE \<equiv> 0x410000"
abbreviation (input) O_DIRECTORY :: u64 where "O_DIRECTORY \<equiv> 0x10000"
abbreviation (input) O_DSYNC :: u64 where "O_DSYNC \<equiv> 0x1000"
abbreviation (input) O_TRUNC :: u64 where "O_TRUNC \<equiv> 0x200"
abbreviation (input) S_IFMT :: u32 where "S_IFMT \<equiv> 0xF000"
abbreviation (input) S_IFREG :: u32 where "S_IFREG \<equiv> 0x8000"
abbreviation (input) S_IFDIR :: u32 where "S_IFDIR \<equiv> 0x4000"
abbreviation (input) S_IFLNK :: u32 where "S_IFLNK \<equiv> 0xA000"
abbreviation (input) S_IFCHR :: u32 where "S_IFCHR \<equiv> 0x2000"
abbreviation (input) S_IFBLK :: u32 where "S_IFBLK \<equiv> 0x6000"
abbreviation (input) S_IFIFO :: u32 where "S_IFIFO \<equiv> 0x1000"
abbreviation (input) S_IFSOCK :: u32 where "S_IFSOCK \<equiv> 0xC000"

section \<open>Tables\<close>

record enumEntry =
  en_value :: u64
  en_name :: gostring

record flagEntry =
  fl_value :: u64
  fl_name :: gostring

abbreviation (input) enum :: "u64 \<Rightarrow> string \<Rightarrow> enumEntry" where
  "enum v n \<equiv> \<lparr>en_value = v, en_name = go_text n\<rparr>"

abbreviation (input) flag :: "u64 \<Rightarrow> string \<Rightarrow> flagEntry" where
  "flag v n \<equiv> \<lparr>fl_value = v, fl_name = go_text n\<rparr>"

definition openModeAccess :: "enumEntry list" where
  "openModeAccess = [enum O_RDONLY ''O_RDONLY'', enum O_WRONLY ''O_WRONLY'', enum O_RDWR ''O_RDWR'']"

definition openModeFlags :: "flagEntry list" where
  "openModeFlags =
     [flag O_APPEND ''O_APPEND'', flag O_ASYNC ''O_ASYNC'', flag O_CLOEXEC ''O_CLOEXEC'',
      flag O_CREAT ''O_CREAT'', flag O_DIRECT ''O_DIRECT'', flag O_EXCL ''O_EXCL'',
      flag O_NOATIME ''O_NOATIME'', flag O_NOCTTY ''O_NOCTTY'', flag O_NOFOLLOW ''O_NOFOLLOW'',
      flag O_NONBLOCK ''O_NONBLOCK'', flag O_PATH ''O_PATH'', flag O_SYNC ''O_SYNC'',
      flag O_TMPFILE ''O_TMPFILE'', flag O_DIRECTORY ''O_DIRECTORY'', flag O_DSYNC ''O_DSYNC'',
      flag O_TRUNC ''O_TRUNC'']"

definition mmapProtFlags :: "flagEntry list" where
  "mmapProtFlags = [flag 1 ''PROT_READ'', flag 2 ''PROT_WRITE'', flag 4 ''PROT_EXEC'']"

definition mmapFlags :: "flagEntry list" where
  "mmapFlags =
     [flag 0x1 ''MAP_SHARED'', flag 0x2 ''MAP_PRIVATE'', flag 0x10 ''MAP_FIXED'',
      flag 0x20 ''MAP_ANONYMOUS'', flag 0x8000 ''MAP_POPULATE'', flag 0x10000 ''MAP_NONBLOCK'',
      flag 0x20000 ''MAP_STACK'', flag 0x40000 ''MAP_HUGETLB'', flag 0x800 ''MAP_DENYWRITE'',
      flag 0x1000 ''MAP_EXECUTABLE'', flag 0x2000 ''MAP_LOCKED'', flag 0x100 ''MAP_GROWSDOWN'',
      flag 0x4000 ''MAP_NORESERVE'']"

section \<open>Words of a value\<close>

fun formatEnum :: "u64 \<Rightarrow> enumEntry list \<Rightarrow> (u64 \<Rightarrow> gostring) \<Rightarrow> gostring" where
  "formatEnum raw [] fallback = fallback raw"
| "formatEnum raw (entry # table) fallback =
     (if en_value entry = raw then en_name entry else formatEnum raw table fallback)"

text \<open>The loop over the table: the names found so far and the bits not named yet.\<close>

fun flags_loop :: "flagEntry list \<Rightarrow> gostring list \<Rightarrow> u64 \<Rightarrow> gostring list \<times> u64" where
  "flags_loop [] parts remaining = (parts, remaining)"
| "flags_loop (entry # table) parts remaining =
     (if fl_value entry = 0 then flags_loop table parts remaining
      else if remaining AND fl_value entry = fl_value entry
      then flags_loop table (parts @ [fl_name entry]) (remaining AND NOT (fl_value entry))
      else flags_loop table parts remaining)"

definition formatHex :: "u64 \<Rightarrow> gostring" where
  "formatHex raw = go_text ''0x'' @ fmt_x (unat raw)"

definition formatFlags :: "u64 \<Rightarrow> gostring \<Rightarrow> flagEntry list \<Rightarrow> gostring" where
  "formatFlags raw zero table =
     (if raw = 0 \<and> zero \<noteq> [] then zero
      else let (parts, remaining) = flags_loop table [] raw;
               parts = (if remaining \<noteq> 0 \<or> parts = [] then parts @ [formatHex remaining] else parts)
           in Join parts (go_text ''|''))"

definition formatDirFD :: "u64 \<Rightarrow> gostring" where
  "formatDirFD raw =
     (let fd = sint (ucast raw :: 32 word) in
      if fd = AT_FDCWD then go_text ''AT_FDCWD'' else fmt_d fd)"

definition formatPtr :: "u64 \<Rightarrow> gostring" where
  "formatPtr raw = (if raw = 0 then go_text ''NULL'' else formatHex raw)"

definition formatMmapProt :: "u64 \<Rightarrow> gostring" where
  "formatMmapProt raw = (if raw = 0 then go_text ''PROT_NONE'' else formatFlags raw [] mmapProtFlags)"

definition formatMmapFlags :: "u64 \<Rightarrow> gostring" where
  "formatMmapFlags raw = formatFlags raw [] mmapFlags"

definition formatMmapArg :: "event \<Rightarrow> int \<Rightarrow> gostring option" where
  "formatMmapArg ev idx =
     (if idx = 0 then Some (formatPtr (ev_args ev ! 0))
      else if idx = 2 then Some (formatMmapProt (ev_args ev ! 2))
      else if idx = 3 then Some (formatMmapFlags (ev_args ev ! 3))
      else None)"

definition formatOpenFlags :: "u64 \<Rightarrow> gostring" where
  "formatOpenFlags raw =
     (let access = formatEnum (raw AND O_ACCMODE) openModeAccess formatHex;
          rest = raw AND NOT O_ACCMODE
      in if rest = 0 then access else access @ go_text ''|'' @ formatFlags rest [] openModeFlags)"

definition formatOpenArg :: "int \<Rightarrow> int \<Rightarrow> event \<Rightarrow> int \<Rightarrow> gostring option" where
  "formatOpenArg flagsIdx dirfdIdx ev idx =
     (if idx = flagsIdx then Some (formatOpenFlags (ev_args ev ! nat idx))
      else if idx = dirfdIdx then Some (formatDirFD (ev_args ev ! nat idx))
      else None)"

definition openNeedsMode :: "u64 \<Rightarrow> bool" where
  "openNeedsMode flags \<longleftrightarrow> flags AND O_CREAT \<noteq> 0 \<or> flags AND O_TMPFILE = O_TMPFILE"

definition shown_args :: "event \<Rightarrow> int" where
  "shown_args ev =
     (let count = int (unat (ev_arg_count ev))
      in if int (length (ev_args ev)) < count then int (length (ev_args ev)) else count)"

definition effectiveOpenArgCount :: "int \<Rightarrow> int \<Rightarrow> event \<Rightarrow> int" where
  "effectiveOpenArgCount flagsIdx modeIdx ev =
     (let count = shown_args ev in
      if modeIdx < count \<and> \<not> openNeedsMode (ev_args ev ! nat flagsIdx) then modeIdx else count)"

section \<open>Modes and results\<close>

definition formatMode :: "u64 \<Rightarrow> gostring" where
  "formatMode raw = fmt_o 3 (unat ((ucast raw :: u32) AND 0xFFFF))"

definition formatStatFileType :: "u32 \<Rightarrow> gostring" where
  "formatStatFileType mode =
     (let t = mode AND S_IFMT in
      if t = S_IFREG then go_text ''S_IFREG''
      else if t = S_IFDIR then go_text ''S_IFDIR''
      else if t = S_IFLNK then go_text ''S_IFLNK''
      else if t = S_IFCHR then go_text ''S_IFCHR''
      else if t = S_IFBLK then go_text ''S_IFBLK''
      else if t = S_IFIFO then go_text ''S_IFIFO''
      else if t = S_IFSOCK then go_text ''S_IFSOCK''
      else [])"

definition formatStatMode :: "u32 \<Rightarrow> gostring" where
  "formatStatMode mode =
     (let fileType = formatStatFileType mode; perms = fmt_o 3 (unat (mode AND 0xFFF))
      in if fileType = [] then perms else fileType @ go_text ''|'' @ perms)"

definition formatWhence :: "u64 \<Rightarrow> gostring" where
  "formatWhence raw =
     (let whence = sint (ucast raw :: 32 word) in
      if whence = 0 then go_text ''SEEK_SET''
      else if whence = 1 then go_text ''SEEK_CUR''
      else if whence = 2 then go_text ''SEEK_END''
      else if whence = 3 then go_text ''SEEK_DATA''
      else if whence = 4 then go_text ''SEEK_HOLE''
      else fmt_d whence)"

text \<open>\<open>unix.ErrnoName\<close> and the message of \<open>syscall.Errno\<close>, for an error number.\<close>

record errno_names =
  ErrnoName :: "u64 \<Rightarrow> gostring"
  ErrnoError :: "u64 \<Rightarrow> gostring"

definition formatRetDefault :: "errno_names \<Rightarrow> s64 \<Rightarrow> gostring" where
  "formatRetDefault u ret =
     (if 0 \<le> sint ret then fmt_d (sint ret)
      else let name = ErrnoName u (- ret) in
           if name = [] then go_text ''-1 (error '' @ fmt_d (sint (- ret)) @ go_text '')''
           else go_text ''-1 '' @ name @ go_text '' ('' @ ErrnoError u (- ret) @ go_text '')'')"

definition formatRet :: "errno_names \<Rightarrow> event \<Rightarrow> gostring" where
  "formatRet u ev =
     (if sint (ev_ret ev) < 0 then formatRetDefault u (ev_ret ev)
      else if ev_syscall_id ev = NR_mmap then formatPtr (ev_ret ev)
      else if ev_syscall_id ev = NR_umask then formatMode (ev_ret ev)
      else formatRetDefault u (ev_ret ev))"

section \<open>Structures that a call has filled in\<close>

text \<open>
  \<open>unix.Stat_t\<close> has 144 bytes, with the mode at 24 and the size at 48; \<open>unix.Statx_t\<close>
  has 256, with a mode of two bytes at 28 and the size at 40.
\<close>

definition formatCapturedStat :: "gostring \<Rightarrow> gostring option" where
  "formatCapturedStat payload =
     (if length payload < 144 then None
      else Some (go_text ''{st_mode='' @ formatStatMode (le_word (bslice 24 4 payload)) @
                 go_text '', st_size='' @ fmt_d (sint (le_word (bslice 48 8 payload) :: s64)) @
                 go_text '', ...}''))"

definition formatCapturedStatx :: "gostring \<Rightarrow> gostring option" where
  "formatCapturedStatx payload =
     (if length payload < 256 then None
      else Some (go_text ''{stx_mode='' @ formatStatMode (ucast (le_word (bslice 28 2 payload) :: u16)) @
                 go_text '', stx_size='' @ fmt_u (unat (le_word (bslice 40 8 payload) :: u64)) @
                 go_text '', ...}''))"

definition formatStatArg :: "int \<Rightarrow> (gostring \<Rightarrow> gostring option) \<Rightarrow> event \<Rightarrow> int \<Rightarrow> gostring option" where
  "formatStatArg idx decode ev argIdx =
     (if argIdx \<noteq> idx \<or> sint (ev_ret ev) < 0 then None
      else case findVarArgDesc ev argIdx of
             None \<Rightarrow> None
           | Some desc \<Rightarrow>
               if vd_flags desc \<noteq> VAR_FLAG_NONE then Some (go_text ''<?>'')
               else case varPayloadSlice ev desc of
                      None \<Rightarrow> Some (go_text ''<?>'')
                    | Some payload \<Rightarrow>
                        (case decode payload of
                           None \<Rightarrow> Some (go_text ''<?>'')
                         | Some rendered \<Rightarrow> Some rendered))"

definition formatAtStatArg :: "int \<Rightarrow> (gostring \<Rightarrow> gostring option) \<Rightarrow> event \<Rightarrow> int \<Rightarrow> gostring option" where
  "formatAtStatArg resultIdx decode ev argIdx =
     (if argIdx = 0 then Some (formatDirFD (ev_args ev ! 0)) else formatStatArg resultIdx decode ev argIdx)"

section \<open>The line\<close>

record syscallFormatter =
  formatter_arg :: "event \<Rightarrow> int \<Rightarrow> gostring option"
  formatter_count :: "(event \<Rightarrow> int) option"

definition syscallFormatters :: "s64 \<rightharpoonup> syscallFormatter" where
  "syscallFormatters =
     [NR_mmap \<mapsto> \<lparr>formatter_arg = formatMmapArg, formatter_count = None\<rparr>,
      NR_open \<mapsto> \<lparr>formatter_arg = formatOpenArg 1 (- 1), formatter_count = Some (effectiveOpenArgCount 1 2)\<rparr>,
      NR_openat \<mapsto> \<lparr>formatter_arg = formatOpenArg 2 0, formatter_count = Some (effectiveOpenArgCount 2 3)\<rparr>,
      NR_newstat \<mapsto> \<lparr>formatter_arg = formatStatArg 1 formatCapturedStat, formatter_count = None\<rparr>,
      NR_newlstat \<mapsto> \<lparr>formatter_arg = formatStatArg 1 formatCapturedStat, formatter_count = None\<rparr>,
      NR_newfstat \<mapsto> \<lparr>formatter_arg = formatStatArg 1 formatCapturedStat, formatter_count = None\<rparr>,
      NR_newfstatat \<mapsto> \<lparr>formatter_arg = formatAtStatArg 2 formatCapturedStat, formatter_count = None\<rparr>,
      NR_statx \<mapsto> \<lparr>formatter_arg = formatAtStatArg 4 formatCapturedStatx, formatter_count = None\<rparr>]"

definition lookupSyscallFormatter :: "event \<Rightarrow> syscallFormatter option" where
  "lookupSyscallFormatter ev = syscallFormatters (ev_syscall_id ev)"

definition formatArgDefault :: "event \<Rightarrow> int \<Rightarrow> gostring" where
  "formatArgDefault ev idx =
     (let typ = ev_arg_types ev ! nat idx; raw = ev_args ev ! nat idx in
      if typ = ARG_FD then fmt_d (sint (ucast raw :: 32 word))
      else if typ = ARG_INT then
        (if ev_syscall_id ev = NR_lseek \<and> idx = 2 then formatWhence raw else fmt_d (sint (ucast raw :: 32 word)))
      else if typ = ARG_UINT then fmt_u (unat raw)
      else if typ = ARG_MODE then formatMode raw
      else if typ = ARG_FLAGS then formatHex raw
      else if typ = ARG_OFF then fmt_d (sint raw)
      else if typ = ARG_PTR then formatPtr raw
      else if typ = ARG_RAW then formatHex raw
      else if typ = ARG_NONE then go_text ''?''
      else formatHex raw)"

definition formatArg :: "event \<Rightarrow> int \<Rightarrow> gostring option" where
  "formatArg ev idx =
     (case (case lookupSyscallFormatter ev of None \<Rightarrow> None | Some formatter \<Rightarrow> formatter_arg formatter ev idx) of
        Some rendered \<Rightarrow> Some rendered
      | None \<Rightarrow>
          (case formatVarArg ev idx of
             None \<Rightarrow> None
           | Some (Some rendered) \<Rightarrow> Some rendered
           | Some None \<Rightarrow> Some (formatArgDefault ev idx)))"

definition effectiveArgCount :: "event \<Rightarrow> int" where
  "effectiveArgCount ev =
     (case lookupSyscallFormatter ev of
        None \<Rightarrow> shown_args ev
      | Some formatter \<Rightarrow> (case formatter_count formatter of None \<Rightarrow> shown_args ev | Some c \<Rightarrow> c ev))"

fun args_loop :: "event \<Rightarrow> nat \<Rightarrow> nat \<Rightarrow> gostring list option" where
  "args_loop ev i 0 = Some []"
| "args_loop ev i (Suc n) =
     (case formatArg ev (int i) of
        None \<Rightarrow> None
      | Some part \<Rightarrow> map_option ((#) part) (args_loop ev (Suc i) n))"

definition formatArgs :: "event \<Rightarrow> gostring option" where
  "formatArgs ev =
     map_option (\<lambda>parts. Join parts (go_text '', '')) (args_loop ev 0 (nat (effectiveArgCount ev)))"

definition formatEventLine :: "errno_names \<Rightarrow> event \<Rightarrow> gostring option" where
  "formatEventLine u ev =
     map_option (\<lambda>args. Name (ev_syscall_id ev) @ go_text ''('' @ args @ go_text '') = '' @ formatRet u ev)
       (formatArgs ev)"

definition formatEventPrefix :: "event \<Rightarrow> u32 \<Rightarrow> gostring" where
  "formatEventPrefix ev rootTGID =
     (if ev_tid ev = 0 then []
      else if ev_pid ev = rootTGID \<and> ev_tid ev = rootTGID then []
      else go_text ''[pid '' @ fmt_u (unat (ev_tid ev)) @ go_text ''] '')"

definition FormatOutputLine :: "errno_names \<Rightarrow> event \<Rightarrow> u32 \<Rightarrow> gostring option" where
  "FormatOutputLine u ev rootTGID =
     map_option (\<lambda>line. formatEventPrefix ev rootTGID @ line) (formatEventLine u ev)"

end
