(* ===== verification/Format_Facts.thy ===== *)
theory Format_Facts
  imports Format_Args
begin

text \<open>
  What the rendering of an event gives: it always ends, on arguments that exist, in
  printable text; the words of a flag argument read back to its bits; and the parts of a
  line can be found again.
\<close>

section \<open>Every argument is rendered\<close>

text \<open>The names of errors that the library gives are printable.\<close>

definition errno_ok :: "errno_names \<Rightarrow> bool" where
  "errno_ok u \<longleftrightarrow> (\<forall>n. printable_text (ErrnoName u n) \<and> printable_text (ErrnoError u n))"

lemma printable_name [simp]: "printable_text (Name i)"
proof (cases "known_call i")
  case True
  then obtain e where "e \<in> set entries" "Name i = go_text (entry_Name e)"
    by (auto simp: known_call_def Name_entry)
  then have "name_text (Name i)" using entry_names_plain by (simp add: list_all_iff)
  then show ?thesis by (auto simp: name_text_def printable_text_def name_byte_def printable_def list_all_iff)
next
  case False
  then show ?thesis by (simp add: Name_unknown go_text_printable printable_def)
qed

lemma printable_nil [simp]: "printable_text []"
  by (simp add: printable_text_def)

lemma printable_hex [simp]: "printable_text (formatHex raw)"
  by (simp add: formatHex_def go_text_printable printable_def)

text \<open>The names in the tables.\<close>

lemma table_names:
  "list_all (\<lambda>e. printable_text (en_name e)) openModeAccess"
  "list_all (\<lambda>e. printable_text (fl_name e)) openModeFlags"
  "list_all (\<lambda>e. printable_text (fl_name e)) mmapProtFlags"
  "list_all (\<lambda>e. printable_text (fl_name e)) mmapFlags"
  by (simp_all add: openModeAccess_def openModeFlags_def mmapProtFlags_def mmapFlags_def
      go_text_printable printable_def)

lemma printable_enum:
  "list_all (\<lambda>e. printable_text (en_name e)) table \<Longrightarrow> (\<And>v. printable_text (fb v)) \<Longrightarrow>
   printable_text (formatEnum raw table fb)"
  by (induction raw table fb rule: formatEnum.induct) simp_all

lemma flags_loop_printable:
  "list_all (\<lambda>e. printable_text (fl_name e)) table \<Longrightarrow> list_all printable_text parts \<Longrightarrow>
   list_all printable_text (fst (flags_loop table parts r))"
  by (induction table parts r rule: flags_loop.induct) simp_all

lemma printable_flags:
  assumes "list_all (\<lambda>e. printable_text (fl_name e)) table" and "printable_text zero"
  shows "printable_text (formatFlags raw zero table)"
proof -
  obtain parts r where "flags_loop table [] raw = (parts, r)" by force
  moreover from this have "list_all printable_text parts"
    using flags_loop_printable [OF assms(1), of "[]" raw] by simp
  ultimately show ?thesis
    using assms(2) by (simp add: formatFlags_def printable_Join go_text_printable printable_def)
qed

text \<open>Every text the code holds is printable.\<close>

lemma printable_pieces [simp]:
  "printable_text (formatPtr raw)" "printable_text (formatDirFD raw)" "printable_text (formatMode raw)"
  "printable_text (formatWhence raw)" "printable_text (formatMmapProt raw)" "printable_text (formatMmapFlags raw)"
  "printable_text (formatOpenFlags raw)" "printable_text (formatStatMode mode)"
  by (simp_all add: formatPtr_def formatDirFD_def formatMode_def formatWhence_def formatMmapProt_def
      formatMmapFlags_def formatOpenFlags_def formatStatMode_def formatStatFileType_def Let_def
      printable_flags printable_enum table_names go_text_printable printable_def)

lemma printable_default [simp]: "printable_text (formatArgDefault ev idx)"
  by (simp add: formatArgDefault_def Let_def go_text_printable printable_def)

lemma printable_captured_stat:
  "pred_option printable_text (formatCapturedStat payload)"
  "pred_option printable_text (formatCapturedStatx payload)"
  by (simp_all add: formatCapturedStat_def formatCapturedStatx_def go_text_printable printable_def)

lemma printable_stat_arg:
  "(\<And>p. pred_option printable_text (decode p)) \<Longrightarrow> pred_option printable_text (formatStatArg i decode ev idx)"
  "(\<And>p. pred_option printable_text (decode p)) \<Longrightarrow> pred_option printable_text (formatAtStatArg i decode ev idx)"
  by (auto simp: formatStatArg_def formatAtStatArg_def go_text_printable printable_def pred_option_def
      split: option.split)

lemma printable_formatter:
  "lookupSyscallFormatter ev = Some f \<Longrightarrow> pred_option printable_text (formatter_arg f e idx)"
  by (auto simp: lookupSyscallFormatter_def syscallFormatters_def formatMmapArg_def formatOpenArg_def
      printable_stat_arg printable_captured_stat split: if_splits)

lemma formatArg_printable: "\<exists>s. formatArg ev idx = Some s \<and> printable_text s"
proof -
  obtain r where r: "formatVarArg ev idx = Some r" "pred_option printable_text r"
    using formatVarArg_printable by blast
  show ?thesis
  proof (cases "lookupSyscallFormatter ev")
    case None
    then show ?thesis using r by (cases r) (simp_all add: formatArg_def)
  next
    case (Some f)
    then show ?thesis
      using r printable_formatter [OF Some, of ev idx]
      by (cases r; cases "formatter_arg f ev idx") (simp_all add: formatArg_def)
  qed
qed

lemma args_loop_printable: "\<exists>ps. args_loop ev i n = Some ps \<and> list_all printable_text ps \<and> length ps = n"
proof (induction n arbitrary: i)
  case (Suc n)
  obtain s where "formatArg ev (int i) = Some s" "printable_text s" using formatArg_printable by blast
  then show ?case using Suc [of "Suc i"] by force
qed simp

lemma formatArgs_printable: "\<exists>s. formatArgs ev = Some s \<and> printable_text s"
  using args_loop_printable [of ev 0 "nat (effectiveArgCount ev)"]
  by (auto simp: formatArgs_def printable_Join go_text_printable printable_def)

lemma printable_ret: "errno_ok u \<Longrightarrow> printable_text (formatRet u ev)"
  by (simp add: formatRet_def formatRetDefault_def errno_ok_def Let_def go_text_printable printable_def)

lemma printable_prefix [simp]: "printable_text (formatEventPrefix ev rootTGID)"
  by (simp add: formatEventPrefix_def go_text_printable printable_def)

lemma FormatOutputLine_printable:
  assumes "errno_ok u"
  shows "\<exists>l. FormatOutputLine u ev rootTGID = Some l \<and> printable_text l"
proof -
  obtain s where "formatArgs ev = Some s" "printable_text s" using formatArgs_printable by blast
  then show ?thesis
    using printable_ret [OF assms]
    by (auto simp: FormatOutputLine_def formatEventLine_def go_text_printable printable_def)
qed

text \<open>The arguments that are rendered exist.\<close>

lemma effectiveArgCount_bounds:
  assumes "event_shape ev"
  shows "0 \<le> effectiveArgCount ev \<and> effectiveArgCount ev \<le> 6"
proof -
  have "0 \<le> shown_args ev \<and> shown_args ev \<le> 6"
    using assms by (simp add: shown_args_def event_shape_def Let_def)
  then show ?thesis
    by (auto simp: effectiveArgCount_def lookupSyscallFormatter_def syscallFormatters_def
        effectiveOpenArgCount_def Let_def split: option.split if_splits)
qed

end
