(* ===== verification/Format_Read.thy ===== *)
theory Format_Read
  imports Format_Facts
begin

text \<open>
  Reading a printed line back: the words of a flag argument, the thread, the call and the
  result of a line. These readers are not code of the program; they say that nothing the
  program prints is ambiguous.
\<close>

section \<open>Flags\<close>

definition flag_word :: "flagEntry list \<Rightarrow> gostring \<Rightarrow> u64" where
  "flag_word table w =
     (case find (\<lambda>e. fl_name e = w) table of
        Some e \<Rightarrow> fl_value e
      | None \<Rightarrow> of_nat (digits_value 16 (text_bytes (drop 2 w))))"

definition or_words :: "flagEntry list \<Rightarrow> gostring list \<Rightarrow> u64" where
  "or_words table ws = foldr (\<lambda>w n. flag_word table w OR n) ws 0"

definition read_flags :: "flagEntry list \<Rightarrow> gostring \<Rightarrow> u64" where
  "read_flags table s = or_words table (Split s 124)"

definition word_table :: "flagEntry list \<Rightarrow> bool" where
  "word_table table \<longleftrightarrow> distinct (map fl_name table) \<and>
     list_all (\<lambda>e. 124 \<notin> set (fl_name e) \<and> take 2 (fl_name e) \<noteq> [48, 120]) table"

text \<open>The words of the three kinds of flags, the access mode and \<open>PROT_NONE\<close> included.\<close>

definition open_words :: "flagEntry list" where
  "open_words = map (\<lambda>e. \<lparr>fl_value = en_value e, fl_name = en_name e\<rparr>) openModeAccess @ openModeFlags"

definition prot_words :: "flagEntry list" where
  "prot_words = flag 0 ''PROT_NONE'' # mmapProtFlags"

lemma word_tables: "word_table open_words" "word_table prot_words" "word_table mmapFlags"
  by (simp_all add: word_table_def open_words_def prot_words_def openModeAccess_def openModeFlags_def
      mmapProtFlags_def mmapFlags_def go_text_inj) (simp_all add: go_text_def ascii_def)

lemma flag_word_entry:
  assumes "word_table table" and "e \<in> set table"
  shows "flag_word table (fl_name e) = fl_value e"
proof -
  have "find (\<lambda>e'. fl_name e' = fl_name e) table = Some e"
    using assms by (induction table) (auto simp: word_table_def)
  then show ?thesis by (simp add: flag_word_def)
qed

lemma hex_text: "formatHex r = [48, 120] @ byte_text (digits 16 (unat r))"
  by (simp add: formatHex_def fmt_x_def go_text_def ascii_def)

lemma flag_word_hex: "word_table table \<Longrightarrow> flag_word table (formatHex r) = r"
proof -
  assume ok: "word_table table"
  have "find (\<lambda>e. fl_name e = formatHex r) table = None"
    using ok by (auto simp: find_None_iff word_table_def list_all_iff hex_text)
  then show ?thesis by (simp add: flag_word_def hex_text text_bytes_digits digits_value_digits)
qed

lemma hex_free: "124 \<notin> set (formatHex r)"
  using byte_text_digits_free [of 16 124 "unat r"] by (simp add: hex_text is_digit_def)

lemma or_words_append: "or_words table (ws @ vs) = or_words table ws OR or_words table vs"
  by (induction ws) (simp_all add: or_words_def or.assoc)

lemma or_words_one: "or_words table [w] = flag_word table w"
  by (simp add: or_words_def)

lemma take_bits: "(r :: u64) AND v = v \<Longrightarrow> v OR (r AND NOT v) = r"
  by (metis and.commute bit.conj_disj_distrib bit.disj_cancel_right and.right_neutral or.commute
      bit.disj_conj_distrib2 and.idem)

text \<open>The loop names bits and keeps the others; the names are names of the table.\<close>

lemma flags_loop_words:
  assumes "word_table words" and "set table \<subseteq> set words"
    and "list_all (\<lambda>w. 124 \<notin> set w) parts"
  shows "let (parts', r') = flags_loop table parts r in
    or_words words parts' OR r' = or_words words parts OR r \<and> list_all (\<lambda>w. 124 \<notin> set w) parts'"
  using assms(2,3)
proof (induction table parts r rule: flags_loop.induct)
  case (2 entry table parts r)
  have free: "124 \<notin> set (fl_name entry)" using assms(1) 2(4) by (auto simp: word_table_def list_all_iff)
  show ?case
  proof (cases "fl_value entry \<noteq> 0 \<and> r AND fl_value entry = fl_value entry")
    case True
    have "or_words words (parts @ [fl_name entry]) OR (r AND NOT (fl_value entry)) = or_words words parts OR r"
      using flag_word_entry [OF assms(1), of entry] 2(4) True take_bits [of r "fl_value entry"]
      by (simp add: or_words_append or_words_one or.assoc)
    then show ?thesis using 2(2) 2(4,5) True free by simp
  next
    case False
    then show ?thesis using 2(1,3) 2(4,5) by auto
  qed
qed simp

lemma read_flags_Join:
  "ws \<noteq> [] \<Longrightarrow> list_all (\<lambda>w. 124 \<notin> set w) ws \<Longrightarrow> read_flags table (Join ws (go_text ''|'')) = or_words table ws"
  using Split_Join [of ws 124] by (simp add: read_flags_def go_text_def ascii_def)

lemma read_formatFlags:
  assumes "word_table words" and "set table \<subseteq> set words"
  shows "\<exists>ws. formatFlags raw [] table = Join ws (go_text ''|'') \<and> ws \<noteq> [] \<and>
    list_all (\<lambda>w. 124 \<notin> set w) ws \<and> or_words words ws = raw"
proof -
  obtain parts r where loop: "flags_loop table [] raw = (parts, r)" by force
  then have res: "or_words words parts OR r = raw" "list_all (\<lambda>w. 124 \<notin> set w) parts"
    using flags_loop_words [OF assms, of "[]" raw] by (simp_all add: or_words_def)
  show ?thesis
  proof (cases "r \<noteq> 0 \<or> parts = []")
    case True
    then show ?thesis
      using loop res hex_free
      by (intro exI [of _ "parts @ [formatHex r]"])
        (simp add: formatFlags_def or_words_append or_words_one flag_word_hex [OF assms(1)])
  next
    case False
    then show ?thesis
      using loop res by (intro exI [of _ parts]) (simp add: formatFlags_def)
  qed
qed

lemma formatEnum_cases:
  "formatEnum v table fb = fb v \<or> (\<exists>e \<in> set table. en_value e = v \<and> formatEnum v table fb = en_name e)"
  by (induction v table fb rule: formatEnum.induct) auto

lemma access_word:
  "or_words open_words [formatEnum v openModeAccess formatHex] = v \<and>
   124 \<notin> set (formatEnum v openModeAccess formatHex)"
  using formatEnum_cases [of v openModeAccess formatHex]
proof
  assume "formatEnum v openModeAccess formatHex = formatHex v"
  then show ?thesis using flag_word_hex [OF word_tables(1), of v] hex_free by (simp add: or_words_one)
next
  assume "\<exists>e \<in> set openModeAccess. en_value e = v \<and> formatEnum v openModeAccess formatHex = en_name e"
  then obtain e where e: "e \<in> set openModeAccess" "en_value e = v"
    "formatEnum v openModeAccess formatHex = en_name e" by blast
  let ?e = "\<lparr>fl_value = en_value e, fl_name = en_name e\<rparr>"
  have mem: "?e \<in> set open_words" using e(1) by (simp add: open_words_def)
  then have "124 \<notin> set (fl_name ?e)"
    using word_tables(1) unfolding word_table_def list_all_iff by blast
  then show ?thesis using flag_word_entry [OF word_tables(1) mem] e by (simp add: or_words_one)
qed

lemma read_formatOpenFlags: "read_flags open_words (formatOpenFlags raw) = raw"
proof -
  let ?access = "formatEnum (raw AND O_ACCMODE) openModeAccess formatHex"
  let ?rest = "raw AND NOT O_ACCMODE"
  have whole: "(raw AND O_ACCMODE) OR ?rest = raw"
    by (simp add: bit_eq_iff bit_simps) blast
  show ?thesis
  proof (cases "?rest = 0")
    case True
    then show ?thesis
      using access_word [of "raw AND O_ACCMODE"] whole read_flags_Join [of "[?access]" open_words]
      by (simp add: formatOpenFlags_def Let_def)
  next
    case False
    obtain ws where ws: "formatFlags ?rest [] openModeFlags = Join ws (go_text ''|'')" "ws \<noteq> []"
      "list_all (\<lambda>w. 124 \<notin> set w) ws" "or_words open_words ws = ?rest"
      using read_formatFlags [OF word_tables(1), of openModeFlags ?rest] by (auto simp: open_words_def)
    have "formatOpenFlags raw = Join (?access # ws) (go_text ''|'')"
      using False ws(1,2) by (cases ws) (simp_all add: formatOpenFlags_def Let_def)
    then show ?thesis
      using read_flags_Join [of "?access # ws" open_words] access_word [of "raw AND O_ACCMODE"] ws(3,4) whole
        or_words_append [of open_words "[?access]" ws] by simp
  qed
qed

lemma read_formatMmapProt: "read_flags prot_words (formatMmapProt raw) = raw"
proof (cases "raw = 0")
  case True
  have "flag 0 ''PROT_NONE'' \<in> set prot_words" by (simp add: prot_words_def)
  from flag_word_entry [OF word_tables(2) this] show ?thesis
    using True Split_plain [of 124 "go_text ''PROT_NONE''"]
    by (simp add: formatMmapProt_def read_flags_def or_words_one [symmetric]) (simp add: go_text_def ascii_def)
next
  case False
  obtain ws where "formatFlags raw [] mmapProtFlags = Join ws (go_text ''|'')" "ws \<noteq> []"
    "list_all (\<lambda>w. 124 \<notin> set w) ws" "or_words prot_words ws = raw"
    using read_formatFlags [OF word_tables(2), of mmapProtFlags raw] by (auto simp: prot_words_def)
  then show ?thesis using False read_flags_Join by (simp add: formatMmapProt_def)
qed

lemma read_formatMmapFlags: "read_flags mmapFlags (formatMmapFlags raw) = raw"
  using read_formatFlags [OF word_tables(3) order_refl, of raw] read_flags_Join
  by (auto simp: formatMmapFlags_def)

section \<open>Lines\<close>

definition has_prefix :: "gostring \<Rightarrow> bool" where
  "has_prefix line \<longleftrightarrow> take 5 line = go_text ''[pid ''"

definition line_tid :: "u32 \<Rightarrow> gostring \<Rightarrow> u32" where
  "line_tid rootTGID line =
     (if has_prefix line then of_nat (digits_value 10 (takeWhile (is_digit 10) (text_bytes (drop 5 line))))
      else rootTGID)"

definition line_name :: "gostring \<Rightarrow> gostring" where
  "line_name line = takeWhile (\<lambda>c. c \<noteq> 40) (if has_prefix line then drop 2 (dropWhile (\<lambda>c. c \<noteq> 93) line) else line)"

text \<open>What follows the last closing parenthesis and the equality sign.\<close>

definition line_result :: "gostring \<Rightarrow> gostring" where
  "line_result line = drop 3 (rev (takeWhile (\<lambda>c. c \<noteq> 41) (rev line)))"

lemma Name_word: "40 \<notin> set (Name i) \<and> 93 \<notin> set (Name i) \<and> (\<exists>c cs. Name i = c # cs \<and> c \<noteq> 91)"
proof (cases "known_call i")
  case True
  then obtain e where "e \<in> set entries" "Name i = go_text (entry_Name e)"
    by (auto simp: known_call_def Name_entry)
  then have "name_text (Name i)" using entry_names_plain by (simp add: list_all_iff)
  then show ?thesis by (cases "Name i") (auto simp: name_text_def name_byte_def list_all_iff)
next
  case False
  have "c \<notin> set (byte_text (digits 16 n))" if "c = 40 \<or> c = 93" for c n
    using that byte_text_digits_free [of 16 c n] by (auto simp: is_digit_def)
  then have "40 \<notin> set (fmt_xd (sint i))" "93 \<notin> set (fmt_xd (sint i))"
    by (simp_all add: fmt_xd_def fmt_x_def go_text_def ascii_def)
  then show ?thesis using Name_unknown [OF False] by (simp add: go_text_def ascii_def)
qed

lemma prefix_text: "go_text ''[pid '' = [91, 112, 105, 100, 32]" "go_text ''] '' = [93, 32]"
  "go_text ''('' = [40]" "go_text '') = '' = [41, 32, 61, 32]"
  by (simp_all add: go_text_def ascii_def)

lemma takeWhile_stop: "\<not> P c \<Longrightarrow> list_all P xs \<Longrightarrow> takeWhile P (xs @ c # ys) = xs"
  by (induction xs) simp_all

lemma dropWhile_stop: "\<not> P c \<Longrightarrow> list_all P xs \<Longrightarrow> dropWhile P (xs @ c # ys) = c # ys"
  by (induction xs) simp_all

lemma not_in_all: "c \<notin> set xs \<Longrightarrow> list_all (\<lambda>x. x \<noteq> c) xs"
  by (auto simp: list_all_iff)

lemma read_line:
  assumes "FormatOutputLine u ev rootTGID = Some line"
  shows "line_name line = Name (ev_syscall_id ev)"
    and "ev_tid ev \<noteq> 0 \<Longrightarrow> line_tid rootTGID line = ev_tid ev"
    and "41 \<notin> set (formatRet u ev) \<Longrightarrow> line_result line = formatRet u ev"
proof -
  obtain args where line: "line = formatEventPrefix ev rootTGID @ Name (ev_syscall_id ev) @ [40] @ args @
      [41, 32, 61, 32] @ formatRet u ev"
    using assms by (auto simp: FormatOutputLine_def formatEventLine_def prefix_text)
  obtain c cs where name: "Name (ev_syscall_id ev) = c # cs" "c \<noteq> 91" "40 \<notin> set (Name (ev_syscall_id ev))"
    using Name_word [of "ev_syscall_id ev"] by auto
  show "line_name line = Name (ev_syscall_id ev) " "ev_tid ev \<noteq> 0 \<Longrightarrow> line_tid rootTGID line = ev_tid ev"
  proof -
    let ?rest = "Name (ev_syscall_id ev) @ 40 # args @ [41, 32, 61, 32] @ formatRet u ev"
    have stop: "takeWhile (\<lambda>c. c \<noteq> 40) ?rest = Name (ev_syscall_id ev)"
      by (rule takeWhile_stop) (use name(3) not_in_all in simp_all)
    have "line_name line = Name (ev_syscall_id ev) \<and> (ev_tid ev \<noteq> 0 \<longrightarrow> line_tid rootTGID line = ev_tid ev)"
    proof (cases "formatEventPrefix ev rootTGID = []")
      case True
      then have "\<not> has_prefix line" "line = ?rest" using line name(1,2) by (simp_all add: has_prefix_def prefix_text)
      moreover have "ev_tid ev \<noteq> 0 \<Longrightarrow> ev_tid ev = rootTGID"
        using True by (simp add: formatEventPrefix_def prefix_text split: if_splits)
      ultimately show ?thesis using stop by (simp add: line_name_def line_tid_def)
    next
      case False
      let ?ds = "digits 10 (unat (ev_tid ev))"
      have l: "line = go_text ''[pid '' @ byte_text ?ds @ [93, 32] @ ?rest"
        using False line by (simp add: formatEventPrefix_def prefix_text fmt_u_def split: if_splits)
      then have pre: "has_prefix line" by (simp add: has_prefix_def prefix_text)
      have "93 \<notin> set (byte_text ?ds)" by (rule byte_text_digits_free) (simp_all add: is_digit_def)
      then have "93 \<notin> set (go_text ''[pid '' @ byte_text ?ds)" by (simp add: prefix_text)
      from dropWhile_stop [OF _ not_in_all [OF this], of 93 "32 # ?rest"]
      have "dropWhile (\<lambda>c. c \<noteq> 93) line = 93 # 32 # ?rest" using l by simp
      moreover have "text_bytes (drop 5 line) = ?ds @ 93 # 32 # text_bytes ?rest"
        using l text_bytes_digits [of 10 "unat (ev_tid ev)"] by (simp add: prefix_text text_bytes_def)
      then have "takeWhile (is_digit 10) (text_bytes (drop 5 line)) = ?ds"
        using takeWhile_stop [of "is_digit 10" 93 ?ds] digits_digits [of 10] by (simp add: is_digit_def)
      ultimately show ?thesis
        using pre stop digits_value_digits [of 10] by (simp add: line_name_def line_tid_def)
    qed
    then show "line_name line = Name (ev_syscall_id ev)" "ev_tid ev \<noteq> 0 \<Longrightarrow> line_tid rootTGID line = ev_tid ev"
      by simp_all
  qed
  assume "41 \<notin> set (formatRet u ev)"
  then have "41 \<notin> set (rev ([32, 61, 32] @ formatRet u ev))" by simp
  from takeWhile_stop [OF _ not_in_all [OF this]]
  have "takeWhile (\<lambda>c. c \<noteq> 41) (rev line) = rev ([32, 61, 32] @ formatRet u ev)" using line by simp
  then show "line_result line = formatRet u ev" by (simp add: line_result_def)
qed

text \<open>
  A result that is not negative, read back from its text: an address for mmap, an octal
  number for umask and a decimal one for every other call.
\<close>

definition result_value :: "s64 \<Rightarrow> gostring \<Rightarrow> int option" where
  "result_value nr r =
     (if nr = NR_mmap then Some (if r = go_text ''NULL'' then 0 else int (digits_value 16 (text_bytes (drop 2 r))))
      else if nr = NR_umask then Some (int (digits_value 8 (text_bytes r)))
      else Atoi r)"

lemma digits_value_zero [simp]: "digits_value b (48 # ds) = digits_value b ds"
  by (simp add: digits_value_def digit_value_def)

lemma digits_value_zeros: "digits_value b (replicate k 48 @ ds) = digits_value b ds"
  by (induction k) simp_all

lemma octal_digits: "list_all (is_digit 8) (replicate k 48 @ digits 8 n)"
  using digits_digits [of 8 n] by (auto simp: list_all_iff is_digit_def digit_value_def)

lemma text_bytes_octal: "list_all (is_digit 8) ds \<Longrightarrow> text_bytes (byte_text ds) = ds"
  using is_digit_less by (intro byte_text_back) (auto simp: list_all_iff)

lemma fmt_o_digits: "\<exists>ds. fmt_o w n = byte_text ds \<and> list_all (is_digit 8) ds \<and> digits_value 8 ds = n"
proof -
  let ?ds = "replicate (w - length (digits 8 n)) 48 @ digits 8 n"
  have "digits_value 8 ?ds = n" by (simp add: digits_value_zeros digits_value_digits)
  moreover have "list_all (is_digit 8) (48 # ?ds)"
    using octal_digits [of "Suc (w - length (digits 8 n))" n] by simp
  ultimately show ?thesis
    by (cases "hd ?ds = 48") (auto simp: fmt_o_def Let_def intro: exI [of _ ?ds] exI [of _ "48 # ?ds"])
qed

lemma plain_result:
  assumes "0 \<le> sint (ev_ret ev)" and "ev_syscall_id ev = NR_umask \<longrightarrow> sint (ev_ret ev) < 2 ^ 16"
  shows "result_value (ev_syscall_id ev) (formatRet u ev) = Some (sint (ev_ret ev))" and "41 \<notin> set (formatRet u ev)"
proof -
  let ?r = "ev_ret ev"
  have bound: "sint ?r < 2 ^ 63" using sint_lt [of ?r] by simp
  then have "uint ?r = sint ?r" using assms(1) by (simp add: uint_sint take_bit_int_eq_self)
  then have ret: "sint ?r = int (unat ?r)" by simp
  consider "ev_syscall_id ev = NR_mmap" | "ev_syscall_id ev = NR_umask" | "ev_syscall_id ev \<notin> {NR_mmap, NR_umask}" by blast
  then have "result_value (ev_syscall_id ev) (formatRet u ev) = Some (sint ?r) \<and> 41 \<notin> set (formatRet u ev)"
  proof cases
    case 1
    have f: "formatRet u ev = formatPtr ?r" using assms(1) 1 by (simp add: formatRet_def)
    show ?thesis
    proof (cases "?r = 0")
      case True
      then show ?thesis using 1 f by (simp add: result_value_def formatPtr_def) (simp add: go_text_def ascii_def)
    next
      case False
      have "formatPtr ?r = [48, 120] @ byte_text (digits 16 (unat ?r))"
        using False by (simp add: formatPtr_def formatHex_def fmt_x_def go_text_def ascii_def)
      moreover have "[48, 120] @ byte_text (digits 16 (unat ?r)) \<noteq> go_text ''NULL''" by (simp add: go_text_def ascii_def)
      ultimately show ?thesis
        using 1 f ret byte_text_digits_free [of 16 41 "unat ?r"]
        by (simp add: result_value_def text_bytes_digits digits_value_digits is_digit_def)
    qed
  next
    case 2
    let ?n = "unat ((ucast ?r :: u32) AND 0xFFFF)"
    have "int (unat ?r) < 2 ^ 16" using assms(2) 2 ret by simp
    then have small: "unat ?r < 2 ^ 16" using of_nat_less_iff [of "unat ?r" "2 ^ 16", where ?'a = int] by (simp only: of_nat_power of_nat_numeral)
    have "(ucast ?r :: u32) AND 0xFFFF = take_bit 16 (ucast ?r)" by (simp add: take_bit_eq_mask mask_eq_exp_minus_1)
    then have "?n = take_bit 16 (take_bit 32 (unat ?r))" by (simp only: unsigned_take_bit_eq unsigned_ucast_eq) simp
    then have "?n = unat ?r" using small by (simp add: take_bit_nat_eq_self)
    moreover have f: "formatRet u ev = fmt_o 3 ?n" using assms(1) 2 by (simp add: formatRet_def formatMode_def)
    moreover obtain ds where ds: "fmt_o 3 ?n = byte_text ds" "list_all (is_digit 8) ds" "digits_value 8 ds = ?n"
      using fmt_o_digits by blast
    moreover have "41 \<notin> set (byte_text ds)"
    proof
      assume "41 \<in> set (byte_text ds)"
      then have "unat (41 :: u8) \<in> set (text_bytes (byte_text ds))" by (force simp: text_bytes_def)
      then show False using ds(2) text_bytes_octal by (auto simp: list_all_iff is_digit_def)
    qed
    ultimately show ?thesis using 2 ret by (simp add: result_value_def text_bytes_octal)
  next
    case 3
    have "Atoi (fmt_d (sint ?r)) = Some (sint ?r)" using assms(1) bound by (intro Atoi_fmt_d) simp_all
    moreover have f: "formatRet u ev = fmt_d (sint ?r)" using assms(1) 3 by (simp add: formatRet_def formatRetDefault_def)
    ultimately show ?thesis
      using 3 assms(1) byte_text_digits_free [of 10 41]
      by (simp add: result_value_def) (simp add: fmt_d_def fmt_u_def is_digit_def)
  qed
  then show "result_value (ev_syscall_id ev) (formatRet u ev) = Some (sint ?r)" "41 \<notin> set (formatRet u ev)" by simp_all
qed

end
