(* ===== verification/Stat_Render.thy ===== *)
theory Stat_Render
  imports Format_Facts
begin

text \<open>
  From the memory of a process to the printed line: the structure that a successful stat
  call has filled in, captured at its exit, found by the consumer and rendered.
\<close>

section \<open>The descriptor of the structure\<close>

lemma build_event_stat_count:
  assumes "event_shape g" and "length (sd_args st) = 6" and "abi_ok abi" and "0 \<le> sint ret"
    and "stat_arg abi (sd_syscall_id st) = Some (i, sz)"
  shows "length (path_args (sd_syscall_id st)) < unat (ev_var_count (build_event abi (with_memory m k) st ret lookup g))"
proof -
  let ?nr = "sd_syscall_id st" and ?k = "with_memory m k"
  let ?p = "capture_paths ?k st (path_args ?nr) (typed_event abi ?k st ret)"
  have nr: "?nr \<notin> {NR_read, NR_write, NR_execve}"
    using assms(5) path_args_io [of ?nr abi] by auto
  have ok: "slots_ok ?p" "unat (ev_var_count ?p) = length (path_args ?nr)"
    using memory_env.capture_paths_keeps [OF slots_ok_typed [OF assms(2), of abi ?k ret]] path_args_bound [of ?nr]
    by simp_all
  have room: "unat (ev_var_count ?p) < 2" using ok stat_arg_room [OF assms(5)] by simp
  have "sz \<noteq> 0" using assms(3,5) by (auto simp: table_simps abi_ok_def split: if_splits)
  then obtain bs d where "slot_capture ?p bs d (append_var_bytes ?k ?p (of_nat i) (sd_args st ! i) sz)"
    using memory_env.bytes_capture [OF room] by blast
  moreover have "event_shape ?p" using ok(1) by (simp add: slots_ok_def event_ok_def)
  ultimately show ?thesis
    using slot_capture_count [OF room] ok(2) assms(4,5)
    by (simp add: build_event_table [OF assms(1,2) nr] capture_stat_def capture_bytes_def)
qed

text \<open>The consumer finds it: the paths before it are about other arguments.\<close>

lemma find_stat_desc:
  assumes "event_shape g" and "length (sd_args st) = 6" and "abi_ok abi" and "0 \<le> sint ret"
    and "stat_arg abi (sd_syscall_id st) = Some (i, sz)"
    and "mem_bytes m (sd_args st ! i) (min (unat sz) 256) = Some bs" and "sd_args st ! i \<noteq> 0"
    and "helpers_ok (with_memory m k)" and "event_ok (build_event abi (with_memory m k) st ret lookup g)"
  shows "\<exists>d. findVarArgDesc (build_event abi (with_memory m k) st ret lookup g) (int i) = Some d \<and>
    vd_flags d = (if 256 < unat sz then VAR_FLAG_TRUNCATED else VAR_FLAG_NONE) \<and>
    varPayloadSlice (build_event abi (with_memory m k) st ret lookup g) d = Some bs"
proof -
  let ?nr = "sd_syscall_id st" and ?b = "build_event abi (with_memory m k) st ret lookup g"
  let ?j = "length (path_args (sd_syscall_id st))"
  obtain d where d: "captured ?b ?j = (d, bs)" "vd_arg_index d = of_nat i"
      "vd_flags d = (if 256 < unat sz then VAR_FLAG_TRUNCATED else VAR_FLAG_NONE)"
    using build_event_stat [OF assms(1-7)] by blast
  have desc: "d = ev_var_desc ?b ! ?j" using d(1) by (simp add: captured_def Let_def)
  note count = build_event_stat_count [OF assms(1-5), of m k lookup]
  have len: "length (ev_var_desc ?b) = 6" "unat (ev_var_count ?b) \<le> 6"
    using assms(9) by (simp_all add: event_ok_def event_shape_def)
  have room: "i \<notin> set (path_args ?nr)" "i < 6" using stat_arg_room [OF assms(5)] by simp_all
  have other: "int (unat (vd_arg_index (ev_var_desc ?b ! j))) \<noteq> int i" if "j < ?j" for j
  proof -
    have "path_args ?nr ! j < 6" "path_args ?nr ! j \<noteq> i" using path_args_bound [of ?nr] room that by auto
    then show ?thesis
      using build_event_index(1) [OF assms(8,1,2,3) that, of ret lookup] by (simp add: unat_of_nat)
  qed
  have "findVarArgDesc ?b (int i) = Some (ev_var_desc ?b ! ?j)"
    using findVarArgDesc_loop_first [of ?j "take (unat (ev_var_count ?b)) (ev_var_desc ?b)" "int i"] count len
      other d(2) room(2)
    by (simp add: findVarArgDesc_def unat_of_nat flip: desc)
  moreover have "varPayloadSlice ?b d = Some bs"
    using slice_ok [OF assms(9) count] d by (simp add: desc_error_def flip: desc)
  ultimately show ?thesis using d(3) desc by blast
qed

section \<open>The rendered argument\<close>

definition stat_decode :: "s64 \<Rightarrow> gostring \<Rightarrow> gostring option" where
  "stat_decode nr = (if nr = NR_statx then formatCapturedStatx else formatCapturedStat)"

lemma stat_formatter:
  assumes "stat_arg abi (ev_syscall_id ev) = Some (i, sz)"
  shows "\<exists>f. lookupSyscallFormatter ev = Some f \<and>
    formatter_arg f ev (int i) = formatStatArg (int i) (stat_decode (ev_syscall_id ev)) ev (int i)"
  using assms
  by (auto simp: stat_arg_def lookupSyscallFormatter_def syscallFormatters_def stat_decode_def
      formatAtStatArg_def split: if_splits)

lemma formatStat_rendered:
  assumes "stat_arg abi (ev_syscall_id ev) = Some (i, sz)" and "0 \<le> sint (ev_ret ev)"
    and "findVarArgDesc ev (int i) = Some d" and "vd_flags d = VAR_FLAG_NONE"
    and "varPayloadSlice ev d = Some bs" and "stat_decode (ev_syscall_id ev) bs = Some tx"
  shows "formatArg ev (int i) = Some tx"
  using stat_formatter [OF assms(1)] assms(2-6) by (auto simp: formatArg_def formatStatArg_def)

end
