(* ===== verification/Call_Render.thy ===== *)
theory Call_Render
  imports Format_Facts
begin

text \<open>
  From the memory of a process to the printed line: for the calls that take paths, the
  string that memory holds, captured at the exit of the call, found by the consumer,
  quoted, and put into the line among the other arguments; for an execve, the path and
  the argument list of its entry.
\<close>

section \<open>The prefix\<close>

definition thread_prefix :: "u32 \<Rightarrow> u32 \<Rightarrow> u32 \<Rightarrow> gostring" where
  "thread_prefix tgid tid rootTGID =
     (if tid = 0 \<or> tgid = rootTGID \<and> tid = rootTGID then []
      else go_text ''[pid '' @ fmt_u (unat tid) @ go_text ''] '')"

lemma output_line:
  "formatEventLine u ev = Some l \<Longrightarrow>
   FormatOutputLine u ev rootTGID = Some (thread_prefix (ev_pid ev) (ev_tid ev) rootTGID @ l)"
  by (auto simp: FormatOutputLine_def formatEventPrefix_def thread_prefix_def)

section \<open>The rendered path\<close>

definition quoted_path :: "gostring \<Rightarrow> gostring" where
  "quoted_path p = QuoteToASCII (take 255 p) @ (if 255 \<le> length p then go_text ''...'' else [])"

text \<open>No formatter of a call takes one of its paths.\<close>

lemma path_no_formatter:
  assumes "i \<in> set (path_args (ev_syscall_id ev))"
  shows "(case lookupSyscallFormatter ev of None \<Rightarrow> None | Some f \<Rightarrow> formatter_arg f ev (int i)) = None"
  using assms
  by (auto simp: path_args_def lookupSyscallFormatter_def syscallFormatters_def formatMmapArg_def formatOpenArg_def
      formatStatArg_def formatAtStatArg_def split: if_splits)

lemma path_rendered:
  assumes "event_shape g" and "length (sd_args st) = 6" and "abi_ok abi"
    and "j < length (path_args (sd_syscall_id st))" and "i = path_args (sd_syscall_id st) ! j"
    and "cstring_at m (sd_args st ! i) p" and "sd_args st ! i \<noteq> 0" and "helpers_ok (with_memory m k)"
  shows "formatArg (build_event abi (with_memory m k) st ret lookup g) (int i) = Some (quoted_path p)"
proof -
  let ?b = "build_event abi (with_memory m k) st ret lookup g"
  have mem: "i \<in> set (path_args (sd_syscall_id st))" using assms(4,5) by simp
  then have room: "i < 6" "path_args (sd_syscall_id st) \<noteq> []" using path_args_bound [of "sd_syscall_id st"] by auto
  have ok: "event_ok ?b" by (rule path_event_ok [OF assms(8,1,2,3) room(2)])
  obtain d where d: "captured ?b j = (d, take 255 p)"
      "vd_flags d = (if 255 \<le> length p then VAR_FLAG_TRUNCATED else VAR_FLAG_NONE)"
    using build_event_path [OF assms(1-4) assms(6,7) [unfolded assms(5)]] by blast
  have desc: "d = ev_var_desc ?b ! j" using d(1) by (simp add: captured_def Let_def)
  have found: "findVarArgDesc ?b (int i) = Some d"
    unfolding desc assms(5) by (rule find_path_desc [OF assms(8,1,2,3,4) ok])
  note index = build_event_index [OF assms(8,1,2,3,4), of ret lookup]
  have "\<not> desc_error (ev_var_desc ?b ! j)" using d(2) by (auto simp: desc_error_def desc [symmetric])
  from slice_ok [OF ok index(2) this] have slice: "varPayloadSlice ?b d = Some (take 255 p)" using d(1) desc by simp
  have type: "ev_arg_types ?b ! i = VAR_ARG_STRING" using build_event_types [OF assms(1,2) room(1)] mem by simp
  have len: "length (ev_arg_types ?b) = 6" "length (ev_var_desc ?b) = 6" "unat (ev_var_count ?b) \<le> 6"
    using ok by (simp_all add: event_ok_def event_shape_def)
  have "unat (vd_arg_index (ev_var_desc ?b ! j)) = i" using index(1) room(1) assms(5) by (simp add: unat_of_nat del: of_nat_unat)
  then have "list_ex (\<lambda>d. int (unat (vd_arg_index d)) = int i) (take (unat (ev_var_count ?b)) (ev_var_desc ?b))"
    using index(2) len by (auto simp: list_ex_length simp del: of_nat_unat intro!: exI [of _ j])
  then have "isVarArgEnabled ?b (int i)" using type room(1) len by (simp add: isVarArgEnabled_def)
  moreover have "formatVarString ?b d = quoted_path p"
    using d(2) slice by (simp add: formatVarString_def quoted_path_def)
  ultimately have "formatVarArg ?b (int i) = Some (Some (quoted_path p))"
    using found type by (simp add: formatVarArg_def)
  moreover have "(case lookupSyscallFormatter ?b of None \<Rightarrow> None | Some f \<Rightarrow> formatter_arg f ?b (int i)) = None"
    using path_no_formatter [of i ?b] mem build_event_fields(3) [OF assms(1,2)] by simp
  ultimately show ?thesis by (simp add: formatArg_def)
qed

section \<open>The line of an openat\<close>

text \<open>An argument without a formatter and without a capture is rendered by its type.\<close>

lemma plain_arg:
  assumes "(case lookupSyscallFormatter ev of None \<Rightarrow> None | Some f \<Rightarrow> formatter_arg f ev idx) = None"
    and "ev_arg_types ev ! nat idx < VAR_ARG_STRING \<or> VAR_ARG_ARGV < ev_arg_types ev ! nat idx"
  shows "formatArg ev idx = Some (formatArgDefault ev idx)"
  using assms by (auto simp: formatArg_def formatVarArg_def isVarArgEnabled_def not_le)

lemma openat_schema:
  "\<lparr>sc_syscall_id = NR_openat, sc_arg_count = 4,
    sc_arg_types = [ARG_FD, VAR_ARG_STRING, ARG_FLAGS, ARG_MODE, ARG_NONE, ARG_NONE]\<rparr> \<in> set syscall_schemas"
  by (simp add: syscall_schemas_def syscall_schemas_08_def)

definition openat_text :: "u64 list \<Rightarrow> gostring \<Rightarrow> gostring" where
  "openat_text xs p = go_text ''openat('' @ formatDirFD (xs ! 0) @ go_text '', '' @ quoted_path p @ go_text '', '' @
     formatOpenFlags (xs ! 2) @ (if openNeedsMode (xs ! 2) then go_text '', '' @ formatMode (xs ! 3) else []) @
     go_text '') = ''"


lemma Name_openat: "Name NR_openat = go_text ''openat''"
proof -
  have "row NR_openat ''openat'' \<in> set entries" by (simp add: entries_def entries_06_def)
  from Name_entry [OF this] show ?thesis by simp
qed

lemma openat_line:
  assumes "event_shape g" and "length (sd_args st) = 6" and "abi_ok abi" and "sd_syscall_id st = NR_openat"
    and "cstring_at m (sd_args st ! 1) p" and "sd_args st ! 1 \<noteq> 0" and "helpers_ok (with_memory m k)"
  shows "formatEventLine u (build_event abi (with_memory m k) st ret lookup g) =
    Some (openat_text (sd_args st) p @ formatRetDefault u ret)"
proof -
  let ?b = "build_event abi (with_memory m k) st ret lookup g"
  note fields = build_event_fields(3-5) [OF assms(1,2), of abi "with_memory m k" ret lookup]
  have paths: "path_args (sd_syscall_id st) = [1]" "stat_arg abi (sd_syscall_id st) = None"
    by (simp_all add: path_args_def stat_arg_def assms(4))
  have types: "ev_arg_types ?b ! 3 = ARG_MODE"
    using build_event_types [OF assms(1,2), of 3 abi "with_memory m k" ret lookup] paths
      typed_event_schema [OF assms(2) openat_schema, of abi "with_memory m k" ret] assms(4) by simp
  have count: "ev_arg_count ?b = 4"
    using build_event_ids [OF assms(1,2), of abi "with_memory m k" ret lookup] assms(2,4)
      schema_hit [OF openat_schema, of "blank_event abi (with_memory m k) st ret"]
    by (simp add: event_ids_def typed_event_def)
  have formatter: "lookupSyscallFormatter ?b =
      Some \<lparr>formatter_arg = formatOpenArg 2 0, formatter_count = Some (effectiveOpenArgCount 2 3)\<rparr>"
    by (simp add: lookupSyscallFormatter_def syscallFormatters_def fields assms(4))
  have "formatArg ?b 1 = Some (quoted_path p)"
    using path_rendered [OF assms(1-3), of 0 1 m p k ret lookup] paths assms(5-7) by simp
  moreover have "formatArg ?b 0 = Some (formatDirFD (sd_args st ! 0))"
    "formatArg ?b 2 = Some (formatOpenFlags (sd_args st ! 2))"
    by (simp_all add: formatArg_def formatter formatOpenArg_def fields)
  moreover have "formatArg ?b 3 = Some (formatMode (sd_args st ! 3))"
    using plain_arg [of ?b 3] types by (simp add: formatter formatOpenArg_def formatArgDefault_def fields)
  moreover have "effectiveArgCount ?b = (if openNeedsMode (sd_args st ! 2) then 4 else 3)"
    using assms(2) by (simp add: effectiveArgCount_def formatter effectiveOpenArgCount_def shown_args_def count fields)
  ultimately have "formatArgs ?b = Some (Join ([formatDirFD (sd_args st ! 0), quoted_path p, formatOpenFlags (sd_args st ! 2)] @
      (if openNeedsMode (sd_args st ! 2) then [formatMode (sd_args st ! 3)] else [])) (go_text '', ''))"
    by (simp add: formatArgs_def eval_nat_numeral)
  then show ?thesis
    by (simp add: formatEventLine_def openat_text_def fields assms(4) Name_openat formatRet_def)
      (simp add: go_text_def ascii_def)
qed

section \<open>The line of an execve\<close>

text \<open>The arguments that are shown of a list, the last one maybe cut, and whether there are more.\<close>

fun argv_shown :: "nat \<Rightarrow> nat \<Rightarrow> gostring list \<Rightarrow> gostring list \<times> bool" where
  "argv_shown n room [] = ([], False)"
| "argv_shown 0 room (s # ss) = ([], True)"
| "argv_shown (Suc n) room (s # ss) =
     (if room < MAX_EXECVE_ARG_STR then ([], True)
      else if MAX_EXECVE_ARG_STR - 1 \<le> length s then ([take (MAX_EXECVE_ARG_STR - 1) s], True)
      else let (shown, trunc) = argv_shown n (room - Suc (length s)) ss in (s # shown, trunc))"

lemma argv_spec_shown:
  "list_all (\<lambda>s. 0 \<notin> set s) ss \<Longrightarrow> argv_shown n room ss = (shown, trunc) \<Longrightarrow>
   argv_spec n room ss = (concat (map (\<lambda>s. s @ [0]) shown), trunc) \<and> list_all (\<lambda>s. 0 \<notin> set s) shown"
  by (induction n room ss arbitrary: shown trunc rule: argv_shown.induct)
    (auto simp: Let_def list_all_iff dest: in_set_takeD split: if_splits prod.splits)

lemma execve_schema:
  "\<lparr>sc_syscall_id = NR_execve, sc_arg_count = 3,
    sc_arg_types = [VAR_ARG_STRING, VAR_ARG_ARGV, VAR_ARG_ARGV, ARG_NONE, ARG_NONE, ARG_NONE]\<rparr> \<in> set syscall_schemas"
  by (simp add: syscall_schemas_def syscall_schemas_01_def)

lemma Name_execve: "Name NR_execve = go_text ''execve''"
proof -
  have "row NR_execve ''execve'' \<in> set entries" by (simp add: entries_def entries_01_def)
  from Name_entry [OF this] show ?thesis by simp
qed

definition execve_text :: "gostring \<Rightarrow> gostring list \<times> bool \<Rightarrow> u64 \<Rightarrow> gostring" where
  "execve_text path argv envp =
     go_text ''execve('' @ QuoteToASCII (take 127 path) @ (if 127 \<le> length path then go_text ''...'' else []) @
     go_text '', ['' @ Join (map QuoteToASCII (fst argv)) (go_text '', '') @ go_text '']'' @
     (if snd argv then go_text ''...'' else []) @ go_text '', '' @ fmt_d (sint (ucast envp :: 32 word)) @ go_text '') = ''"

text \<open>
  An event with the two captures of an execve. The third argument has the type of an
  argument list but no capture, and the number of that type is the one of a descriptor.
\<close>

lemma execve_line:
  assumes "event_ok e" and "ev_syscall_id e = NR_execve" and "unat (ev_var_count e) = 2" and "ev_arg_count e = 3"
    and "ev_arg_types e = [VAR_ARG_STRING, VAR_ARG_ARGV, VAR_ARG_ARGV, ARG_NONE, ARG_NONE, ARG_NONE]"
    and "captured e 0 = (d0, take 127 path)" and "vd_arg_index d0 = 0"
    and "vd_flags d0 = (if 127 \<le> length path then VAR_FLAG_TRUNCATED else VAR_FLAG_NONE)"
    and "captured e 1 = (d1, concat (map (\<lambda>s. s @ [0]) shown))" and "vd_arg_index d1 = 1"
    and "vd_flags d1 = (if trunc then VAR_FLAG_TRUNCATED else VAR_FLAG_NONE)"
    and "list_all (\<lambda>s. 0 \<notin> set s) shown"
  shows "formatEventLine u e = Some (execve_text path (shown, trunc) (ev_args e ! 2) @ formatRetDefault u (ev_ret e))"
proof -
  have len: "length (ev_var_desc e) = 6" "length (ev_args e) = 6" using assms(1) by (simp_all add: event_ok_def event_shape_def)
  have desc: "ev_var_desc e ! 0 = d0" "ev_var_desc e ! 1 = d1" using assms(6,9) by (simp_all add: captured_def Let_def)
  have two: "take (unat (ev_var_count e)) (ev_var_desc e) = [d0, d1]"
    using desc len(1) unfolding assms(3) by (cases "ev_var_desc e"; cases "tl (ev_var_desc e)") (auto simp: numeral_2_eq_2)
  have found: "findVarArgDesc e 0 = Some d0" "findVarArgDesc e 1 = Some d1"
    using two assms(7,10) by (simp_all add: findVarArgDesc_def)
  have slices: "varPayloadSlice e d0 = Some (take 127 path)" "varPayloadSlice e d1 = Some (concat (map (\<lambda>s. s @ [0]) shown))"
    using slice_ok [OF assms(1), of 0] slice_ok [OF assms(1), of 1] assms(3,6,8,9,11) desc
    by (auto simp: desc_error_def split: if_splits)
  have enabled: "isVarArgEnabled e 0" "isVarArgEnabled e 1" "\<not> isVarArgEnabled e 2"
    using two assms(5,7,10) by (simp_all add: isVarArgEnabled_def)
  have argv: "formatVarArgv e d1 = Some (go_text ''['' @ Join (map QuoteToASCII shown) (go_text '', '') @ go_text '']'' @
      (if trunc then go_text ''...'' else []))"
    using slices(2) assms(11) nul_parts_list [OF assms(12)] by (simp add: formatVarArgv_def split_loop_returns Let_def)
  have "lookupSyscallFormatter e = None" by (simp add: lookupSyscallFormatter_def syscallFormatters_def assms(2))
  then have parts: "formatArg e 0 = Some (QuoteToASCII (take 127 path) @ (if 127 \<le> length path then go_text ''...'' else []))"
      "formatArg e 1 = Some (go_text ''['' @ Join (map QuoteToASCII shown) (go_text '', '') @ go_text '']'' @
        (if trunc then go_text ''...'' else []))"
      "formatArg e 2 = Some (fmt_d (sint (ucast (ev_args e ! 2) :: 32 word)))"
      "effectiveArgCount e = 3"
    using found enabled slices(1) assms(8) argv len(2)
    by (simp_all add: formatArg_def formatVarArg_def formatVarString_def formatArgDefault_def effectiveArgCount_def
        shown_args_def assms(4,5))
  then have "formatArgs e = Some (Join [QuoteToASCII (take 127 path) @ (if 127 \<le> length path then go_text ''...'' else []),
      go_text ''['' @ Join (map QuoteToASCII shown) (go_text '', '') @ go_text '']'' @ (if trunc then go_text ''...'' else []),
      fmt_d (sint (ucast (ev_args e ! 2) :: 32 word))] (go_text '', ''))"
    by (simp add: formatArgs_def eval_nat_numeral)
  then show ?thesis
    by (simp add: formatEventLine_def execve_text_def assms(2) Name_execve formatRet_def)
      (simp add: go_text_def ascii_def)
qed

end
