(* ===== verification/Line_Properties.thy ===== *)
theory Line_Properties
  imports Consumer_Properties Format_Read Stat_Render Call_Render
begin

text \<open>
  The properties of the printed line: that it is there for every event, what it tells,
  and that the names and words in it are not ambiguous.
\<close>

text \<open>The error names of a library that knows one error.\<close>

definition demo_errno :: errno_names where
  "demo_errno = \<lparr>ErrnoName = (\<lambda>n. if n = 2 then go_text ''ENOENT'' else []),
     ErrnoError = (\<lambda>n. go_text ''no such file or directory'')\<rparr>"

lemma demo_errno_ok: "errno_ok demo_errno"
  by (simp add: errno_ok_def demo_errno_def go_text_printable printable_def)

section \<open>Every event has a line\<close>

text \<open>
  C24. Every event is rendered: the functions return for any event, with any call number,
  types and payload; they only look at arguments that exist; and the line is printable
  ASCII, so that no captured byte can end it or forge another.
\<close>

theorem every_event_rendered:
  assumes "errno_ok u" and "event_shape ev"
  shows "0 \<le> effectiveArgCount ev \<and> effectiveArgCount ev \<le> int (length (ev_args ev)) \<and>
    (\<exists>line. FormatOutputLine u ev rootTGID = Some line \<and> printable_text line)"
  using FormatOutputLine_printable [OF assms(1)] effectiveArgCount_bounds [OF assms(2)] assms(2)
  by (simp add: event_shape_def)

lemma every_event_rendered_witness:
  "\<exists>line. FormatOutputLine demo_errno stale_event 100 = Some line \<and> printable_text line"
  using every_event_rendered [OF demo_errno_ok stale_shape] by blast

section \<open>What the line tells\<close>

text \<open>
  C25. The line tells what it is about. Its text up to the parenthesis is the name of
  the call, which no other number has, and from which \<open>ID\<close> gives back the number when it
  is one of a known call and nothing otherwise. The prefix, or its absence, gives the
  thread, unless its number is zero. The text after the last parenthesis gives back a
  result that is not negative, read as an address for mmap, as an octal number for umask,
  if it is below 2^16, and as a decimal number for every other call.
\<close>

theorem line_identifies_call:
  assumes "FormatOutputLine u ev rootTGID = Some line"
  shows "(line_name line = Name nr \<longleftrightarrow> nr = ev_syscall_id ev) \<and>
    ID (line_name line) = (if known_call (ev_syscall_id ev) then Some (ev_syscall_id ev) else None) \<and>
    (ev_tid ev \<noteq> 0 \<longrightarrow> line_tid rootTGID line = ev_tid ev) \<and>
    (0 \<le> sint (ev_ret ev) \<and> (ev_syscall_id ev = NR_umask \<longrightarrow> sint (ev_ret ev) < 2 ^ 16) \<longrightarrow>
      result_value (ev_syscall_id ev) (line_result line) = Some (sint (ev_ret ev)))"
proof -
  let ?nr = "ev_syscall_id ev"
  note line = read_line [OF assms]
  have "ID (Name ?nr) = (if known_call ?nr then Some ?nr else None)"
    using ID_Name [of ?nr] Name_ID [of "Name ?nr"] Name_inj by (cases "ID (Name ?nr)") auto
  moreover have "line_name line = Name nr \<longleftrightarrow> nr = ?nr" using line(1) Name_inj [of ?nr nr] by auto
  ultimately show ?thesis using line plain_result [of ev u] by auto
qed

lemma line_identifies_call_witness:
  "\<exists>line. FormatOutputLine demo_errno (demo_open\<lparr>ev_tid := 101\<rparr>) 100 = Some line \<and>
     ID (line_name line) = Some NR_open \<and> line_tid 100 line = 101 \<and> Atoi (line_result line) = Some 3"
proof -
  let ?ev = "demo_open\<lparr>ev_tid := 101\<rparr>"
  obtain line where line: "FormatOutputLine demo_errno ?ev 100 = Some line"
    using FormatOutputLine_printable [OF demo_errno_ok] by blast
  have "known_call (ev_syscall_id ?ev)" by (simp add: known_call_iff demo_open_def demo_event_def)
  with line_identifies_call [OF line] line show ?thesis by (simp add: result_value_def demo_open_def demo_event_def)
qed

text \<open>
  C26. The words of a flag argument read back to its value: whatever bits are set, the
  names of the open flags, of the protection and of the mapping flags, with the
  hexadecimal number for the bits without a name, stand for exactly these bits.
\<close>

theorem flag_words_read_back:
  "read_flags open_words (formatOpenFlags raw) = raw \<and>
   read_flags prot_words (formatMmapProt raw) = raw \<and>
   read_flags mmapFlags (formatMmapFlags raw) = raw"
  using read_formatOpenFlags read_formatMmapProt read_formatMmapFlags by blast

text \<open>
  C29. The name table is a bijection between the calls it knows and their names, has a
  name for every call of the schema table, and gives every other number a name of its
  own: two calls are never shown under one name.
\<close>

theorem names_and_numbers:
  "(ID name = Some i \<longleftrightarrow> known_call i \<and> Name i = name) \<and>
   (Name i = Name j \<longleftrightarrow> i = j) \<and>
   list_all (\<lambda>sc. known_call (sc_syscall_id sc)) syscall_schemas"
proof -
  have "ID name = Some i \<longleftrightarrow> known_call i \<and> Name i = name" using ID_Name Name_ID by blast
  moreover have "list_all (\<lambda>sc. known_call (sc_syscall_id sc)) syscall_schemas"
    using schema_call_known by (simp add: list_all_iff)
  ultimately show ?thesis using Name_inj by blast
qed

section \<open>From memory to the line\<close>

text \<open>
  C27. The structure that a successful stat call has filled in is what is printed: for
  the sizes of Linux on x86-64, the rendered argument shows the mode at its place in
  memory, as file type and octal permissions, and the size at its place.
\<close>

theorem stat_result_rendered:
  assumes "reachable abi s0 s" and "initial_state s0" and "abi_ok abi"
    and "completes abi k ctx xs (with_memory m k') s" and "helpers_ok k" and "list_all allowed xs"
    and "0 \<le> sint (ex_ret ctx')" and "stat_arg abi (en_id ctx) = Some (i, sz)"
    and "unat sz = (if en_id ctx = NR_statx then 256 else 144)"
    and "mem_bytes m (en_args ctx ! i) (unat sz) = Some bs" and "en_args ctx ! i \<noteq> 0"
  shows "\<exists>e. events (trace_sys_exit abi (with_memory m k') ctx' (one_call abi k ctx xs s)) =
      events (one_call abi k ctx xs s) @ [e] \<and>
    formatArg e (int i) = Some
      (if en_id ctx = NR_statx
       then go_text ''{stx_mode='' @ formatStatMode (ucast (le_word (bslice 28 2 bs) :: u16)) @
            go_text '', stx_size='' @ fmt_u (unat (le_word (bslice 40 8 bs) :: u64)) @ go_text '', ...}''
       else go_text ''{st_mode='' @ formatStatMode (le_word (bslice 24 4 bs)) @
            go_text '', st_size='' @ fmt_d (sint (le_word (bslice 48 8 bs) :: s64)) @ go_text '', ...}'')"
proof -
  let ?k = "with_memory m k'" and ?s = "one_call abi k ctx xs s" and ?st = "enter_data abi k ctx s"
  let ?snap = "execve_snapshots (trace_sys_enter abi k ctx s) (cur_tid k)"
  obtain g where g: "event_shape g"
    "events (trace_sys_exit abi ?k ctx' ?s) = events ?s @ [build_event abi ?k ?st (ex_ret ctx') ?snap g]"
    by (rule completes_event [OF assms(4)])
  let ?e = "build_event abi ?k ?st (ex_ret ctx') ?snap g"
  have args: "length (en_args ctx) = 6" and k: "helpers_ok ?k" using assms(4) by (simp_all add: completes_def)
  have st: "sd_syscall_id ?st = en_id ctx" "sd_args ?st = en_args ctx" by (simp_all add: args)
  have ok: "event_ok ?e" using completed_events_ok [OF assms(1-6), of ctx'] g(2) by simp
  have small: "min (unat sz) 256 = unat sz" using assms(9) by simp
  obtain d where d: "findVarArgDesc ?e (int i) = Some d" "vd_flags d = VAR_FLAG_NONE" "varPayloadSlice ?e d = Some bs"
    using find_stat_desc [OF g(1) _ assms(3,7) _ _ _ k ok, of i sz bs] assms(8-11) args st small
    by (auto split: if_splits)
  have fields: "ev_syscall_id ?e = en_id ctx" "ev_ret ?e = ex_ret ctx'"
    using g(1) args by (simp_all add: build_event_fields)
  have len: "length bs = unat sz" using length_mem_bytes [OF assms(10)] .
  have "formatArg ?e (int i) = stat_decode (en_id ctx) bs"
    using formatStat_rendered [of abi ?e i sz d bs] assms(7,8,9) d fields len
    by (cases "stat_decode (en_id ctx) bs")
      (auto simp: stat_decode_def formatCapturedStat_def formatCapturedStatx_def split: if_splits)
  then show ?thesis
    using g(2) assms(9) len by (auto simp: stat_decode_def formatCapturedStat_def formatCapturedStatx_def)
qed

text \<open>A buffer of equal bytes.\<close>

lemma mem_bytes_same:
  "(\<And>j. j < n \<Longrightarrow> m (p + of_nat j) = Some b) \<Longrightarrow> mem_bytes m p n = Some (replicate n b)"
proof (induction n arbitrary: p)
  case (Suc n)
  have "m (p + 1 + of_nat j) = Some b" if "j < n" for j using Suc.prems [of "Suc j"] that by (simp add: add.assoc)
  from Suc.IH [OF this] show ?case using Suc.prems [of 0] by simp
qed simp

lemma demo_stat_buffer: "mem_bytes demo_memory 64 144 = Some (replicate 144 7)"
proof (rule mem_bytes_same)
  fix j :: nat
  assume "j < 144"
  then have "unat (64 + of_nat j :: u64) = 64 + j" by (simp add: unat_word_ariths unat_of_nat)
  then show "demo_memory (64 + of_nat j) = Some 7"
    using \<open>j < 144\<close> by (auto simp: demo_memory_def word_le_nat_alt word_less_nat_alt word_unat_eq_iff)
qed

lemma stat_result_rendered_witness:
  "\<exists>e. events (trace_sys_exit demo_abi (demo_kernel 100 9) (demo_exit 0)
        (one_call demo_abi (demo_kernel 100 2) (demo_enter NR_newstat [16, 64, 0, 0, 0, 0]) demo_between demo_state)) =
      events (one_call demo_abi (demo_kernel 100 2) (demo_enter NR_newstat [16, 64, 0, 0, 0, 0]) demo_between demo_state)
        @ [e] \<and>
    formatArg e 1 = Some (go_text ''{st_mode=03407, st_size=506381209866536711, ...}'')"
proof -
  let ?ctx = "demo_enter NR_newstat [16, 64, 0, 0, 0, 0]"
  have c: "completes demo_abi (demo_kernel 100 2) ?ctx demo_between (with_memory demo_memory (demo_kernel 100 9)) demo_state"
    by (rule demo_completes_memory) simp
  have "list_all allowed demo_between" by (simp add: demo_between_def)
  from stat_result_rendered [OF reachable.start demo_initial demo_abi_ok c demo_helpers this, of "demo_exit 0" 1 144
      "replicate 144 7"]
  obtain e where e: "events (trace_sys_exit demo_abi (demo_kernel 100 9) (demo_exit 0)
        (one_call demo_abi (demo_kernel 100 2) ?ctx demo_between demo_state)) =
      events (one_call demo_abi (demo_kernel 100 2) ?ctx demo_between demo_state) @ [e]"
    "formatArg e 1 = Some (go_text ''{st_mode='' @ formatStatMode (le_word (bslice 24 4 (replicate 144 7))) @
       go_text '', st_size='' @ fmt_d (sint (le_word (bslice 48 8 (replicate 144 7)) :: s64)) @ go_text '', ...}'')"
    using demo_stat_buffer by (auto simp: stat_arg_def demo_defs)
  have four: "bslice 24 4 (replicate 144 7) = [7, 7, 7, 7 :: u8]"
    and eight: "bslice 48 8 (replicate 144 7) = [7, 7, 7, 7, 7, 7, 7, 7 :: u8]"
    by (simp_all add: bslice_def) (simp_all add: eval_nat_numeral)
  have "formatStatMode (le_word [7, 7, 7, 7]) = go_text ''03407''"
    by (simp add: le_word_def formatStatMode_def formatStatFileType_def fmt_o_def digits.simps lowerhex_def byte_text_def
        Let_def go_text_def ascii_def)
  moreover have "fmt_d (sint (le_word [7, 7, 7, 7, 7, 7, 7, 7] :: s64)) = go_text ''506381209866536711''"
    by (simp add: le_word_def fmt_d_def fmt_u_def digits.simps lowerhex_def byte_text_def go_text_def ascii_def)
  ultimately have "formatArg e 1 = Some (go_text ''{st_mode='' @ go_text ''03407'' @
      go_text '', st_size='' @ go_text ''506381209866536711'' @ go_text '', ...}'')"
    using e(2) by (simp only: four eight)
  then show ?thesis using e(1) by (simp add: go_text_def ascii_def)
qed

section \<open>A whole line\<close>

text \<open>
  C9. An openat of a traced process, whatever other threads do during the call, ends in
  the line that tells the directory, the path that memory holds, quoted and cut at 255
  bytes, the flags in words, the mode when the flags ask for one, and the result, behind
  the number of the thread unless it is the main thread of the single traced process.
\<close>

theorem openat_line_printed:
  assumes "completes abi k ctx xs (with_memory m k') s" and "abi_ok abi" and "en_id ctx = NR_openat"
    and "cstring_at m (en_args ctx ! 1) p" and "en_args ctx ! 1 \<noteq> 0"
  shows "\<exists>e. events (trace_sys_exit abi (with_memory m k') ctx' (one_call abi k ctx xs s)) =
      events (one_call abi k ctx xs s) @ [e] \<and>
    FormatOutputLine u e rootTGID = Some
      (thread_prefix (cur_tgid k) (cur_tid k) rootTGID @ openat_text (en_args ctx) p @ formatRetDefault u (ex_ret ctx'))"
proof -
  let ?k = "with_memory m k'" and ?st = "enter_data abi k ctx s"
  let ?snap = "execve_snapshots (trace_sys_enter abi k ctx s) (cur_tid k)"
  obtain g where g: "event_shape g" "events (trace_sys_exit abi ?k ctx' (one_call abi k ctx xs s)) =
      events (one_call abi k ctx xs s) @ [build_event abi ?k ?st (ex_ret ctx') ?snap g]"
    by (rule completes_event [OF assms(1)])
  define e where "e = build_event abi ?k ?st (ex_ret ctx') ?snap g"
  have args: "length (en_args ctx) = 6" and k: "helpers_ok ?k" and ids: "cur_tid ?k = cur_tid k" "cur_tgid ?k = cur_tgid k"
    using assms(1) by (simp_all add: completes_def cur_tid_def cur_tgid_def)
  have st: "sd_syscall_id ?st = NR_openat" "sd_args ?st = en_args ctx" using assms(3) by (simp_all add: args)
  have "formatEventLine u e =
      Some (openat_text (en_args ctx) p @ formatRetDefault u (ex_ret ctx'))"
    using openat_line [OF g(1) _ assms(2) st(1) _ _ k, of p u "ex_ret ctx'" ?snap] st(2) args assms(4,5) by (simp add: e_def)
  moreover have "ev_pid e = cur_tgid k" "ev_tid e = cur_tid k"
    using build_event_fields(6,7) [OF g(1), of ?st] st(2) args ids by (simp_all add: e_def)
  ultimately show ?thesis using g(2) output_line [of u e _ rootTGID] unfolding e_def [symmetric] by simp
qed

lemma openat_line_printed_witness:
  "\<exists>e. events (trace_sys_exit demo_abi (demo_kernel 100 9) (demo_exit 3)
        (one_call demo_abi (demo_kernel 100 2) (demo_enter NR_openat [- 100, 16, 0x80000, 0, 0, 0]) demo_between demo_state)) =
      events (one_call demo_abi (demo_kernel 100 2) (demo_enter NR_openat [- 100, 16, 0x80000, 0, 0, 0]) demo_between demo_state)
        @ [e] \<and>
    FormatOutputLine demo_errno e 0 = Some
      (go_text ''[pid 100] openat(AT_FDCWD, '' @ QuoteToASCII [47, 97] @ go_text '', O_RDONLY|O_CLOEXEC) = 3'')"
proof -
  let ?args = "[- 100, 16, 0x80000, 0, 0, 0] :: u64 list"
  have flags: "formatOpenFlags 0x80000 = go_text ''O_RDONLY|O_CLOEXEC''"
    by (simp add: formatOpenFlags_def openModeAccess_def openModeFlags_def formatFlags_def)
      (simp add: go_text_def ascii_def)
  have dir: "formatDirFD (- 100) = go_text ''AT_FDCWD''" by (simp add: formatDirFD_def)
  have line: "openat_text ?args [47, 97] =
      go_text ''openat(AT_FDCWD, '' @ QuoteToASCII [47, 97] @ go_text '', O_RDONLY|O_CLOEXEC) = ''"
    by (simp add: openat_text_def flags dir quoted_path_def openNeedsMode_def) (simp add: go_text_def ascii_def)
  have ret: "formatRetDefault demo_errno 3 = go_text ''3''" "fmt_u 100 = go_text ''100''"
    by (simp_all add: formatRetDefault_def fmt_d_def fmt_u_def digits.simps lowerhex_def byte_text_def go_text_def ascii_def)
  show ?thesis
    using openat_line_printed [OF demo_completes_memory [of ?args NR_openat demo_memory] demo_abi_ok,
        of "[47, 97]" "demo_exit 3" demo_errno 0] demo_path line ret
    by (simp add: thread_prefix_def go_text_def ascii_def del: cstring_at.simps)
qed

text \<open>
  C28. An execve of a traced process, whatever other threads do during the call, ends in
  the line that tells the path and the arguments that memory held at its entry, quoted
  and cut as the snapshot has room for, and the result. The third argument, the
  environment, is printed like a descriptor: the low 32 bits of its address in decimal.
\<close>

theorem execve_line_printed:
  assumes "completes abi (with_memory m k) ctx xs k' s" and "abi_ok abi" and "en_id ctx = NR_execve"
    and "k_accepts k Execve_snapshots"
    and "cstring_at m (en_args ctx ! 0) path" and "en_args ctx ! 0 \<noteq> 0"
    and "argv_at m (en_args ctx ! 1) args" and "en_args ctx ! 1 \<noteq> 0"
  shows "\<exists>e. events (trace_sys_exit abi k' ctx' (one_call abi (with_memory m k) ctx xs s)) =
      events (one_call abi (with_memory m k) ctx xs s) @ [e] \<and>
    FormatOutputLine u e rootTGID = Some
      (thread_prefix (cur_tgid k) (cur_tid k) rootTGID @
       execve_text path (argv_shown 8 (256 - min (length path) 127) (map snd args)) (en_args ctx ! 2) @
       formatRetDefault u (ex_ret ctx'))"
proof -
  let ?k = "with_memory m k" and ?st = "enter_data abi (with_memory m k) ctx s"
  let ?snap = "execve_snapshots (trace_sys_enter abi ?k ctx s) (cur_tid ?k)"
  obtain shown trunc where argv: "argv_shown 8 (256 - min (length path) 127) (map snd args) = (shown, trunc)" by force
  note spec = argv_spec_shown [OF argv_at_no_nul [OF assms(7)] argv]
  obtain e where e: "events (trace_sys_exit abi k' ctx' (one_call abi ?k ctx xs s)) = events (one_call abi ?k ctx xs s) @ [e]"
    "\<exists>d. captured e 0 = (d, take 127 path) \<and> vd_arg_index d = 0 \<and>
      vd_flags d = (if 127 \<le> length path then VAR_FLAG_TRUNCATED else VAR_FLAG_NONE)"
    "\<exists>d. captured e 1 = (d, concat (map (\<lambda>s. s @ [0]) shown)) \<and> vd_arg_index d = 1 \<and>
      vd_flags d = (if trunc then VAR_FLAG_TRUNCATED else VAR_FLAG_NONE)"
    "unat (ev_var_count e) = 2" "abi_ok abi \<longrightarrow> event_ok e"
    by (rule execve_call_event [OF assms(1,3-8) spec [THEN conjunct1], where ctx' = ctx'])
  obtain g where g: "event_shape g" "events (trace_sys_exit abi k' ctx' (one_call abi ?k ctx xs s)) =
      events (one_call abi ?k ctx xs s) @ [build_event abi k' ?st (ex_ret ctx') ?snap g]"
    by (rule completes_event [OF assms(1)])
  have same: "e = build_event abi k' ?st (ex_ret ctx') ?snap g" using e(1) g(2) by simp
  have args: "length (en_args ctx) = 6" and ids: "cur_tid k' = cur_tid k" "cur_tgid k' = cur_tgid k"
    using assms(1) by (simp_all add: completes_def cur_tid_def cur_tgid_def)
  have st: "sd_syscall_id ?st = NR_execve" "sd_args ?st = en_args ctx" using assms(3) args by simp_all
  note fields = build_event_fields(3-7) [OF g(1), of ?st abi k' "ex_ret ctx'" ?snap, folded same]
  have types: "ev_arg_types e = [VAR_ARG_STRING, VAR_ARG_ARGV, VAR_ARG_ARGV, ARG_NONE, ARG_NONE, ARG_NONE]"
      "ev_arg_count e = 3"
    using build_event_ids [OF g(1), of ?st abi k' "ex_ret ctx'" ?snap, folded same]
      build_event_execve [OF g(1), of ?st abi k' "ex_ret ctx'" ?snap, folded same]
      schema_hit [OF execve_schema, of "blank_event abi k' ?st (ex_ret ctx')"] st args
    by (simp_all add: event_ids_def typed_event_def)
  have "formatEventLine u e = Some (execve_text path (shown, trunc) (en_args ctx ! 2) @ formatRetDefault u (ex_ret ctx'))"
    using execve_line [of e _ path _ shown trunc u] e(2-5) assms(2) types fields st args spec by auto
  from output_line [OF this, of rootTGID] show ?thesis using e(1) argv fields st args ids by auto
qed

lemma execve_line_printed_witness:
  "\<exists>e. events (trace_sys_exit demo_abi (demo_kernel 100 9) (demo_exit 0)
        (one_call demo_abi (demo_kernel 100 2) (demo_enter NR_execve [16, 32, 0x7FFFFFF01000, 0, 0, 0]) demo_between demo_state)) =
      events (one_call demo_abi (demo_kernel 100 2) (demo_enter NR_execve [16, 32, 0x7FFFFFF01000, 0, 0, 0]) demo_between demo_state)
        @ [e] \<and>
    FormatOutputLine demo_errno e 100 = Some (go_text ''execve(\"/a\", [\"/a\"], -1044480) = 0'')"
proof -
  let ?args = "[16, 32, 0x7FFFFFF01000, 0, 0, 0] :: u64 list"
  have c: "completes demo_abi (with_memory demo_memory (demo_kernel 100 2)) (demo_enter NR_execve ?args)
      demo_between (demo_kernel 100 9) demo_state"
    using demo_completes [of ?args] by simp
  have quoted: "QuoteToASCII [47, 97] = go_text ''\"/a\"''"
    by (simp add: QuoteToASCII_def quote_loop.simps quote_turn_def escape_rune_def go_text_def ascii_def)
  have shown: "argv_shown 8 (256 - min (length [47, 97 :: u8]) 127) (map snd [(16 :: u64, [47, 97])]) = ([[47, 97]], False)"
    by (simp add: numeral_eq_Suc)
  have number: "fmt_d (sint (ucast (0x7FFFFFF01000 :: u64) :: 32 word)) = go_text ''-1044480''"
    by (simp add: fmt_d_def fmt_u_def digits.simps lowerhex_def byte_text_def go_text_def ascii_def)
  have line: "execve_text [47, 97] ([[47, 97]], False) 0x7FFFFFF01000 = go_text ''execve(\"/a\", [\"/a\"], -1044480) = ''"
    unfolding execve_text_def number by (simp add: quoted) (simp add: go_text_def ascii_def)
  have ret: "formatRetDefault demo_errno 0 = go_text ''0''"
    by (simp add: formatRetDefault_def fmt_d_def fmt_u_def digits.simps lowerhex_def byte_text_def go_text_def ascii_def)
  show ?thesis
    using execve_line_printed [OF c demo_abi_ok, of "[47, 97]" "[(16, [47, 97])]" "demo_exit 0" demo_errno 100]
      demo_path demo_argv shown line ret
    by (simp add: thread_prefix_def go_text_def ascii_def del: cstring_at.simps argv_at.simps)
qed

end
