(* ===== verification/Handle.thy ===== *)
theory Handle
  imports Loader
begin

text \<open>
  \<open>NewHandle\<close> and \<open>Close\<close> of \<^verbatim>\<open>internal/bpf/handle.go\<close>: the loading of the programs, their
  attachment to the three tracepoints and the opening of the ring buffer, and what is
  released again. What the library answers is a parameter; what is opened and closed is
  recorded in order.
\<close>

section \<open>The handle\<close>

datatype resource = Objects | Enter_link | Exit_link | Sched_link | Ring_reader

datatype resource_event = Opened resource | Closed resource

record Handle =
  objectsReady :: bool
  tpEnter :: bool
  tpExit :: bool
  tpSchedExit :: bool
  reader :: bool

definition empty_handle :: Handle where
  "empty_handle = \<lparr>objectsReady = False, tpEnter = False, tpExit = False, tpSchedExit = False, reader = False\<rparr>"

datatype handle_error = Load_objects load_error | Attach_enter | Attach_exit | Attach_sched | Open_reader

text \<open>Whether the library attaches a program or opens the ring buffer, and whether a release fails.\<close>

record link_answers =
  opens_ok :: "resource \<Rightarrow> bool"
  close_fails :: "resource \<Rightarrow> bool"

text \<open>A field that is not set is left alone; a failure does not keep the others from being released.\<close>

definition close_one :: "link_answers \<Rightarrow> bool \<Rightarrow> resource \<Rightarrow> resource_event list \<times> resource list \<Rightarrow>
    resource_event list \<times> resource list" where
  "close_one ans present r acc =
     (if present then (fst acc @ [Closed r], if close_fails ans r then snd acc @ [r] else snd acc) else acc)"

text \<open>\<open>Close\<close>: what it releases, in order, and the releases that failed.\<close>

definition Close :: "link_answers \<Rightarrow> Handle \<Rightarrow> resource_event list \<times> resource list" where
  "Close ans h =
     (let acc = close_one ans (reader h) Ring_reader ([], []);
          acc = close_one ans (tpSchedExit h) Sched_link acc;
          acc = close_one ans (tpExit h) Exit_link acc;
          acc = close_one ans (tpEnter h) Enter_link acc
      in close_one ans (objectsReady h) Objects acc)"

text \<open>
  \<open>normalizeHandleConfig\<close> copies the configuration, which is the identity here. When
  \<open>applyConfig\<close> fails after \<open>LoadAndAssign\<close>, the objects are open.
\<close>

definition objects_opened :: "load_error + tracer_abi \<times> tracer \<Rightarrow> resource_event list" where
  "objects_opened res =
     (case res of
        Inl Filter_failed \<Rightarrow> [Opened Objects]
      | Inl Pid_failed \<Rightarrow> [Opened Objects]
      | Inl _ \<Rightarrow> []
      | Inr _ \<Rightarrow> [Opened Objects])"

text \<open>The deferred \<open>Close\<close> of \<open>NewHandle\<close>, when it returns an error.\<close>

definition failed_handle ::
  "link_answers \<Rightarrow> Handle \<Rightarrow> resource_event list \<Rightarrow> handle_error \<Rightarrow>
   resource_event list \<times> (handle_error + Handle \<times> tracer_abi \<times> tracer)" where
  "failed_handle ans h steps err = (steps @ fst (Close ans h), Inl err)"

definition NewHandle ::
  "link_answers \<Rightarrow> collection \<Rightarrow> tracer_abi \<Rightarrow> u32 list \<Rightarrow> HandleConfig \<Rightarrow>
   resource_event list \<times> (handle_error + Handle \<times> tracer_abi \<times> tracer)" where
  "NewHandle ans col abi targetTGIDs cfg =
     (let res = applyConfig col abi targetTGIDs cfg; steps = objects_opened res in
      case res of
           Inl err \<Rightarrow> failed_handle ans empty_handle steps (Load_objects err)
         | Inr result \<Rightarrow>
             let h = empty_handle\<lparr>objectsReady := True\<rparr> in
             if \<not> opens_ok ans Enter_link then failed_handle ans h steps Attach_enter
             else
             let h = h\<lparr>tpEnter := True\<rparr>; steps = steps @ [Opened Enter_link] in
             if \<not> opens_ok ans Exit_link then failed_handle ans h steps Attach_exit
             else
             let h = h\<lparr>tpExit := True\<rparr>; steps = steps @ [Opened Exit_link] in
             if \<not> opens_ok ans Sched_link then failed_handle ans h steps Attach_sched
             else
             let h = h\<lparr>tpSchedExit := True\<rparr>; steps = steps @ [Opened Sched_link] in
             if \<not> opens_ok ans Ring_reader then failed_handle ans h steps Open_reader
             else (steps @ [Opened Ring_reader], Inr (h\<lparr>reader := True\<rparr>, result)))"

section \<open>What stays open\<close>

text \<open>The resources that are open after some steps.\<close>

fun still_open :: "resource_event list \<Rightarrow> resource list \<Rightarrow> resource list" where
  "still_open [] rs = rs"
| "still_open (Opened r # steps) rs = still_open steps (r # rs)"
| "still_open (Closed r # steps) rs = still_open steps (remove1 r rs)"

lemma NewHandle_failure:
  assumes "NewHandle ans col abi tgids cfg = (steps, Inl err)"
  shows "still_open steps [] = (if err = Load_objects Filter_failed \<or> err = Load_objects Pid_failed then [Objects] else [])"
  using assms
  by (cases "applyConfig col abi tgids cfg")
    (auto simp: NewHandle_def failed_handle_def Let_def Close_def close_one_def empty_handle_def objects_opened_def
      split: if_splits load_error.splits)

lemma NewHandle_success:
  assumes "NewHandle ans col abi tgids cfg = (steps, Inr (h, result))"
  shows "steps = map Opened [Objects, Enter_link, Exit_link, Sched_link, Ring_reader]"
    and "fst (Close ans h) = map Closed [Ring_reader, Sched_link, Exit_link, Enter_link, Objects]"
    and "snd (Close ans h) = filter (close_fails ans) [Ring_reader, Sched_link, Exit_link, Enter_link, Objects]"
    and "applyConfig col abi tgids cfg = Inr result"
  using assms
  by (cases "applyConfig col abi tgids cfg";
      auto simp: NewHandle_def failed_handle_def Let_def Close_def close_one_def empty_handle_def objects_opened_def split: if_splits)+

end
