(* ===== verification/Target_Mode.thy ===== *)
theory Target_Mode
  imports Format_Facts Loader
begin

text \<open>
  The traced processes: \<^verbatim>\<open>internal/run_mode.go\<close>, the parts of \<^verbatim>\<open>internal/run_launch.go\<close> and
  \<^verbatim>\<open>internal/run.go\<close> about signals and wait statuses, and \<open>exitWithWaitStatus\<close> of
  \<^verbatim>\<open>main.go\<close>. What the kernel answers to a system call is a parameter.
\<close>

section \<open>Wait statuses\<close>

text \<open>\<open>syscall.WaitStatus\<close> on Linux.\<close>

definition Exited :: "u32 \<Rightarrow> bool" where
  "Exited ws \<longleftrightarrow> ws AND 0x7F = 0"

definition Signaled :: "u32 \<Rightarrow> bool" where
  "Signaled ws \<longleftrightarrow> ws AND 0x7F \<noteq> 0x7F \<and> ws AND 0x7F \<noteq> 0"

definition Stopped :: "u32 \<Rightarrow> bool" where
  "Stopped ws \<longleftrightarrow> ws AND 0xFF = 0x7F"

definition ExitStatus :: "u32 \<Rightarrow> int" where
  "ExitStatus ws = (if Exited ws then int (unat (drop_bit 8 ws AND 0xFF)) else - 1)"

definition Signal_of :: "u32 \<Rightarrow> int" where
  "Signal_of ws = (if Signaled ws then int (unat (ws AND 0x7F)) else - 1)"

definition StopSignal :: "u32 \<Rightarrow> int" where
  "StopSignal ws = (if Stopped ws then int (unat (drop_bit 8 ws AND 0xFF)) else - 1)"

definition CoreDump :: "u32 \<Rightarrow> bool" where
  "CoreDump ws \<longleftrightarrow> Signaled ws \<and> ws AND 0x80 \<noteq> 0"

abbreviation (input) SIGTRAP :: int where "SIGTRAP \<equiv> 5"

section \<open>Targets\<close>

text \<open>What \<open>kill\<close> with no signal answers for a process.\<close>

datatype kill_answer = Kill_ok | Kill_EPERM | Kill_error gostring

datatype target_error =
    Access_failed int gostring
  | Start_failed gostring gostring
  | Stop_wait_failed gostring
  | Unexpected_status u32

record targetMode =
  launchPID :: int
  attachPIDs :: "int list"

fun validateAttachTargets :: "(int \<Rightarrow> kill_answer) \<Rightarrow> int list \<Rightarrow> target_error option" where
  "validateAttachTargets kill [] = None"
| "validateAttachTargets kill (pid # pids) =
     (case kill pid of
        Kill_error err \<Rightarrow> Some (Access_failed pid err)
      | _ \<Rightarrow> validateAttachTargets kill pids)"

fun anyProcessAlive :: "(int \<Rightarrow> kill_answer) \<Rightarrow> int list \<Rightarrow> bool" where
  "anyProcessAlive kill [] = False"
| "anyProcessAlive kill (pid # pids) =
     (case kill pid of Kill_error err \<Rightarrow> anyProcessAlive kill pids | _ \<Rightarrow> True)"

definition rootTracePID :: "int list \<Rightarrow> int \<Rightarrow> u32" where
  "rootTracePID pids launched =
     (if length pids = 1 then of_int (pids ! 0)
      else if 1 < length pids then 0
      else of_int launched)"

definition traceTargetTGIDs :: "int list \<Rightarrow> int \<Rightarrow> u32 list" where
  "traceTargetTGIDs pids launched = (if pids \<noteq> [] then map of_int pids else [of_int launched])"

text \<open>
  \<open>startLaunchTrace\<close>: the start of the program as a traced child gives its pid, and the
  child must stop with the signal of a traced exec.
\<close>

record launch_answers =
  la_start :: "gostring + int"
  la_wait4 :: "gostring + u32"

definition startLaunchTrace :: "launch_answers \<Rightarrow> Config \<Rightarrow> target_error + int" where
  "startLaunchTrace la cfg =
     (case la_start la of
        Inl err \<Rightarrow> Inl (Start_failed (ProgramName cfg) err)
      | Inr pid \<Rightarrow>
          (case la_wait4 la of
             Inl err \<Rightarrow> Inl (Stop_wait_failed err)
           | Inr startWS \<Rightarrow>
               if \<not> Stopped startWS \<or> StopSignal startWS \<noteq> SIGTRAP then Inl (Unexpected_status startWS)
               else Inr pid))"

definition prepareTargetMode ::
  "(int \<Rightarrow> kill_answer) \<Rightarrow> launch_answers \<Rightarrow> Config \<Rightarrow> target_error + targetMode \<times> u32 \<times> u32 list" where
  "prepareTargetMode kill la cfg =
     (if AttachPIDs cfg \<noteq> []
      then (case validateAttachTargets kill (AttachPIDs cfg) of
              Some err \<Rightarrow> Inl err
            | None \<Rightarrow>
                let mode = \<lparr>launchPID = 0, attachPIDs = AttachPIDs cfg\<rparr> in
                Inr (mode, rootTracePID (attachPIDs mode) 0, traceTargetTGIDs (attachPIDs mode) 0))
      else (case startLaunchTrace la cfg of
              Inl err \<Rightarrow> Inl err
            | Inr pid \<Rightarrow>
                Inr (\<lparr>launchPID = pid, attachPIDs = []\<rparr>, rootTracePID [] pid, traceTargetTGIDs [] pid)))"

definition isAttach :: "targetMode \<Rightarrow> bool" where
  "isAttach m \<longleftrightarrow> attachPIDs m \<noteq> []"

section \<open>Signals\<close>

text \<open>What a receive from the channel of signals gives: a signal of the system, another value, or the end.\<close>

datatype received = Got_signal u32 | Got_other | Channel_closed

definition signalWaitStatus :: "received \<Rightarrow> u32" where
  "signalWaitStatus r = (case r of Got_signal s \<Rightarrow> s | _ \<Rightarrow> 0)"

definition signalAsSyscall :: "received \<Rightarrow> u32 option" where
  "signalAsSyscall r = (case r of Got_signal s \<Rightarrow> if s = 0 then None else Some s | _ \<Rightarrow> None)"

text \<open>
  \<open>startAttachMonitor\<close>: in each turn the processes are probed, then a signal or the next
  tick (\<open>None\<close>) is waited for. The status it sends to \<open>Run\<close>, once it does.
\<close>

fun attach_monitor :: "int list \<Rightarrow> ((int \<Rightarrow> kill_answer) \<times> received option) list \<Rightarrow> u32 option" where
  "attach_monitor pids [] = None"
| "attach_monitor pids ((kill, tick) # turns) =
     (if \<not> anyProcessAlive kill pids then Some 0
      else case tick of
             Some r \<Rightarrow> Some (signalWaitStatus r)
           | None \<Rightarrow> attach_monitor pids turns)"

text \<open>\<open>startLaunchMonitor\<close>: the signal sent on to the process group of the child, if any.\<close>

definition launch_monitor :: "received \<Rightarrow> u32 option" where
  "launch_monitor r = (case r of Channel_closed \<Rightarrow> None | _ \<Rightarrow> signalAsSyscall r)"

section \<open>The end of a run\<close>

text \<open>\<open>unix.SignalName\<close> is a parameter.\<close>

definition signalName :: "(int \<Rightarrow> gostring) \<Rightarrow> int \<Rightarrow> gostring" where
  "signalName names sig = (if names sig \<noteq> [] then names sig else go_text ''SIG'' @ fmt_d sig)"

definition FormatExitLine :: "(int \<Rightarrow> gostring) \<Rightarrow> u32 \<Rightarrow> gostring" where
  "FormatExitLine names ws =
     (if Exited ws then go_text ''+++ exited with '' @ fmt_d (ExitStatus ws) @ go_text '' +++''
      else if Signaled ws
      then go_text ''+++ killed by '' @ signalName names (Signal_of ws) @
             (if CoreDump ws then go_text '' (core dumped)'' else []) @ go_text '' +++''
      else go_text ''+++ exited with ? +++'')"

definition FormatAttachLine :: "int \<Rightarrow> gostring" where
  "FormatAttachLine pid = go_text ''litrace: Process '' @ fmt_d pid @ go_text '' attached''"

datatype exit_step = Reset_signal int | Kill_self int | Exit_with int

definition exitWithWaitStatus :: "u32 \<Rightarrow> exit_step list" where
  "exitWithWaitStatus ws =
     (if Exited ws then [Exit_with (ExitStatus ws)]
      else if Signaled ws
      then [Reset_signal (Signal_of ws), Kill_self (Signal_of ws), Exit_with (128 + Signal_of ws)]
      else [Exit_with 1])"

section \<open>Facts\<close>

lemma validate_none: "validateAttachTargets kill pids = None \<longleftrightarrow> list_all (\<lambda>p. \<forall>err. kill p \<noteq> Kill_error err) pids"
  by (induction pids) (auto split: kill_answer.splits)

lemma anyProcessAlive_iff: "anyProcessAlive kill pids \<longleftrightarrow> list_ex (\<lambda>p. \<forall>err. kill p \<noteq> Kill_error err) pids"
  by (induction pids) (auto split: kill_answer.splits)

lemma attach_monitor_status:
  "attach_monitor pids turns = Some ws \<Longrightarrow>
   \<exists>kill tick. (kill, tick) \<in> set turns \<and>
     (\<not> anyProcessAlive kill pids \<and> ws = 0 \<or> anyProcessAlive kill pids \<and> (\<exists>r. tick = Some r \<and> ws = signalWaitStatus r))"
proof (induction pids turns rule: attach_monitor.induct)
  case (2 pids kill tick turns)
  show ?case
  proof (cases "anyProcessAlive kill pids \<and> tick = None")
    case True
    then have "attach_monitor pids turns = Some ws" using 2(2) by simp
    from 2(1) [OF _ _ this] True show ?thesis by auto
  next
    case False
    have "(kill, tick) \<in> set ((kill, tick) # turns)" by simp
    moreover have "\<not> anyProcessAlive kill pids \<and> ws = 0 \<or>
        anyProcessAlive kill pids \<and> (\<exists>r. tick = Some r \<and> ws = signalWaitStatus r)"
      using 2(2) False by (auto split: if_splits option.splits)
    ultimately show ?thesis by blast
  qed
qed simp

text \<open>The targets and the thread without a prefix, of a mode.\<close>

lemma prepareTargetMode_result:
  assumes "prepareTargetMode kill la cfg = Inr (mode, tgid, targets)"
  shows "attachPIDs mode = AttachPIDs cfg" and "isAttach mode \<longleftrightarrow> AttachPIDs cfg \<noteq> []"
    and "targets = traceTargetTGIDs (AttachPIDs cfg) (launchPID mode)"
    and "tgid = rootTracePID (AttachPIDs cfg) (launchPID mode)"
    and "tgid = (case targets of [t] \<Rightarrow> t | _ \<Rightarrow> 0)"
  using assms
  by (auto simp: prepareTargetMode_def Let_def isAttach_def rootTracePID_def traceTargetTGIDs_def length_Suc_conv
      split: if_splits option.splits sum.splits list.splits)

text \<open>The status of a process that exited, and of one that a signal killed.\<close>

definition exit_status :: "nat \<Rightarrow> u32" where
  "exit_status c = push_bit 8 (of_nat c)"

lemma exit_status_back:
  assumes "c < 256"
  shows "Exited (exit_status c)" and "ExitStatus (exit_status c) = int c"
proof -
  let ?w = "exit_status c"
  have w: "unat ?w = c * 256"
  proof -
    have "?w = of_nat (c * 256)" by (simp add: exit_status_def push_bit_eq_mult)
    then show ?thesis using assms by (simp only: unat_of_nat) simp
  qed
  have "?w AND 0x7F = take_bit 7 ?w" by (simp add: take_bit_eq_mask mask_eq_exp_minus_1)
  then have "unat (?w AND 0x7F) = take_bit 7 (unat ?w)" by (simp only: unsigned_take_bit_eq)
  also have "\<dots> = unat ?w mod 2 ^ 7" by (rule take_bit_eq_mod)
  finally have "unat (?w AND 0x7F) = 0" using w by simp
  then show ex: "Exited ?w" by (simp add: Exited_def word_unat_eq_iff)
  have "drop_bit 8 ?w AND 0xFF = take_bit 8 (drop_bit 8 ?w)" by (simp add: take_bit_eq_mask mask_eq_exp_minus_1)
  then have "unat (drop_bit 8 ?w AND 0xFF) = take_bit 8 (unat (drop_bit 8 ?w))" by (simp only: unsigned_take_bit_eq)
  also have "\<dots> = unat (drop_bit 8 ?w) mod 2 ^ 8" by (rule take_bit_eq_mod)
  also have "unat (drop_bit 8 ?w) = c" using w by (simp add: drop_bit_eq_div unat_div_distrib)
  finally show "ExitStatus ?w = int c" using ex assms by (simp add: ExitStatus_def)
qed

end
