(* ===== verification/Go_Float.thy ===== *)
theory Go_Float
  imports Go_Format Complex_Main
begin

text \<open>
  Non-negative \<open>float64\<close> values as Go computes with them: a double is the fraction it
  stands for, and every conversion, product and quotient is rounded to 53 bits, to the
  even one of two neighbours. \<open>%.nf\<close> prints the exact value, rounded the same way. The
  values of the program are far from the smallest and the largest doubles, which are
  left aside.
\<close>

section \<open>Rounding\<close>

type_synonym f64 = "nat \<times> nat"

definition rne :: "nat \<Rightarrow> nat \<Rightarrow> nat" where
  "rne p q =
     (let k = p div q; r = p mod q in
      if 2 * r < q \<or> 2 * r = q \<and> even k then k else k + 1)"

fun bits :: "nat \<Rightarrow> nat" where
  "bits n = (if n = 0 then 0 else Suc (bits (n div 2)))"

declare bits.simps [simp del]

text \<open>The fraction divided by a power of two.\<close>

definition scaled :: "nat \<Rightarrow> nat \<Rightarrow> int \<Rightarrow> nat \<times> nat" where
  "scaled p q e = (if 0 \<le> e then (p, q * 2 ^ nat e) else (p * 2 ^ nat (- e), q))"

definition f64_exponent :: "nat \<Rightarrow> nat \<Rightarrow> int" where
  "f64_exponent p q =
     (let e = int (bits p) - int (bits q) - 53; (a, b) = scaled p q e
      in if a < 2 ^ 53 * b then e else e + 1)"

definition f64_round :: "nat \<Rightarrow> nat \<Rightarrow> f64" where
  "f64_round p q =
     (if p = 0 then (0, 1)
      else let e = f64_exponent p q; (a, b) = scaled p q e; m = rne a b
           in if 0 \<le> e then (m * 2 ^ nat e, 1) else (m, 2 ^ nat (- e)))"

definition f64_of_nat :: "nat \<Rightarrow> f64" where
  "f64_of_nat n = f64_round n 1"

definition f64_mult :: "f64 \<Rightarrow> f64 \<Rightarrow> f64" where
  "f64_mult x y = f64_round (fst x * fst y) (snd x * snd y)"

definition f64_divide :: "f64 \<Rightarrow> f64 \<Rightarrow> f64" where
  "f64_divide x y = f64_round (fst x * snd y) (snd x * fst y)"

definition zeros_left :: "nat \<Rightarrow> gostring \<Rightarrow> gostring" where
  "zeros_left w s = replicate (w - length s) 48 @ s"

definition fmt_f :: "nat \<Rightarrow> f64 \<Rightarrow> gostring" where
  "fmt_f prec x =
     (let n = rne (fst x * 10 ^ prec) (snd x)
      in fmt_u (n div 10 ^ prec) @ go_text ''.'' @ zeros_left prec (fmt_u (n mod 10 ^ prec)))"

section \<open>How far from the exact value\<close>

definition f64_val :: "f64 \<Rightarrow> real" where
  "f64_val x = real (fst x) / real (snd x)"

lemma rne_error: "0 < q \<Longrightarrow> \<bar>real (rne p q) - real p / real q\<bar> \<le> 1 / 2"
proof -
  assume q: "0 < q"
  let ?k = "p div q" and ?r = "p mod q"
  have frac: "real p / real q = real ?k + real ?r / real q"
    using q by (simp add: field_simps flip: of_nat_mult of_nat_add)
  show ?thesis
  proof (cases "2 * ?r < q \<or> 2 * ?r = q \<and> even ?k")
    case True
    then have "rne p q = ?k" "2 * real ?r \<le> real q" by (auto simp: rne_def Let_def)
    then show ?thesis using q frac by (simp add: field_simps)
  next
    case False
    then have "rne p q = ?k + 1" "real q \<le> 2 * real ?r" by (auto simp: rne_def Let_def)
    moreover have "real ?r \<le> real q" using q by (simp add: less_imp_le)
    ultimately show ?thesis using q frac by (simp add: field_simps)
  qed
qed

lemma bits_bounds: "n \<noteq> 0 \<Longrightarrow> 2 ^ (bits n - 1) \<le> n \<and> n < 2 ^ bits n \<and> 0 < bits n"
proof (induction n rule: bits.induct)
  case (1 n)
  show ?case
  proof (cases "n div 2 = 0")
    case True
    then have "n = 1" using 1(2) by auto
    then show ?thesis by (simp add: bits.simps)
  next
    case False
    have "bits n = Suc (bits (n div 2))" using 1(2) by (subst bits.simps) simp
    moreover note 1(1) [OF 1(2) False]
    moreover have "2 ^ bits (n div 2) = (2 * 2 ^ (bits (n div 2) - 1) :: nat)"
      using 1(1) [OF 1(2) False] by (cases "bits (n div 2)") simp_all
    ultimately show ?thesis by (simp add: Suc_le_eq) linarith
  qed
qed

lemma scaled_val:
  "0 < q \<Longrightarrow> scaled p q e = (a, b) \<Longrightarrow> real a / real b = real p / real q / 2 powi e \<and> 0 < b"
  by (auto simp: scaled_def power_int_def field_simps split: if_splits)

lemma power_int_bits:
  assumes "p \<noteq> 0" and "0 < q"
  shows "2 powi (int (bits p) - int (bits q) - 1) \<le> real p / real q"
proof -
  have p: "2 ^ (bits p - 1) \<le> real p" "0 < bits p" and q: "real q \<le> 2 ^ bits q"
    using bits_bounds [OF assms(1)] bits_bounds [of q] assms(2)
    by (simp_all add: numeral_power_le_of_nat_cancel_iff of_nat_le_numeral_power_cancel_iff less_imp_le)
  have "2 powi (int (bits p) - int (bits q) - 1) = (2 ^ (bits p - 1)) / (2 ^ bits q :: real)"
    using p(2) by (simp add: power_int_diff power_int_of_nat of_nat_diff flip: power_int_of_nat)
  also have "\<dots> \<le> real p / real q" using p(1) q assms(2) by (intro frac_le) simp_all
  finally show ?thesis .
qed

lemma halved: "2 ^ 53 \<le> (x :: real) \<Longrightarrow> 2 ^ 52 \<le> x / 2"
  by simp

lemma exponent_scale:
  assumes "p \<noteq> 0" and "0 < q"
  shows "2 ^ 52 \<le> real p / real q / 2 powi f64_exponent p q"
proof -
  let ?e = "int (bits p) - int (bits q) - 53"
  obtain a b where s: "scaled p q ?e = (a, b)" by force
  note v = scaled_val [OF assms(2) s]
  have low: "2 ^ 52 \<le> real p / real q / 2 powi ?e"
  proof -
    have "2 ^ 52 * 2 powi ?e = (2 :: real) powi 52 * 2 powi ?e" by simp
    also have "\<dots> = 2 powi (52 + ?e)" by (rule power_int_add [symmetric]) simp
    also have "\<dots> = 2 powi (int (bits p) - int (bits q) - 1)" by (rule arg_cong) simp
    also have "\<dots> \<le> real p / real q" by (rule power_int_bits [OF assms])
    finally show ?thesis by (subst pos_le_divide_eq) simp_all
  qed
  show ?thesis
  proof (cases "a < 2 ^ 53 * b")
    case True
    then show ?thesis using low s by (simp add: f64_exponent_def Let_def)
  next
    case False
    then have "real (2 ^ 53 * b) \<le> real a" by (simp only: of_nat_le_iff not_less)
    then have "2 ^ 53 \<le> real a / real b" using conjunct2 [OF v] by (subst pos_le_divide_eq) (simp_all add: mult.commute)
    then have "2 ^ 53 \<le> real p / real q / 2 powi ?e" using v by simp
    then have "2 ^ 52 \<le> real p / real q / 2 powi ?e / 2" by (rule halved)
    also have "real p / real q / 2 powi ?e / 2 = real p / real q / (2 powi ?e * 2 powi 1)" by simp
    also have "2 powi ?e * 2 powi 1 = (2 :: real) powi (?e + 1)" by (rule power_int_add [symmetric]) simp
    also have "?e + 1 = f64_exponent p q" using False s by (simp add: f64_exponent_def Let_def)
    finally show ?thesis .
  qed
qed

lemma f64_round_error:
  assumes "0 < q"
  shows "\<bar>f64_val (f64_round p q) - real p / real q\<bar> \<le> real p / real q / 2 ^ 53"
proof (cases "p = 0")
  case True
  then show ?thesis by (simp add: f64_round_def f64_val_def)
next
  case False
  let ?e = "f64_exponent p q" and ?x = "real p / real q"
  obtain a b where s: "scaled p q ?e = (a, b)" by force
  note v = scaled_val [OF assms s]
  have val: "f64_val (f64_round p q) = real (rne a b) * 2 powi ?e"
    using False s by (simp add: f64_round_def f64_val_def Let_def power_int_def field_simps)
  have "\<bar>real (rne a b) - ?x / 2 powi ?e\<bar> \<le> 1 / 2" using rne_error [of b a] v by simp
  also have "1 / 2 = (2 ^ 52 :: real) / 2 ^ 53" by simp
  also have "\<dots> \<le> ?x / 2 powi ?e / 2 ^ 53"
    by (rule divide_right_mono [OF exponent_scale [OF False assms]]) simp
  finally have "\<bar>real (rne a b) - ?x / 2 powi ?e\<bar> \<le> ?x / 2 powi ?e / 2 ^ 53" .
  from mult_right_mono [OF this, of "2 powi ?e"]
  have "\<bar>real (rne a b) - ?x / 2 powi ?e\<bar> * 2 powi ?e \<le> ?x / 2 ^ 53" by simp
  moreover have "\<bar>real (rne a b) - ?x / 2 powi ?e\<bar> * 2 powi ?e = \<bar>(real (rne a b) - ?x / 2 powi ?e) * 2 powi ?e\<bar>"
    by (simp add: abs_mult)
  moreover have "(real (rne a b) - ?x / 2 powi ?e) * 2 powi ?e = real (rne a b) * 2 powi ?e - ?x"
    by (simp add: left_diff_distrib)
  ultimately show ?thesis using val by simp
qed

end
