(* ===== verification/Summary_Table.thy ===== *)
theory Summary_Table
  imports Go_Float Run_Loop Syscall_Names "HOL-Library.List_Lexorder" "HOL-Library.Product_Lexorder" "HOL-Library.Multiset"
begin

text \<open>
  \<open>FormatSummary\<close> of \<^verbatim>\<open>internal/format_summary.go\<close>: the rows of the counters, sorted, and
  their totals. A Go map is gone through in any order, and \<open>sort.Slice\<close> may leave equal
  elements in any order: the order of the entries and the sort are parameters, and the
  table is shown not to depend on them.
\<close>

section \<open>The functions\<close>

record SummaryRow =
  Row_Syscall :: gostring
  Row_Calls :: u64
  Row_Errors :: u64
  Row_TotalNs :: u64

text \<open>Strings are compared byte by byte, as lists.\<close>

definition row_less :: "SummaryRow \<Rightarrow> SummaryRow \<Rightarrow> bool" where
  "row_less a b =
     (if Row_TotalNs a \<noteq> Row_TotalNs b then Row_TotalNs b < Row_TotalNs a else Row_Syscall a < Row_Syscall b)"

definition summaryPercent :: "u64 \<Rightarrow> u64 \<Rightarrow> f64" where
  "summaryPercent totalNs allNs =
     (if allNs = 0 then (0, 1)
      else f64_divide (f64_mult (f64_of_nat (unat totalNs)) (100, 1)) (f64_of_nat (unat allNs)))"

definition summaryUsecsPerCall :: "u64 \<Rightarrow> u64 \<Rightarrow> u64" where
  "summaryUsecsPerCall totalNs calls = (if calls = 0 then 0 else totalNs div 1000 div calls)"

definition seconds :: "u64 \<Rightarrow> f64" where
  "seconds totalNs = f64_divide (f64_of_nat (unat totalNs)) (1000000000, 1)"

definition pad_left :: "nat \<Rightarrow> gostring \<Rightarrow> gostring" where
  "pad_left w s = replicate (w - length s) 32 @ s"

definition table_row :: "u64 \<Rightarrow> u64 \<Rightarrow> u64 \<Rightarrow> u64 \<Rightarrow> gostring \<Rightarrow> gostring" where
  "table_row ns allNs calls errors name =
     pad_left 6 (fmt_f 2 (summaryPercent ns allNs)) @ [32] @
     pad_left 11 (fmt_f 6 (seconds ns)) @ [32] @
     pad_left 11 (fmt_u (unat (summaryUsecsPerCall ns calls))) @ [32] @
     pad_left 9 (fmt_u (unat calls)) @ [32] @ pad_left 9 (fmt_u (unat errors)) @ [32] @ name @ [10]"

definition table_head :: gostring where
  "table_head = go_text ''% time     seconds  usecs/call     calls    errors syscall'' @ [10]"

definition table_rule :: gostring where
  "table_rule = go_text ''------ ----------- ----------- --------- --------- ----------------'' @ [10]"

text \<open>The loop over the entries: a row for each, and the totals.\<close>

fun rows_loop ::
  "(s64 \<times> syscallSummary) list \<Rightarrow> SummaryRow list \<Rightarrow> u64 \<Rightarrow> u64 \<Rightarrow> u64 \<Rightarrow>
   SummaryRow list \<times> u64 \<times> u64 \<times> u64" where
  "rows_loop [] rows totalCalls totalErrors totalNs = (rows, totalCalls, totalErrors, totalNs)"
| "rows_loop ((syscallID, stats) # es) rows totalCalls totalErrors totalNs =
     rows_loop es
       (rows @ [\<lparr>Row_Syscall = Name syscallID, Row_Calls = Calls stats, Row_Errors = Errors stats,
                 Row_TotalNs = TotalNs stats\<rparr>])
       (totalCalls + Calls stats) (totalErrors + Errors stats) (totalNs + TotalNs stats)"

definition FormatSummary ::
  "(SummaryRow list \<Rightarrow> SummaryRow list) \<Rightarrow> (s64 \<times> syscallSummary) list \<Rightarrow> gostring" where
  "FormatSummary sortSlice summary =
     (let (rows, totalCalls, totalErrors, totalNs) = rows_loop summary [] 0 0 0;
          rows = sortSlice rows
      in table_head @ table_rule @
         concat (map (\<lambda>r. table_row (Row_TotalNs r) totalNs (Row_Calls r) (Row_Errors r) (Row_Syscall r)) rows) @
         table_rule @ table_row totalNs totalNs totalCalls totalErrors (go_text ''total''))"

section \<open>Rows\<close>

definition row_of :: "s64 \<times> syscallSummary \<Rightarrow> SummaryRow" where
  "row_of e = \<lparr>Row_Syscall = Name (fst e), Row_Calls = Calls (snd e), Row_Errors = Errors (snd e),
     Row_TotalNs = TotalNs (snd e)\<rparr>"

lemma rows_loop_result:
  "rows_loop es rows c er ns =
     (rows @ map row_of es, c + sum_list (map (Calls \<circ> snd) es), er + sum_list (map (Errors \<circ> snd) es),
      ns + sum_list (map (TotalNs \<circ> snd) es))"
  by (induction es rows c er ns rule: rows_loop.induct) (simp_all add: row_of_def add.assoc)

section \<open>Sorting\<close>

text \<open>What \<open>sort.Slice\<close> promises: the same rows, none before one that is less.\<close>

locale slice_sort =
  fixes less :: "'a \<Rightarrow> 'a \<Rightarrow> bool" and srt :: "'a list \<Rightarrow> 'a list"
  assumes srt_mset: "mset (srt xs) = mset xs"
    and srt_sorted: "sorted_wrt (\<lambda>a b. \<not> less b a) (srt xs)"
begin

text \<open>When the order comes from an injective key, the rows come out in the order of the keys.\<close>

lemma srt_unique:
  fixes key :: "'a \<Rightarrow> 'b::linorder"
  assumes "\<And>a b. less a b \<longleftrightarrow> key a < key b" and "inj_on key (set xs)" and "distinct xs"
    and "set ys = set xs" and "distinct ys" and "sorted (map key ys)"
  shows "srt xs = ys"
proof (rule map_sorted_distinct_set_unique [of key])
  have set: "set (srt xs) = set xs" using srt_mset [of xs] by (metis set_mset_mset)
  have dist: "distinct (srt xs)" using srt_mset [of xs] assms(3) by (metis mset_eq_imp_distinct_iff)
  show "inj_on key (set (srt xs) \<union> set ys)" using assms(2,4) set by simp
  show "sorted (map key (srt xs))"
    using srt_sorted [of xs] assms(1) by (simp add: sorted_map not_less)
  show "distinct (map key (srt xs))" using dist set assms(2) by (simp add: distinct_map)
  show "distinct (map key ys)" using assms(2,4,5) by (simp add: distinct_map)
  show "set (srt xs) = set ys" using set assms(4) by simp
qed (rule assms(6))

end

text \<open>One such sort, by insertion.\<close>

fun insert_row :: "SummaryRow \<Rightarrow> SummaryRow list \<Rightarrow> SummaryRow list" where
  "insert_row r [] = [r]"
| "insert_row r (s # ss) = (if row_less s r then s # insert_row r ss else r # s # ss)"

definition sort_rows :: "SummaryRow list \<Rightarrow> SummaryRow list" where
  "sort_rows rows = foldr insert_row rows []"

definition row_key :: "SummaryRow \<Rightarrow> int \<times> gostring" where
  "row_key r = (- uint (Row_TotalNs r), Row_Syscall r)"

lemma row_less_key: "row_less a b \<longleftrightarrow> row_key a < row_key b"
  by (auto simp: row_less_def row_key_def less_prod_def word_less_def word_uint_eq_iff)

lemma insert_row_mset: "mset (insert_row r ss) = add_mset r (mset ss)"
  by (induction ss) auto

lemma insert_row_sorted: "sorted (map row_key ss) \<Longrightarrow> sorted (map row_key (insert_row r ss))"
proof (induction ss)
  case (Cons s ss)
  have "set (insert_row r ss) = insert r (set ss)"
    using insert_row_mset [of r ss] by (metis set_mset_mset set_mset_add_mset_insert)
  then show ?case using Cons by (auto simp: row_less_key)
qed simp

interpretation rows: slice_sort row_less sort_rows
proof
  show "mset (sort_rows xs) = mset xs" for xs
    by (induction xs) (simp_all add: sort_rows_def insert_row_mset)
  have "sorted (map row_key (sort_rows xs))" for xs
    by (induction xs) (simp_all add: sort_rows_def insert_row_sorted)
  then show "sorted_wrt (\<lambda>a b. \<not> row_less b a) (sort_rows xs)" for xs
    by (simp add: sorted_map row_less_key not_less)
qed

text \<open>The rows of different calls have different keys.\<close>

lemma rows_inj:
  assumes "distinct (map fst es)"
  shows "inj_on row_key (set (map row_of es)) \<and> distinct (map row_of es)"
proof -
  have key: "fst e = fst e'" if "row_key (row_of e) = row_key (row_of e')" for e e'
    using that by (simp add: row_key_def row_of_def Name_inj)
  have fst: "inj_on fst (set es)" "distinct es" using assms by (simp_all add: distinct_map)
  have "inj_on (row_key \<circ> row_of) (set es)"
  proof (rule inj_onI)
    fix x y
    assume mem: "x \<in> set es" "y \<in> set es" and same: "(row_key \<circ> row_of) x = (row_key \<circ> row_of) y"
    have "fst x = fst y" using same by (intro key) simp
    then show "x = y" using mem fst(1) by (intro inj_onD [OF fst(1)])
  qed
  from inj_on_imageI [OF this] inj_on_imageI2 [OF this] fst(2) show ?thesis
    by (simp add: distinct_map)
qed

lemma sort_slice_row:
  assumes "slice_sort row_less srt" and "distinct (map fst es)" and "mset es' = mset es"
  shows "srt (map row_of es') = sort_rows (map row_of es)"
proof (rule slice_sort.srt_unique [OF assms(1), where key = row_key])
  have mset: "mset (map row_of es') = mset (map row_of es)" using assms(3) by simp
  then have set: "set (map row_of es') = set (map row_of es)" by (rule mset_eq_setD)
  note inj = rows_inj [OF assms(2)]
  show "row_less a b \<longleftrightarrow> row_key a < row_key b" for a b by (rule row_less_key)
  show "inj_on row_key (set (map row_of es'))" using inj set by simp
  show "distinct (map row_of es')" using inj mset mset_eq_imp_distinct_iff by blast
  show "set (sort_rows (map row_of es)) = set (map row_of es')"
    using rows.srt_mset [of "map row_of es"] set by (metis mset_eq_setD)
  show "distinct (sort_rows (map row_of es))"
    using rows.srt_mset [of "map row_of es"] inj mset_eq_imp_distinct_iff by blast
  show "sorted (map row_key (sort_rows (map row_of es)))"
    using rows.srt_sorted [of "map row_of es"] by (simp add: sorted_map row_less_key not_less)
qed

text \<open>The rows of distinct calls are in strict order.\<close>

lemma sort_rows_strict:
  assumes "distinct (map fst es)"
  shows "sorted_wrt row_less (sort_rows (map row_of es))"
proof -
  let ?rows = "sort_rows (map row_of es)"
  have mset: "mset ?rows = mset (map row_of es)" by (rule rows.srt_mset)
  have "set ?rows = set (map row_of es)" using mset by (rule mset_eq_setD)
  moreover have "distinct ?rows" using mset rows_inj [OF assms] mset_eq_imp_distinct_iff by blast
  ultimately have "distinct (map row_key ?rows)" using rows_inj [OF assms] by (simp add: distinct_map)
  moreover have "sorted (map row_key ?rows)"
    using rows.srt_sorted [of "map row_of es"] by (simp add: sorted_map row_less_key not_less)
  ultimately have "sorted_wrt (<) (map row_key ?rows)" by (simp add: strict_sorted_iff)
  moreover have "row_less = (\<lambda>a b. row_key a < row_key b)" by (simp add: fun_eq_iff row_less_key)
  ultimately show ?thesis by (simp add: sorted_wrt_map)
qed

text \<open>The whole table.\<close>

definition table_text :: "SummaryRow list \<Rightarrow> u64 \<Rightarrow> u64 \<Rightarrow> u64 \<Rightarrow> gostring" where
  "table_text rows calls errors ns =
     table_head @ table_rule @
     concat (map (\<lambda>r. table_row (Row_TotalNs r) ns (Row_Calls r) (Row_Errors r) (Row_Syscall r)) rows) @
     table_rule @ table_row ns ns calls errors (go_text ''total'')"

lemma FormatSummary_text:
  assumes "slice_sort row_less srt" and "distinct (map fst es)" and "mset es' = mset es"
  shows "FormatSummary srt es' =
    table_text (sort_rows (map row_of es)) (sum_list (map (Calls \<circ> snd) es)) (sum_list (map (Errors \<circ> snd) es))
      (sum_list (map (TotalNs \<circ> snd) es))"
proof -
  have "sum_list (map f es') = sum_list (map f es)" for f :: "_ \<Rightarrow> u64"
    using assms(3) by (metis mset_map sum_mset_sum_list)
  then show ?thesis
    by (simp add: FormatSummary_def rows_loop_result sort_slice_row [OF assms] table_text_def)
qed

section \<open>Totals\<close>

lemma sum_classes:
  fixes g :: "'a \<Rightarrow> 'b::comm_monoid_add"
  assumes "finite I" and "f ` set xs \<subseteq> I"
  shows "(\<Sum>i\<in>I. sum_list (map g (filter (\<lambda>x. f x = i) xs))) = sum_list (map g xs)"
  using assms(2)
proof (induction xs)
  case (Cons x xs)
  have "sum_list (map g (filter (\<lambda>y. f y = i) (x # xs))) =
      (if i = f x then g x else 0) + sum_list (map g (filter (\<lambda>y. f y = i) xs))" for i
    by auto
  then show ?case using Cons assms(1) by (simp add: sum.distrib del: filter.simps)
qed simp

lemma sum_entries:
  fixes g :: "syscallSummary \<Rightarrow> 'b::comm_monoid_add"
  assumes "distinct (map fst es)" and "map_of es = m"
  shows "sum_list (map (g \<circ> snd) es) = (\<Sum>i\<in>dom m. g (the (m i)))"
proof -
  have "the (m (fst e)) = snd e" if "e \<in> set es" for e
    using assms that by (metis map_of_eq_Some_iff option.sel prod.collapse)
  then have "sum_list (map (g \<circ> snd) es) = sum_list (map (\<lambda>i. g (the (m i))) (map fst es))"
    unfolding map_map by (intro arg_cong [where f = sum_list] map_cong) simp_all
  also have "\<dots> = (\<Sum>i\<in>set (map fst es). g (the (m i)))"
    by (rule sum_list_distinct_conv_sum_set [OF assms(1)])
  also have "set (map fst es) = dom m" using assms(2) by (simp add: dom_map_of_conv_image_fst flip: assms(2))
  finally show ?thesis .
qed

lemma tally_totals:
  assumes "distinct (map fst es)" and "map_of es = tally evs"
  shows "sum_list (map (Calls \<circ> snd) es) = of_nat (length evs)"
    and "sum_list (map (Errors \<circ> snd) es) = of_nat (length (filter (\<lambda>e. sint (ev_ret e) < 0) evs))"
    and "sum_list (map (TotalNs \<circ> snd) es) = sum_list (map ev_dur evs)"
proof -
  let ?those = "\<lambda>i. filter (\<lambda>e. ev_syscall_id e = i) evs"
  have dom: "dom (tally evs) = ev_syscall_id ` set evs"
    by (auto simp: tally_def dom_def Let_def filter_empty_conv)
  have at: "the (tally evs i) = \<lparr>Calls = of_nat (length (?those i)),
      Errors = of_nat (length (filter (\<lambda>e. sint (ev_ret e) < 0) (?those i))),
      TotalNs = sum_list (map ev_dur (?those i))\<rparr>" if "i \<in> dom (tally evs)" for i
    using that by (auto simp: tally_def Let_def split: if_splits)
  have count: "of_nat (length (filter P xs)) = (sum_list (map (\<lambda>e. if P e then 1 else 0) xs) :: u64)" for P and xs :: "event list"
    by (induction xs) simp_all
  note sums = sum_entries [OF assms] sum_classes [of "dom (tally evs)" ev_syscall_id evs, unfolded dom, OF _ order_refl]
  have len: "of_nat (length xs) = (sum_list (map (\<lambda>e. 1) xs) :: u64)" for xs :: "event list"
    by (induction xs) simp_all
  show "sum_list (map (Calls \<circ> snd) es) = of_nat (length evs)"
    using sums(2) [of "\<lambda>e. 1 :: u64"] by (simp add: sums(1) dom at len cong: sum.cong)
  show "sum_list (map (Errors \<circ> snd) es) = of_nat (length (filter (\<lambda>e. sint (ev_ret e) < 0) evs))"
    using sums(2) [of "\<lambda>e. if sint (ev_ret e) < 0 then 1 else 0 :: u64"]
    by (simp add: sums(1) dom at count del: filter_filter cong: sum.cong)
  show "sum_list (map (TotalNs \<circ> snd) es) = sum_list (map ev_dur evs)"
    using sums(2) [of ev_dur] by (simp add: sums(1) dom at cong: sum.cong)
qed

section \<open>Accuracy\<close>

lemma of_nat_error: "\<bar>f64_val (f64_of_nat n) - real n\<bar> \<le> real n / 2 ^ 53"
  using f64_round_error [of 1 n] by (simp add: f64_of_nat_def)

lemma f64_val_ratio: "0 < snd (f64_round p q)"
  by (simp add: f64_round_def Let_def case_prod_beta)

text \<open>The number that \<open>%.nf\<close> prints, in units of its last digit.\<close>

definition printed_units :: "nat \<Rightarrow> f64 \<Rightarrow> nat" where
  "printed_units prec x = rne (fst x * 10 ^ prec) (snd x)"

lemma printed_error: "0 < snd x \<Longrightarrow> \<bar>real (printed_units prec x) - f64_val x * 10 ^ prec\<bar> \<le> 1 / 2"
  using rne_error [of "snd x" "fst x * 10 ^ prec"] by (simp add: printed_units_def f64_val_def)

lemma power_simps:
  "(10 :: real) ^ 2 = 100" "(10 :: real) ^ 6 = 1000000" "(10 :: real) ^ 9 = 1000000000"
  "(10 :: real) ^ 10 = 10000000000"
  by simp_all

lemma seconds_units:
  assumes "n < 2 ^ 53" and "x = f64_divide (f64_of_nat n) (1000000000, 1)"
  shows "\<bar>real (printed_units 6 x) * 1000 - real n\<bar> \<le> 503"
proof -
  let ?f = "f64_of_nat n"
  have n: "0 \<le> real n" "real n \<le> 2 ^ 53"
    using assms(1) by (simp_all add: of_nat_le_numeral_power_cancel_iff less_imp_le)
  have f: "\<bar>f64_val ?f - real n\<bar> \<le> 1" using of_nat_error [of n] n by (simp add: field_simps)
  have pos: "0 < snd ?f" unfolding f64_of_nat_def by (rule f64_val_ratio)
  have "\<bar>f64_val x - f64_val ?f / 10 ^ 9\<bar> \<le> f64_val ?f / 10 ^ 9 / 2 ^ 53"
    using f64_round_error [of "snd ?f * 1000000000" "fst ?f * 1"] pos
    by (simp add: assms(2) f64_divide_def f64_val_def field_simps)
  also have "\<dots> \<le> (2 ^ 53 + 1) / 10 ^ 9 / 2 ^ 53"
    by (intro divide_right_mono) (use f n in \<open>simp_all add: abs_le_iff\<close>)
  also have "\<dots> \<le> 2 / 10 ^ 9" by simp
  finally have "\<bar>f64_val x - f64_val ?f / 10 ^ 9\<bar> \<le> 2 / 10 ^ 9" .
  moreover have "\<bar>real (printed_units 6 x) - f64_val x * 10 ^ 6\<bar> \<le> 1 / 2"
    by (rule printed_error) (simp add: assms(2) f64_divide_def f64_val_ratio)
  ultimately show ?thesis using f unfolding power_simps by linarith
qed

lemma seconds_error: "unat ns < 2 ^ 53 \<Longrightarrow> \<bar>real (printed_units 6 (seconds ns)) * 1000 - real (unat ns)\<bar> \<le> 503"
  by (rule seconds_units) (simp_all add: seconds_def)

text \<open>A value within a relative error.\<close>

definition near :: "real \<Rightarrow> real \<Rightarrow> real \<Rightarrow> bool" where
  "near lo x y \<longleftrightarrow> x * (1 - lo) \<le> y \<and> y \<le> x * (1 + lo)"

lemma near_absI:
  assumes "\<bar>y - x\<bar> \<le> x / 2 ^ 53"
  shows "near (1 / 2 ^ 53) x y"
proof -
  have "y - x \<le> x / 2 ^ 53" "- (y - x) \<le> x / 2 ^ 53" using assms by (simp_all only: abs_le_iff)
  then show ?thesis by (simp add: near_def right_diff_distrib distrib_left)
qed

lemma near_round: "0 < q \<Longrightarrow> near (1 / 2 ^ 53) (real p / real q) (f64_val (f64_round p q))"
  by (rule near_absI [OF f64_round_error])

lemma close_units:
  fixes y :: real
  assumes "\<bar>n - v * 100\<bar> \<le> 1 / 2" and "v \<le> y + y / 10000000000" and "y - y / 10000000000 \<le> v"
    and "0 \<le> y" and "y \<le> 100"
  shows "\<bar>n - 100 * y\<bar> \<le> 501 / 1000"
  using assms by linarith

lemma percent_units:
  assumes "0 < b" and "x = f64_divide (f64_mult (f64_of_nat a) (100, 1)) (f64_of_nat b)" and "a \<le> b"
  shows "\<bar>real (printed_units 2 x) - 10000 * real a / real b\<bar> \<le> 501 / 1000"
proof -
  let ?u = "1 / 2 ^ 53 :: real"
  let ?f = "f64_of_nat a" and ?k = "f64_of_nat b"
  let ?g = "f64_mult ?f (100, 1)"
  have pos: "0 < snd ?f" "0 < snd ?k" "0 < snd ?g"
    by (simp_all add: f64_of_nat_def f64_mult_def f64_val_ratio)
  have f: "near ?u (real a) (f64_val ?f)" using near_round [of 1 a] by (simp add: f64_of_nat_def)
  have k: "near ?u (real b) (f64_val ?k)" using near_round [of 1 b] by (simp add: f64_of_nat_def)
  have g: "near ?u (100 * f64_val ?f) (f64_val ?g)"
    using near_round [of "snd ?f" "fst ?f * 100"] pos(1) by (simp add: f64_mult_def f64_val_def mult.commute)
  have kpos: "0 < f64_val ?k"
  proof -
    have "0 < real b * (1 - ?u)" using assms(1) by simp
    then show ?thesis using k by (simp add: near_def)
  qed
  then have kfst: "0 < fst ?k" by (cases "fst ?k = 0") (simp_all add: f64_val_def)
  have h: "near ?u (f64_val ?g / f64_val ?k) (f64_val x)"
    using near_round [of "snd ?g * fst ?k" "fst ?g * snd ?k"] pos kfst
    by (simp add: assms(2) f64_divide_def f64_val_def)
  let ?y = "100 * real a / real b"
  have y: "0 \<le> ?y" "?y \<le> 100" using assms(1,3) by (simp_all add: field_simps)
  have "f64_val x \<le> f64_val ?g / f64_val ?k * (1 + ?u)" using h by (simp add: near_def)
  also have "\<dots> \<le> (100 * (real a * (1 + ?u)) * (1 + ?u)) / (real b * (1 - ?u)) * (1 + ?u)"
  proof (intro mult_right_mono frac_le)
    show "f64_val ?g \<le> 100 * (real a * (1 + ?u)) * (1 + ?u)" using f g by (simp add: near_def)
    show "real b * (1 - ?u) \<le> f64_val ?k" using k by (simp add: near_def)
  qed (use assms(1) in simp_all)
  also have "\<dots> = ?y * ((1 + ?u) * (1 + ?u) * (1 + ?u) / (1 - ?u))" using assms(1) by (simp add: field_simps)
  also have "\<dots> \<le> ?y * (1 + 1 / 10 ^ 10)" by (rule mult_left_mono [OF _ y(1)]) simp
  finally have up: "f64_val x \<le> ?y + ?y / 10 ^ 10" by (simp add: field_simps)
  have "?y * (1 - 1 / 10 ^ 10) \<le> ?y * ((1 - ?u) * (1 - ?u) * (1 - ?u) / (1 + ?u))"
    by (rule mult_left_mono [OF _ y(1)]) simp
  also have "\<dots> = (100 * (real a * (1 - ?u)) * (1 - ?u)) / (real b * (1 + ?u)) * (1 - ?u)"
    using assms(1) by (simp add: field_simps)
  also have "\<dots> \<le> f64_val ?g / f64_val ?k * (1 - ?u)"
  proof (intro mult_right_mono frac_le)
    show "100 * (real a * (1 - ?u)) * (1 - ?u) \<le> f64_val ?g" using f g by (simp add: near_def)
    show "f64_val ?k \<le> real b * (1 + ?u)" using k by (simp add: near_def)
  qed (use kpos in \<open>simp_all add: f64_val_def\<close>)
  also have "\<dots> \<le> f64_val x" using h by (simp add: near_def)
  finally have low: "?y - ?y / 10 ^ 10 \<le> f64_val x" by (simp add: field_simps)
  have "\<bar>real (printed_units 2 x) - f64_val x * 10 ^ 2\<bar> \<le> 1 / 2"
    by (rule printed_error) (simp add: assms(2) f64_divide_def f64_val_ratio)
  then have "\<bar>real (printed_units 2 x) - 100 * ?y\<bar> \<le> 501 / 1000"
    unfolding power_simps by (rule close_units) (use up low y in \<open>simp_all only: power_simps\<close>)
  then show ?thesis by simp
qed

lemma percent_error:
  "0 < unat all \<Longrightarrow> unat ns \<le> unat all \<Longrightarrow>
   \<bar>real (printed_units 2 (summaryPercent ns all)) - 10000 * real (unat ns) / real (unat all)\<bar> \<le> 501 / 1000"
  by (rule percent_units) (auto simp: summaryPercent_def)

text \<open>What is printed, digit by digit, is that number.\<close>

lemma fmt_f_units:
  "fmt_f prec x = fmt_u (printed_units prec x div 10 ^ prec) @ go_text ''.'' @
     zeros_left prec (fmt_u (printed_units prec x mod 10 ^ prec))"
  by (simp add: fmt_f_def printed_units_def Let_def)

lemma whole_percent: "0 < unat all \<Longrightarrow> fmt_f 2 (summaryPercent all all) = go_text ''100.00''"
proof -
  assume "0 < unat all"
  then have "\<bar>real (printed_units 2 (summaryPercent all all)) - 10000\<bar> \<le> 501 / 1000"
    using percent_error [of all all] by (simp del: of_nat_unat)
  then have "real (printed_units 2 (summaryPercent all all)) < real 10001"
      "real 9999 < real (printed_units 2 (summaryPercent all all))" by linarith+
  then have "printed_units 2 (summaryPercent all all) = 10000" unfolding of_nat_less_iff by simp
  then show ?thesis
    by (simp add: fmt_f_units fmt_u_def digits.simps zeros_left_def lowerhex_def byte_text_def)
      (simp add: go_text_def ascii_def numeral_2_eq_2)
qed

end
