(* ===== verification/Command_Line.thy ===== *)
theory Command_Line
  imports Syscall_Names Path_Runs
begin

text \<open>
  \<^verbatim>\<open>internal/cli/parse.go\<close>: what the options of the command line select. The library that
  takes the options apart (pflag) and the search of \<open>exec.LookPath\<close> in the file system
  are parameters. An error is a constructor of its message with the text it quotes.
\<close>

section \<open>Selected calls\<close>

datatype parse_error =
    Usage gostring
  | Unknown_option gostring
  | Flag_error gostring
  | Expression_expected gostring
  | Expression_empty gostring
  | Expression_empty_name gostring
  | Expression_unknown gostring
  | Selector_empty gostring
  | Selector_empty_name gostring
  | Selector_unknown gostring
  | Pid_list_empty gostring
  | Pid_empty gostring
  | Pid_invalid gostring
  | Trace_path path_error
  | Attach_with_program
  | Program_not_found gostring

abbreviation (input) comma :: u8 where "comma \<equiv> 44"

fun expression_names :: "gostring \<Rightarrow> gostring list \<Rightarrow> s64 set \<Rightarrow> parse_error + s64 set" where
  "expression_names expression [] ids = Inr ids"
| "expression_names expression (syscallName # names) ids =
     (if syscallName = [] then Inl (Expression_empty_name expression)
      else case ID syscallName of
             None \<Rightarrow> Inl (Expression_unknown syscallName)
           | Some syscallID \<Rightarrow> expression_names expression names (insert syscallID ids))"

fun expressions_loop :: "gostring list \<Rightarrow> s64 set \<Rightarrow> parse_error + s64 set" where
  "expressions_loop [] ids = Inr ids"
| "expressions_loop (expression # es) ids =
     (if HasPrefix expression (go_text ''trace='') \<or> 61 \<notin> set expression
      then let selector = TrimPrefix expression (go_text ''trace='') in
           if selector = [] then Inl (Expression_empty expression)
           else case expression_names expression (Split selector comma) ids of
                  Inl err \<Rightarrow> Inl err
                | Inr ids \<Rightarrow> expressions_loop es ids
      else Inl (Expression_expected expression))"

definition parseTraceExpressions :: "gostring list \<Rightarrow> parse_error + s64 set" where
  "parseTraceExpressions expressions = expressions_loop expressions {}"

fun selector_names :: "gostring \<Rightarrow> gostring list \<Rightarrow> s64 set \<Rightarrow> parse_error + s64 set" where
  "selector_names selector [] ids = Inr ids"
| "selector_names selector (syscallName # names) ids =
     (if syscallName = [] then Inl (Selector_empty_name selector)
      else case ID syscallName of
             None \<Rightarrow> Inl (Selector_unknown syscallName)
           | Some syscallID \<Rightarrow> selector_names selector names (insert syscallID ids))"

fun selectors_loop :: "gostring list \<Rightarrow> s64 set \<Rightarrow> parse_error + s64 set" where
  "selectors_loop [] ids = Inr ids"
| "selectors_loop (selector # ss) ids =
     (if selector = [] then Inl (Selector_empty selector)
      else case selector_names selector (Split selector comma) ids of
             Inl err \<Rightarrow> Inl err
           | Inr ids \<Rightarrow> selectors_loop ss ids)"

definition parseTraceSelectors :: "gostring list \<Rightarrow> parse_error + s64 set" where
  "parseTraceSelectors selectors = selectors_loop selectors {}"

definition parseTraceIDs :: "gostring list \<Rightarrow> gostring list \<Rightarrow> parse_error + s64 set" where
  "parseTraceIDs expressions selectors =
     (case parseTraceExpressions expressions of
        Inl err \<Rightarrow> Inl err
      | Inr ids \<Rightarrow>
          (case parseTraceSelectors selectors of
             Inl err \<Rightarrow> Inl err
           | Inr selectorIDs \<Rightarrow> Inr (ids \<union> selectorIDs)))"

section \<open>Attached processes\<close>

fun pid_tokens :: "gostring \<Rightarrow> gostring list \<Rightarrow> int list \<Rightarrow> parse_error + int list" where
  "pid_tokens expression [] pids = Inr pids"
| "pid_tokens expression (token # tokens) pids =
     (if token = [] then Inl (Pid_empty expression)
      else case Atoi token of
             None \<Rightarrow> Inl (Pid_invalid token)
           | Some pid \<Rightarrow>
               if pid \<le> 0 then Inl (Pid_invalid token)
               else if pid \<in> set pids then pid_tokens expression tokens pids
               else pid_tokens expression tokens (pids @ [pid]))"

text \<open>The set \<open>seen\<close> of the code holds the members of the list it goes with.\<close>

fun attach_loop :: "gostring list \<Rightarrow> int list \<Rightarrow> parse_error + int list" where
  "attach_loop [] pids = Inr pids"
| "attach_loop (expression # es) pids =
     (if expression = [] then Inl (Pid_list_empty expression)
      else case pid_tokens expression (Split expression comma) pids of
             Inl err \<Rightarrow> Inl err
           | Inr pids \<Rightarrow> attach_loop es pids)"

definition parseAttachExpressions :: "gostring list \<Rightarrow> parse_error + int list" where
  "parseAttachExpressions expressions = attach_loop expressions []"

section \<open>The whole command line\<close>

text \<open>What the library makes of the options; an unknown option comes with
  its short name, its long name and the library's message.\<close>

datatype flag_failure = Not_exist gostring gostring gostring | Other_failure gostring

record parsedFlags =
  pf_followForks :: bool
  pf_summaryOnly :: bool
  pf_traceOutputPath :: gostring
  traceExpressions :: "gostring list"
  traceSelectors :: "gostring list"
  attachExpressions :: "gostring list"
  tracePaths :: "gostring list"
  pf_args :: "gostring list"

definition normalizeFlagParseError :: "flag_failure \<Rightarrow> parse_error" where
  "normalizeFlagParseError err =
     (case err of
        Not_exist short name message \<Rightarrow>
          if short \<noteq> [] then Unknown_option (go_text ''-'' @ short)
          else if name \<noteq> [] then Unknown_option (go_text ''--'' @ name)
          else Flag_error message
      | Other_failure message \<Rightarrow> Flag_error message)"

record cli_config =
  TraceOutputPath :: gostring
  Trace :: Config

record cli_env =
  flag_parse :: "gostring list \<Rightarrow> flag_failure + parsedFlags"
  look_path :: "gostring \<Rightarrow> gostring option"
  working_dir :: "gostring option"

definition ParseArgs :: "cli_env \<Rightarrow> gostring \<Rightarrow> gostring list \<Rightarrow> parse_error + cli_config" where
  "ParseArgs env exeName args =
     (case flag_parse env args of
        Inl err \<Rightarrow> Inl (normalizeFlagParseError err)
      | Inr flags \<Rightarrow>
     (case parseTraceIDs (traceExpressions flags) (traceSelectors flags) of
        Inl err \<Rightarrow> Inl err
      | Inr ids \<Rightarrow>
     (case parseAttachExpressions (attachExpressions flags) of
        Inl err \<Rightarrow> Inl err
      | Inr attachPIDs \<Rightarrow>
     (case parseTracePaths (working_dir env) (tracePaths flags) of
        Inl err \<Rightarrow> Inl (Trace_path err)
      | Inr normalizedTracePaths \<Rightarrow>
          let cfg = \<lparr>ProgramName = [], ProgramPath = [], ProgramArgs = [], AttachPIDs = attachPIDs,
                FollowForks = pf_followForks flags, SummaryOnly = pf_summaryOnly flags,
                TraceSyscallIDs = ids, TracePaths = normalizedTracePaths\<rparr>;
              rest = pf_args flags
          in if attachPIDs \<noteq> []
             then (if rest \<noteq> [] then Inl Attach_with_program
                   else Inr \<lparr>TraceOutputPath = pf_traceOutputPath flags, Trace = cfg\<rparr>)
             else (case rest of
                     [] \<Rightarrow> Inl (Usage exeName)
                   | program # programArgs \<Rightarrow>
                       (case look_path env program of
                          None \<Rightarrow> Inl (Program_not_found program)
                        | Some path \<Rightarrow>
                            Inr \<lparr>TraceOutputPath = pf_traceOutputPath flags,
                                 Trace = cfg\<lparr>ProgramName := program, ProgramPath := path,
                                             ProgramArgs := programArgs\<rparr>\<rparr>))))))"

section \<open>What is selected\<close>

text \<open>The names an expression or a selector lists, when it is well formed.\<close>

definition expression_ok :: "gostring \<Rightarrow> bool" where
  "expression_ok e \<longleftrightarrow> (HasPrefix e (go_text ''trace='') \<or> 61 \<notin> set e) \<and>
     TrimPrefix e (go_text ''trace='') \<noteq> []"

definition expression_list :: "gostring \<Rightarrow> gostring list" where
  "expression_list e = Split (TrimPrefix e (go_text ''trace='')) comma"

text \<open>No call has an empty name.\<close>

lemma ID_empty: "ID [] = None"
proof (cases "ID []")
  case (Some i)
  then obtain e where "e \<in> set entries" "[] = go_text (entry_Name e)" by (auto simp: ID_some)
  then show ?thesis using entry_names_plain by (auto simp: list_all_iff name_text_def)
qed

lemma expression_names_iff:
  "expression_names e ns ids = Inr r \<longleftrightarrow>
     list_all (\<lambda>n. ID n \<noteq> None) ns \<and> r = ids \<union> {i. \<exists>n \<in> set ns. ID n = Some i}"
  by (induction e ns ids rule: expression_names.induct) (auto simp: ID_empty split: option.split)

lemma selector_names_iff:
  "selector_names e ns ids = Inr r \<longleftrightarrow>
     list_all (\<lambda>n. ID n \<noteq> None) ns \<and> r = ids \<union> {i. \<exists>n \<in> set ns. ID n = Some i}"
  by (induction e ns ids rule: selector_names.induct) (auto simp: ID_empty split: option.split)

lemma expressions_loop_iff:
  "expressions_loop es ids = Inr r \<longleftrightarrow>
     list_all expression_ok es \<and> list_all (\<lambda>n. ID n \<noteq> None) (concat (map expression_list es)) \<and>
     r = ids \<union> {i. \<exists>n \<in> set (concat (map expression_list es)). ID n = Some i}"
proof (induction es arbitrary: ids)
  case (Cons e es)
  show ?case
  proof (cases "expression_ok e")
    case True
    show ?thesis
    proof (cases "expression_names e (expression_list e) ids")
      case (Inl err)
      then have "\<not> list_all (\<lambda>n. ID n \<noteq> None) (expression_list e)" using expression_names_iff [of e "expression_list e" ids] by auto
      then show ?thesis using True Inl by (auto simp: expression_ok_def expression_list_def Let_def)
    next
      case (Inr ids')
      note res = expression_names_iff [THEN iffD1, OF this]
      show ?thesis
        using True Inr Cons [of ids'] res by (auto simp: expression_ok_def expression_list_def Let_def)
    qed
  next
    case False
    then show ?thesis by (auto simp: expression_ok_def Let_def)
  qed
qed auto

lemma selectors_loop_iff:
  "selectors_loop ss ids = Inr r \<longleftrightarrow>
     list_all (\<lambda>s. s \<noteq> []) ss \<and> list_all (\<lambda>n. ID n \<noteq> None) (concat (map (\<lambda>s. Split s comma) ss)) \<and>
     r = ids \<union> {i. \<exists>n \<in> set (concat (map (\<lambda>s. Split s comma) ss)). ID n = Some i}"
proof (induction ss arbitrary: ids)
  case (Cons s ss)
  show ?case
  proof (cases "selector_names s (Split s comma) ids")
    case (Inl err)
    then have "\<not> list_all (\<lambda>n. ID n \<noteq> None) (Split s comma)" using selector_names_iff [of s "Split s comma" ids] by auto
    then show ?thesis using Inl by auto
  next
    case (Inr ids')
    note res = selector_names_iff [THEN iffD1, OF this]
    show ?thesis using Inr Cons [of ids'] res by auto
  qed
qed auto

text \<open>All names that the two options list.\<close>

definition listed_names :: "gostring list \<Rightarrow> gostring list \<Rightarrow> gostring list" where
  "listed_names es ss = concat (map expression_list es) @ concat (map (\<lambda>s. Split s comma) ss)"

lemma parseTraceIDs_iff:
  "parseTraceIDs es ss = Inr ids \<longleftrightarrow>
     list_all expression_ok es \<and> list_all (\<lambda>s. s \<noteq> []) ss \<and>
     list_all (\<lambda>n. ID n \<noteq> None) (listed_names es ss) \<and>
     ids = {i. known_call i \<and> Name i \<in> set (listed_names es ss)}"
proof -
  have named: "(\<exists>n \<in> N. ID n = Some i) \<longleftrightarrow> known_call i \<and> Name i \<in> N" for N i
    using ID_Name [of i] Name_ID by blast
  note iff = expressions_loop_iff [of es "{}"] selectors_loop_iff [of ss "{}"]
  show ?thesis
  proof (cases "parseTraceExpressions es")
    case (Inl err)
    then have "\<not> (list_all expression_ok es \<and> list_all (\<lambda>n. ID n \<noteq> None) (concat (map expression_list es)))"
      using iff(1) unfolding parseTraceExpressions_def by force
    then show ?thesis using Inl by (auto simp: parseTraceIDs_def listed_names_def)
  next
    case (Inr a)
    note a = iff(1) [of a, folded parseTraceExpressions_def, THEN iffD1, OF Inr]
    show ?thesis
    proof (cases "parseTraceSelectors ss")
      case (Inl err)
      then have "\<not> (list_all (\<lambda>s. s \<noteq> []) ss \<and> list_all (\<lambda>n. ID n \<noteq> None) (concat (map (\<lambda>s. Split s comma) ss)))"
        using iff(2) unfolding parseTraceSelectors_def by force
      then show ?thesis using Inl Inr by (auto simp: parseTraceIDs_def listed_names_def)
    next
      case right: (Inr b)
      note b = iff(2) [of b, folded parseTraceSelectors_def, THEN iffD1, OF right]
      have "a \<union> b = {i. known_call i \<and> Name i \<in> set (listed_names es ss)}"
        using a b unfolding named by (auto simp: listed_names_def)
      then show ?thesis using Inr right a b by (auto simp: parseTraceIDs_def listed_names_def)
    qed
  qed
qed

section \<open>The processes to attach to\<close>

text \<open>The numbers that the tokens of the expressions hold.\<close>

definition pid_of :: "gostring \<Rightarrow> int option" where
  "pid_of token = (case Atoi token of None \<Rightarrow> None | Some pid \<Rightarrow> if pid \<le> 0 then None else Some pid)"

lemma pid_of_nil: "pid_of [] = None"
  by (simp add: pid_of_def Atoi_def text_bytes_def)

lemma pid_of_range: "pid_of t = Some p \<Longrightarrow> 0 < p \<and> p < 2 ^ 63"
  by (auto simp: pid_of_def Atoi_def Let_def split: if_splits option.splits)

lemma pid_of_fmt_d: "0 < p \<Longrightarrow> p < 2 ^ 63 \<Longrightarrow> pid_of (fmt_d p) = Some p"
  using Atoi_fmt_d [of p] by (simp add: pid_of_def)

text \<open>The first of equal members stay.\<close>

definition firsts :: "'a list \<Rightarrow> 'a list" where
  "firsts xs = rev (remdups (rev xs))"

lemma firsts_facts: "distinct (firsts xs)" "set (firsts xs) = set xs" "distinct xs \<Longrightarrow> firsts xs = xs"
  by (simp_all add: firsts_def distinct_remdups_id)

lemma remdups_later: "x \<in> set zs \<Longrightarrow> remdups (ws @ x # zs) = remdups (ws @ zs)"
  by (induction ws) auto

lemma firsts_known: "x \<in> set xs \<Longrightarrow> firsts (xs @ x # ys) = firsts (xs @ ys)"
  using remdups_later [of x "rev xs" "rev ys"] by (simp add: firsts_def)

lemma pid_tokens_iff:
  "distinct pids \<Longrightarrow> pid_tokens e ts pids = Inr r \<longleftrightarrow>
     list_all (\<lambda>t. pid_of t \<noteq> None) ts \<and> r = firsts (pids @ map (\<lambda>t. the (pid_of t)) ts)"
proof (induction e ts pids rule: pid_tokens.induct)
  case (1 e pids)
  then show ?case by (auto simp: firsts_facts)
next
  case (2 e t ts pids)
  show ?case
  proof (cases "pid_of t")
    case None
    then show ?thesis
      by (auto simp: pid_of_def split: option.splits if_splits)
  next
    case (Some p)
    then have t: "t \<noteq> []" "Atoi t = Some p" "\<not> p \<le> 0"
      using pid_of_nil by (auto simp: pid_of_def split: option.splits if_splits)
    show ?thesis
    proof (cases "p \<in> set pids")
      case True
      then show ?thesis using 2(1) [OF t True 2(3)] t Some firsts_known [OF True] by simp
    next
      case False
      have "distinct (pids @ [p])" using 2(3) False by simp
      from 2(2) [OF t False this] show ?thesis using t Some False by simp
    qed
  qed
qed

lemma firsts_append: "firsts (firsts xs @ ys) = firsts (xs @ ys)"
  by (simp add: firsts_def remdups_append2)

lemma attach_loop_iff:
  "distinct pids \<Longrightarrow> attach_loop es pids = Inr r \<longleftrightarrow>
     list_all (\<lambda>e. e \<noteq> []) es \<and> list_all (\<lambda>t. pid_of t \<noteq> None) (concat (map (\<lambda>e. Split e comma) es)) \<and>
     r = firsts (pids @ map (\<lambda>t. the (pid_of t)) (concat (map (\<lambda>e. Split e comma) es)))"
proof (induction es arbitrary: pids)
  case Nil
  then show ?case by (auto simp: firsts_facts)
next
  case (Cons e es)
  show ?case
  proof (cases "pid_tokens e (Split e comma) pids")
    case (Inl err)
    then have "\<not> list_all (\<lambda>t. pid_of t \<noteq> None) (Split e comma)"
      using pid_tokens_iff [OF Cons.prems, of e "Split e comma"] by auto
    then show ?thesis using Inl by auto
  next
    case (Inr ps)
    note res = pid_tokens_iff [OF Cons.prems, THEN iffD1, OF this]
    then have "distinct ps" by (simp add: firsts_facts)
    from Cons.IH [OF this] show ?thesis using Inr res by (auto simp: firsts_append)
  qed
qed

lemma parseAttachExpressions_iff:
  "parseAttachExpressions es = Inr pids \<longleftrightarrow>
     list_all (\<lambda>e. e \<noteq> []) es \<and> list_all (\<lambda>t. pid_of t \<noteq> None) (concat (map (\<lambda>e. Split e comma) es)) \<and>
     pids = firsts (map (\<lambda>t. the (pid_of t)) (concat (map (\<lambda>e. Split e comma) es)))"
  using attach_loop_iff [of "[]" es pids] by (simp add: parseAttachExpressions_def)

text \<open>What a successful parse of the command line is.\<close>

lemma ParseArgs_result:
  assumes "ParseArgs env exeName args = Inr c" and "flag_parse env args = Inr flags"
  shows "parseTraceIDs (traceExpressions flags) (traceSelectors flags) = Inr (TraceSyscallIDs (Trace c))"
    and "parseAttachExpressions (attachExpressions flags) = Inr (AttachPIDs (Trace c))"
    and "parseTracePaths (working_dir env) (tracePaths flags) = Inr (TracePaths (Trace c))"
    and "FollowForks (Trace c) = pf_followForks flags" and "SummaryOnly (Trace c) = pf_summaryOnly flags"
    and "TraceOutputPath c = pf_traceOutputPath flags"
    and "AttachPIDs (Trace c) \<noteq> [] \<Longrightarrow> pf_args flags = [] \<and> ProgramPath (Trace c) = []"
    and "AttachPIDs (Trace c) = [] \<Longrightarrow> pf_args flags = ProgramName (Trace c) # ProgramArgs (Trace c) \<and>
      look_path env (ProgramName (Trace c)) = Some (ProgramPath (Trace c))"
  using assms by (auto simp: ParseArgs_def Let_def split: sum.splits if_splits list.splits option.splits)

end
