(* ===== verification/Run_Program.thy ===== *)
theory Run_Program
  imports Handle Target_Mode Summary_Table Command_Line
begin

text \<open>
  \<open>Run\<close> of \<^verbatim>\<open>internal/run.go\<close> from its arguments to its result, and \<open>main\<close> of
  \<^verbatim>\<open>main.go\<close>: the choice of the targets, the loading, the event loop, the waiting for
  the end, what is written to the trace output and the status of the program. The
  answers of the kernel and of the libraries are the record \<open>run_env\<close>.
\<close>

section \<open>The run\<close>

datatype run_error =
    Writer_required
  | Mixed_targets
  | No_target
  | Target_failed target_error
  | Handle_failed handle_error
  | Resume_failed gostring
  | Child_wait_failed gostring
  | No_wait_status

datatype wait_error = Exit_error | Other_wait_error gostring

record ChildWaitResult =
  cw_Err :: "wait_error option"
  cw_Status :: u32
  cw_HasStatus :: bool

text \<open>
  Go goes through a map in any order: the selected numbers and the entries of the
  summary come in the order that \<open>re_ids\<close> and \<open>re_entries\<close> give.
\<close>

record run_env =
  re_kill :: "int \<Rightarrow> kill_answer"
  re_launch :: launch_answers
  re_links :: link_answers
  re_collection :: collection
  re_abi :: tracer_abi
  re_ids :: "s64 set \<Rightarrow> s64 list"
  re_detach :: "gostring option"
  re_reads :: "(proc_links \<times> read_result) list"
  re_attach_status :: u32
  re_child :: ChildWaitResult
  re_entries :: "(s64 \<rightharpoonup> syscallSummary) \<Rightarrow> (s64 \<times> syscallSummary) list"
  re_sort :: "SummaryRow list \<Rightarrow> SummaryRow list"
  re_errno :: errno_names
  re_signal_names :: "int \<Rightarrow> gostring"

abbreviation (input) newline :: u8 where "newline \<equiv> 10"

text \<open>The lines of the printed events; \<open>None\<close> would be a rendering that does not end.\<close>

fun event_lines :: "errno_names \<Rightarrow> u32 \<Rightarrow> event list \<Rightarrow> gostring option" where
  "event_lines u rootTGID [] = Some []"
| "event_lines u rootTGID (ev # evs) =
     (case FormatOutputLine u ev rootTGID of
        None \<Rightarrow> None
      | Some line \<Rightarrow> map_option (\<lambda>rest. line @ [newline] @ rest) (event_lines u rootTGID evs))"

text \<open>The end of the run, after the loop: what is still written, and the result.\<close>

definition finish_run :: "run_env \<Rightarrow> Config \<Rightarrow> targetMode \<Rightarrow> run_state \<Rightarrow> gostring \<times> (run_error + u32)" where
  "finish_run env cfg mode st =
     (let table = FormatSummary (re_sort env) (re_entries env (rs_summary st)) in
      if isAttach mode
      then (if SummaryOnly cfg then table else [], Inr (re_attach_status env))
      else
        let waitResult = re_child env in
        case cw_Err waitResult of
          Some (Other_wait_error err) \<Rightarrow> ([], Inl (Child_wait_failed err))
        | _ \<Rightarrow>
            if \<not> cw_HasStatus waitResult then ([], Inl No_wait_status)
            else (if SummaryOnly cfg then table
                  else FormatExitLine (re_signal_names env) (cw_Status waitResult) @ [newline],
                  Inr (cw_Status waitResult)))"

text \<open>
  The result of a run: what is written to the trace output, the lines on the standard
  error about attached processes and the messages of the loop after them, the result, and the releases that failed, which \<open>Run\<close>
  joins to its error.
\<close>

record run_result =
  rr_output :: gostring
  rr_attached :: "gostring list"
  rr_messages :: "message list"
  rr_result :: "run_error + u32"
  rr_close_errors :: "resource list"

definition stopped_early :: "run_error \<Rightarrow> run_result" where
  "stopped_early err = \<lparr>rr_output = [], rr_attached = [], rr_messages = [], rr_result = Inl err, rr_close_errors = []\<rparr>"

definition Run :: "run_env \<Rightarrow> bool \<Rightarrow> Config \<Rightarrow> run_result option" where
  "Run env has_writer cfg =
     (if \<not> has_writer then Some (stopped_early Writer_required)
      else if AttachPIDs cfg \<noteq> [] \<and> ProgramPath cfg \<noteq> [] then Some (stopped_early Mixed_targets)
      else if AttachPIDs cfg = [] \<and> ProgramPath cfg = [] then Some (stopped_early No_target)
      else
        case prepareTargetMode (re_kill env) (re_launch env) cfg of
          Inl err \<Rightarrow> Some (stopped_early (Target_failed err))
        | Inr (mode, rootTGID, targetTGIDs) \<Rightarrow>
            (case snd (NewHandle (re_links env) (re_collection env) (re_abi env) targetTGIDs
                     \<lparr>hc_FollowForks = FollowForks cfg, hc_TraceSyscallIDs = re_ids env (handleTraceSyscallIDs cfg)\<rparr>) of
               Inl err \<Rightarrow> Some (stopped_early (Handle_failed err))
             | Inr (handle, _) \<Rightarrow>
                 let attached = (if isAttach mode then map FormatAttachLine (attachPIDs mode) else []);
                     closing = snd (Close (re_links env) handle)
                 in if \<not> isAttach mode \<and> re_detach env \<noteq> None
                    then Some \<lparr>rr_output = [], rr_attached = attached, rr_messages = [],
                               rr_result = Inl (Resume_failed (the (re_detach env))), rr_close_errors = closing\<rparr>
                    else
                      let st = run_loop cfg (re_reads env) (start_loop cfg); (tail, result) = finish_run env cfg mode st
                      in map_option (\<lambda>lines. \<lparr>rr_output = lines @ tail, rr_attached = attached,
                                              rr_messages = rs_messages st, rr_result = result, rr_close_errors = closing\<rparr>)
                           (event_lines (re_errno env) rootTGID (rs_lines st))))"

section \<open>The program\<close>

text \<open>
  \<open>main\<close>: parse the command line, create the output file if there is one, run, and leave
  with the status. The first component is what the trace output has been given.
\<close>

definition main_exit :: "run_result \<Rightarrow> exit_step list" where
  "main_exit r =
     (case rr_result r of
        Inl err \<Rightarrow> [Exit_with 1]
      | Inr ws \<Rightarrow> if rr_close_errors r \<noteq> [] then [Exit_with 1] else exitWithWaitStatus ws)"

definition main ::
  "cli_env \<Rightarrow> (gostring \<Rightarrow> bool) \<Rightarrow> run_env \<Rightarrow> gostring \<Rightarrow> gostring list \<Rightarrow> (gostring \<times> exit_step list) option" where
  "main cli creates env exeName args =
     (case ParseArgs cli exeName args of
        Inl err \<Rightarrow> Some ([], [Exit_with 1])
      | Inr cfg \<Rightarrow>
          if TraceOutputPath cfg \<noteq> [] \<and> \<not> creates (TraceOutputPath cfg) then Some ([], [Exit_with 1])
          else map_option (\<lambda>r. (rr_output r, main_exit r)) (Run env True (Trace cfg)))"

section \<open>Facts\<close>

text \<open>The lines of text, each with its newline.\<close>

fun lines_of :: "gostring \<Rightarrow> gostring list" where
  "lines_of [] = []"
| "lines_of (c # cs) =
     (if c = newline then [] # lines_of cs
      else case lines_of cs of [] \<Rightarrow> [[c]] | l # ls \<Rightarrow> (c # l) # ls)"

lemma lines_of_line: "newline \<notin> set l \<Longrightarrow> lines_of (l @ [newline] @ rest) = l # lines_of rest"
  by (induction l) simp_all

lemma printable_no_newline: "printable_text l \<Longrightarrow> newline \<notin> set l"
  by (auto simp: printable_text_def printable_def list_all_iff)

lemma event_lines_result:
  assumes "errno_ok u"
  shows "\<exists>t ls. event_lines u rootTGID evs = Some t \<and>
    list_all2 (\<lambda>ev l. FormatOutputLine u ev rootTGID = Some l) evs ls \<and> list_all printable_text ls \<and>
    (\<forall>rest. lines_of (t @ rest) = ls @ lines_of rest)"
proof (induction evs)
  case (Cons ev evs)
  obtain l where l: "FormatOutputLine u ev rootTGID = Some l" "printable_text l"
    using FormatOutputLine_printable [OF assms] by blast
  obtain t ls where t: "event_lines u rootTGID evs = Some t"
      "list_all2 (\<lambda>ev l. FormatOutputLine u ev rootTGID = Some l) evs ls" "list_all printable_text ls"
      "\<forall>rest. lines_of (t @ rest) = ls @ lines_of rest"
    using Cons by blast
  have "lines_of ((l @ [newline] @ t) @ rest) = (l # ls) @ lines_of rest" for rest
    using lines_of_line [OF printable_no_newline [OF l(2)], of "t @ rest"] t(4) by simp
  then show ?case using l t(1-3) by (intro exI [of _ "l @ [newline] @ t"] exI [of _ "l # ls"]) simp
qed simp

lemma Run_ends:
  assumes "errno_ok (re_errno env)"
  shows "\<exists>r. Run env w cfg = Some r"
proof -
  have "\<exists>t. event_lines (re_errno env) g evs = Some t" for g evs
    using event_lines_result [OF assms] by blast
  then show ?thesis
    by (auto simp: Run_def Let_def split: sum.split prod.split)
qed

end
