(* ===== verification/Program_Properties.thy ===== *)
theory Program_Properties
  imports Line_Properties Run_Program
begin

text \<open>
  The properties of the program around the tracer: what the command line selects, which
  processes are traced, what a run writes and with which status it ends, what the
  summary shows, and what is released.
\<close>

section \<open>A command line\<close>

text \<open>The options of the witnesses, a library that gives them, and a loader that succeeds.\<close>

definition demo_flags :: "gostring list \<Rightarrow> gostring list \<Rightarrow> gostring list \<Rightarrow> parsedFlags" where
  "demo_flags es ps rest =
     \<lparr>pf_followForks = True, pf_summaryOnly = False, pf_traceOutputPath = [], traceExpressions = es,
      traceSelectors = [], attachExpressions = ps, tracePaths = [], pf_args = rest\<rparr>"

definition demo_cli :: "parsedFlags \<Rightarrow> cli_env" where
  "demo_cli flags = \<lparr>flag_parse = (\<lambda>_. Inr flags), look_path = (\<lambda>p. if p = [] then None else Some p), working_dir = None\<rparr>"

definition demo_links :: link_answers where
  "demo_links = \<lparr>opens_ok = (\<lambda>_. True), close_fails = (\<lambda>_. False)\<rparr>"

lemma demo_new_handle:
  "\<exists>steps h abi s. NewHandle demo_links demo_collection demo_abi tgids hc = (steps, Inr (h, abi, s))"
proof -
  have "\<exists>m'. put_all (\<lambda>_. True) xs m = Some m'" for xs m by (induction xs arbitrary: m) simp_all
  then have "\<exists>res. applyConfig demo_collection demo_abi tgids hc = Inr res"
    by (auto simp: applyConfig_def demo_collection_def Let_def split: option.split) (metis option.distinct(1))+
  then show ?thesis by (auto simp: NewHandle_def Let_def demo_links_def)
qed

lemma demo_names_of_calls:
  "Name NR_read = go_text ''read''" "Name NR_write = go_text ''write''" "known_call NR_read"
proof -
  have "row NR_read ''read'' \<in> set entries" "row NR_write ''write'' \<in> set entries"
    by (simp_all add: entries_def entries_00_def)
  from Name_entry [OF this(1)] Name_entry [OF this(2)]
  show "Name NR_read = go_text ''read''" "Name NR_write = go_text ''write''" by simp_all
  show "known_call NR_read" by (simp add: known_call_iff)
qed

lemma demo_expression: "expression_ok (go_text ''trace=read'')" "listed_names [go_text ''trace=read''] [] = [go_text ''read'']"
proof -
  have trim: "TrimPrefix (go_text ''trace=read'') (go_text ''trace='') = go_text ''read''"
    "HasPrefix (go_text ''trace=read'') (go_text ''trace='')"
    by (simp_all add: TrimPrefix_def HasPrefix_def go_text_def ascii_def)
  then show "expression_ok (go_text ''trace=read'')" by (simp add: expression_ok_def go_text_def ascii_def)
  have "Split (go_text ''read'') comma = [go_text ''read'']"
    by (rule Split_plain) (simp add: go_text_def ascii_def)
  then show "listed_names [go_text ''trace=read''] [] = [go_text ''read'']"
    by (simp add: listed_names_def expression_list_def trim)
qed

lemma demo_trace_ids: "parseTraceIDs [go_text ''trace=read''] [] = Inr {NR_read}"
proof -
  have "ID (go_text ''read'') = Some NR_read" using ID_Name [OF demo_names_of_calls(3)] by (simp add: demo_names_of_calls)
  moreover from this have "{i. known_call i \<and> Name i = go_text ''read''} = {NR_read}"
    using ID_Name demo_names_of_calls by force
  ultimately show ?thesis unfolding parseTraceIDs_iff demo_expression(2) by (simp add: demo_expression(1))
qed

lemma demo_no_ids: "parseTraceIDs [] [] = Inr {}"
  by (simp add: parseTraceIDs_def parseTraceExpressions_def parseTraceSelectors_def)

section \<open>The command line\<close>

text \<open>
  C30. The options \<open>-e\<close> and \<open>--trace\<close> are accepted exactly when every expression has the
  form \<open>trace=LIST\<close> or \<open>LIST\<close>, no list is empty, and every listed name is the name of a
  call; the calls they select are then exactly the listed ones.
\<close>

theorem trace_options_parsed:
  "parseTraceIDs expressions selectors = Inr ids \<longleftrightarrow>
     list_all expression_ok expressions \<and> list_all (\<lambda>s. s \<noteq> []) selectors \<and>
     list_all (\<lambda>n. ID n \<noteq> None) (listed_names expressions selectors) \<and>
     ids = {i. known_call i \<and> Name i \<in> set (listed_names expressions selectors)}"
  by (rule parseTraceIDs_iff)

text \<open>Something is listed when there is an option.\<close>

lemma listed_nonempty: "listed_names es ss = [] \<longleftrightarrow> es = [] \<and> ss = []"
  by (cases es; cases ss) (simp_all add: listed_names_def expression_list_def)

lemma no_ids:
  assumes "parseTraceIDs es ss = Inr ids"
  shows "ids = {} \<longleftrightarrow> es = [] \<and> ss = []"
proof
  assume empty: "ids = {}"
  note res = parseTraceIDs_iff [THEN iffD1, OF assms]
  show "es = [] \<and> ss = []"
  proof (rule ccontr)
    assume "\<not> (es = [] \<and> ss = [])"
    then obtain n ns where ns: "listed_names es ss = n # ns"
      using listed_nonempty [of es ss] by (cases "listed_names es ss") auto
    then obtain i where "ID n = Some i" using res by auto
    then have "i \<in> ids" using Name_ID [of n i] res ns by auto
    then show False using empty by simp
  qed
next
  assume "es = [] \<and> ss = []"
  then have "listed_names es ss = []" using listed_nonempty by simp
  then show "ids = {}" using parseTraceIDs_iff [THEN iffD1, OF assms] by simp
qed

lemma known_small: "known_call i \<Longrightarrow> small_id i"
  by (auto simp: known_call_iff small_id_def)

text \<open>
  C10. From the command line to the kernel: when the options are accepted, no path is
  requested and the tracer has been loaded with what they select, then the entry
  program, in any state the tracer reaches, stores a record of a call exactly when the
  process is a target and no call has been named, or the name of the call is one of
  those listed, or forks are followed and the call is one that creates a process; the
  record, of the call's number and arguments, is marked as selected exactly in the first
  two cases. Any other call leaves everything as it is. Numbers of 2^32 and above are
  left aside, and so is an update of the map that the kernel refuses.
\<close>

theorem named_calls_selected:
  assumes "ParseArgs cli exeName args = Inr c" and "flag_parse cli args = Inr flags" and "tracePaths flags = []"
    and "set ids = handleTraceSyscallIDs (Trace c)"
    and "NewHandle ans col abi0 tgids \<lparr>hc_FollowForks = FollowForks (Trace c), hc_TraceSyscallIDs = ids\<rparr> =
      (steps, Inr (h, abi, s0))"
    and "reachable abi s0 s" and "small_id (en_id ctx)" and "length (en_args ctx) = 6"
    and "k_accepts k Inflight_syscalls"
    and "named \<longleftrightarrow> traceExpressions flags = [] \<and> traceSelectors flags = [] \<or>
      Name (en_id ctx) \<in> set (listed_names (traceExpressions flags) (traceSelectors flags))"
  shows "initial_state s0 \<and> dom (target_pids s0) = set tgids \<and>
    (if target_pids s (cur_tgid k) \<noteq> None \<and>
        (named \<or> pf_followForks flags \<and> creates_process abi k (en_id ctx) (replicate 6 0))
     then \<exists>st. inflight_syscalls (trace_sys_enter abi k ctx s) (cur_tid k) = Some st \<and>
       sd_syscall_id st = en_id ctx \<and> sd_args st = en_args ctx \<and> (sd_selected st \<noteq> 0 \<longleftrightarrow> named)
     else trace_sys_enter abi k ctx s = s)"
proof -
  let ?es = "traceExpressions flags" and ?ss = "traceSelectors flags"
  note parsed = ParseArgs_result [OF assms(1,2)]
  define sel where "sel = TraceSyscallIDs (Trace c)"
  have sel: "parseTraceIDs ?es ?ss = Inr sel" "TraceSyscallIDs (Trace c) = sel" "TracePaths (Trace c) = []"
      "FollowForks (Trace c) = pf_followForks flags"
    using parsed(1,3,4) assms(3) by (simp_all add: sel_def parseTracePaths_def)
  note listed = parseTraceIDs_iff [THEN iffD1, OF sel(1)]
  have ids: "set ids = sel" using assms(4) sel(2,3) by (simp add: handleTraceSyscallIDs_def)
  then have small: "list_all small_id ids" using listed known_small by (auto simp: list_all_iff)
  have load: "applyConfig col abi0 tgids \<lparr>hc_FollowForks = FollowForks (Trace c), hc_TraceSyscallIDs = ids\<rparr> =
      Inr (abi, s0)"
    by (rule NewHandle_success(4) [OF assms(5)])
  note res = applyConfig_result [OF load]
  have "filter_inv abi (trace_syscall_filter s0) s"
    by (rule filtered.inv_reachable [OF assms(6) initial_filter_inv [OF res(1)]])
  then have "enter_selected abi ctx s \<longleftrightarrow> passes abi (trace_syscall_filter s0) (en_id ctx)"
    by (simp add: enter_selected_def passes_def filter_inv_def)
  also have "\<dots> \<longleftrightarrow> wanted (Trace c) (en_id ctx)"
    by (rule loaded_passes [OF load assms(4) small assms(7)])
  also have "\<dots> \<longleftrightarrow> sel = {} \<or> en_id ctx \<in> sel"
    using sel(2,3) by (simp add: wanted_def handleTraceSyscallIDs_def)
  also have "\<dots> \<longleftrightarrow> named"
  proof -
    have "known_call (en_id ctx)" if "Name (en_id ctx) \<in> set (listed_names ?es ?ss)"
    proof -
      from that listed obtain i where "ID (Name (en_id ctx)) = Some i" by (auto simp: list_all_iff)
      then show ?thesis using Name_ID [of "Name (en_id ctx)" i] Name_inj by auto
    qed
    then show ?thesis using no_ids [OF sel(1)] listed assms(10) by auto
  qed
  finally have named: "enter_selected abi ctx s \<longleftrightarrow> named" .
  have "follow_forks abi \<noteq> 0 \<longleftrightarrow> pf_followForks flags" using res(3) sel(4) by simp
  then have tracked: "enter_tracked abi k ctx s \<longleftrightarrow> target_pids s (cur_tgid k) \<noteq> None \<and>
      (named \<or> pf_followForks flags \<and> creates_process abi k (en_id ctx) (replicate 6 0))"
    by (auto simp: enter_tracked_def named should_track_unselected_syscall_def process_clone_iff zero_syscall_data_def)
  have "\<exists>st. inflight_syscalls (trace_sys_enter abi k ctx s) (cur_tid k) = Some st \<and>
      sd_syscall_id st = en_id ctx \<and> sd_args st = en_args ctx \<and> (sd_selected st \<noteq> 0 \<longleftrightarrow> named)"
    if "enter_tracked abi k ctx s"
    using enter_inflight [OF that assms(9)] assms(8) named by (simp add: enter_data_def [THEN arg_cong [where f = sd_selected]])
  moreover have "dom (target_pids s0) = set tgids" using res(2) by (auto simp: dom_def split: if_splits)
  ultimately show ?thesis using tracked enter_untracked [of abi k ctx s] res(1) by auto
qed

lemma named_calls_selected_witness:
  "\<exists>c steps h abi s. ParseArgs (demo_cli (demo_flags [go_text ''trace=read''] [] [[97]])) [] [] = Inr c \<and>
     NewHandle demo_links demo_collection demo_abi [100] \<lparr>hc_FollowForks = FollowForks (Trace c), hc_TraceSyscallIDs = [NR_read]\<rparr> =
       (steps, Inr (h, abi, s)) \<and>
     inflight_syscalls (trace_sys_enter abi (demo_kernel 100 2) (demo_enter NR_read [3, 0, 0, 0, 0, 0]) s) 100 \<noteq> None \<and>
     trace_sys_enter abi (demo_kernel 100 2) (demo_enter NR_write [3, 0, 0, 0, 0, 0]) s = s"
proof -
  let ?flags = "demo_flags [go_text ''trace=read''] [] [[97]]" and ?k = "demo_kernel 100 2"
  let ?read = "demo_enter NR_read [3, 0, 0, 0, 0, 0]" and ?other = "demo_enter NR_write [3, 0, 0, 0, 0, 0]"
  obtain c where c: "ParseArgs (demo_cli ?flags) [] [] = Inr c" "handleTraceSyscallIDs (Trace c) = {NR_read}"
    by (simp add: ParseArgs_def demo_cli_def demo_flags_def demo_trace_ids parseAttachExpressions_def
        parseTracePaths_def handleTraceSyscallIDs_def)
  obtain steps h abi s where n: "NewHandle demo_links demo_collection demo_abi [100]
      \<lparr>hc_FollowForks = FollowForks (Trace c), hc_TraceSyscallIDs = [NR_read]\<rparr> = (steps, Inr (h, abi, s))"
    using demo_new_handle by blast
  have flags: "flag_parse (demo_cli ?flags) [] = Inr ?flags" "tracePaths ?flags = []"
    "set [NR_read] = handleTraceSyscallIDs (Trace c)"
    using c(2) by (simp_all add: demo_cli_def demo_flags_def)
  note sel = named_calls_selected [OF c(1) flags n reachable.start _ _ demo_kernel_simps(4)]
  have small: "small_id (en_id ?read)" "small_id (en_id ?other)" and six: "length (en_args ?read) = 6" "length (en_args ?other) = 6"
    by (simp_all add: small_id_def demo_enter_def)
  have named: "Name (en_id ?read) \<in> set (listed_names (traceExpressions ?flags) (traceSelectors ?flags))"
    "\<not> (traceExpressions ?flags = [] \<and> traceSelectors ?flags = [] \<or>
       Name (en_id ?other) \<in> set (listed_names (traceExpressions ?flags) (traceSelectors ?flags)))"
    using go_text_inj [of "''write''" "''read''"] by (auto simp: demo_flags_def demo_enter_def demo_expression(2) demo_names_of_calls)
  have target: "target_pids s (cur_tgid ?k) \<noteq> None"
    using sel [OF small(1) six(1) refl] by auto
  have "inflight_syscalls (trace_sys_enter abi ?k ?read s) 100 \<noteq> None"
    using sel [OF small(1) six(1) refl, of 100 2] named(1) target by (auto split: if_splits)
  moreover have "\<not> creates_process abi ?k (en_id ?other) (replicate 6 0)"
    by (simp add: creates_process_def demo_enter_def)
  then have "trace_sys_enter abi ?k ?other s = s"
    using sel [OF small(2) six(2) refl, of 100 2] named(2) by (auto split: if_splits)
  ultimately show ?thesis using c(1) n by blast
qed

text \<open>
  C31. The option \<open>-p\<close>: the processes are the numbers in the lists, in the order of
  their first mention, positive and each once; when all of them can be probed, the
  loader makes exactly them the targets, as 32-bit numbers, and a single one is the
  process whose main thread is printed without a prefix.
\<close>

theorem attached_processes_targeted:
  assumes "ParseArgs cli exeName args = Inr c" and "flag_parse cli args = Inr flags"
    and "AttachPIDs (Trace c) \<noteq> []"
    and "prepareTargetMode kill la (Trace c) = Inr (mode, rootTGID, targets)"
    and "NewHandle ans col abi0 targets hc = (steps, Inr (h, abi, s0))"
  shows "AttachPIDs (Trace c) =
      firsts (map (\<lambda>t. the (pid_of t)) (concat (map (\<lambda>e. Split e comma) (attachExpressions flags)))) \<and>
    distinct (AttachPIDs (Trace c)) \<and> list_all (\<lambda>p. 0 < p) (AttachPIDs (Trace c)) \<and>
    pf_args flags = [] \<and> dom (target_pids s0) = of_int ` set (AttachPIDs (Trace c)) \<and>
    rootTGID = (if length (AttachPIDs (Trace c)) = 1 then of_int (hd (AttachPIDs (Trace c))) else 0)"
proof -
  define pids where "pids = AttachPIDs (Trace c)"
  note parsed = ParseArgs_result [OF assms(1,2), folded pids_def]
  note iff = parseAttachExpressions_iff [THEN iffD1, OF parsed(2)]
  let ?ts = "concat (map (\<lambda>e. Split e comma) (attachExpressions flags))"
  have members: "set pids = (\<lambda>t. the (pid_of t)) ` set ?ts"
    using iff firsts_facts(2) [of "map (\<lambda>t. the (pid_of t)) ?ts"] by simp
  have "0 < the (pid_of t)" if "t \<in> set ?ts" for t
  proof -
    have "pid_of t \<noteq> None" using iff that unfolding list_all_iff by blast
    then show ?thesis using pid_of_range by auto
  qed
  then have pos: "list_all (\<lambda>p. 0 < p) pids" unfolding list_all_iff members by blast
  note mode = prepareTargetMode_result [OF assms(4), folded pids_def]
  have nonempty: "pids \<noteq> []" using assms(3) by (simp add: pids_def)
  have targets: "targets = map of_int pids" using mode(3) nonempty by (simp add: traceTargetTGIDs_def)
  have "dom (target_pids s0) = set targets"
    using applyConfig_result(2) [OF NewHandle_success(4) [OF assms(5)]] by (auto simp: dom_def split: if_splits)
  moreover have "rootTGID = (if length pids = 1 then of_int (hd pids) else 0)"
    using mode(4) nonempty by (cases pids) (auto simp: rootTracePID_def)
  moreover have "distinct pids" using iff firsts_facts(1) by metis
  ultimately show ?thesis using parsed(7) [OF nonempty] pos iff targets unfolding pids_def by simp
qed

lemma attached_processes_targeted_witness:
  "\<exists>c steps h abi s. ParseArgs (demo_cli (demo_flags [] [go_text ''7,100,7''] [])) [] [] = Inr c \<and>
     AttachPIDs (Trace c) = [7, 100] \<and>
     NewHandle demo_links demo_collection demo_abi [7, 100] \<lparr>hc_FollowForks = True, hc_TraceSyscallIDs = []\<rparr> =
       (steps, Inr (h, abi, s)) \<and> dom (target_pids s) = {7, 100}"
proof -
  let ?flags = "demo_flags [] [go_text ''7,100,7''] []" and ?hc = "\<lparr>hc_FollowForks = True, hc_TraceSyscallIDs = []\<rparr>"
  have tokens: "Split (go_text ''7,100,7'') comma = [fmt_d 7, fmt_d 100, fmt_d 7]"
    by (simp add: fmt_d_def fmt_u_def digits.simps lowerhex_def byte_text_def go_text_def ascii_def)
  have pids: "pid_of (fmt_d 7) = Some 7" "pid_of (fmt_d 100) = Some 100" by (simp_all add: pid_of_fmt_d)
  have list: "parseAttachExpressions [go_text ''7,100,7''] = Inr [7, 100]"
    unfolding parseAttachExpressions_iff by (simp add: tokens pids firsts_def) (simp add: go_text_def ascii_def)
  obtain c where c: "ParseArgs (demo_cli ?flags) [] [] = Inr c" "AttachPIDs (Trace c) = [7, 100]"
    by (simp add: ParseArgs_def demo_cli_def demo_flags_def demo_no_ids list parseTracePaths_def)
  have mode: "prepareTargetMode (\<lambda>_. Kill_ok) \<lparr>la_start = Inl [], la_wait4 = Inl []\<rparr> (Trace c) =
      Inr (\<lparr>launchPID = 0, attachPIDs = [7, 100]\<rparr>, 0, [7, 100])"
    using c(2) by (simp add: prepareTargetMode_def rootTracePID_def traceTargetTGIDs_def)
  obtain steps h abi s where n: "NewHandle demo_links demo_collection demo_abi [7, 100] ?hc = (steps, Inr (h, abi, s))"
    using demo_new_handle by blast
  have flags: "flag_parse (demo_cli ?flags) [] = Inr ?flags" "AttachPIDs (Trace c) \<noteq> []"
    using c(2) by (simp_all add: demo_cli_def)
  from attached_processes_targeted [OF c(1) flags mode n] show ?thesis
    using c n by auto
qed

text \<open>A number that does not fit in 32 bits is accepted, and stands for another process.\<close>

lemma wide_pid_wraps:
  "parseAttachExpressions [go_text ''4294967297''] = Inr [4294967297] \<and> traceTargetTGIDs [4294967297] 0 = [1]"
proof -
  have number: "go_text ''4294967297'' = fmt_d 4294967297"
    by (simp add: fmt_d_def fmt_u_def digits.simps lowerhex_def byte_text_def go_text_def ascii_def)
  have one: "Split (go_text ''4294967297'') comma = [go_text ''4294967297'']"
    by (rule Split_plain) (simp add: go_text_def ascii_def)
  have "pid_of (go_text ''4294967297'') = Some 4294967297" unfolding number by (rule pid_of_fmt_d) simp_all
  moreover have "go_text ''4294967297'' \<noteq> []" by (simp add: go_text_def ascii_def)
  ultimately have "parseAttachExpressions [go_text ''4294967297''] = Inr [4294967297]"
    unfolding parseAttachExpressions_iff by (simp add: one firsts_def)
  moreover have "traceTargetTGIDs [4294967297] 0 = [1]" by (simp add: traceTargetTGIDs_def)
  ultimately show ?thesis by blast
qed

end
