(* ===== verification/Run_Properties.thy ===== *)
theory Run_Properties
  imports Program_Properties
begin

text \<open>
  The properties of a whole run: what is released, which errors can still come up, what
  is written and with which status the program ends, and what the summary shows.
\<close>

section \<open>Resources\<close>

text \<open>
  C38. What \<open>NewHandle\<close> opens is released: when it fails, nothing stays open, except that
  the loaded objects do when a map could not be filled; when it succeeds, everything is
  open and \<open>Close\<close> releases each once, in the opposite order.
\<close>

theorem handle_releases_resources:
  assumes "NewHandle ans col abi tgids cfg = (steps, res)"
  shows "case res of
      Inl err \<Rightarrow> still_open steps [] =
        (if err = Load_objects Filter_failed \<or> err = Load_objects Pid_failed then [Objects] else [])
    | Inr (h, result) \<Rightarrow> steps = map Opened [Objects, Enter_link, Exit_link, Sched_link, Ring_reader] \<and>
        fst (Close ans h) = map Closed [Ring_reader, Sched_link, Exit_link, Enter_link, Objects] \<and>
        still_open (steps @ fst (Close ans h)) [] = []"
proof (cases res)
  case (Inl err)
  then show ?thesis using NewHandle_failure assms by simp
next
  case (Inr pair)
  obtain h result where "pair = (h, result)" by (cases pair)
  with Inr assms NewHandle_success(1,2) [of ans col abi tgids cfg steps h result] show ?thesis by simp
qed

lemma handle_releases_resources_witness:
  "still_open (fst (NewHandle (demo_links\<lparr>opens_ok := (\<lambda>r. r \<noteq> Sched_link)\<rparr>) demo_collection demo_abi [100]
     \<lparr>hc_FollowForks = False, hc_TraceSyscallIDs = []\<rparr>)) [] = []"
proof -
  let ?n = "NewHandle (demo_links\<lparr>opens_ok := (\<lambda>r. r \<noteq> Sched_link)\<rparr>) demo_collection demo_abi [100]
     \<lparr>hc_FollowForks = False, hc_TraceSyscallIDs = []\<rparr>"
  have "?n = (fst ?n, Inl Attach_sched)"
    by (simp add: NewHandle_def failed_handle_def applyConfig_def demo_collection_def demo_links_def)
  from handle_releases_resources [OF this] show ?thesis by simp
qed

section \<open>The run\<close>

text \<open>A run of the witnesses: one open call of the child is traced, then the child exits with 3.\<close>

definition demo_env :: run_env where
  "demo_env = \<lparr>re_kill = (\<lambda>_. Kill_ok), re_launch = \<lparr>la_start = Inr 100, la_wait4 = Inr 0x57F\<rparr>, re_links = demo_links,
     re_collection = demo_collection, re_abi = demo_abi, re_ids = (\<lambda>_. []), re_detach = None,
     re_reads = [(no_links, Record (event_bytes demo_open))], re_attach_status = 0,
     re_child = \<lparr>cw_Err = None, cw_Status = exit_status 3, cw_HasStatus = True\<rparr>,
     re_entries = (\<lambda>m. map (\<lambda>i. (i, the (m i))) (sorted_list_of_set (dom m))), re_sort = sort_rows,
     re_errno = demo_errno, re_signal_names = (\<lambda>_. [])\<rparr>"

definition demo_program :: "bool \<Rightarrow> Config" where
  "demo_program summary = \<lparr>ProgramName = [97], ProgramPath = [97], ProgramArgs = [], AttachPIDs = [],
     FollowForks = True, SummaryOnly = summary, TraceSyscallIDs = {}, TracePaths = []\<rparr>"

text \<open>
  A command line that is not accepted ends the program with status 1 before anything
  is traced or written; one that is accepted never runs into the checks of \<open>Run\<close> on its
  configuration, given that \<open>LookPath\<close> finds no empty path.
\<close>

theorem accepted_command_lines_run:
  assumes "\<And>p q. look_path cli p = Some q \<Longrightarrow> q \<noteq> []"
  shows "case ParseArgs cli exeName args of
      Inl err \<Rightarrow> main cli creates env exeName args = Some ([], [Exit_with 1])
    | Inr c \<Rightarrow> pred_option (\<lambda>r. rr_result r \<notin> {Inl Writer_required, Inl Mixed_targets, Inl No_target})
        (Run env True (Trace c))"
proof (cases "ParseArgs cli exeName args")
  case (Inl err)
  then show ?thesis by (simp add: main_def)
next
  case (Inr c)
  obtain flags where flags: "flag_parse cli args = Inr flags"
    using Inr by (auto simp: ParseArgs_def split: sum.splits)
  note parsed = ParseArgs_result(7,8) [OF Inr flags]
  have mode: "(AttachPIDs (Trace c) = []) \<longleftrightarrow> ProgramPath (Trace c) \<noteq> []"
    using parsed assms by blast
  have finish: "snd (finish_run env cfg m st) \<notin> {Inl Writer_required, Inl Mixed_targets, Inl No_target}" for cfg m st
    by (auto simp: finish_run_def Let_def split: option.split wait_error.split)
  show ?thesis
    using Inr mode finish
    by (auto simp: Run_def Let_def stopped_early_def pred_option_def split: sum.splits prod.splits if_splits)
      (metis snd_conv insertCI)+
qed

lemma accepted_command_lines_run_witness:
  "main (demo_cli (demo_flags [] [] [])) (\<lambda>_. True) demo_env [108] [] = Some ([], [Exit_with 1])"
proof -
  let ?cli = "demo_cli (demo_flags [] [] [])"
  have usage: "ParseArgs ?cli [108] [] = Inl (Usage [108])"
    by (simp add: ParseArgs_def demo_cli_def demo_flags_def demo_no_ids parseAttachExpressions_def parseTracePaths_def)
  have "\<And>p q. look_path ?cli p = Some q \<Longrightarrow> q \<noteq> []" by (auto simp: demo_cli_def split: if_splits)
  from accepted_command_lines_run [where cli = ?cli, OF this, where exeName = "[108]" and args = "[]" and creates = "\<lambda>_. True" and env = demo_env] usage show ?thesis by simp
qed

text \<open>The line at the end, when the child has exited.\<close>

lemma exit_line: "code < 256 \<Longrightarrow> FormatExitLine names (exit_status code) =
    go_text ''+++ exited with '' @ fmt_u code @ go_text '' +++'' \<and>
  exitWithWaitStatus (exit_status code) = [Exit_with (int code)]"
  using exit_status_back [of code] by (simp add: FormatExitLine_def exitWithWaitStatus_def fmt_d_def)

lemma exit_line_printable:
  assumes "\<And>sig. printable_text (names sig)"
  shows "printable_text (FormatExitLine names ws)"
  using assms by (simp add: FormatExitLine_def signalName_def go_text_printable printable_def)

text \<open>
  C7. A program that is launched and traced to its end, without \<open>-c\<close> and with nothing
  failing when the programs are closed: the trace output is, line by line, the rendering
  of the events that the loop has let through, in order, and then one line with the way
  the child has ended; litrace ends the way the child did, with its exit code, if it has
  exited, as its own.
\<close>

theorem launched_program_traced:
  assumes "ParseArgs cli exeName args = Inr c" and "AttachPIDs (Trace c) = []"
    and "TraceOutputPath c = [] \<or> creates (TraceOutputPath c)"
    and "errno_ok (re_errno env)" and "\<And>sig. printable_text (re_signal_names env sig)"
    and "Run env True (Trace c) = Some r" and "rr_result r = Inr ws" and "rr_close_errors r = []"
    and "\<not> SummaryOnly (Trace c)"
  shows "main cli creates env exeName args = Some (rr_output r, exitWithWaitStatus ws) \<and>
    ws = cw_Status (re_child env) \<and>
    (\<exists>pid ls. la_start (re_launch env) = Inr pid \<and>
      list_all2 (\<lambda>ev l. FormatOutputLine (re_errno env) ev (of_int pid) = Some l)
        (rs_lines (run_loop (Trace c) (re_reads env) (start_loop (Trace c)))) ls \<and>
      lines_of (rr_output r) = ls @ [FormatExitLine (re_signal_names env) ws]) \<and>
    (\<forall>code < 256. ws = exit_status code \<longrightarrow> exitWithWaitStatus ws = [Exit_with (int code)] \<and>
      FormatExitLine (re_signal_names env) ws = go_text ''+++ exited with '' @ fmt_u code @ go_text '' +++'')"
proof -
  let ?cfg = "Trace c" and ?names = "re_signal_names env"
  let ?st = "run_loop ?cfg (re_reads env) (start_loop ?cfg)"
  obtain mode g targets where mode: "prepareTargetMode (re_kill env) (re_launch env) ?cfg = Inr (mode, g, targets)"
    using assms(6,7) by (auto simp: Run_def stopped_early_def split: if_splits sum.splits)
  obtain pid where pid: "la_start (re_launch env) = Inr pid" "g = of_int pid" "\<not> isAttach mode"
    using mode assms(2)
    by (auto simp: prepareTargetMode_def startLaunchTrace_def rootTracePID_def isAttach_def split: sum.splits if_splits)
  obtain t ls where t: "event_lines (re_errno env) g (rs_lines ?st) = Some t"
      "list_all2 (\<lambda>ev l. FormatOutputLine (re_errno env) ev g = Some l) (rs_lines ?st) ls"
      "\<And>rest. lines_of (t @ rest) = ls @ lines_of rest"
    using event_lines_result [OF assms(4), of g "rs_lines ?st"] by blast
  have run: "ws = cw_Status (re_child env) \<and> rr_output r = t @ FormatExitLine ?names ws @ [newline]"
    using assms(2,6,7,9) mode pid(3) t(1)
    by (auto simp: Run_def Let_def stopped_early_def finish_run_def
        split: if_splits sum.splits prod.splits option.splits wait_error.splits)
  have "lines_of (FormatExitLine ?names ws @ [newline]) = [FormatExitLine ?names ws]"
    using lines_of_line [OF printable_no_newline [OF exit_line_printable], of ?names ws "[]"] assms(5) by simp
  then have "lines_of (rr_output r) = ls @ [FormatExitLine ?names ws]" using run t(3) by simp
  moreover have "main cli creates env exeName args = Some (rr_output r, exitWithWaitStatus ws)"
    using assms(1,3,6-8) by (auto simp: main_def main_exit_def)
  ultimately show ?thesis using run pid(1,2) t(2) exit_line by auto
qed

lemma demo_env_result:
  "\<exists>r. Run demo_env True (demo_program b) = Some r \<and> rr_result r = Inr (exit_status 3) \<and> rr_close_errors r = []"
proof -
  have errno: "errno_ok (re_errno demo_env)" by (simp add: demo_env_def demo_errno_ok)
  obtain r where r: "Run demo_env True (demo_program b) = Some r" using Run_ends [OF errno] by blast
  obtain steps h abi s where n: "NewHandle demo_links demo_collection demo_abi [100]
      \<lparr>hc_FollowForks = True, hc_TraceSyscallIDs = []\<rparr> = (steps, Inr (h, abi, s))"
    using demo_new_handle by blast
  have "snd (Close demo_links h) = []" using NewHandle_success(3) [OF n] by (simp add: demo_links_def)
  then show ?thesis
    using r n by (auto simp: Run_def demo_env_def demo_program_def prepareTargetMode_def startLaunchTrace_def
        traceTargetTGIDs_def rootTracePID_def Stopped_def StopSignal_def isAttach_def finish_run_def Let_def)
qed

lemma demo_env_lines:
  assumes "TracePaths cfg = []" and "\<not> SummaryOnly cfg"
  shows "rs_lines (run_loop cfg (re_reads demo_env) (start_loop cfg)) = [demo_open]"
proof -
  have "event_shape demo_open" by (simp add: demo_open_def demo_event_def stale_event_def event_shape_def)
  then have "DecodeEvent (event_bytes demo_open) = Some demo_open" using decode_event_bytes [of demo_open "[]"] by simp
  then have "decoded (re_reads demo_env) = [(no_links, demo_open)]" by (simp add: demo_env_def)
  moreover have "\<not> pathFilterMode (newPathFilter cfg)" using assms(1) by (simp add: newPathFilter_def)
  ultimately have "printed filter_step (decoded (re_reads demo_env)) (newPathFilter cfg) = [(no_links, demo_open)]"
    by (metis printed_inactive)
  then show ?thesis using assms(2) by (simp add: run_loop_start)
qed

lemma launched_program_traced_witness:
  "\<exists>out l. main (demo_cli (demo_flags [] [] [[97]])) (\<lambda>_. True) demo_env [] [] = Some (out, [Exit_with 3]) \<and>
     FormatOutputLine demo_errno demo_open 100 = Some l \<and> lines_of out = [l, go_text ''+++ exited with 3 +++'']"
proof -
  let ?cli = "demo_cli (demo_flags [] [] [[97]])"
  have "ParseArgs ?cli [] [] = Inr \<lparr>TraceOutputPath = [], Trace = demo_program False\<rparr>"
    by (simp add: ParseArgs_def demo_cli_def demo_flags_def demo_no_ids parseAttachExpressions_def
        parseTracePaths_def demo_program_def)
  then obtain c where c: "ParseArgs ?cli [] [] = Inr c" "TraceOutputPath c = []" "Trace c = demo_program False"
    by (metis cli_config.select_convs)
  have cfg: "AttachPIDs (Trace c) = []" "TracePaths (Trace c) = []" "\<not> SummaryOnly (Trace c)"
    using c(3) by (simp_all add: demo_program_def)
  have env: "errno_ok (re_errno demo_env)" "printable_text (re_signal_names demo_env sig)"
    "re_errno demo_env = demo_errno" "la_start (re_launch demo_env) = Inr 100" for sig
    by (simp_all add: demo_env_def demo_errno_ok printable_text_def)
  obtain r where r: "Run demo_env True (Trace c) = Some r" "rr_result r = Inr (exit_status 3)" "rr_close_errors r = []"
    using demo_env_result [of False] c(3) by auto
  note traced = launched_program_traced [where creates = "\<lambda>_. True", OF c(1) cfg(1) disjI1 [OF c(2)] env(1,2) r cfg(3)]
  have three: "fmt_u 3 = go_text ''3''" by (simp add: fmt_u_def digits.simps lowerhex_def byte_text_def go_text_def ascii_def)
  have status: "exitWithWaitStatus (exit_status 3) = [Exit_with 3]"
    "FormatExitLine (re_signal_names demo_env) (exit_status 3) = go_text ''+++ exited with 3 +++''"
    using exit_line [of 3] three by (simp_all add: go_text_def ascii_def)
  show ?thesis
    using traced unfolding demo_env_lines [OF cfg(2,3)] env(3,4) status by (auto simp: list_all2_Cons1)
qed

section \<open>The summary\<close>

text \<open>Any order in which Go may go through the entries of a map.\<close>

definition map_order :: "((s64 \<rightharpoonup> syscallSummary) \<Rightarrow> (s64 \<times> syscallSummary) list) \<Rightarrow> bool" where
  "map_order entries_of \<longleftrightarrow>
     (\<forall>m. finite (dom m) \<longrightarrow> distinct (map fst (entries_of m)) \<and> map_of (entries_of m) = m)"

text \<open>The row of a call for the events that are counted.\<close>

definition counted_row :: "event list \<Rightarrow> s64 \<Rightarrow> SummaryRow" where
  "counted_row evs nr =
     (let es = filter (\<lambda>e. ev_syscall_id e = nr) evs in
      \<lparr>Row_Syscall = Name nr, Row_Calls = of_nat (length es),
       Row_Errors = of_nat (length (filter (\<lambda>e. sint (ev_ret e) < 0) es)), Row_TotalNs = sum_list (map ev_dur es)\<rparr>)"

lemma tally_rows:
  assumes "distinct (map fst es)" and "map_of es = tally evs"
  shows "set (map row_of es) = counted_row evs ` ev_syscall_id ` set evs"
proof -
  have "row_of e = counted_row evs (fst e) \<and> fst e \<in> ev_syscall_id ` set evs" if "e \<in> set es" for e
  proof -
    obtain nr st where e: "e = (nr, st)" by (cases e)
    have "tally evs nr = Some st" using assms that e by (metis map_of_eq_Some_iff)
    then show ?thesis
      by (auto simp: e tally_def counted_row_def row_of_def Let_def filter_empty_conv split: if_splits)
  qed
  moreover have "nr \<in> fst ` set es" if "nr \<in> ev_syscall_id ` set evs" for nr
  proof -
    have "tally evs nr \<noteq> None" using that by (auto simp: tally_def Let_def filter_empty_conv)
    then show ?thesis using assms(2) by (metis map_of_eq_None_iff)
  qed
  ultimately show ?thesis by (auto simp: image_iff) metis+
qed

text \<open>
  C33. With the option for the summary, the output of a run is one table, whatever the
  order of the map and however the sort treats equal rows: the events that the same run
  would have printed without the option, counted by call, one row for each call in
  order of its time and then its name, and their totals.
\<close>

theorem summary_table:
  assumes "Run env True cfg = Some r" and "rr_result r = Inr ws" and "SummaryOnly cfg"
    and "map_order (re_entries env)" and "slice_sort row_less (re_sort env)"
  shows "let lines = rs_lines (run_loop (cfg\<lparr>SummaryOnly := False\<rparr>) (re_reads env) (start_loop (cfg\<lparr>SummaryOnly := False\<rparr>)))
    in \<exists>rows. sorted_wrt row_less rows \<and> set rows = counted_row lines ` ev_syscall_id ` set lines \<and>
      rr_output r = table_text rows (of_nat (length lines))
        (of_nat (length (filter (\<lambda>e. sint (ev_ret e) < 0) lines))) (sum_list (map ev_dur lines))"
proof -
  define lines where
    "lines = rs_lines (run_loop (cfg\<lparr>SummaryOnly := False\<rparr>) (re_reads env) (start_loop (cfg\<lparr>SummaryOnly := False\<rparr>)))"
  let ?st = "run_loop cfg (re_reads env) (start_loop cfg)"
  have "newPathFilter (cfg\<lparr>SummaryOnly := False\<rparr>) = newPathFilter cfg" by (simp add: newPathFilter_def)
  then have lines: "lines = map snd (printed filter_step (decoded (re_reads env)) (newPathFilter cfg))"
    by (simp add: lines_def run_loop_start)
  have st: "rs_lines ?st = []" "rs_summary ?st = tally lines"
    using assms(3) by (simp_all add: run_loop_start lines)
  define es where "es = re_entries env (tally lines)"
  have "finite (dom (tally lines))"
    by (rule finite_subset [of _ "ev_syscall_id ` set lines"]) (auto simp: tally_def Let_def dom_def filter_empty_conv)
  then have es: "distinct (map fst es)" "map_of es = tally lines" using assms(4) by (auto simp: map_order_def es_def)
  have "rr_output r = FormatSummary (re_sort env) es"
    using assms(1-3) st
    by (auto simp: Run_def Let_def stopped_early_def finish_run_def es_def
        split: if_splits sum.splits prod.splits option.splits wait_error.splits)
  also have "\<dots> = table_text (sort_rows (map row_of es)) (of_nat (length lines))
      (of_nat (length (filter (\<lambda>e. sint (ev_ret e) < 0) lines))) (sum_list (map ev_dur lines))"
    unfolding FormatSummary_text [OF assms(5) es(1) refl] tally_totals [OF es] ..
  finally have out: "rr_output r = table_text (sort_rows (map row_of es)) (of_nat (length lines))
      (of_nat (length (filter (\<lambda>e. sint (ev_ret e) < 0) lines))) (sum_list (map ev_dur lines))" .
  have "set (sort_rows (map row_of es)) = counted_row lines ` ev_syscall_id ` set lines"
    using mset_eq_setD [OF rows.srt_mset] tally_rows [OF es] by metis
  with out sort_rows_strict [OF es(1)] show ?thesis unfolding lines_def [symmetric] Let_def by blast
qed

lemma demo_map_order: "map_order (re_entries demo_env)"
proof -
  have "map_of (map (\<lambda>i. (i, the (m i))) (sorted_list_of_set (dom m))) = m" if "finite (dom m)" for m :: "s64 \<rightharpoonup> syscallSummary"
    using that by (auto simp: fun_eq_iff map_of_map_restrict restrict_map_def) (metis domIff option.collapse)
  then show ?thesis by (simp add: map_order_def demo_env_def comp_def)
qed

lemma summary_table_witness:
  "\<exists>r. Run demo_env True (demo_program True) = Some r \<and>
     rr_output r = table_text [\<lparr>Row_Syscall = Name NR_open, Row_Calls = 1, Row_Errors = 0, Row_TotalNs = ev_dur demo_open\<rparr>]
       1 0 (ev_dur demo_open)"
proof -
  obtain r where r: "Run demo_env True (demo_program True) = Some r" "rr_result r = Inr (exit_status 3)"
    using demo_env_result by blast
  have cfg: "SummaryOnly (demo_program True)" "TracePaths ((demo_program True)\<lparr>SummaryOnly := False\<rparr>) = []"
    "\<not> SummaryOnly ((demo_program True)\<lparr>SummaryOnly := False\<rparr>)"
    by (simp_all add: demo_program_def)
  have "slice_sort row_less (re_sort demo_env)" by (simp add: demo_env_def rows.slice_sort_axioms)
  note t = summary_table [OF r cfg(1) demo_map_order this]
  have one: "counted_row [demo_open] NR_open =
      \<lparr>Row_Syscall = Name NR_open, Row_Calls = 1, Row_Errors = 0, Row_TotalNs = ev_dur demo_open\<rparr>"
    "ev_syscall_id demo_open = NR_open" "\<not> sint (ev_ret demo_open) < 0"
    by (simp_all add: counted_row_def demo_open_def demo_event_def)
  obtain rows where rows: "sorted_wrt row_less rows" "set rows = {counted_row [demo_open] NR_open}"
    "rr_output r = table_text rows 1 0 (ev_dur demo_open)"
    using t unfolding demo_env_lines [OF cfg(2,3)] by (auto simp: Let_def one(2,3))
  have "rows = [counted_row [demo_open] NR_open]"
    using rows(1,2) by (cases rows; cases "tl rows") (auto simp: row_less_def)
  then show ?thesis using r(1) rows(3) one(1) by metis
qed

text \<open>A number of hundredths or millionths, in decimals.\<close>

definition decimal :: "nat \<Rightarrow> nat \<Rightarrow> gostring" where
  "decimal prec n = fmt_u (n div 10 ^ prec) @ go_text ''.'' @ zeros_left prec (fmt_u (n mod 10 ^ prec))"

text \<open>
  C34. A row of the table shows, right-aligned, the share of the time in per cent to
  within 0.50101 hundredths, the seconds to within 503 ns, the microseconds of a call as
  the integer quotient, zero without calls, and the counters, however the conversions to
  \<open>float64\<close> round, and the whole as 100.00: for a total that is not zero and is below
  2^53 ns (104 days).
\<close>

theorem summary_accuracy:
  assumes "unat ns \<le> unat all" and "0 < unat all" and "unat all < 2 ^ 53"
  shows "(\<exists>p s. table_row ns all calls errors name =
      pad_left 6 (decimal 2 p) @ [32] @ pad_left 11 (decimal 6 s) @ [32] @
      pad_left 11 (fmt_u (unat ns div 1000 div unat calls)) @ [32] @
      pad_left 9 (fmt_u (unat calls)) @ [32] @ pad_left 9 (fmt_u (unat errors)) @ [32] @ name @ [10] \<and>
      \<bar>real p - 10000 * real (unat ns) / real (unat all)\<bar> \<le> 501 / 1000 \<and> \<bar>real s * 1000 - real (unat ns)\<bar> \<le> 503) \<and>
    fmt_f 2 (summaryPercent all all) = go_text ''100.00''"
proof -
  have units: "fmt_f prec x = decimal prec (printed_units prec x)" for prec x
    by (simp add: fmt_f_units decimal_def)
  have "unat (summaryUsecsPerCall ns calls) = unat ns div 1000 div unat calls"
    by (simp add: summaryUsecsPerCall_def unat_div_distrib del: of_nat_unat)
  moreover have "unat ns < 2 ^ 53" using assms(1,3) by simp
  ultimately show ?thesis
    using percent_error [OF assms(2,1)] seconds_error [of ns] whole_percent [OF assms(2)]
    by (intro conjI exI [of _ "printed_units 2 (summaryPercent ns all)"] exI [of _ "printed_units 6 (seconds ns)"])
      (simp_all add: table_row_def units)
qed

lemma summary_accuracy_witness:
  "\<exists>p s. table_row 9000 27000 2 1 [] =
     pad_left 6 (decimal 2 p) @ [32] @ pad_left 11 (decimal 6 s) @ [32] @
     pad_left 11 (fmt_u 4) @ [32] @ pad_left 9 (fmt_u 2) @ [32] @ pad_left 9 (fmt_u 1) @ [32, 10] \<and>
     \<bar>real p - 10000 / 3\<bar> \<le> 501 / 1000 \<and> \<bar>real s * 1000 - 9000\<bar> \<le> 503"
  using summary_accuracy [of 9000 27000 2 1 "[]"] by simp

end
