(* ===== verification/Session.thy ===== *)
theory Session
  imports Run_Program
begin

text \<open>
  A run as its goroutines: the loop of \<open>Run\<close>, the goroutine of \<open>startLaunchWait\<close> that waits
  for the child, the one of \<open>startLaunchMonitor\<close> that forwards a signal, and the one of
  \<open>startAttachMonitor\<close>. They share the reader of the ring buffer, which each of them may
  close, and channels of capacity one. Any of them may take its next step at any time; the
  world sends samples and signals, lets reads fail and ends processes in between.
\<close>

section \<open>The loop and the reader\<close>

datatype 'r loop_pc = Reading | Awaiting | Got 'r

text \<open>
  \<open>reads\<close> is what the reader has returned so far, each result with the links in /proc at
  that time, and \<open>arrived\<close> the samples the kernel has submitted; \<open>ring\<close> are those that wait.
\<close>

record 'r loop_session =
  loop_at :: "'r loop_pc"
  loop_state :: run_state
  reads :: "(proc_links \<times> read_result) list"
  ring :: "u8 list list"
  arrived :: "u8 list list"
  reader_closed :: bool
  result_channel :: "'r option"
  signal_channel :: "received option"

text \<open>One result of the reader, handled by the body of the loop.\<close>

definition handle_read ::
  "Config \<Rightarrow> proc_links \<Rightarrow> read_result \<Rightarrow> ('r, 'z) loop_session_scheme \<Rightarrow> ('r, 'z) loop_session_scheme" where
  "handle_read cfg rl r s =
     s\<lparr>loop_state := run_loop cfg [(rl, r)] (loop_state s), reads := reads s @ [(rl, r)]\<rparr>"

text \<open>A closed reader may still return the samples that wait, or none.\<close>

inductive loop_step ::
  "Config \<Rightarrow> ('r, 'z) loop_session_scheme \<Rightarrow> ('r, 'z) loop_session_scheme \<Rightarrow> bool" for cfg where
  read_sample: "loop_at s = Reading \<Longrightarrow> ring s = raw # rest \<Longrightarrow>
     loop_step cfg s (handle_read cfg rl (Record raw) (s\<lparr>ring := rest\<rparr>))"
| read_closed: "loop_at s = Reading \<Longrightarrow> reader_closed s \<Longrightarrow>
     loop_step cfg s ((handle_read cfg rl Reader_closed s)\<lparr>loop_at := Awaiting\<rparr>)"
| receive: "loop_at s = Awaiting \<Longrightarrow> result_channel s = Some r \<Longrightarrow>
     loop_step cfg s (s\<lparr>loop_at := Got r, result_channel := None\<rparr>)"

inductive loop_world ::
  "Config \<Rightarrow> ('r, 'z) loop_session_scheme \<Rightarrow> ('r, 'z) loop_session_scheme \<Rightarrow> bool" for cfg where
  sample: "loop_world cfg s (s\<lparr>ring := ring s @ [raw], arrived := arrived s @ [raw]\<rparr>)"
| read_fails: "loop_at s = Reading \<Longrightarrow> loop_world cfg s (handle_read cfg rl Read_error s)"
| signal: "signal_channel s = None \<Longrightarrow> loop_world cfg s (s\<lparr>signal_channel := Some sig\<rparr>)"

section \<open>A launched program\<close>

datatype wait_pc = Waiting | Sending ChildWaitResult | Wait_closing | Wait_ended

datatype signal_pc = Listening | Forwarding received | Signal_closing | Signal_ended

record launch_session = "ChildWaitResult loop_session" +
  child_result :: "ChildWaitResult option"
  wait_at :: wait_pc
  signal_at :: signal_pc
  forwarded :: "u32 list"

definition launch_start :: "Config \<Rightarrow> launch_session" where
  "launch_start cfg =
     \<lparr>loop_at = Reading, loop_state = start_loop cfg, reads = [], ring = [], arrived = [], reader_closed = False,
      result_channel = None, signal_channel = None, child_result = None, wait_at = Waiting, signal_at = Listening,
      forwarded = []\<rparr>"

inductive launch_step :: "Config \<Rightarrow> launch_session \<Rightarrow> launch_session \<Rightarrow> bool" for cfg where
  loop: "loop_step cfg s s' \<Longrightarrow> launch_step cfg s s'"
| wait_returns: "wait_at s = Waiting \<Longrightarrow> child_result s = Some r \<Longrightarrow> launch_step cfg s (s\<lparr>wait_at := Sending r\<rparr>)"
| wait_sends: "wait_at s = Sending r \<Longrightarrow> result_channel s = None \<Longrightarrow>
     launch_step cfg s (s\<lparr>result_channel := Some r, wait_at := Wait_closing\<rparr>)"
| wait_closes: "wait_at s = Wait_closing \<Longrightarrow> launch_step cfg s (s\<lparr>reader_closed := True, wait_at := Wait_ended\<rparr>)"
| signal_received: "signal_at s = Listening \<Longrightarrow> signal_channel s = Some sig \<Longrightarrow>
     launch_step cfg s (s\<lparr>signal_channel := None, signal_at := Forwarding sig\<rparr>)"
| signal_forwarded: "signal_at s = Forwarding sig \<Longrightarrow>
     launch_step cfg s (s\<lparr>forwarded := forwarded s @ (case launch_monitor sig of None \<Rightarrow> [] | Some g \<Rightarrow> [g]),
                          signal_at := Signal_closing\<rparr>)"
| signal_closes: "signal_at s = Signal_closing \<Longrightarrow>
     launch_step cfg s (s\<lparr>reader_closed := True, signal_at := Signal_ended\<rparr>)"

inductive launch_world :: "Config \<Rightarrow> launch_session \<Rightarrow> launch_session \<Rightarrow> bool" for cfg where
  loop: "loop_world cfg s s' \<Longrightarrow> launch_world cfg s s'"
| child_exits: "child_result s = None \<Longrightarrow> launch_world cfg s (s\<lparr>child_result := Some r\<rparr>)"

section \<open>Attached processes\<close>

datatype attach_pc = Probing | Selecting "int \<Rightarrow> kill_answer" | Attach_sending u32 | Attach_closing | Attach_ended

text \<open>\<open>turns\<close> are the turns of the goroutine's loop so far: the answers to its probe and what it then received.\<close>

record attach_session = "u32 loop_session" +
  attach_at :: attach_pc
  turns :: "((int \<Rightarrow> kill_answer) \<times> received option) list"

definition attach_start :: "Config \<Rightarrow> attach_session" where
  "attach_start cfg =
     \<lparr>loop_at = Reading, loop_state = start_loop cfg, reads = [], ring = [], arrived = [], reader_closed = False,
      result_channel = None, signal_channel = None, attach_at = Probing, turns = []\<rparr>"

inductive attach_step :: "Config \<Rightarrow> attach_session \<Rightarrow> attach_session \<Rightarrow> bool" for cfg where
  loop: "loop_step cfg s s' \<Longrightarrow> attach_step cfg s s'"
| probe_alive: "attach_at s = Probing \<Longrightarrow> anyProcessAlive kill (AttachPIDs cfg) \<Longrightarrow>
     attach_step cfg s (s\<lparr>attach_at := Selecting kill\<rparr>)"
| probe_dead: "attach_at s = Probing \<Longrightarrow> \<not> anyProcessAlive kill (AttachPIDs cfg) \<Longrightarrow>
     attach_step cfg s (s\<lparr>attach_at := Attach_sending 0, turns := turns s @ [(kill, None)]\<rparr>)"
| signal_received: "attach_at s = Selecting kill \<Longrightarrow> signal_channel s = Some sig \<Longrightarrow>
     attach_step cfg s (s\<lparr>signal_channel := None, attach_at := Attach_sending (signalWaitStatus sig),
                          turns := turns s @ [(kill, Some sig)]\<rparr>)"
| attach_sends: "attach_at s = Attach_sending ws \<Longrightarrow> result_channel s = None \<Longrightarrow>
     attach_step cfg s (s\<lparr>result_channel := Some ws, attach_at := Attach_closing\<rparr>)"
| attach_closes: "attach_at s = Attach_closing \<Longrightarrow>
     attach_step cfg s (s\<lparr>reader_closed := True, attach_at := Attach_ended\<rparr>)"

inductive attach_world :: "Config \<Rightarrow> attach_session \<Rightarrow> attach_session \<Rightarrow> bool" for cfg where
  loop: "loop_world cfg s s' \<Longrightarrow> attach_world cfg s s'"
| tick: "attach_at s = Selecting kill \<Longrightarrow>
     attach_world cfg s (s\<lparr>attach_at := Probing, turns := turns s @ [(kill, None)]\<rparr>)"

section \<open>Runs\<close>

text \<open>The states after \<open>n\<close> steps of goroutines and \<open>m\<close> of the world, in any order.\<close>

inductive runs :: "('s \<Rightarrow> 's \<Rightarrow> bool) \<Rightarrow> ('s \<Rightarrow> 's \<Rightarrow> bool) \<Rightarrow> 's \<Rightarrow> nat \<Rightarrow> nat \<Rightarrow> 's \<Rightarrow> bool" for go world s0 where
  start: "runs go world s0 0 0 s0"
| go: "runs go world s0 n m s \<Longrightarrow> go s s' \<Longrightarrow> runs go world s0 (Suc n) m s'"
| world: "runs go world s0 n m s \<Longrightarrow> world s s' \<Longrightarrow> runs go world s0 n (Suc m) s'"

text \<open>
  Goroutines that have bounded work: each step uses some of it up, and a step of the
  world adds at most one unit.
\<close>

locale goroutines =
  fixes go world :: "'s \<Rightarrow> 's \<Rightarrow> bool" and s0 :: 's and good :: "'s \<Rightarrow> bool" and work :: "'s \<Rightarrow> nat"
  assumes good_start: "good s0"
    and good_go: "good s \<Longrightarrow> go s s' \<Longrightarrow> good s'"
    and good_world: "good s \<Longrightarrow> world s s' \<Longrightarrow> good s'"
    and work_go: "go s s' \<Longrightarrow> work s' < work s"
    and work_world: "world s s' \<Longrightarrow> work s' \<le> Suc (work s)"
begin

lemma good_runs: "runs go world s0 n m s \<Longrightarrow> good s"
  by (induction rule: runs.induct) (auto intro: good_start good_go good_world)

lemma steps_bounded: "runs go world s0 n m s \<Longrightarrow> n + work s \<le> m + work s0"
  by (induction rule: runs.induct) (auto dest!: work_go work_world)

end

section \<open>The loop\<close>

text \<open>The loop has handled what it has read, in the order in which it arrived.\<close>

definition loop_good :: "Config \<Rightarrow> ('r, 'z) loop_session_scheme \<Rightarrow> bool" where
  "loop_good cfg s \<longleftrightarrow>
     loop_state s = run_loop cfg (reads s) (start_loop cfg) \<and> arrived s = samples_of (reads s) @ ring s \<and>
     (loop_at s = Reading \<longrightarrow> list_all (\<lambda>r. snd r \<noteq> Reader_closed) (reads s)) \<and>
     (loop_at s \<noteq> Reading \<longrightarrow> reader_closed s)"

lemma run_loop_Cons:
  "snd x \<noteq> Reader_closed \<Longrightarrow> run_loop cfg (x # rs) st = run_loop cfg rs (run_loop cfg [x] st)"
  by (cases x; cases "snd x") (auto split: option.split prod.split bool.split)

lemma run_loop_snoc:
  "list_all (\<lambda>r. snd r \<noteq> Reader_closed) rs \<Longrightarrow> run_loop cfg (rs @ [r]) st = run_loop cfg [r] (run_loop cfg rs st)"
proof (induction rs arbitrary: st)
  case (Cons x rs)
  then show ?case using run_loop_Cons [of x cfg rs st] run_loop_Cons [of x cfg "rs @ [r]" st] by simp
qed simp

lemma samples_of_append: "samples_of (rs @ qs) = samples_of rs @ samples_of qs"
  by (induction rs rule: samples_of.induct) simp_all

lemma loop_good_start [simp]:
  "loop_good cfg (launch_start cfg)" "loop_good cfg (attach_start cfg)"
  by (simp_all add: loop_good_def launch_start_def attach_start_def)


lemma loop_good_cong:
  "loop_at s' = loop_at s \<Longrightarrow> loop_state s' = loop_state s \<Longrightarrow> reads s' = reads s \<Longrightarrow> ring s' = ring s \<Longrightarrow>
   arrived s' = arrived s \<Longrightarrow> (reader_closed s \<Longrightarrow> reader_closed s') \<Longrightarrow> loop_good cfg s \<Longrightarrow> loop_good cfg s'"
  by (auto simp: loop_good_def)

lemma loop_good_step: "loop_step cfg s s' \<Longrightarrow> loop_good cfg s \<Longrightarrow> loop_good cfg s'"
  by (cases rule: loop_step.cases)
    (auto simp: loop_good_def handle_read_def run_loop_snoc samples_of_append simp del: run_loop.simps(2-4))

lemma loop_good_world: "loop_world cfg s s' \<Longrightarrow> loop_good cfg s \<Longrightarrow> loop_good cfg s'"
  by (cases rule: loop_world.cases)
    (auto simp: loop_good_def handle_read_def run_loop_snoc samples_of_append simp del: run_loop.simps(2-4))

definition loop_work :: "('r, 'z) loop_session_scheme \<Rightarrow> nat" where
  "loop_work s = length (ring s) + (case loop_at s of Reading \<Rightarrow> 2 | Awaiting \<Rightarrow> 1 | Got r \<Rightarrow> 0)"

lemma loop_work_step: "loop_step cfg s s' \<Longrightarrow> loop_work s' < loop_work s"
  by (cases rule: loop_step.cases) (auto simp: loop_work_def handle_read_def)

lemma loop_work_world: "loop_world cfg s s' \<Longrightarrow> loop_work s' \<le> Suc (loop_work s)"
  by (cases rule: loop_world.cases) (auto simp: loop_work_def handle_read_def)

text \<open>A result is not there yet, or is on its way in the channel or in the loop.\<close>

definition no_result :: "('r, 'z) loop_session_scheme \<Rightarrow> bool" where
  "no_result s \<longleftrightarrow> result_channel s = None \<and> (\<forall>r. loop_at s \<noteq> Got r)"

definition has_result :: "'r \<Rightarrow> ('r, 'z) loop_session_scheme \<Rightarrow> bool" where
  "has_result r s \<longleftrightarrow>
     result_channel s = Some r \<and> (\<forall>q. loop_at s \<noteq> Got q) \<or> result_channel s = None \<and> loop_at s = Got r"

lemma result_cong:
  "result_channel s' = result_channel s \<Longrightarrow> loop_at s' = loop_at s \<Longrightarrow>
   (no_result s' \<longleftrightarrow> no_result s) \<and> (has_result r s' \<longleftrightarrow> has_result r s)"
  by (simp add: no_result_def has_result_def)

text \<open>What a step of the loop leaves alone.\<close>

lemma loop_step_keeps:
  assumes "loop_step cfg s s'"
  shows "loop_session.more s' = loop_session.more s" "reader_closed s' = reader_closed s"
    "no_result s \<Longrightarrow> no_result s'" "has_result r s \<Longrightarrow> has_result r s'"
  using assms by (cases rule: loop_step.cases; simp add: handle_read_def no_result_def has_result_def)+

lemma loop_world_keeps:
  assumes "loop_world cfg s s'"
  shows "loop_session.more s' = loop_session.more s" "reader_closed s' = reader_closed s"
    "no_result s \<Longrightarrow> no_result s'" "has_result r s \<Longrightarrow> has_result r s'"
  using assms by (cases rule: loop_world.cases; simp add: handle_read_def no_result_def has_result_def)+

section \<open>A launched program\<close>

definition launch_good :: "Config \<Rightarrow> launch_session \<Rightarrow> bool" where
  "launch_good cfg s \<longleftrightarrow> loop_good cfg s \<and>
     (case wait_at s of
        Waiting \<Rightarrow> no_result s
      | Sending r \<Rightarrow> child_result s = Some r \<and> no_result s
      | _ \<Rightarrow> \<exists>r. child_result s = Some r \<and> has_result r s) \<and>
     (wait_at s = Wait_ended \<longrightarrow> reader_closed s) \<and>
     length (forwarded s) \<le> (case signal_at s of Listening \<Rightarrow> 0 | Forwarding sig \<Rightarrow> 0 | _ \<Rightarrow> 1)"

definition launch_work :: "launch_session \<Rightarrow> nat" where
  "launch_work s = loop_work s +
     (case wait_at s of Waiting \<Rightarrow> 3 | Sending r \<Rightarrow> 2 | Wait_closing \<Rightarrow> 1 | Wait_ended \<Rightarrow> 0) +
     (case signal_at s of Listening \<Rightarrow> 3 | Forwarding sig \<Rightarrow> 2 | Signal_closing \<Rightarrow> 1 | Signal_ended \<Rightarrow> 0)"

lemma launch_more:
  assumes "loop_session.more s' = loop_session.more (s :: launch_session)"
  shows "child_result s' = child_result s" "wait_at s' = wait_at s" "signal_at s' = signal_at s"
    "forwarded s' = forwarded s"
  using assms by (cases s; cases s'; simp)+

lemma launch_good_step:
  assumes "launch_step cfg s s'" and good: "launch_good cfg s"
  shows "launch_good cfg s'"
  using assms(1)
proof (cases rule: launch_step.cases)
  case loop
  note keeps = loop_step_keeps [OF loop]
  show ?thesis
    using good keeps(2-4) loop_good_step [OF loop]
    by (auto simp: launch_good_def launch_more [OF keeps(1)] split: wait_pc.splits)
next
  case (wait_sends r)
  then show ?thesis using good
    by (auto simp: launch_good_def has_result_def no_result_def intro!: loop_good_cong [of _ s])
qed (use good result_cong [of s' s] in
  \<open>auto simp: launch_good_def intro!: loop_good_cong [of _ s] split: option.splits wait_pc.splits\<close>)

lemma launch_good_world:
  assumes "launch_world cfg s s'" and good: "launch_good cfg s"
  shows "launch_good cfg s'"
  using assms(1)
proof (cases rule: launch_world.cases)
  case loop
  note keeps = loop_world_keeps [OF loop]
  show ?thesis
    using good keeps(2-4) loop_good_world [OF loop]
    by (auto simp: launch_good_def launch_more [OF keeps(1)] split: wait_pc.splits)
qed (use good result_cong [of s' s] in
  \<open>auto simp: launch_good_def intro!: loop_good_cong [of _ s] split: wait_pc.splits\<close>)

lemma launch_work_step: "launch_step cfg s s' \<Longrightarrow> launch_work s' < launch_work s"
proof (induction rule: launch_step.induct)
  case (loop s s')
  then show ?case
    using loop_work_step [OF loop] by (simp add: launch_work_def launch_more [OF loop_step_keeps(1) [OF loop]])
qed (simp_all add: launch_work_def loop_work_def)

lemma launch_work_world: "launch_world cfg s s' \<Longrightarrow> launch_work s' \<le> Suc (launch_work s)"
proof (induction rule: launch_world.induct)
  case (loop s s')
  then show ?case
    using loop_work_world [OF loop] by (simp add: launch_work_def launch_more [OF loop_world_keeps(1) [OF loop]])
qed (simp_all add: launch_work_def loop_work_def)

interpretation launch: goroutines "launch_step cfg" "launch_world cfg" "launch_start cfg" "launch_good cfg" launch_work
  for cfg
proof
  show "launch_good cfg (launch_start cfg)" by (simp add: launch_good_def) (auto simp: launch_start_def no_result_def)
qed (blast intro: launch_good_step launch_good_world launch_work_step launch_work_world)+

text \<open>Once the child has exited, there is always a next step until the loop has its result.\<close>

lemma launch_progress:
  assumes "launch_good cfg s" and "child_result s \<noteq> None" and "\<And>r. loop_at s \<noteq> Got r"
  shows "\<exists>s'. launch_step cfg s s'"
proof (cases "wait_at s")
  case Waiting
  then show ?thesis using assms(2) launch_step.wait_returns by blast
next
  case (Sending r)
  then have "result_channel s = None" using assms(1) by (simp add: launch_good_def no_result_def)
  with Sending show ?thesis using launch_step.wait_sends by blast
next
  case Wait_closing
  then show ?thesis using launch_step.wait_closes by blast
next
  case Wait_ended
  then obtain r where r: "reader_closed s" "result_channel s = Some r"
    using assms(1,3) by (auto simp: launch_good_def has_result_def)
  show ?thesis
  proof (cases "loop_at s")
    case Reading
    from launch_step.loop [OF loop_step.read_closed [OF Reading r(1)]] show ?thesis by blast
  next
    case Awaiting
    from launch_step.loop [OF loop_step.receive [OF Awaiting r(2)]] show ?thesis by blast
  qed (use assms(3) in blast)
qed

section \<open>Attached processes\<close>

definition attach_good :: "Config \<Rightarrow> attach_session \<Rightarrow> bool" where
  "attach_good cfg s \<longleftrightarrow> loop_good cfg s \<and>
     (case attach_at s of
        Probing \<Rightarrow> no_result s
      | Selecting kill \<Rightarrow> no_result s \<and> anyProcessAlive kill (AttachPIDs cfg)
      | Attach_sending ws \<Rightarrow> attach_monitor (AttachPIDs cfg) (turns s) = Some ws \<and> no_result s
      | _ \<Rightarrow> \<exists>ws. attach_monitor (AttachPIDs cfg) (turns s) = Some ws \<and> has_result ws s) \<and>
     (attach_at s \<in> {Probing} \<union> range Selecting \<longrightarrow>
        list_all (\<lambda>t. anyProcessAlive (fst t) (AttachPIDs cfg) \<and> snd t = None) (turns s)) \<and>
     (attach_at s = Attach_ended \<longrightarrow> reader_closed s)"

definition attach_work :: "attach_session \<Rightarrow> nat" where
  "attach_work s = loop_work s +
     (case attach_at s of Probing \<Rightarrow> 4 | Selecting kill \<Rightarrow> 3 | Attach_sending ws \<Rightarrow> 2 | Attach_closing \<Rightarrow> 1 | Attach_ended \<Rightarrow> 0)"

lemma attach_more:
  assumes "loop_session.more s' = loop_session.more (s :: attach_session)"
  shows "attach_at s' = attach_at s" "turns s' = turns s"
  using assms by (cases s; cases s'; simp)+

lemma attach_monitor_idle:
  "list_all (\<lambda>t. anyProcessAlive (fst t) pids \<and> snd t = None) ts \<Longrightarrow>
   attach_monitor pids (ts @ us) = attach_monitor pids us"
  by (induction ts) auto

lemma attach_good_step:
  assumes "attach_step cfg s s'" and good: "attach_good cfg s"
  shows "attach_good cfg s'"
  using assms(1)
proof (cases rule: attach_step.cases)
  case loop
  note keeps = loop_step_keeps [OF loop]
  show ?thesis
    using good keeps(2-4) loop_good_step [OF loop]
    by (auto simp: attach_good_def attach_more [OF keeps(1)] split: attach_pc.splits)
next
  case (attach_sends ws)
  then show ?thesis using good
    by (auto simp: attach_good_def has_result_def no_result_def intro!: loop_good_cong [of _ s])
qed (use good result_cong [of s' s] in
  \<open>auto simp: attach_good_def attach_monitor_idle intro!: loop_good_cong [of _ s]\<close>)

lemma attach_good_world:
  assumes "attach_world cfg s s'" and good: "attach_good cfg s"
  shows "attach_good cfg s'"
  using assms(1)
proof (cases rule: attach_world.cases)
  case loop
  note keeps = loop_world_keeps [OF loop]
  show ?thesis
    using good keeps(2-4) loop_good_world [OF loop]
    by (auto simp: attach_good_def attach_more [OF keeps(1)] split: attach_pc.splits)
qed (use good result_cong [of s' s] in \<open>auto simp: attach_good_def intro!: loop_good_cong [of _ s]\<close>)

lemma attach_work_step: "attach_step cfg s s' \<Longrightarrow> attach_work s' < attach_work s"
proof (induction rule: attach_step.induct)
  case (loop s s')
  then show ?case
    using loop_work_step [OF loop] by (simp add: attach_work_def attach_more [OF loop_step_keeps(1) [OF loop]])
qed (simp_all add: attach_work_def loop_work_def)

lemma attach_work_world: "attach_world cfg s s' \<Longrightarrow> attach_work s' \<le> Suc (attach_work s)"
proof (induction rule: attach_world.induct)
  case (loop s s')
  then show ?case
    using loop_work_world [OF loop] by (simp add: attach_work_def attach_more [OF loop_world_keeps(1) [OF loop]])
qed (simp_all add: attach_work_def loop_work_def)

interpretation attach: goroutines "attach_step cfg" "attach_world cfg" "attach_start cfg" "attach_good cfg" attach_work
  for cfg
proof
  show "attach_good cfg (attach_start cfg)" by (simp add: attach_good_def) (auto simp: attach_start_def no_result_def)
qed (blast intro: attach_good_step attach_good_world attach_work_step attach_work_world)+

text \<open>A session that cannot go on by itself has its result, or waits for a signal or the next tick.\<close>

lemma attach_progress:
  assumes "attach_good cfg s" and "\<And>r. loop_at s \<noteq> Got r" and "\<And>kill. attach_at s = Selecting kill \<Longrightarrow> signal_channel s \<noteq> None"
  shows "\<exists>s'. attach_step cfg s s'"
proof (cases "attach_at s")
  case Probing
  then show ?thesis using attach_step.probe_alive attach_step.probe_dead by blast
next
  case (Selecting kill)
  then show ?thesis using assms(3) attach_step.signal_received by blast
next
  case (Attach_sending ws)
  then have "result_channel s = None" using assms(1) by (simp add: attach_good_def no_result_def)
  with Attach_sending show ?thesis using attach_step.attach_sends by blast
next
  case Attach_closing
  then show ?thesis using attach_step.attach_closes by blast
next
  case Attach_ended
  then obtain r where r: "reader_closed s" "result_channel s = Some r"
    using assms(1,2) by (auto simp: attach_good_def has_result_def)
  show ?thesis
  proof (cases "loop_at s")
    case Reading
    from attach_step.loop [OF loop_step.read_closed [OF Reading r(1)]] show ?thesis by blast
  next
    case Awaiting
    from attach_step.loop [OF loop_step.receive [OF Awaiting r(2)]] show ?thesis by blast
  qed (use assms(2) in blast)
qed

end
