(* ===== verification/Session_Properties.thy ===== *)
theory Session_Properties
  imports Run_Properties Session
begin

text \<open>
  The properties of a run as its goroutines: that it ends, when, with which status, and
  that what it has written is what the loop of \<open>Run\<close> writes for what it has read.
\<close>

section \<open>A launched program\<close>

text \<open>
  C8. However the goroutines of a run with a launched program are scheduled, the run
  ends with the child: each sample, signal and failed read costs at most one step, and
  there are eight more; from the exit of the child on there is a next step until the
  loop has the child's result; the loop has then the status of the child, no earlier; it
  has handled a prefix of the samples in the order of their arrival, exactly as the loop
  of \<open>Run\<close> does for these reads; and at most one signal has been sent on. The goroutine
  that sends a signal on may still be waiting for one when the loop ends.
\<close>

theorem launched_session_ends:
  assumes "runs (launch_step cfg) (launch_world cfg) (launch_start cfg) n m s"
  shows "n \<le> m + 8 \<and>
    (child_result s \<noteq> None \<and> (\<forall>r. loop_at s \<noteq> Got r) \<longrightarrow> (\<exists>s'. launch_step cfg s s')) \<and>
    (\<forall>r. loop_at s = Got r \<longrightarrow> child_result s = Some r) \<and>
    loop_state s = run_loop cfg (reads s) (start_loop cfg) \<and>
    (\<exists>rest. arrived s = samples_of (reads s) @ rest) \<and> length (forwarded s) \<le> 1"
proof -
  have good: "launch_good cfg s" by (rule launch.good_runs [OF assms])
  then have loop: "loop_good cfg s" by (simp add: launch_good_def)
  have "launch_work (launch_start cfg) = 8"
    by (simp add: launch_work_def loop_work_def launch_start_def)
  then have bound: "n \<le> m + 8" using launch.steps_bounded [OF assms] by simp
  have got: "child_result s = Some r" if "loop_at s = Got r" for r
    using good that by (auto simp: launch_good_def no_result_def has_result_def split: wait_pc.splits)
  have "length (forwarded s) \<le> 1" using good by (auto simp: launch_good_def split: signal_pc.splits)
  then show ?thesis
    using bound got launch_progress [OF good] loop by (auto simp: loop_good_def)
qed

lemma launched_session_ends_witness:
  "\<exists>s n m. runs (launch_step (demo_program False)) (launch_world (demo_program False))
        (launch_start (demo_program False)) n m s \<and>
     loop_at s = Got (re_child demo_env) \<and> child_result s = Some (re_child demo_env) \<and>
     arrived s = [event_bytes demo_open] \<and> loop_state s = start_loop (demo_program False)"
proof -
  let ?cfg = "demo_program False" and ?r = "re_child demo_env"
  let ?run = "runs (launch_step ?cfg) (launch_world ?cfg) (launch_start ?cfg)"
  let ?s1 = "(launch_start ?cfg)\<lparr>ring := [event_bytes demo_open], arrived := [event_bytes demo_open]\<rparr>"
  let ?s2 = "?s1\<lparr>child_result := Some ?r\<rparr>"
  let ?s3 = "?s2\<lparr>wait_at := Sending ?r\<rparr>"
  let ?s4 = "?s3\<lparr>result_channel := Some ?r, wait_at := Wait_closing\<rparr>"
  let ?s5 = "?s4\<lparr>reader_closed := True, wait_at := Wait_ended\<rparr>"
  let ?s6 = "(handle_read ?cfg no_links Reader_closed ?s5)\<lparr>loop_at := Awaiting\<rparr>"
  let ?s7 = "?s6\<lparr>loop_at := Got ?r, result_channel := None\<rparr>"
  have "loop_world ?cfg (launch_start ?cfg) ?s1"
    using loop_world.sample [of ?cfg "launch_start ?cfg" "event_bytes demo_open"] by (simp add: launch_start_def)
  then have "launch_world ?cfg (launch_start ?cfg) ?s1" by (rule launch_world.loop)
  moreover have "?run 0 0 (launch_start ?cfg)" by (rule runs.start)
  moreover have "launch_world ?cfg ?s1 ?s2" by (rule launch_world.child_exits) (simp add: launch_start_def)
  moreover have "launch_step ?cfg ?s2 ?s3" by (rule launch_step.wait_returns) (simp_all add: launch_start_def)
  moreover have "launch_step ?cfg ?s3 ?s4" by (rule launch_step.wait_sends) (simp_all add: launch_start_def)
  moreover have "launch_step ?cfg ?s4 ?s5" by (rule launch_step.wait_closes) simp
  moreover have "launch_step ?cfg ?s5 ?s6"
    by (rule launch_step.loop [OF loop_step.read_closed]) (simp_all add: launch_start_def)
  moreover have "launch_step ?cfg ?s6 ?s7"
    by (rule launch_step.loop [OF loop_step.receive]) (simp_all add: handle_read_def launch_start_def)
  ultimately have run: "\<exists>n m. ?run n m ?s7" by (meson runs.go runs.world)
  have got: "loop_at ?s7 = Got ?r" "arrived ?s7 = [event_bytes demo_open]" "reads ?s7 = [(no_links, Reader_closed)]"
    by (simp_all add: handle_read_def launch_start_def)
  from run obtain n m where nm: "?run n m ?s7" by blast
  from launched_session_ends [OF this] got show ?thesis using nm by (intro exI [of _ ?s7] exI [of _ n] exI [of _ m]) simp
qed

section \<open>Attached processes\<close>

text \<open>
  C32. However the goroutines of a run on attached processes are scheduled, each sample,
  signal, tick and failed read costs at most one step, and there are six more; the run
  can only come to a stop when it has its result or waits for a signal or the next tick;
  the result is zero when a probe has found none of the processes alive, and the number
  of the signal received otherwise; and the loop has handled a prefix of the samples in
  the order of their arrival, exactly as the loop of \<open>Run\<close> does for these reads.
\<close>

theorem attached_session_ends:
  assumes "runs (attach_step cfg) (attach_world cfg) (attach_start cfg) n m s"
  shows "n \<le> m + 6 \<and>
    ((\<forall>ws. loop_at s \<noteq> Got ws) \<and> \<not> (\<exists>kill. attach_at s = Selecting kill \<and> signal_channel s = None) \<longrightarrow>
       (\<exists>s'. attach_step cfg s s')) \<and>
    (\<forall>ws. loop_at s = Got ws \<longrightarrow> attach_monitor (AttachPIDs cfg) (turns s) = Some ws \<and>
       (\<exists>kill tick. (kill, tick) \<in> set (turns s) \<and>
          (\<not> anyProcessAlive kill (AttachPIDs cfg) \<and> ws = 0 \<or> (\<exists>r. tick = Some r \<and> ws = signalWaitStatus r)))) \<and>
    loop_state s = run_loop cfg (reads s) (start_loop cfg) \<and>
    (\<exists>rest. arrived s = samples_of (reads s) @ rest)"
proof -
  have good: "attach_good cfg s" by (rule attach.good_runs [OF assms])
  then have loop: "loop_good cfg s" by (simp add: attach_good_def)
  have "attach_work (attach_start cfg) = 6"
    by (simp add: attach_work_def loop_work_def attach_start_def)
  then have bound: "n \<le> m + 6" using attach.steps_bounded [OF assms] by simp
  have got: "attach_monitor (AttachPIDs cfg) (turns s) = Some ws" if "loop_at s = Got ws" for ws
    using good that by (auto simp: attach_good_def no_result_def has_result_def split: attach_pc.splits)
  have status: "\<exists>kill tick. (kill, tick) \<in> set (turns s) \<and>
      (\<not> anyProcessAlive kill (AttachPIDs cfg) \<and> ws = 0 \<or> (\<exists>r. tick = Some r \<and> ws = signalWaitStatus r))"
    if "loop_at s = Got ws" for ws
    using attach_monitor_status [OF got [OF that]] by blast
  have go: "\<exists>s'. attach_step cfg s s'"
    if "\<forall>ws. loop_at s \<noteq> Got ws" "\<not> (\<exists>kill. attach_at s = Selecting kill \<and> signal_channel s = None)"
    using that by (intro attach_progress [OF good]) auto
  show ?thesis using bound got status go loop by (auto simp: loop_good_def)
qed

lemma attached_session_ends_witness:
  "\<exists>s n m. runs (attach_step (attach_config False {} [])) (attach_world (attach_config False {} []))
        (attach_start (attach_config False {} [])) n m s \<and>
     loop_at s = Got 0 \<and> attach_monitor [100] (turns s) = Some 0"
proof -
  let ?cfg = "attach_config False {} []"
  let ?run = "runs (attach_step ?cfg) (attach_world ?cfg) (attach_start ?cfg)"
  let ?s1 = "(attach_start ?cfg)\<lparr>attach_at := Attach_sending 0, turns := turns (attach_start ?cfg) @ [(\<lambda>_. Kill_error [], None)]\<rparr>"
  let ?s2 = "?s1\<lparr>result_channel := Some 0, attach_at := Attach_closing\<rparr>"
  let ?s3 = "?s2\<lparr>reader_closed := True, attach_at := Attach_ended\<rparr>"
  let ?s4 = "(handle_read ?cfg no_links Reader_closed ?s3)\<lparr>loop_at := Awaiting\<rparr>"
  let ?s5 = "?s4\<lparr>loop_at := Got 0, result_channel := None\<rparr>"
  have "attach_step ?cfg (attach_start ?cfg) ?s1"
    by (rule attach_step.probe_dead) (simp_all add: attach_start_def attach_config_def)
  moreover have "?run 0 0 (attach_start ?cfg)" by (rule runs.start)
  moreover have "attach_step ?cfg ?s1 ?s2" by (rule attach_step.attach_sends) (simp_all add: attach_start_def)
  moreover have "attach_step ?cfg ?s2 ?s3" by (rule attach_step.attach_closes) simp
  moreover have "attach_step ?cfg ?s3 ?s4"
    by (rule attach_step.loop [OF loop_step.read_closed]) (simp_all add: attach_start_def)
  moreover have "attach_step ?cfg ?s4 ?s5"
    by (rule attach_step.loop [OF loop_step.receive]) (simp_all add: handle_read_def attach_start_def)
  ultimately obtain n m where run: "?run n m ?s5" by (meson runs.go runs.world)
  have got: "loop_at ?s5 = Got 0" and pids: "AttachPIDs ?cfg = [100]" by (simp_all add: attach_config_def)
  have "attach_monitor (AttachPIDs ?cfg) (turns ?s5) = Some 0" using attached_session_ends [OF run] got by blast
  then show ?thesis using run got unfolding pids by blast
qed

end
