(* ===== verification/Generator.thy ===== *)
theory Generator
  imports Schema
begin

text \<open>
  \<^verbatim>\<open>scripts/generate_syscall_schema.py\<close>, which writes the schema table from a table of
  kernel signatures: the JSON value in, the rows and the text of the header out. Python
  strings are lists of characters, of code points below 256; the JSON reader, the files
  and the command line are left out. A \<open>raise\<close> is the left side of a sum. The second half
  reads the text as the C compiler does, and shows that the rows it finds are those of
  the table.
\<close>

section \<open>Strings\<close>

definition is_space :: "char \<Rightarrow> bool" where
  "is_space c \<longleftrightarrow> (let n = of_char c :: nat in 9 \<le> n \<and> n \<le> 13 \<or> 28 \<le> n \<and> n \<le> 32 \<or> n = 133 \<or> n = 160)"

definition strip :: "string \<Rightarrow> string" where
  "strip s = rev (dropWhile is_space (rev (dropWhile is_space s)))"

text \<open>\<open>split\<close> without a separator.\<close>

function split_words :: "string \<Rightarrow> string list" where
  "split_words s =
     (let s' = dropWhile is_space s in
      if s' = [] then []
      else takeWhile (\<lambda>c. \<not> is_space c) s' # split_words (dropWhile (\<lambda>c. \<not> is_space c) s'))"
  by auto

termination split_words
proof (relation "measure length")
  fix s s' :: string
  assume s': "s' = dropWhile is_space s" "s' \<noteq> []"
  then have "\<not> is_space (hd s')" using hd_dropWhile by blast
  then have "length (dropWhile (\<lambda>c. \<not> is_space c) s') < length s'"
    using s'(2) length_dropWhile_le [of "\<lambda>c. \<not> is_space c" "tl s'"] by (cases s') auto
  also have "\<dots> \<le> length s" unfolding s'(1) by (rule length_dropWhile_le)
  finally show "(dropWhile (\<lambda>c. \<not> is_space c) s', s) \<in> measure length" by simp
qed simp

declare split_words.simps [simp del]

fun join_with :: "string \<Rightarrow> string list \<Rightarrow> string" where
  "join_with sep [] = []"
| "join_with sep [s] = s"
| "join_with sep (s # ss) = s @ sep @ join_with sep ss"

definition starts_with :: "string \<Rightarrow> string \<Rightarrow> bool" where
  "starts_with s sub \<longleftrightarrow> take (length sub) s = sub"

definition ends_with :: "string \<Rightarrow> string \<Rightarrow> bool" where
  "ends_with s sub \<longleftrightarrow> length sub \<le> length s \<and> drop (length s - length sub) s = sub"

definition removesuffix :: "string \<Rightarrow> string \<Rightarrow> string" where
  "removesuffix s sub = (if ends_with s sub then take (length s - length sub) s else s)"

fun contains :: "string \<Rightarrow> string \<Rightarrow> bool" where
  "contains sub [] = (sub = [])"
| "contains sub (c # cs) = (starts_with (c # cs) sub \<or> contains sub cs)"

text \<open>\<open>replace\<close>, for a text that is not empty.\<close>

function replace_all :: "string \<Rightarrow> string \<Rightarrow> string \<Rightarrow> string" where
  "replace_all old new s =
     (if s = [] then []
      else if old \<noteq> [] \<and> starts_with s old then new @ replace_all old new (drop (length old) s)
      else hd s # replace_all old new (tl s))"
  by auto

termination replace_all
  by (relation "measure (\<lambda>(old, new, s). length s)") auto

declare replace_all.simps [simp del]

definition is_word :: "char \<Rightarrow> bool" where
  "is_word c \<longleftrightarrow>
     (let n = of_char c :: nat in
      48 \<le> n \<and> n \<le> 57 \<or> 65 \<le> n \<and> n \<le> 90 \<or> n = 95 \<or> 97 \<le> n \<and> n \<le> 122 \<or>
      n \<in> {170, 178, 179, 181, 185, 186, 188, 189, 190} \<or> 192 \<le> n \<and> n \<noteq> 215 \<and> n \<noteq> 247)"

text \<open>\<open>re.search\<close> for a word between two boundaries: \<open>before\<close> tells whether the character before is one of a word.\<close>

fun search_word :: "string \<Rightarrow> bool \<Rightarrow> string \<Rightarrow> bool" where
  "search_word w before [] = False"
| "search_word w before (c # cs) =
     (\<not> before \<and> starts_with (c # cs) w \<and>
        (case drop (length w) (c # cs) of [] \<Rightarrow> True | d # ds \<Rightarrow> \<not> is_word d) \<or>
      search_word w (is_word c) cs)"

section \<open>The classification of an argument\<close>

definition TYPE_QUALIFIERS :: "string list" where
  "TYPE_QUALIFIERS = [''const'', ''volatile'', ''restrict'', ''__user'']"

definition SCALAR_INT_TYPES :: "string list" where
  "SCALAR_INT_TYPES =
     [''aio_context_t'', ''clockid_t'', ''gid_t'', ''int'', ''key_t'', ''mqd_t'', ''pid_t'', ''qid_t'',
      ''timer_t'', ''uid_t'', ''__s32'']"

definition SCALAR_UINT_TYPES :: "string list" where
  "SCALAR_UINT_TYPES =
     [''__u32'', ''__u64'', ''dev_t'', ''long'', ''size_t'', ''ssize_t'', ''u32'', ''u64'', ''unsigned'',
      ''unsigned char'', ''unsigned int'', ''unsigned long'', ''unsigned short'']"

abbreviation (input) MAX_ARGS :: nat where "MAX_ARGS \<equiv> 6"

definition normalize_signature :: "string \<Rightarrow> string" where
  "normalize_signature sig = join_with '' '' (split_words (strip sig))"

definition split_type_and_name :: "string \<Rightarrow> string \<times> string" where
  "split_type_and_name sig =
     (let sig = normalize_signature sig in
      if sig = [] then ([], [])
      else let parts = split_words sig in
           if length parts = 1 then (parts ! 0, [])
           else (join_with '' '' (butlast parts), last parts))"

definition normalize_type :: "string \<Rightarrow> string \<Rightarrow> string" where
  "normalize_type typ name =
     (let ptr_prefix = replicate (length (filter (\<lambda>c. c = CHR ''*'') name)) CHR ''*'';
          bare = dropWhile (\<lambda>c. c = CHR ''*'') name;
          ptr_prefix = (if ends_with bare ''[]'' then ptr_prefix @ ''*'' else ptr_prefix);
          tokens = filter (\<lambda>tok. tok \<notin> set TYPE_QUALIFIERS) (split_words typ);
          tokens = (if ptr_prefix = [] then tokens
                    else if tokens = [] then [ptr_prefix]
                    else butlast tokens @ [last tokens @ ptr_prefix]);
          normalized = join_with '' '' tokens;
          normalized = replace_all ''* '' ''*'' (replace_all '' *'' ''*'' normalized)
      in if normalized \<in> {''char*'', ''const char*''} then replace_all ''*'' '' *'' normalized
         else if normalized \<in> {''char*const*'', ''const char*const*''}
         then replace_all ''char*'' ''char *'' (replace_all ''const*'' ''const *'' normalized)
         else normalized)"

definition bare_name :: "string \<Rightarrow> string" where
  "bare_name name = removesuffix (dropWhile (\<lambda>c. c = CHR ''*'') name) ''[]''"

text \<open>The table of special cases is empty. The second argument is the index.\<close>

definition classify_argument :: "string \<Rightarrow> nat \<Rightarrow> string \<Rightarrow> string" where
  "classify_argument syscall_name arg_index sig =
     (let (typ, name) = split_type_and_name sig;
          normalized_type = normalize_type typ name;
          arg_name = bare_name name
      in if syscall_name \<in> {''read'', ''write''} \<and> arg_index = 1 \<and> normalized_type \<in> {''char *'', ''const char *''}
         then ''VAR_ARG_BYTES''
         else if normalized_type \<in> {''char *'', ''const char *''} then ''VAR_ARG_STRING''
         else if normalized_type \<in> {''char *const *'', ''const char *const *''} then ''VAR_ARG_ARGV''
         else if syscall_name \<in> {''open'', ''openat''} \<and> arg_name = ''flags'' then ''ARG_FLAGS''
         else if contains ''fd'' arg_name \<or> arg_name = ''fildes'' then ''ARG_FD''
         else if arg_name = ''whence'' then ''ARG_INT''
         else if arg_name \<in> {''mask'', ''mode''} then ''ARG_MODE''
         else if search_word ''umode_t'' False normalized_type \<or> search_word ''mode_t'' False normalized_type
         then ''ARG_MODE''
         else if search_word ''off_t'' False normalized_type \<or> search_word ''loff_t'' False normalized_type
         then ''ARG_OFF''
         else if CHR ''*'' \<in> set normalized_type then ''ARG_PTR''
         else if normalized_type \<in> set SCALAR_INT_TYPES then ''ARG_INT''
         else if normalized_type \<in> set SCALAR_UINT_TYPES then ''ARG_UINT''
         else if starts_with normalized_type ''unsigned '' then ''ARG_UINT''
         else ''ARG_RAW'')"

section \<open>The table\<close>

datatype json = JNull | JBool bool | JInt int | JFloat string | JString string | JArray "json list" | JObject "(string \<times> json) list"

text \<open>The last of equal keys counts.\<close>

definition json_get :: "(string \<times> json) list \<Rightarrow> string \<Rightarrow> json" where
  "json_get kvs key = (case map_of (rev kvs) key of Some v \<Rightarrow> v | None \<Rightarrow> JNull)"

text \<open>A Boolean is an integer in Python.\<close>

fun json_int :: "json \<Rightarrow> int option" where
  "json_int (JInt n) = Some n"
| "json_int (JBool b) = Some (if b then 1 else 0)"
| "json_int v = None"

text \<open>How an integer is put into a text.\<close>

function decimal_text :: "nat \<Rightarrow> string" where
  "decimal_text n = (if n < 10 then [char_of (48 + n)] else decimal_text (n div 10) @ [char_of (48 + n mod 10)])"
  by auto

termination decimal_text
  by (relation "measure id") auto

declare decimal_text.simps [simp del]

definition int_text :: "int \<Rightarrow> string" where
  "int_text n = (if n < 0 then ''-'' @ decimal_text (nat (- n)) else decimal_text (nat n))"

fun number_text :: "json \<Rightarrow> string" where
  "number_text (JInt n) = int_text n"
| "number_text (JBool b) = (if b then ''True'' else ''False'')"
| "number_text v = []"

fun json_strings :: "json list \<Rightarrow> string list" where
  "json_strings [] = []"
| "json_strings (JString s # vs) = s # json_strings vs"
| "json_strings (v # vs) = json_strings vs"

record item =
  item_name :: string
  item_number :: int
  item_number_text :: string
  item_signature :: "string list"
  item_types :: "string list"

definition item_of :: "json \<Rightarrow> item option" where
  "item_of entry =
     (case entry of
        JObject kvs \<Rightarrow>
          (case (json_get kvs ''name'', json_int (json_get kvs ''number''), json_get kvs ''signature'') of
             (JString name, Some number, JArray signature) \<Rightarrow>
               let clean_sig = json_strings signature;
                   arg_types = map (\<lambda>(idx, arg). classify_argument name idx arg) (enumerate 0 (take MAX_ARGS clean_sig))
               in Some \<lparr>item_name = name, item_number = number,
                          item_number_text = number_text (json_get kvs ''number''), item_signature = clean_sig, item_types = arg_types\<rparr>
           | _ \<Rightarrow> None)
      | _ \<Rightarrow> None)"

datatype table_error = Not_an_object | Not_a_list

definition load_syscalls :: "json \<Rightarrow> table_error + item list" where
  "load_syscalls data =
     (case data of
        JObject kvs \<Rightarrow>
          (case json_get kvs ''syscalls'' of
             JArray syscalls \<Rightarrow> Inr (sort_key item_number (List.map_filter item_of syscalls))
           | _ \<Rightarrow> Inl Not_a_list)
      | _ \<Rightarrow> Inl Not_an_object)"

section \<open>The text\<close>

definition load_kernel_version :: "json \<Rightarrow> table_error + string" where
  "load_kernel_version data =
     (case data of
        JObject kvs \<Rightarrow>
          Inr (case json_get kvs ''kernel'' of
                 JObject kern \<Rightarrow>
                   (case json_get kern ''version'' of
                      JString version \<Rightarrow> if version = [] then ''unknown'' else version
                    | _ \<Rightarrow> ''unknown'')
               | _ \<Rightarrow> ''unknown'')
      | _ \<Rightarrow> Inl Not_an_object)"

text \<open>The name and the bits of an entry, for the architecture and the ABI.\<close>

definition name_and_bits :: "json \<Rightarrow> string \<times> string option" where
  "name_and_bits v =
     (case v of
        JObject kvs \<Rightarrow>
          ((case json_get kvs ''name'' of JString name \<Rightarrow> if name = [] then ''unknown'' else name | _ \<Rightarrow> ''unknown''),
           if json_int (json_get kvs ''bits'') = None then None else Some (number_text (json_get kvs ''bits'')))
      | _ \<Rightarrow> (''unknown'', None))"

definition load_architecture_summary :: "json \<Rightarrow> table_error + string" where
  "load_architecture_summary data =
     (case data of
        JObject kvs \<Rightarrow>
          Inr (case json_get kvs ''kernel'' of
                 JObject kern \<Rightarrow>
                   let (arch_name, arch_bits) = name_and_bits (json_get kern ''architecture'');
                       (abi_name, abi_bits) = name_and_bits (json_get kern ''abi'');
                       arch_part = (case arch_bits of None \<Rightarrow> arch_name | Some b \<Rightarrow> arch_name @ '' ('' @ b @ ''-bit)'');
                       abi_part = (case abi_bits of None \<Rightarrow> abi_name | Some b \<Rightarrow> abi_name @ '' ('' @ b @ ''-bit ABI)'')
                   in arch_part @ '', '' @ abi_part
               | _ \<Rightarrow> ''unknown'')
      | _ \<Rightarrow> Inl Not_an_object)"

definition render_nr_defines :: "item list \<Rightarrow> string" where
  "render_nr_defines syscalls =
     join_with [CHR 0x0A] (map (\<lambda>it. ''#define __NR_'' @ item_name it @ '' '' @ item_number_text it) syscalls)"

text \<open>The types and the number of arguments that \<open>render_schema_entry\<close> writes.\<close>

definition entry_types :: "item \<Rightarrow> string list" where
  "entry_types item = take MAX_ARGS (item_types item @ replicate (MAX_ARGS - length (item_types item)) ''ARG_NONE'')"

definition entry_count :: "item \<Rightarrow> nat" where
  "entry_count item = min (length (item_signature item)) MAX_ARGS"

definition render_schema_entry :: "item \<Rightarrow> string" where
  "render_schema_entry item =
     join_with [CHR 0x0A]
       [CHR 0x09 # ''{'',
        CHR 0x09 # '' .syscall_id = __NR_'' @ item_name item @ '','',
        CHR 0x09 # '' .arg_count = '' @ int_text (int (entry_count item)) @ '','',
        CHR 0x09 # '' .arg_types = {'' @ join_with '', '' (entry_types item) @ ''},'',
        CHR 0x09 # '' },'']"

definition render_header :: "item list \<Rightarrow> string \<Rightarrow> string \<Rightarrow> string" where
  "render_header syscalls kernel_version architecture =
     join_with [CHR 0x0A]
       [''/*'',
        '' * Autogenerated from table.json from https://syscalls.mebeim.net/.'',
        '' * Kernel version: '' @ kernel_version @ ''.'',
        '' * Architecture: '' @ architecture @ ''.'',
        '' */'',
        ''#ifndef LITRACE_SYSCALL_SCHEMA_H'',
        ''#define LITRACE_SYSCALL_SCHEMA_H'',
        [],
        render_nr_defines syscalls,
        [],
        ''static const struct syscall_arg_schema syscall_schemas[] = {'',
        join_with [CHR 0x0A] (map render_schema_entry syscalls),
        ''};'',
        [],
        ''#endif'',
        []]"

text \<open>\<open>main\<close> between the reading of the table and the writing of the header.\<close>

definition generate :: "json \<Rightarrow> table_error + string" where
  "generate data =
     (case load_syscalls data of
        Inl err \<Rightarrow> Inl err
      | Inr syscalls \<Rightarrow>
          (case load_kernel_version data of
             Inl err \<Rightarrow> Inl err
           | Inr kernel_version \<Rightarrow>
               (case load_architecture_summary data of
                  Inl err \<Rightarrow> Inl err
                | Inr architecture \<Rightarrow> Inr (render_header syscalls kernel_version architecture))))"

section \<open>The table that the compiler reads\<close>

text \<open>
  What the C compiler makes of the text: the lines; the macros of the \<open>#define\<close> lines, of
  which the last one of a name counts; and the rows of the table, each of five lines,
  whose first member is the value of a macro. A macro that is missing or whose text is
  not a decimal number, and a name that is not one of the argument types, is an error.
\<close>

fun split_on :: "char \<Rightarrow> string \<Rightarrow> string list" where
  "split_on c [] = [[]]"
| "split_on c (x # xs) = (if x = c then [] # split_on c xs else (x # hd (split_on c xs)) # tl (split_on c xs))"

definition strip_prefix :: "string \<Rightarrow> string \<Rightarrow> string option" where
  "strip_prefix p s = (if starts_with s p then Some (drop (length p) s) else None)"

definition macro_of :: "string \<Rightarrow> (string \<times> string) option" where
  "macro_of line =
     map_option (\<lambda>r. (takeWhile (\<lambda>c. c \<noteq> CHR '' '') r, drop 1 (dropWhile (\<lambda>c. c \<noteq> CHR '' '') r)))
       (strip_prefix ''#define __NR_'' line)"

fun read_digits :: "nat \<Rightarrow> string \<Rightarrow> nat option" where
  "read_digits n [] = Some n"
| "read_digits n (c # cs) =
     (let d = of_char c in if 48 \<le> d \<and> d \<le> 57 then read_digits (n * 10 + (d - 48)) cs else None)"

fun read_number :: "string \<Rightarrow> int option" where
  "read_number [] = None"
| "read_number (c # cs) =
     (if c = CHR ''-'' then (if cs = [] then None else map_option (\<lambda>n. - int n) (read_digits 0 cs))
      else map_option int (read_digits 0 (c # cs)))"

definition type_code :: "string \<Rightarrow> u8 option" where
  "type_code name =
     map_of [(''ARG_NONE'', ARG_NONE), (''ARG_INT'', ARG_INT), (''ARG_UINT'', ARG_UINT), (''ARG_FD'', ARG_FD),
       (''ARG_MODE'', ARG_MODE), (''ARG_FLAGS'', ARG_FLAGS), (''ARG_OFF'', ARG_OFF), (''ARG_PTR'', ARG_PTR),
       (''ARG_RAW'', ARG_RAW), (''VAR_ARG_STRING'', VAR_ARG_STRING), (''VAR_ARG_BYTES'', VAR_ARG_BYTES),
       (''VAR_ARG_ARGV'', VAR_ARG_ARGV)] name"

text \<open>The value of a member: the text between what is before it on its line and the end.\<close>

definition member :: "string \<Rightarrow> nat \<Rightarrow> string \<Rightarrow> string option" where
  "member before n line = map_option (\<lambda>r. take (length r - n) r) (strip_prefix before line)"

definition read_row :: "(string \<times> string) list \<Rightarrow> string \<Rightarrow> string \<Rightarrow> string \<Rightarrow> syscall_arg_schema option" where
  "read_row macros id_line count_line types_line =
     (case (member (CHR 0x09 # '' .syscall_id = __NR_'') 1 id_line, member (CHR 0x09 # '' .arg_count = '') 1 count_line,
            member (CHR 0x09 # '' .arg_types = {'') 2 types_line) of
        (Some name, Some count, Some types) \<Rightarrow>
          (case (Option.bind (map_of (rev macros) name) read_number, read_number count,
                 those (map (\<lambda>t. type_code (dropWhile (\<lambda>c. c = CHR '' '') t)) (split_on (CHR '','') types))) of
             (Some i, Some n, Some ts) \<Rightarrow> Some \<lparr>sc_syscall_id = of_int i, sc_arg_count = of_int n, sc_arg_types = ts\<rparr>
           | _ \<Rightarrow> None)
      | _ \<Rightarrow> None)"

fun read_rows :: "(string \<times> string) list \<Rightarrow> string list \<Rightarrow> syscall_arg_schema list option" where
  "read_rows macros [] = Some []"
| "read_rows macros (l1 # l2 # l3 # l4 # l5 # ls) =
     (if l1 = CHR 0x09 # ''{'' \<and> l5 = CHR 0x09 # '' },''
      then (case (read_row macros l2 l3 l4, read_rows macros ls) of
              (Some row, Some rows) \<Rightarrow> Some (row # rows) | _ \<Rightarrow> None)
      else None)"
| "read_rows macros ls = None"

definition table_start :: string where
  "table_start = ''static const struct syscall_arg_schema syscall_schemas[] = {''"

definition read_header :: "string \<Rightarrow> syscall_arg_schema list option" where
  "read_header t =
     (let ls = split_on (CHR 0x0A) t;
          rows = takeWhile (\<lambda>l. l \<noteq> ''};'') (drop 1 (dropWhile (\<lambda>l. l \<noteq> table_start) ls))
      in read_rows (List.map_filter macro_of ls) rows)"

text \<open>The row that an item describes.\<close>

definition schema_row :: "item \<Rightarrow> syscall_arg_schema" where
  "schema_row item =
     \<lparr>sc_syscall_id = of_int (item_number item), sc_arg_count = of_nat (entry_count item),
      sc_arg_types = map (\<lambda>t. the (type_code t)) (entry_types item)\<rparr>"

section \<open>The rows\<close>

lemma classify_argument_code:
  "\<exists>c. type_code (classify_argument name idx sig) = Some c \<and> c \<noteq> ARG_NONE"
  by (simp add: classify_argument_def Let_def case_prod_beta type_code_def)

lemma item_of_result:
  assumes "item_of v = Some it"
  shows "length (item_types it) = entry_count it"
    and "list_all (\<lambda>t. \<exists>c. type_code t = Some c \<and> c \<noteq> ARG_NONE) (item_types it)"
proof -
  have "\<exists>name. item_types it =
      map (\<lambda>(idx, arg). classify_argument name idx arg) (enumerate 0 (take MAX_ARGS (item_signature it)))"
    using assms by (auto simp: item_of_def Let_def split: json.splits option.splits)
  then obtain name where it: "item_types it =
      map (\<lambda>(idx, arg). classify_argument name idx arg) (enumerate 0 (take MAX_ARGS (item_signature it)))"
    by blast
  show "length (item_types it) = entry_count it" by (simp add: it entry_count_def)
  show "list_all (\<lambda>t. \<exists>c. type_code t = Some c \<and> c \<noteq> ARG_NONE) (item_types it)"
    using classify_argument_code by (auto simp: it list_all_iff)
qed

lemma schema_row_ok:
  assumes "item_of v = Some it"
  shows "row_ok (schema_row it)"
proof -
  note res = item_of_result [OF assms]
  have n: "entry_count it \<le> 6" by (simp add: entry_count_def)
  have types: "entry_types it = item_types it @ replicate (6 - entry_count it) ''ARG_NONE''"
    using res(1) n by (simp add: entry_types_def)
  have count: "unat (sc_arg_count (schema_row it)) = entry_count it" using n by (simp add: schema_row_def unat_of_nat)
  have none: "the (type_code ''ARG_NONE'') = ARG_NONE" by (simp add: type_code_def)
  show ?thesis
    unfolding row_ok_def count
    using n res by (auto simp: schema_row_def types list_all_iff none)
qed

text \<open>
  The loaded items are in the order of their numbers; their rows are well formed, and
  with numbers that are all different and fit in 64 bits, the search of the tracer
  types an event by the row of its call.
\<close>

lemma load_syscalls_items:
  assumes "load_syscalls data = Inr items"
  shows "sorted (map item_number items)" and "\<And>it. it \<in> set items \<Longrightarrow> \<exists>v. item_of v = Some it"
proof -
  obtain vs where "items = sort_key item_number (List.map_filter item_of vs)"
    using assms by (auto simp: load_syscalls_def split: json.splits)
  then show "sorted (map item_number items)" and "\<And>it. it \<in> set items \<Longrightarrow> \<exists>v. item_of v = Some it"
    by (auto simp: List.map_filter_def)
qed

lemma of_int_s64_inj:
  fixes a b :: int
  assumes "- (2 ^ 63) \<le> a" "a < 2 ^ 63" "- (2 ^ 63) \<le> b" "b < 2 ^ 63"
  shows "(of_int a :: s64) = of_int b \<longleftrightarrow> a = b"
proof
  assume "(of_int a :: s64) = of_int b"
  then have "sint (of_int a :: s64) = sint (of_int b :: s64)" by simp
  then show "a = b" using assms by (simp add: signed_of_int signed_take_bit_int_eq_self)
qed simp

lemma generated_rows:
  assumes "load_syscalls data = Inr items"
    and "distinct (map item_number items)" and "list_all (\<lambda>it. - (2 ^ 63) \<le> item_number it \<and> item_number it < 2 ^ 63) items"
  shows "distinct (map sc_syscall_id (map schema_row items))" and "list_all row_ok (map schema_row items)"
proof -
  have "inj_on (\<lambda>it. of_int (item_number it) :: s64) (set items)"
    using assms(2,3) by (auto simp: inj_on_def list_all_iff of_int_s64_inj distinct_map)
  moreover have "distinct items" using assms(2) by (simp add: distinct_map)
  ultimately show "distinct (map sc_syscall_id (map schema_row items))"
    by (simp add: distinct_map schema_row_def comp_def)
  show "list_all row_ok (map schema_row items)"
    using load_syscalls_items(2) [OF assms(1)] schema_row_ok by (force simp: list_all_iff)
qed

section \<open>Reading the text back\<close>

lemma split_on_cons: "split_on c xs \<noteq> []"
  by (cases xs) simp_all

lemma split_on_append: "split_on c (xs @ c # ys) = split_on c xs @ split_on c ys"
  by (induction xs) (simp_all add: split_on_cons)

lemma split_on_plain: "c \<notin> set xs \<Longrightarrow> split_on c xs = [xs]"
  by (induction xs) auto

lemma split_on_join: "ls \<noteq> [] \<Longrightarrow> split_on c (join_with [c] ls) = concat (map (split_on c) ls)"
  by (induction "[c]" ls rule: join_with.induct) (simp_all add: split_on_append)

lemma split_on_join_plain: "ls \<noteq> [] \<Longrightarrow> list_all (\<lambda>l. c \<notin> set l) ls \<Longrightarrow> split_on c (join_with [c] ls) = ls"
  by (simp add: split_on_join list_all_iff split_on_plain cong: map_cong)

lemma strip_prefix_append [simp]: "strip_prefix p (p @ r) = Some r"
  by (simp add: strip_prefix_def starts_with_def)

lemma strip_prefix_simps [simp]:
  "strip_prefix [] l = Some l" "strip_prefix (c # p) [] = None"
  "strip_prefix (c # p) (x # l) = (if x = c then strip_prefix p l else None)"
  by (simp_all add: strip_prefix_def starts_with_def)

text \<open>Numbers.\<close>

lemma read_digits_append:
  "read_digits n (xs @ ys) = Option.bind (read_digits n xs) (\<lambda>m. read_digits m ys)"
  by (induction xs arbitrary: n) (simp_all add: Let_def)

lemma of_char_digit: "d < 10 \<Longrightarrow> (of_char (char_of (48 + d) :: char) :: nat) = 48 + d"
  by (simp add: of_char_of)

lemma read_decimal: "read_digits 0 (decimal_text n) = Some n"
proof (induction n rule: decimal_text.induct)
  case (1 n)
  show ?case
  proof (cases "n < 10")
    case True
    then show ?thesis by (simp add: decimal_text.simps [of n] of_char_digit Let_def)
  next
    case False
    then have "read_digits 0 (decimal_text (n div 10)) = Some (n div 10)" using 1 by simp
    then show ?thesis
      using False of_char_digit [of "n mod 10"] by (simp add: decimal_text.simps [of n] read_digits_append Let_def)
  qed
qed

lemma decimal_text_chars: "c \<in> set (decimal_text n) \<Longrightarrow> \<exists>d < 10. c = char_of (48 + d :: nat)"
proof (induction n rule: decimal_text.induct)
  case (1 n)
  have "n < 10 \<Longrightarrow> c = char_of (48 + n)"
    using 1(2) by (simp add: decimal_text.simps [of n])
  moreover have "\<not> n < 10 \<Longrightarrow> c \<in> set (decimal_text (n div 10)) \<or> c = char_of (48 + n mod 10)"
    using 1(2) by (auto simp: decimal_text.simps [of n])
  ultimately
  show ?case using 1(1) by (metis mod_less_divisor zero_less_numeral)
qed

lemma digit_plain: "d < 10 \<Longrightarrow> char_of (48 + d :: nat) \<notin> {CHR 0x0A, CHR '' '', CHR '','', CHR ''-''}"
proof -
  assume "d < 10"
  then have "take_bit 8 (48 + d) = 48 + d" by (simp add: take_bit_nat_eq_self)
  then show ?thesis using \<open>d < 10\<close> by (simp add: char_of_eq_iff)
qed

lemma decimal_text_plain: "c \<in> set (decimal_text n) \<Longrightarrow> c \<notin> {CHR 0x0A, CHR '' '', CHR '','', CHR ''-''}"
  using decimal_text_chars digit_plain by metis

lemma decimal_text_nonempty: "decimal_text n \<noteq> []"
  by (simp add: decimal_text.simps [of n])

lemma read_int_text: "read_number (int_text n) = Some n"
proof -
  obtain c cs where c: "decimal_text (nat n) = c # cs" using decimal_text_nonempty by (cases "decimal_text (nat n)") auto
  then have "c \<noteq> CHR ''-''" using decimal_text_plain [of c "nat n"] by auto
  then show ?thesis
    using read_decimal [of "nat n"] read_decimal [of "nat (- n)"] decimal_text_nonempty [of "nat (- n)"] c
    by (auto simp: int_text_def simp del: read_digits.simps)
qed

lemma int_text_plain: "CHR 0x0A \<notin> set (int_text n)"
  using decimal_text_plain by (auto simp: int_text_def)

text \<open>Names of types.\<close>

lemma type_name_plain:
  "type_code t = Some c \<Longrightarrow>
   CHR 0x0A \<notin> set t \<and> CHR '','' \<notin> set t \<and> dropWhile (\<lambda>c. c = CHR '' '') t = t"
  by (auto simp: type_code_def split: if_splits)

lemma split_types:
  assumes "ts \<noteq> []" and "list_all (\<lambda>t. CHR '','' \<notin> set t \<and> dropWhile (\<lambda>c. c = CHR '' '') t = t) ts"
  shows "map (dropWhile (\<lambda>c. c = CHR '' '')) (split_on (CHR '','') (join_with '', '' ts)) = ts"
  using assms
proof (induction "'', ''" ts rule: join_with.induct)
  case (3 s t ts)
  let ?r = "join_with '', '' (t # ts)"
  have "map (dropWhile (\<lambda>c. c = CHR '' '')) (split_on (CHR '','') (CHR '' '' # ?r)) =
      map (dropWhile (\<lambda>c. c = CHR '' '')) (split_on (CHR '','') ?r)"
    using split_on_cons [of "CHR '',''" ?r] by (cases "split_on (CHR '','') ?r") simp_all
  then show ?case using 3 by (simp add: split_on_append split_on_plain)
qed (simp_all add: split_on_plain)

text \<open>The lines of the header.\<close>

definition c_word :: "string \<Rightarrow> bool" where
  "c_word name \<longleftrightarrow>
     list_all (\<lambda>c. let n = of_char c :: nat in
       n = 95 \<or> 48 \<le> n \<and> n \<le> 57 \<or> 65 \<le> n \<and> n \<le> 90 \<or> 97 \<le> n \<and> n \<le> 122) name"

lemma c_word_plain:
  assumes "c_word name"
  shows "CHR 0x0A \<notin> set name" and "takeWhile (\<lambda>c. c \<noteq> CHR '' '') (name @ CHR '' '' # r) = name"
    and "dropWhile (\<lambda>c. c \<noteq> CHR '' '') (name @ CHR '' '' # r) = CHR '' '' # r"
proof -
  have plain: "c \<noteq> CHR 0x0A \<and> c \<noteq> CHR '' ''" if "c \<in> set name" for c
    using assms that by (auto simp: c_word_def list_all_iff Let_def)
  then show "CHR 0x0A \<notin> set name" by blast
  show "takeWhile (\<lambda>c. c \<noteq> CHR '' '') (name @ CHR '' '' # r) = name"
    "dropWhile (\<lambda>c. c \<noteq> CHR '' '') (name @ CHR '' '' # r) = CHR '' '' # r"
    using plain by (auto simp: takeWhile_append dropWhile_append)
qed

definition define_line :: "item \<Rightarrow> string" where
  "define_line it = ''#define __NR_'' @ item_name it @ '' '' @ item_number_text it"

definition row_lines :: "item \<Rightarrow> string list" where
  "row_lines item =
     [CHR 0x09 # ''{'',
      CHR 0x09 # '' .syscall_id = __NR_'' @ item_name item @ '','',
      CHR 0x09 # '' .arg_count = '' @ int_text (int (entry_count item)) @ '','',
      CHR 0x09 # '' .arg_types = {'' @ join_with '', '' (entry_types item) @ ''},'',
      CHR 0x09 # '' },'']"

lemma macro_of_define:
  "c_word (item_name it) \<Longrightarrow> macro_of (define_line it) = Some (item_name it, item_number_text it)"
proof -
  assume "c_word (item_name it)"
  moreover have "define_line it = ''#define __NR_'' @ (item_name it @ CHR '' '' # item_number_text it)"
    by (simp add: define_line_def)
  ultimately show ?thesis
    unfolding macro_of_def by (simp only: strip_prefix_append option.map c_word_plain) simp
qed

lemma member_value: "n = length q \<Longrightarrow> member p n (p @ v @ q) = Some v"
  by (simp only: member_def strip_prefix_append) simp

lemma those_map: "list_all (\<lambda>t. f t \<noteq> None) ts \<Longrightarrow> those (map f ts) = Some (map (\<lambda>t. the (f t)) ts)"
  by (induction ts) auto

lemma entry_types_codes:
  assumes "item_of v = Some it"
  shows "list_all (\<lambda>t. type_code t \<noteq> None) (entry_types it)" and "entry_types it \<noteq> []"
proof -
  have "type_code ''ARG_NONE'' \<noteq> None" by (simp add: type_code_def)
  then show "list_all (\<lambda>t. type_code t \<noteq> None) (entry_types it)"
    using item_of_result(2) [OF assms] by (auto simp: entry_types_def list_all_iff dest!: in_set_takeD)
  show "entry_types it \<noteq> []" by (simp add: entry_types_def)
qed

lemma read_row_lines:
  assumes "item_of v = Some it" and "map_of (rev macros) (item_name it) = Some (int_text (item_number it))"
  shows "read_rows macros (row_lines it @ ls) = map_option (Cons (schema_row it)) (read_rows macros ls)"
proof -
  let ?sp = "dropWhile (\<lambda>c. c = CHR '' '')"
  note codes = entry_types_codes [OF assms(1)]
  have plain: "list_all (\<lambda>t. CHR '','' \<notin> set t \<and> ?sp t = t) (entry_types it)"
    using codes(1) type_name_plain unfolding list_all_iff by blast
  have split: "those (map (\<lambda>t. type_code (?sp t)) (split_on (CHR '','') (join_with '', '' (entry_types it)))) =
      Some (map (\<lambda>t. the (type_code t)) (entry_types it))"
    using split_types [OF codes(2) plain] those_map [OF codes(1)] by (metis (no_types, lifting) comp_apply list.map_comp map_eq_conv)
  have "read_row macros (row_lines it ! 1) (row_lines it ! 2) (row_lines it ! 3) = Some (schema_row it)"
  proof -
    have "row_lines it ! 1 = (CHR 0x09 # '' .syscall_id = __NR_'') @ item_name it @ '',''"
      "row_lines it ! 2 = (CHR 0x09 # '' .arg_count = '') @ int_text (int (entry_count it)) @ '',''"
      "row_lines it ! 3 = (CHR 0x09 # '' .arg_types = {'') @ join_with '', '' (entry_types it) @ ''},''"
      by (simp_all add: row_lines_def numeral_eq_Suc)
    then have members: "member (CHR 0x09 # '' .syscall_id = __NR_'') 1 (row_lines it ! 1) = Some (item_name it)"
      "member (CHR 0x09 # '' .arg_count = '') 1 (row_lines it ! 2) = Some (int_text (int (entry_count it)))"
      "member (CHR 0x09 # '' .arg_types = {'') 2 (row_lines it ! 3) = Some (join_with '', '' (entry_types it))"
      by (simp_all only: member_value list.size)
    show ?thesis
      unfolding read_row_def members by (simp add: split assms(2) read_int_text schema_row_def)
  qed
  then show ?thesis by (simp add: row_lines_def numeral_eq_Suc split: option.split)
qed


definition no_newline :: "string \<Rightarrow> bool" where
  "no_newline t \<longleftrightarrow> CHR 0x0A \<notin> set t"

lemma split_lines: "ls \<noteq> [] \<Longrightarrow> list_all no_newline ls \<Longrightarrow> split_on (CHR 0x0A) (join_with [CHR 0x0A] ls) = ls"
  by (rule split_on_join_plain) (simp_all add: no_newline_def [abs_def])

lemma set_join_with: "set (join_with sep ts) \<subseteq> set sep \<union> \<Union> (set ` set ts)"
  by (induction sep ts rule: join_with.induct) auto

lemma row_lines_plain:
  assumes "item_of v = Some it" and "c_word (item_name it)"
  shows "list_all no_newline (row_lines it)"
proof -
  have "list_all (\<lambda>t. CHR 0x0A \<notin> set t) (entry_types it)"
    using entry_types_codes(1) [OF assms(1)] type_name_plain unfolding list_all_iff by blast
  then have "CHR 0x0A \<notin> set (join_with '', '' (entry_types it))"
    using set_join_with [of "'', ''" "entry_types it"] by (auto simp: list_all_iff)
  then show ?thesis
    using c_word_plain(1) [OF assms(2)] int_text_plain by (simp add: row_lines_def no_newline_def)
qed

lemma entry_lines:
  assumes "item_of v = Some it" and "c_word (item_name it)"
  shows "split_on (CHR 0x0A) (render_schema_entry it) = row_lines it"
proof -
  have "render_schema_entry it = join_with [CHR 0x0A] (row_lines it)"
    by (simp add: render_schema_entry_def row_lines_def)
  moreover have "row_lines it \<noteq> []" by (simp add: row_lines_def)
  ultimately show ?thesis
    using row_lines_plain [OF assms] by (simp add: split_lines)
qed

definition head_lines :: "string \<Rightarrow> string \<Rightarrow> string list" where
  "head_lines version arch =
     [''/*'', '' * Autogenerated from table.json from https://syscalls.mebeim.net/.'',
      '' * Kernel version: '' @ version @ ''.'', '' * Architecture: '' @ arch @ ''.'', '' */'',
      ''#ifndef LITRACE_SYSCALL_SCHEMA_H'', ''#define LITRACE_SYSCALL_SCHEMA_H'', []]"

lemma lines_plain: "list_all no_newline ls \<Longrightarrow> concat (map (split_on (CHR 0x0A)) ls) = ls"
  by (induction ls) (simp_all add: split_on_plain no_newline_def)

lemma concat_map_parts:
  "concat (map f (h @ [d] @ t @ [r] @ e)) = concat (map f h) @ f d @ concat (map f t) @ f r @ concat (map f e)"
  by simp

lemma header_lines:
  assumes "items \<noteq> []" and "\<forall>it \<in> set items. \<exists>v. item_of v = Some it"
    and "list_all (\<lambda>it. c_word (item_name it) \<and> no_newline (item_number_text it)) items"
    and "no_newline version" and "no_newline arch"
  shows "split_on (CHR 0x0A) (render_header items version arch) =
    head_lines version arch @ map define_line items @ [[], table_start] @ concat (map row_lines items) @ [''};'', [], ''#endif'', []]"
proof -
  have "list_all no_newline (map define_line items)"
    using assms(3) c_word_plain(1) by (auto simp: list_all_iff define_line_def no_newline_def)
  then have defs: "split_on (CHR 0x0A) (render_nr_defines items) = map define_line items"
    unfolding render_nr_defines_def define_line_def [symmetric] using assms(1) by (intro split_lines) simp_all
  have "split_on (CHR 0x0A) (render_schema_entry it) = row_lines it" if "it \<in> set items" for it
    using assms(2,3) that entry_lines by (auto simp: list_all_iff)
  then have rows: "split_on (CHR 0x0A) (join_with [CHR 0x0A] (map render_schema_entry items)) = concat (map row_lines items)"
    using assms(1) by (simp add: split_on_join comp_def cong: map_cong)
  have head: "concat (map (split_on (CHR 0x0A)) (head_lines version arch)) = head_lines version arch"
    by (rule lines_plain) (use assms(4,5) in \<open>simp add: head_lines_def no_newline_def\<close>)
  have tail: "concat (map (split_on (CHR 0x0A)) [[], table_start]) = [[], table_start]"
    "concat (map (split_on (CHR 0x0A)) [''};'', [], ''#endif'', []]) = [''};'', [], ''#endif'', []]"
    by (rule lines_plain, simp add: table_start_def no_newline_def)+
  have "render_header items version arch = join_with [CHR 0x0A]
      (head_lines version arch @ [render_nr_defines items] @ [[], table_start] @
       [join_with [CHR 0x0A] (map render_schema_entry items)] @ [''};'', [], ''#endif'', []])"
    by (simp add: render_header_def head_lines_def table_start_def)
  then have "split_on (CHR 0x0A) (render_header items version arch) = concat (map (split_on (CHR 0x0A))
      (head_lines version arch @ [render_nr_defines items] @ [[], table_start] @
       [join_with [CHR 0x0A] (map render_schema_entry items)] @ [''};'', [], ''#endif'', []]))"
    by (simp only:) (rule split_on_join, simp)
  then show ?thesis unfolding concat_map_parts head tail defs rows .
qed

text \<open>What the compiler reads in a header: the macros, then the rows.\<close>

lemma read_rows_items:
  assumes "\<forall>it \<in> set items. \<exists>v. item_of v = Some it"
    and "list_all (\<lambda>it. map_of (rev macros) (item_name it) = Some (int_text (item_number it))) items"
  shows "read_rows macros (concat (map row_lines items)) = Some (map schema_row items)"
  using assms
proof (induction items)
  case (Cons it items)
  obtain v where "item_of v = Some it" using Cons.prems(1) by auto
  then show ?case using Cons read_row_lines [of v it macros] by simp
qed simp

lemma map_filter_append: "List.map_filter f (xs @ ys) = List.map_filter f xs @ List.map_filter f ys"
  by (simp add: List.map_filter_def)

lemma header_macros:
  assumes "list_all (\<lambda>it. c_word (item_name it)) items"
  shows "List.map_filter macro_of (head_lines version arch @ map define_line items @ [[], table_start] @
      concat (map row_lines items) @ [''};'', [], ''#endif'', []]) =
    map (\<lambda>it. (item_name it, item_number_text it)) items"
proof -
  have "List.map_filter macro_of (head_lines version arch) = []"
    by (simp add: head_lines_def List.map_filter_def macro_of_def)
  moreover have "List.map_filter macro_of (map define_line items) = map (\<lambda>it. (item_name it, item_number_text it)) items"
    using assms macro_of_define by (induction items) (simp_all add: List.map_filter_def)
  moreover have "List.map_filter macro_of [[], table_start] = []" "List.map_filter macro_of [''};'', [], ''#endif'', []] = []"
    by (simp_all add: List.map_filter_def macro_of_def table_start_def)
  moreover have "List.map_filter macro_of (row_lines it) = []" for it
    by (simp add: row_lines_def List.map_filter_def macro_of_def)
  then have "List.map_filter macro_of (concat (map row_lines items)) = []"
    by (induction items) (simp_all add: List.map_filter_def)
  ultimately show ?thesis by (simp only: map_filter_append append_Nil append_Nil2)
qed

lemma table_lines:
  "takeWhile (\<lambda>l. l \<noteq> ''};'') (drop 1 (dropWhile (\<lambda>l. l \<noteq> table_start)
     (head_lines version arch @ map define_line items @ [[], table_start] @ concat (map row_lines items) @ [''};'', [], ''#endif'', []]))) =
   concat (map row_lines items)"
proof -
  have head: "l \<noteq> table_start" if "l \<in> set (head_lines version arch @ map define_line items @ [[]])" for l
    using that by (auto simp: head_lines_def define_line_def table_start_def)
  have rows: "l \<noteq> ''};''" if "l \<in> set (concat (map row_lines items))" for l
    using that by auto (auto simp: row_lines_def)
  have "dropWhile (\<lambda>l. l \<noteq> table_start) ((head_lines version arch @ map define_line items @ [[]]) @ table_start # r) = table_start # r" for r
    using head by (subst dropWhile_append2) auto
  then show ?thesis
    using rows by (simp add: takeWhile_append)
qed

lemma map_of_rev_distinct: "distinct (map f xs) \<Longrightarrow> x \<in> set xs \<Longrightarrow> map_of (rev (map (\<lambda>x. (f x, g x)) xs)) (f x) = Some (g x)"
  by (rule map_of_is_SomeI) (auto simp: rev_map [symmetric] comp_def)

lemma read_rendered_header:
  assumes "items \<noteq> []" and "\<forall>it \<in> set items. \<exists>v. item_of v = Some it"
    and "list_all (\<lambda>it. c_word (item_name it) \<and> item_number_text it = int_text (item_number it)) items"
    and "distinct (map item_name items)" and "no_newline version" and "no_newline arch"
  shows "read_header (render_header items version arch) = Some (map schema_row items)"
proof -
  let ?macros = "map (\<lambda>it. (item_name it, item_number_text it)) items"
  have words: "list_all (\<lambda>it. c_word (item_name it)) items"
    "list_all (\<lambda>it. c_word (item_name it) \<and> no_newline (item_number_text it)) items"
    using assms(3) int_text_plain by (auto simp: list_all_iff no_newline_def)
  have "list_all (\<lambda>it. map_of (rev ?macros) (item_name it) = Some (int_text (item_number it))) items"
    using map_of_rev_distinct [OF assms(4), of _ item_number_text] assms(3) by (simp add: list_all_iff)
  note rows = read_rows_items [OF assms(2) this]
  note lines = header_lines [OF assms(1,2) words(2) assms(5,6)]
  show ?thesis
    unfolding read_header_def Let_def lines header_macros [OF words(1)] table_lines by (rule rows)
qed

text \<open>
  With two entries of one name, the last number stands in both rows; a number that is a
  Boolean in the table has a macro that is not a number.
\<close>

lemma repeated_name:
  "map_of (rev [(''a'', int_text 1), (''a'', int_text 2)]) ''a'' = Some (int_text 2)"
  by simp

lemma boolean_number: "read_number (number_text (JBool b)) = None"
  by (cases b) simp_all

section \<open>An example\<close>

definition execve_json :: json where
  "execve_json = JObject [(''name'', JString ''execve''), (''number'', JInt 59),
     (''signature'', JArray [JString ''const char *filename'', JString ''const char *const *argv'',
        JString ''const char *const *envp''])]"

definition execve_data :: json where
  "execve_data = JObject [(''syscalls'', JArray [execve_json])]"

lemma execve_classes:
  "classify_argument ''execve'' 0 ''const char *filename'' = ''VAR_ARG_STRING''"
  "classify_argument ''execve'' (Suc 0) ''const char *const *argv'' = ''VAR_ARG_ARGV''"
  "classify_argument ''execve'' (Suc (Suc 0)) ''const char *const *envp'' = ''VAR_ARG_ARGV''"
  by code_simp+

lemma execve_numbers: "int_text 59 = ''59''" "int_text 3 = ''3''"
  by code_simp+

lemma execve_item:
  "item_of execve_json = Some \<lparr>item_name = ''execve'', item_number = 59, item_number_text = ''59'',
     item_signature = [''const char *filename'', ''const char *const *argv'', ''const char *const *envp''],
     item_types = [''VAR_ARG_STRING'', ''VAR_ARG_ARGV'', ''VAR_ARG_ARGV'']\<rparr>"
  by (simp add: execve_json_def item_of_def json_get_def Let_def execve_classes execve_numbers)

lemma execve_row:
  "\<exists>it. load_syscalls execve_data = Inr [it] \<and> item_number it = 59 \<and> item_name it = ''execve'' \<and>
     item_number_text it = int_text 59 \<and>
     map (\<lambda>t. the (type_code t)) (entry_types it) = [VAR_ARG_STRING, VAR_ARG_ARGV, VAR_ARG_ARGV, ARG_NONE, ARG_NONE, ARG_NONE]"
  by (simp add: execve_data_def load_syscalls_def json_get_def List.map_filter_def execve_item execve_numbers
      entry_types_def type_code_def numeral_3_eq_3)

text \<open>The text of the row, as it stands in \<^verbatim>\<open>x86_64.h\<close>.\<close>

lemma execve_entry:
  "map_option render_schema_entry (item_of execve_json) = Some
     (join_with [CHR 0x0A]
        [CHR 0x09 # ''{'',
         CHR 0x09 # '' .syscall_id = __NR_execve,'',
         CHR 0x09 # '' .arg_count = 3,'',
         CHR 0x09 # '' .arg_types = {VAR_ARG_STRING, VAR_ARG_ARGV, VAR_ARG_ARGV, ARG_NONE, ARG_NONE, ARG_NONE},'',
         CHR 0x09 # '' },''])"
proof -
  have three: "entry_count \<lparr>item_name = ''execve'', item_number = 59, item_number_text = ''59'',
     item_signature = [''const char *filename'', ''const char *const *argv'', ''const char *const *envp''],
     item_types = [''VAR_ARG_STRING'', ''VAR_ARG_ARGV'', ''VAR_ARG_ARGV'']\<rparr> = 3" by (simp add: entry_count_def)
  show ?thesis
    unfolding execve_item option.map render_schema_entry_def three
    by (simp add: execve_numbers entry_types_def numeral_3_eq_3)
qed

end
