(* ===== verification/Generator_Properties.thy ===== *)
theory Generator_Properties
  imports Generator Examples
begin

text \<open>The property of the generated schema table.\<close>

text \<open>
  C39. The header that the generator writes, read as the C compiler reads it, macros and
  all, gives one row for each entry of the table of signatures that is not skipped, in
  the order of the call numbers, each with at most six arguments, a type for each of
  them and none behind them; and the tracer's search through these rows types an event
  of a call by the signature of that call. This is so when the names are words of C and
  all different, the numbers are integers that are all different and fit in 64 bits,
  and the kernel's version and architecture contain no line break: with two entries of
  one name the last number stands in both rows, and a number that is a Boolean in the
  table is written as a word.
\<close>

theorem generated_table_usable:
  assumes "generate data = Inr header" and "load_syscalls data = Inr items"
    and "load_kernel_version data = Inr version" and "no_newline version"
    and "load_architecture_summary data = Inr arch" and "no_newline arch"
    and "list_all (\<lambda>it. c_word (item_name it) \<and> item_number_text it = int_text (item_number it)) items"
    and "distinct (map item_name items)" and "distinct (map item_number items)"
    and "list_all (\<lambda>it. - (2 ^ 63) \<le> item_number it \<and> item_number it < 2 ^ 63) items"
    and "it \<in> set items" and "length (ev_arg_types e) = 6"
  shows "\<exists>rows. read_header header = Some rows \<and> list_all row_ok rows \<and>
    map sc_syscall_id rows = map (\<lambda>it. of_int (item_number it)) items \<and> sorted (map item_number items) \<and>
    schema_loop rows (of_int (item_number it)) e =
      e\<lparr>ev_arg_count := of_nat (min (length (item_signature it)) 6),
        ev_arg_types := map (\<lambda>t. the (type_code t)) (entry_types it)\<rparr>"
proof -
  note rows = generated_rows [OF assms(2,9,10)] and loaded = load_syscalls_items [OF assms(2)]
  have "header = render_header items version arch" using assms(1-3,5) by (simp add: generate_def)
  moreover have "items \<noteq> []" "\<forall>it \<in> set items. \<exists>v. item_of v = Some it" using assms(11) loaded(2) by auto
  ultimately have read: "read_header header = Some (map schema_row items)"
    using read_rendered_header assms(4,6-8) by blast
  have row: "schema_row it \<in> set (map schema_row items)" "row_ok (schema_row it)"
    using assms(11) rows(2) by (simp_all add: list_all_iff)
  have "copy_loop 6 (sc_arg_types (schema_row it)) (ev_arg_types e) = sc_arg_types (schema_row it)"
    using row(2) assms(12) by (simp add: row_ok_def copy_loop_eq)
  then have "schema_loop (map schema_row items) (of_int (item_number it)) e =
      e\<lparr>ev_arg_count := of_nat (min (length (item_signature it)) 6),
        ev_arg_types := map (\<lambda>t. the (type_code t)) (entry_types it)\<rparr>"
    using schema_loop_hit [OF rows(1) row(1), of e] by (simp add: schema_row_def entry_count_def)
  moreover have "map sc_syscall_id (map schema_row items) = map (\<lambda>it. of_int (item_number it)) items"
    by (simp add: schema_row_def)
  ultimately show ?thesis using read rows(2) loaded(1) by blast
qed

lemma generated_table_usable_witness:
  "\<exists>header rows. generate execve_data = Inr header \<and> read_header header = Some rows \<and>
     ev_arg_types (schema_loop rows 59 stale_event) =
       [VAR_ARG_STRING, VAR_ARG_ARGV, VAR_ARG_ARGV, ARG_NONE, ARG_NONE, ARG_NONE]"
proof -
  obtain it where it: "load_syscalls execve_data = Inr [it]" "item_number it = 59" "item_name it = ''execve''"
    "item_number_text it = int_text 59"
    "map (\<lambda>t. the (type_code t)) (entry_types it) = [VAR_ARG_STRING, VAR_ARG_ARGV, VAR_ARG_ARGV, ARG_NONE, ARG_NONE, ARG_NONE]"
    using execve_row by (elim exE conjE)
  have texts: "load_kernel_version execve_data = Inr ''unknown''" "load_architecture_summary execve_data = Inr ''unknown''"
    by (simp_all add: execve_data_def load_kernel_version_def load_architecture_summary_def json_get_def)
  then obtain header where g: "generate execve_data = Inr header" using it(1) by (simp add: generate_def)
  have six: "length (ev_arg_types stale_event) = 6" using stale_shape by (simp add: event_shape_def)
  have plain: "no_newline ''unknown''" by (simp add: no_newline_def)
  have items: "list_all (\<lambda>it. c_word (item_name it) \<and> item_number_text it = int_text (item_number it)) [it]"
    "distinct (map item_name [it])" "distinct (map item_number [it])" "it \<in> set [it]"
    "list_all (\<lambda>it. - (2 ^ 63) \<le> item_number it \<and> item_number it < 2 ^ 63) [it]"
    using it(2-4) by (simp_all add: c_word_def)
  from generated_table_usable [OF g it(1) texts(1) plain texts(2) plain items(1-3,5,4) six]
  obtain rows where "read_header header = Some rows"
    "schema_loop rows (of_int (item_number it)) stale_event =
      stale_event\<lparr>ev_arg_count := of_nat (min (length (item_signature it)) 6),
        ev_arg_types := map (\<lambda>t. the (type_code t)) (entry_types it)\<rparr>" by blast
  then show ?thesis using g it(2,5) by (auto simp del: schema_loop.simps)
qed

end
