(* ===== verification/Spec2Isabelle.thy ===== *)
theory Spec2Isabelle
  imports Tracer_Properties Payload_Properties Capture_Properties Session_Properties Generator_Properties
begin

text \<open>
  litrace traces the system calls of a set of processes with eBPF programs in the
  kernel, and prints them in a Go program. This development models the kernel side,
  \<^verbatim>\<open>internal/bpf/tracer.c\<close> with \<^verbatim>\<open>internal/bpf/types.h\<close> and
  \<^verbatim>\<open>internal/bpf/syscalls/x86_64.h\<close>, in full, and the Go program from its command line to
  its exit status: the options, the choice of the traced processes, the loader, the
  decoding of an event, the access to what it has captured, the path filter, the event
  loop with its counters, and the rendering of every line and of the summary.

  \<^bold>\<open>The program.\<close> The command line names calls, paths and processes to attach to, or a
  program to launch. The loader sets the programs' constants and fills the filter map and
  the target map. At the entry of a system call of a traced process, \<open>trace_sys_enter\<close>
  stores a record of the call under the thread's number and, for an execve, a
  snapshot of its path and argument list. At its exit, \<open>trace_sys_exit\<close> makes a new
  child a target, builds an event from the record and from user memory, submits it to
  the ring buffer and deletes the record. When a thread ends,
  \<open>trace_sched_process_exit\<close> forgets what the maps hold for it. The consumer reads an
  event from the ring buffer and decodes it, and finds each captured argument by its
  descriptor. When the user has asked for paths, the path filter follows the working
  directory and the open descriptors of every process through the events and lets an
  event pass when it is about a requested path or a descriptor open on one. An event that
  passes is printed or counted. At the end the summary or a line with the way the child
  has ended is written, and litrace ends the same way.

  \<^bold>\<open>The theories.\<close>
  \<^item> Prelude: the byte-buffer and word lemmas all parts share, the two C loops that fill
    and copy an array, little-endian integers.
  \<^item> Types: the structures and enumerators of \<^verbatim>\<open>types.h\<close>, a record for each structure, with
    the C integer widths.
  \<^item> Syscall\_Numbers, Schema\_Table: the numbers and the table of \<^verbatim>\<open>x86_64.h\<close>, row by
    row. Schema: \<open>set_syscall_arg_schema\<close>; the table is well formed and sorted. Generator:
    \<^verbatim>\<open>scripts/generate_syscall_schema.py\<close>, from the JSON value to the text of the header, and
    the header read back as the C compiler reads it, macros and rows.
  \<^item> Kernel: the BPF helpers, which are not part of the repository, as the parameter
    \<open>kenv\<close> of every program run; the laws of their documentation as locales
    (\<open>probe_helpers\<close> for the reads, \<open>bpf_map\<close> and \<open>hash_map\<close> for the maps); a process
    memory, which satisfies them.
  \<^item> Capture, Capture\_Spec: \<open>append_var_string\<close>, \<open>append_var_bytes\<close>, \<open>append_var_argv\<close>; the
    contract \<open>capture_op\<close> of a capture (it keeps the invariant, the header and what was
    captured), interpreted on all three; what they copy from memory. Execve: the
    snapshot's two captures.
  \<^item> Tracer: the maps as the record \<open>tracer\<close>, the three programs and the functions they
    inline. Event\_Build, Event\_Args: what the exit handler puts into an event; the
    tables of captured arguments that its chain of tests amounts to.
  \<^item> Tracer\_Inv: the transition system of the programs, the locale of its invariants,
    the well-formedness invariant. Tracer\_Safety: filter, targets, other threads.
  \<^item> Tracer\_Spec: an abstract tracer without maps, slots, counters of fixed width or
    captures, once with what a kernel may lose written out (\<open>lossy_run\<close>: a refused update,
    an eviction, a full ring buffer) and once without losses (\<open>spec_run\<close>), and the
    refinement of the first by every run. Tracer\_Runs: one call among the steps of other
    threads, what becomes of its record and when its process stops being a target.
    \<open>completes\<close> there collects what must be the case for a call to have an event: it is
    the hypothesis of the properties about what such an event tells, and
    \<open>call_produces_event\<close> says what happens with and without it.
  \<^item> Decode: the layout of \<open>struct event\<close> and \<open>DecodeEvent\<close> (\<^verbatim>\<open>internal/decode.go\<close>).
    Consumer: \<open>findVarArgDesc\<close>, \<open>varPayloadSlice\<close>, \<open>eventTracePathAt\<close>.
  \<^item> Go\_Path: the functions of Go's \<^verbatim>\<open>path/filepath\<close> the consumer uses, and absolute paths as
    lists of names. Path\_Filter: \<^verbatim>\<open>internal/path_filter.go\<close>, method by method.
  \<^item> Path\_State: the filter's state as a function of the process, the invariant, and the
    loops that rename and remove. Path\_Spec: an abstract filter, and the abstraction.
    Path\_Refine: the contracts \<open>simulation\<close> and \<open>path_query\<close>, interpreted on the methods.
    Path\_Runs: sequences of events (\<open>path_stream\<close>), the start of the filter and
    \<open>parseTracePaths\<close> of \<^verbatim>\<open>internal/cli/parse.go\<close>. Path\_Facts: what an event leaves alone,
    and a run over all events beside one over those the loader selects.
  \<^item> Loader, Handle: \<open>applyConfig\<close>, \<open>NewHandle\<close> and \<open>Close\<close> of \<^verbatim>\<open>internal/bpf/handle.go\<close>. Run\_Loop: the event loop of
    \<^verbatim>\<open>internal/run.go\<close> and \<open>addSummaryEvent\<close> of \<^verbatim>\<open>internal/summary.go\<close>.
  \<^item> Go\_Quote: \<open>strconv.QuoteToASCII\<close> with the UTF-8 decoder. Format\_Var: the rendering of
    captured strings, buffers and argument lists in \<^verbatim>\<open>internal/format_var.go\<close>.
  \<^item> Go\_Format: what the program uses of \<open>fmt\<close>, \<open>strconv\<close> and \<open>strings\<close>: numbers in three
    bases and back, splitting and prefixes. Go\_Float: \<open>float64\<close> values as fractions, each
    operation rounded to 53 bits, \<open>%.nf\<close>, and how far a result is from the exact one.
  \<^item> Syscall\_Names: the table of \<^verbatim>\<open>internal/syscalls/x86_64.go\<close>, entry by entry, \<open>Name\<close> and
    \<open>ID\<close>. Format\_Args: \<^verbatim>\<open>internal/format.go\<close>, \<^verbatim>\<open>format_args.go\<close>, \<^verbatim>\<open>format_ret.go\<close> and the stat
    structures of \<^verbatim>\<open>format_var.go\<close>. Format\_Facts: the rendering returns and is printable.
    Format\_Read: flag words and lines read back. Stat\_Render, Call\_Render: a captured
    stat structure, a path, an openat and an execve up to their text. Summary\_Table: \<^verbatim>\<open>internal/format_summary.go\<close>, with the contract
    \<open>slice_sort\<close> of a sort interpreted on one, and how accurate the table is.
  \<^item> Command\_Line: \<^verbatim>\<open>internal/cli/parse.go\<close>, and which names and numbers the options list.
    Target\_Mode: \<^verbatim>\<open>internal/run_mode.go\<close> and \<^verbatim>\<open>run_launch.go\<close>, wait statuses and signals.
    Run\_Program: \<open>Run\<close> of \<^verbatim>\<open>internal/run.go\<close> and \<open>main\<close> of \<^verbatim>\<open>main.go\<close>.
  \<^item> Session: a run as its goroutines, the loop, the one that waits for the child, the one
    that forwards a signal and the one that watches attached processes, with the channels
    and the reader they share, as step relations; the contract \<open>goroutines\<close> of bounded
    work, interpreted for both kinds of run.
  \<^item> Examples: a concrete machine for the witnesses. Tracer\_Properties,
    Payload\_Properties, Capture\_Properties, Path\_Properties, Consumer\_Properties,
    Line\_Properties, Program\_Properties, Run\_Properties, Session\_Properties,
    Generator\_Properties and this theory: the properties.

  \<^bold>\<open>Correspondence.\<close> A C function is a HOL function of the same name. What it changes
  through a pointer it returns; the maps are threaded through as the record \<open>tracer\<close>, and
  the ring buffer is the list of submitted events. An early return is a branch. The
  chain of \<open>if\<close> statements of \<open>trace_sys_exit\<close> is a list of conditions and effects, run in
  order. The two argument-list captures share the body \<open>capture_argv\<close>, with the capacity
  as a parameter. Unrolled loops run over an index list or are structural.
  \<open>follow_forks\<close>, \<open>trace_filter_enabled\<close> and the constants of kernel headers are fields of
  \<open>tracer_abi\<close>. A Go function or method is a HOL function of the same name; a value with
  a flag is an option, a map a partial function or, where the code iterates over it, a
  list of its entries in the order of the iteration; a string is a list of bytes. The
  loop of \<open>formatVarArgv\<close> is a partial function, and that it returns is proved. An error is
  a constructor with the text its message quotes. What the kernel, the eBPF library, the
  option library and the process answer are records of answers (\<open>kenv\<close>, \<open>link_answers\<close>,
  \<open>cli_env\<close>, \<open>launch_answers\<close>, \<open>errno_names\<close>, \<open>run_env\<close>), and so is the order in which Go goes
  through a map.

  \<^bold>\<open>Assumptions.\<close> One run of a program is one step: runs on different CPUs do not overlap
  within a run, and a run sees one state of user memory and one clock value. The laws
  of the helpers are those of their documentation. The loader fills the maps before
  the programs run (\<open>initial_state\<close>). The consumer handles one event with one state of the
  links in /proc, and these links are absolute.

  \<^bold>\<open>Not modelled.\<close> The maps' capacities (an update may be refused or evict others at any
  time, which covers them); the overlap of runs on several CPUs; on the Go side, the
  libraries themselves, the text of error messages beyond what they quote, doubles too
  small or too large for a run, the overlap of a goroutine's step with another's (a step
  is one channel operation, read or call), and \<open>Entries\<close>, which only returns its table. The tests and the build files are outside the
  development.
\<close>

section \<open>From the kernel to the consumer\<close>

text \<open>
  C37. The consumer decodes an event from the bytes of the C structure to exactly the
  event that was sent, whatever padding follows: the packed layout it reads is the
  layout of the structure, which has no padding between its members.
\<close>

theorem decode_round_trip:
  assumes "event_shape e"
  shows "DecodeEvent (event_bytes e @ pad) = Some e \<and>
    c_offsets 0 event_members = packed_offsets 0 event_members \<and>
    length (event_bytes e) = packed_size event_members"
  using decode_event_bytes [OF assms] no_padding event_sizes length_event_bytes [OF assms] by simp

lemma decode_round_trip_witness: "DecodeEvent (event_bytes stale_event @ [0]) = Some stale_event"
  using decode_round_trip [OF stale_shape] by blast

text \<open>
  C15. For every event in the ring buffer of a reachable state, decoded by the
  consumer: when the consumer finds the descriptor of an argument and its flags are no
  error, the bytes it takes for the argument are those the tracer has captured.
\<close>

theorem consumer_reads_captures:
  assumes "reachable abi s0 s" and "initial_state s0" and "abi_ok abi" and "e \<in> set (events s)"
    and "DecodeEvent (event_bytes e @ pad) = Some ev" and "findVarArgDesc ev idx = Some d"
    and "\<not> desc_error d"
  shows "\<exists>i < unat (ev_var_count e). d = ev_var_desc e ! i \<and> varPayloadSlice ev d = Some (snd (captured e i))"
proof -
  have "tracer_ok s"
    using well_formed.inv_reachable [OF assms(1)] tracer_ok_initial [OF assms(2)] assms(3) by blast
  then have ok: "event_ok e"
    using assms(4) by (simp add: tracer_ok_def list_all_iff)
  then have ev: "ev = e"
    using assms(5) decode_event_bytes [of e pad] by (simp add: event_ok_def)
  show ?thesis
    using assms(6,7) unfolding ev by (rule found_slice [OF ok])
qed

lemma demo_found:
  obtains e d where "e \<in> set (events demo_done)" and "event_shape e"
    and "findVarArgDesc e 0 = Some d" and "vd_flags d = VAR_FLAG_NONE"
proof -
  let ?k = "demo_kernel 100 9" and ?ctx = "demo_enter NR_open [16, 0, 0, 0, 0, 0]"
  let ?st = "enter_data demo_abi (demo_kernel 100 2) ?ctx demo_state"
  have c: "completes demo_abi (demo_kernel 100 2) ?ctx demo_between ?k demo_state"
    by (rule demo_completes) simp
  obtain g where g: "event_shape g"
    "events demo_done = events (one_call demo_abi (demo_kernel 100 2) ?ctx demo_between demo_state) @
       [build_event demo_abi ?k ?st 0
          (execve_snapshots (trace_sys_enter demo_abi (demo_kernel 100 2) ?ctx demo_state) 100) g]"
    unfolding demo_done_def by (rule completes_event [OF c, of "demo_exit 0"]) simp
  let ?e = "build_event demo_abi ?k ?st 0
    (execve_snapshots (trace_sys_enter demo_abi (demo_kernel 100 2) ?ctx demo_state) 100) g"
  have paths: "path_args (sd_syscall_id ?st) = [0]" by (simp add: path_args_def)
  have ok: "event_ok ?e"
    by (rule path_event_ok [OF demo_helpers g(1) _ demo_abi_ok]) (simp_all add: path_args_def)
  have "findVarArgDesc ?e 0 = Some (ev_var_desc ?e ! 0)"
    using find_path_desc [OF demo_helpers g(1) _ demo_abi_ok _ ok, of 0] paths by simp
  moreover have "vd_flags (ev_var_desc ?e ! 0) = VAR_FLAG_NONE"
    using build_event_path [OF g(1) _ demo_abi_ok, of ?st 0 demo_memory "[47, 97]" "demo_kernel 100 9"] paths demo_path
    by (auto simp: captured_def Let_def simp del: cstring_at.simps)
  ultimately show thesis
    using that [of ?e] ok g(2) by (simp add: event_ok_def)
qed

lemma consumer_reads_captures_witness:
  "\<exists>e ev d i. e \<in> set (events demo_done) \<and> DecodeEvent (event_bytes e @ [0]) = Some ev \<and>
     findVarArgDesc ev 0 = Some d \<and> varPayloadSlice ev d = Some (snd (captured e i))"
proof -
  obtain e d where e: "e \<in> set (events demo_done)" "event_shape e" "findVarArgDesc e 0 = Some d"
      "vd_flags d = VAR_FLAG_NONE"
    by (rule demo_found)
  have "reachable demo_abi demo_state demo_done"
    using demo_reachable [of demo_abi demo_state] by (simp only: demo_done_run)
  from consumer_reads_captures [OF this demo_initial demo_abi_ok e(1) decode_event_bytes [OF e(2), of "[0]"] e(3)]
  show ?thesis using e decode_event_bytes [OF e(2), of "[0]"] by (auto simp: desc_error_def)
qed



text \<open>
  The consumer takes a decoded event for the creation of a process exactly when
  the call has returned a positive number and is one that creates a process.
\<close>

theorem consumer_sees_clone:
  assumes "reachable abi s0 s" and "initial_state s0" and "abi_ok abi"
    and "completes abi k ctx xs k' s" and "helpers_ok k" and "list_all allowed xs"
  shows "\<exists>e ev. events (trace_sys_exit abi k' ctx' (one_call abi k ctx xs s)) =
      events (one_call abi k ctx xs s) @ [e] \<and>
    DecodeEvent (event_bytes e @ pad) = Some ev \<and>
    (eventCreatesProcess ev \<longleftrightarrow>
       0 < sint (ex_ret ctx') \<and> creates_process abi k' (en_id ctx) (en_args ctx))"
proof -
  let ?st = "enter_data abi k ctx s" and ?s = "trace_sys_exit abi k' ctx' (one_call abi k ctx xs s)"
  obtain g where g: "event_shape g"
    "events ?s = events (one_call abi k ctx xs s) @
       [build_event abi k' ?st (ex_ret ctx') (execve_snapshots (trace_sys_enter abi k ctx s) (cur_tid k)) g]"
    by (rule completes_event [OF assms(4)])
  let ?e = "build_event abi k' ?st (ex_ret ctx') (execve_snapshots (trace_sys_enter abi k ctx s) (cur_tid k)) g"
  have args: "length (en_args ctx) = 6" using assms(4) by (simp add: completes_def)
  have "event_shape ?e"
    using completed_events_ok [OF assms, of ctx'] g(2) by (simp add: event_ok_def)
  then have "DecodeEvent (event_bytes ?e @ pad) = Some ?e" by (rule decode_event_bytes)
  moreover have "eventCreatesProcess ?e \<longleftrightarrow>
      0 < sint (ex_ret ctx') \<and> creates_process abi k' (en_id ctx) (en_args ctx)"
    using build_event_fields(10) [OF g(1), of ?st] args by (simp add: eventCreatesProcess_def process_clone_iff)
  ultimately show ?thesis using g(2) by blast
qed

lemma consumer_sees_clone_witness:
  "\<exists>e ev. events (trace_sys_exit demo_abi (demo_kernel 100 9) (demo_exit 200)
        (one_call demo_abi (demo_kernel 100 2) (demo_enter NR_fork [0, 0, 0, 0, 0, 0]) demo_between demo_state)) =
      events (one_call demo_abi (demo_kernel 100 2) (demo_enter NR_fork [0, 0, 0, 0, 0, 0]) demo_between demo_state)
        @ [e] \<and>
    DecodeEvent (event_bytes e @ [0]) = Some ev \<and> eventCreatesProcess ev"
  using consumer_sees_clone [OF reachable.start demo_initial demo_abi_ok
      demo_completes [of "[0, 0, 0, 0, 0, 0]" NR_fork] demo_helpers, of "demo_exit 200" "[0]"]
  by (simp add: demo_between_def creates_process_def)

end
